(* ===== verification/Prelude.thy ===== *)
theory Prelude
  imports Complex_Main
begin

text \<open>
  The shared vocabulary of the development.

  \<^item> Errors: the exception classes of \<^verbatim>\<open>src/src/shared/errors/customErrors.ts\<close>, with the
    built-in \<^verbatim>\<open>Error\<close> and \<^verbatim>\<open>TypeError\<close> and the database client's rejection.
  \<^item> Operations: an \<^verbatim>\<open>async\<close> method is a function from a state to an outcome and a new
    state. An exception is the outcome \<^verbatim>\<open>Inl\<close>; the writes made before it was thrown stay in
    the state, as they do in the program, which opens no transaction.
  \<^item> Tables: a database table is the list of its rows together with its auto-increment counter.
  \<^item> Contracts: the locales that several components implement (a repository, a system with an
    invariant, an action performed at most once).
\<close>

section \<open>Collections of facts\<close>

named_theorems op_simps \<open>equations that run an operation on a state\<close>
named_theorems keeps_intros \<open>rules for predicates preserved by an operation\<close>
named_theorems repo_defs \<open>definitions of the repository functions\<close>

section \<open>Errors\<close>

datatype error_class =
    Error
  | BadRequestError
  | UnauthorizedError
  | ForbiddenError
  | NotFoundError
  | ConflictError
  | UnprocessableEntityError
  | InternalServerError
  | TypeError
  | PrismaClientError

record error =
  err_class :: error_class
  err_message :: string

abbreviation mk_error :: "error_class \<Rightarrow> string \<Rightarrow> error" where
  "mk_error c m \<equiv> \<lparr>err_class = c, err_message = m\<rparr>"

section \<open>Operations with state and exceptions\<close>

type_synonym ('s, 'a) op = "'s \<Rightarrow> (error + 'a) \<times> 's"

definition ok :: "'a \<Rightarrow> ('s, 'a) op" where
  "ok a = (\<lambda>s. (Inr a, s))"

definition throw :: "error \<Rightarrow> ('s, 'a) op" where
  "throw e = (\<lambda>s. (Inl e, s))"

definition bindE :: "('s, 'a) op \<Rightarrow> ('a \<Rightarrow> ('s, 'b) op) \<Rightarrow> ('s, 'b) op" where
  "bindE m f = (\<lambda>s. case m s of (Inl e, s') \<Rightarrow> (Inl e, s') | (Inr a, s') \<Rightarrow> f a s')"

text \<open>\<^verbatim>\<open>try { m } catch (e) { h e }\<close> and \<^verbatim>\<open>try { m } finally { f }\<close>.\<close>

definition try_catch :: "('s, 'a) op \<Rightarrow> (error \<Rightarrow> ('s, 'a) op) \<Rightarrow> ('s, 'a) op" where
  "try_catch m h = (\<lambda>s. case m s of (Inl e, s') \<Rightarrow> h e s' | (Inr a, s') \<Rightarrow> (Inr a, s'))"

definition try_finally :: "('s, 'a) op \<Rightarrow> ('s, 'b) op \<Rightarrow> ('s, 'a) op" where
  "try_finally m f = (\<lambda>s. case m s of (r, s') \<Rightarrow>
     (case f s' of (Inl e, s'') \<Rightarrow> (Inl e, s'') | (Inr _, s'') \<Rightarrow> (r, s'')))"

definition gets :: "('s \<Rightarrow> 'a) \<Rightarrow> ('s, 'a) op" where
  "gets f = (\<lambda>s. (Inr (f s), s))"

definition modify :: "('s \<Rightarrow> 's) \<Rightarrow> ('s, unit) op" where
  "modify f = (\<lambda>s. (Inr (), f s))"

text \<open>\<^verbatim>\<open>if (!b) throw e\<close>.\<close>

definition ensure :: "bool \<Rightarrow> error \<Rightarrow> ('s, unit) op" where
  "ensure b e = (if b then ok () else throw e)"

text \<open>\<^verbatim>\<open>if (!x) throw e\<close> for a row that may be missing; the value afterwards is the row.\<close>

definition require :: "'a option \<Rightarrow> error \<Rightarrow> ('s, 'a) op" where
  "require x e = (case x of None \<Rightarrow> throw e | Some a \<Rightarrow> ok a)"

text \<open>The outcome of a pure conversion that may throw.\<close>

definition from_sum :: "error + 'a \<Rightarrow> ('s, 'a) op" where
  "from_sum r = (case r of Inl e \<Rightarrow> throw e | Inr a \<Rightarrow> ok a)"

text \<open>Reading a property of \<^verbatim>\<open>undefined\<close> or \<^verbatim>\<open>null\<close> throws a \<^verbatim>\<open>TypeError\<close>.\<close>

definition type_error :: error where
  "type_error = mk_error TypeError ''Cannot read properties of undefined''"

definition deref :: "'a option \<Rightarrow> ('s, 'a) op" where
  "deref x = require x type_error"

text \<open>
  \<^verbatim>\<open>Promise.all\<close> of two operations: both run to their end, and the first rejection in the list
  is the outcome. The model runs them in the order of the list.
\<close>

definition promise_all2 :: "('s, 'a) op \<Rightarrow> ('s, 'b) op \<Rightarrow> ('s, 'a \<times> 'b) op" where
  "promise_all2 m1 m2 = (\<lambda>s. case m1 s of (r1, s1) \<Rightarrow> (case m2 s1 of (r2, s2) \<Rightarrow>
     (case r1 of Inl e \<Rightarrow> (Inl e, s2)
      | Inr a \<Rightarrow> (case r2 of Inl e \<Rightarrow> (Inl e, s2) | Inr b \<Rightarrow> (Inr (a, b), s2)))))"

fun for_each :: "('a \<Rightarrow> ('s, unit) op) \<Rightarrow> 'a list \<Rightarrow> ('s, unit) op" where
  "for_each f [] = ok ()"
| "for_each f (x # xs) = bindE (f x) (\<lambda>_. for_each f xs)"

lemma ok_run [simp, op_simps]: "ok a s = (Inr a, s)"
  by (simp add: ok_def)

lemma throw_run [simp, op_simps]: "throw e s = (Inl e, s)"
  by (simp add: throw_def)

lemma gets_run [simp, op_simps]: "gets f s = (Inr (f s), s)"
  by (simp add: gets_def)

lemma modify_run [simp, op_simps]: "modify f s = (Inr (), f s)"
  by (simp add: modify_def)

lemma ensure_run [op_simps]: "ensure b e s = (if b then Inr () else Inl e, s)"
  by (simp add: ensure_def)

lemma require_run [op_simps]:
  "require x e s = (case x of None \<Rightarrow> (Inl e, s) | Some a \<Rightarrow> (Inr a, s))"
  by (simp add: require_def split: option.split)

lemma deref_run [op_simps]:
  "deref x s = (case x of None \<Rightarrow> (Inl type_error, s) | Some a \<Rightarrow> (Inr a, s))"
  by (simp add: deref_def require_run)

lemma bindE_ok: "m s = (Inr a, s') \<Longrightarrow> bindE m f s = f a s'"
  by (simp add: bindE_def)

lemma bindE_throw: "m s = (Inl e, s') \<Longrightarrow> bindE m f s = (Inl e, s')"
  by (simp add: bindE_def)

lemmas bindE_run [op_simps] = bindE_def [THEN fun_cong]

lemma bindE_assoc: "bindE (bindE m f) g = bindE m (\<lambda>a. bindE (f a) g)"
  by (rule ext) (simp add: bindE_def split: prod.split sum.split)

lemma bindE_ok_left: "bindE (ok a) f = f a"
  by (rule ext) (simp add: bindE_def)

lemma bindE_Inr_iff:
  "bindE m f s = (Inr b, s'') \<longleftrightarrow> (\<exists>a s'. m s = (Inr a, s') \<and> f a s' = (Inr b, s''))"
  by (auto simp: bindE_def split: prod.splits sum.splits)

lemma bindE_InrE: "bindE m f s = (Inr b, s'') \<Longrightarrow> (\<And>a s'. m s = (Inr a, s') \<Longrightarrow> f a s' = (Inr b, s'') \<Longrightarrow> thesis) \<Longrightarrow> thesis"
  by (auto simp: bindE_Inr_iff)

lemma require_Inr: "require x e s = (Inr a, s') \<Longrightarrow> x = Some a \<and> s' = s" "deref x s = (Inr a, s') \<Longrightarrow> x = Some a \<and> s' = s"
  by (auto simp: require_run deref_run split: option.splits)

lemma from_sum_Inr: "from_sum x s = (Inr a, s') \<Longrightarrow> x = Inr a \<and> s' = s"
  by (auto simp: from_sum_def split: sum.splits)

section \<open>Predicates preserved by an operation\<close>

text \<open>
  \<^verbatim>\<open>keeps P m\<close>: from a state with \<^verbatim>\<open>P\<close>, the operation \<^verbatim>\<open>m\<close> ends in a state with \<^verbatim>\<open>P\<close>,
  whether it returns or throws.
\<close>

definition keeps :: "('s \<Rightarrow> bool) \<Rightarrow> ('s, 'a) op \<Rightarrow> bool" where
  "keeps P m \<longleftrightarrow> (\<forall>s. P s \<longrightarrow> P (snd (m s)))"

lemma keepsI: "(\<And>s. P s \<Longrightarrow> P (snd (m s))) \<Longrightarrow> keeps P m"
  by (simp add: keeps_def)

lemma keepsD: "keeps P m \<Longrightarrow> P s \<Longrightarrow> P (snd (m s))"
  by (simp add: keeps_def)

lemma keepsD_run: "keeps P m \<Longrightarrow> P s \<Longrightarrow> m s = (r, s') \<Longrightarrow> P s'"
  by (metis keepsD snd_conv)

lemma keeps_ok [keeps_intros]: "keeps P (ok a)"
  by (simp add: keeps_def)

lemma keeps_Pair [keeps_intros]: "keeps P (Pair r)"
  by (simp add: keeps_def)

lemma keeps_throw [keeps_intros]: "keeps P (throw e)"
  by (simp add: keeps_def)

lemma keeps_gets [keeps_intros]: "keeps P (gets f)"
  by (simp add: keeps_def)

lemma keeps_ensure [keeps_intros]: "keeps P (ensure b e)"
  by (simp add: keeps_def ensure_run)

lemma keeps_require [keeps_intros]: "keeps P (require x e)"
  by (simp add: keeps_def require_run split: option.split)

lemma keeps_deref [keeps_intros]: "keeps P (deref x)"
  by (simp add: deref_def keeps_require)

lemma keeps_modify: "(\<And>s. P s \<Longrightarrow> P (f s)) \<Longrightarrow> keeps P (modify f)"
  by (simp add: keeps_def)

lemma keeps_bindE [keeps_intros]:
  assumes "keeps P m" and "\<And>a. keeps P (f a)"
  shows "keeps P (bindE m f)"
proof (rule keepsI)
  fix s assume "P s"
  with assms(1) have "P (snd (m s))" by (rule keepsD)
  then show "P (snd (bindE m f s))"
    using assms(2) by (auto simp: bindE_def split: prod.splits sum.splits intro: keepsD)
qed

lemma keeps_try_catch [keeps_intros]:
  assumes "keeps P m" and "\<And>e. keeps P (h e)"
  shows "keeps P (try_catch m h)"
proof (rule keepsI)
  fix s assume "P s"
  with assms(1) have "P (snd (m s))" by (rule keepsD)
  then show "P (snd (try_catch m h s))"
    using assms(2) by (auto simp: try_catch_def split: prod.splits sum.splits intro: keepsD)
qed

lemma keeps_try_finally [keeps_intros]:
  assumes "keeps P m" and "keeps P f"
  shows "keeps P (try_finally m f)"
proof (rule keepsI)
  fix s assume "P s"
  with assms(1) have "P (snd (m s))" by (rule keepsD)
  with assms(2) have "P (snd (f (snd (m s))))" by (rule keepsD)
  then show "P (snd (try_finally m f s))"
    by (auto simp: try_finally_def split: prod.splits sum.splits)
qed

lemma keeps_if [keeps_intros]:
  "(b \<Longrightarrow> keeps P m) \<Longrightarrow> (\<not> b \<Longrightarrow> keeps P m') \<Longrightarrow> keeps P (if b then m else m')"
  by simp

lemma keeps_option [keeps_intros]:
  "(x = None \<Longrightarrow> keeps P m) \<Longrightarrow> (\<And>a. x = Some a \<Longrightarrow> keeps P (f a)) \<Longrightarrow>
   keeps P (case x of None \<Rightarrow> m | Some a \<Rightarrow> f a)"
  by (cases x) auto

lemma keeps_sum [keeps_intros]:
  "(\<And>a. x = Inl a \<Longrightarrow> keeps P (f a)) \<Longrightarrow> (\<And>b. x = Inr b \<Longrightarrow> keeps P (g b)) \<Longrightarrow>
   keeps P (case x of Inl a \<Rightarrow> f a | Inr b \<Rightarrow> g b)"
  by (cases x) auto

lemma keeps_prod [keeps_intros]:
  "(\<And>a b. x = (a, b) \<Longrightarrow> keeps P (f a b)) \<Longrightarrow> keeps P (case x of (a, b) \<Rightarrow> f a b)"
  by (cases x) auto

lemma keeps_Let [keeps_intros]: "keeps P (f x) \<Longrightarrow> keeps P (let y = x in f y)"
  by simp

lemma keeps_from_sum [keeps_intros]: "keeps P (from_sum r)"
  unfolding from_sum_def by (intro keeps_sum keeps_throw keeps_ok)

lemma keeps_promise_all2 [keeps_intros]:
  assumes "keeps P m1" and "keeps P m2"
  shows "keeps P (promise_all2 m1 m2)"
proof (rule keepsI)
  fix s assume "P s"
  with assms(1) have "P (snd (m1 s))" by (rule keepsD)
  with assms(2) have "P (snd (m2 (snd (m1 s))))" by (rule keepsD)
  then show "P (snd (promise_all2 m1 m2 s))"
    by (auto simp: promise_all2_def split: prod.splits sum.splits)
qed

lemma keeps_for_each [keeps_intros]:
  "(\<And>x. x \<in> set xs \<Longrightarrow> keeps P (f x)) \<Longrightarrow> keeps P (for_each f xs)"
  by (induction xs) (auto intro!: keeps_intros)

section \<open>Pre- and postconditions\<close>

text \<open>
  \<^verbatim>\<open>spec P m Q R\<close>: run from a state with \<^verbatim>\<open>P\<close>, the operation either returns a value \<^verbatim>\<open>a\<close> in
  a state with \<^verbatim>\<open>Q a\<close>, or throws an error \<^verbatim>\<open>e\<close> in a state with \<^verbatim>\<open>R e\<close>.
\<close>

definition spec :: "('s \<Rightarrow> bool) \<Rightarrow> ('s, 'a) op \<Rightarrow> ('a \<Rightarrow> 's \<Rightarrow> bool) \<Rightarrow> (error \<Rightarrow> 's \<Rightarrow> bool) \<Rightarrow> bool" where
  "spec P m Q R \<longleftrightarrow> (\<forall>s. P s \<longrightarrow> (case m s of (Inr a, s') \<Rightarrow> Q a s' | (Inl e, s') \<Rightarrow> R e s'))"

lemma specI: "(\<And>s. P s \<Longrightarrow> case m s of (Inr a, s') \<Rightarrow> Q a s' | (Inl e, s') \<Rightarrow> R e s') \<Longrightarrow> spec P m Q R"
  by (simp add: spec_def)

lemma specD: "spec P m Q R \<Longrightarrow> P s \<Longrightarrow> case m s of (Inr a, s') \<Rightarrow> Q a s' | (Inl e, s') \<Rightarrow> R e s'"
  by (simp add: spec_def)

lemma spec_pre: "spec P m Q R \<Longrightarrow> (\<And>s. P' s \<Longrightarrow> P s) \<Longrightarrow> spec P' m Q R"
  by (simp add: spec_def)

lemma spec_post:
  assumes "spec P m Q R" and "\<And>a s. Q a s \<Longrightarrow> Q' a s" and "\<And>e s. R e s \<Longrightarrow> R' e s"
  shows "spec P m Q' R'"
proof (rule specI)
  fix s assume "P s"
  from specD [OF assms(1) this] assms(2,3)
  show "case m s of (Inr a, s') \<Rightarrow> Q' a s' | (Inl e, s') \<Rightarrow> R' e s'"
    by (cases "m s"; cases "fst (m s)") auto
qed

lemma spec_keeps: "keeps P m \<Longrightarrow> spec P m (\<lambda>_. P) (\<lambda>_. P)"
  by (rule specI) (drule (1) keepsD, auto split: prod.splits sum.splits)

lemma keeps_spec: "spec P m (\<lambda>_. P) (\<lambda>_. P) \<Longrightarrow> keeps P m"
  by (rule keepsI) (drule (1) specD, auto split: prod.splits sum.splits)

lemma spec_ok: "(\<And>s. P s \<Longrightarrow> Q a s) \<Longrightarrow> spec P (ok a) Q R"
  by (simp add: spec_def)

lemma spec_throw: "(\<And>s. P s \<Longrightarrow> R e s) \<Longrightarrow> spec P (throw e) Q R"
  by (simp add: spec_def)

lemma spec_bindE:
  assumes "spec P m Q' R" and "\<And>a. spec (Q' a) (f a) Q R"
  shows "spec P (bindE m f) Q R"
proof (rule specI)
  fix s assume "P s"
  from specD [OF assms(1) this] specD [OF assms(2)]
  show "case bindE m f s of (Inr a, s') \<Rightarrow> Q a s' | (Inl e, s') \<Rightarrow> R e s'"
    by (cases "m s"; cases "fst (m s)") (auto simp: bindE_def)
qed

lemma spec_try_catch:
  assumes "spec P m Q R'" and "\<And>e. spec (R' e) (h e) Q R"
  shows "spec P (try_catch m h) Q R"
proof (rule specI)
  fix s assume "P s"
  from specD [OF assms(1) this] specD [OF assms(2)]
  show "case try_catch m h s of (Inr a, s') \<Rightarrow> Q a s' | (Inl e, s') \<Rightarrow> R e s'"
    by (cases "m s"; cases "fst (m s)") (auto simp: try_catch_def)
qed

text \<open>The finaliser of a \<^verbatim>\<open>finally\<close> block that does not throw itself.\<close>

lemma spec_try_finally:
  assumes "spec P m Q' R'" and "\<And>s. f s = (Inr u, g s)"
    and "\<And>a s. Q' a s \<Longrightarrow> Q a (g s)" and "\<And>e s. R' e s \<Longrightarrow> R e (g s)"
  shows "spec P (try_finally m f) Q R"
proof (rule specI)
  fix s assume "P s"
  from specD [OF assms(1) this] assms(2-)
  show "case try_finally m f s of (Inr a, s') \<Rightarrow> Q a s' | (Inl e, s') \<Rightarrow> R e s'"
    by (cases "m s"; cases "fst (m s)") (auto simp: try_finally_def)
qed

lemma spec_gets: "(\<And>s. P s \<Longrightarrow> Q (f s) s) \<Longrightarrow> spec P (gets f) Q R"
  by (simp add: spec_def)

lemma spec_false: "spec (\<lambda>_. False) m Q R"
  by (simp add: spec_def)

lemma spec_total:
  assumes "keeps P m" and "\<And>w. \<exists>a w'. m w = (Inr a, w')"
  shows "spec P m (\<lambda>_. P) (\<lambda>_ _. False)"
proof (rule specI)
  fix w assume "P w"
  with keepsD [OF assms(1)] have "P (snd (m w))" .
  moreover obtain a w' where "m w = (Inr a, w')" using assms(2) by blast
  ultimately show "case m w of (Inr a, s') \<Rightarrow> P s' | (Inl e, s') \<Rightarrow> False" by simp
qed

lemma spec_any: "spec P m Q (\<lambda>_ _. False) \<Longrightarrow> spec P m Q R"
  by (erule spec_post) auto

lemma spec_require: "spec P (require x e) (\<lambda>a w. P w \<and> x = Some a) (\<lambda>_. P)"
  by (rule specI) (simp add: require_run split: option.split)

lemma spec_deref: "spec P (deref x) (\<lambda>a w. P w \<and> x = Some a) (\<lambda>_. P)"
  unfolding deref_def by (rule spec_require)

text \<open>The error postcondition of a step weakened to that of the whole.\<close>

lemma spec_step: "spec P m Q R' \<Longrightarrow> (\<And>e s. R' e s \<Longrightarrow> R e s) \<Longrightarrow> (\<And>a. spec (Q a) (f a) Q' R) \<Longrightarrow> spec P (bindE m f) Q' R"
  by (rule spec_bindE [OF spec_post])

lemma spec_fact: "(X \<Longrightarrow> spec P m Q R) \<Longrightarrow> spec (\<lambda>w. P w \<and> X) m Q R"
  by (auto simp: spec_def)

section \<open>Contracts\<close>

text \<open>
  A system that keeps an invariant: every input, handled from a state with the invariant, leads
  to a state with it. Then so does every sequence of inputs.
\<close>

locale invariant_system =
  fixes step :: "'i \<Rightarrow> 's \<Rightarrow> 's"
    and inv :: "'s \<Rightarrow> bool"
  assumes inv_step: "inv s \<Longrightarrow> inv (step i s)"
begin

lemma inv_run: "inv s \<Longrightarrow> inv (fold step is s)"
  by (induction "is" arbitrary: s) (auto intro: inv_step)

end

text \<open>
  An effect performed at most once: a marker in the state says that it has been performed. With
  the marker set no input performs it again; without it, an input performs it only together with
  setting the marker. Whatever the sequence of inputs, the counter grows by at most one.
\<close>

locale at_most_once = invariant_system step inv
  for step :: "'i \<Rightarrow> 's \<Rightarrow> 's" and inv :: "'s \<Rightarrow> bool" +
  fixes marked :: "'s \<Rightarrow> bool"
    and count :: "'s \<Rightarrow> nat"
  assumes marked_step: "inv s \<Longrightarrow> marked s \<Longrightarrow> marked (step i s) \<and> count (step i s) = count s"
    and unmarked_step: "inv s \<Longrightarrow> \<not> marked s \<Longrightarrow>
      count (step i s) = count s \<or> marked (step i s) \<and> count (step i s) = Suc (count s)"
begin

lemma marked_run: "inv s \<Longrightarrow> marked s \<Longrightarrow> marked (fold step is s) \<and> count (fold step is s) = count s"
proof (induction "is" arbitrary: s)
  case (Cons i "is")
  from marked_step [OF Cons.prems, of i] Cons.IH [OF inv_step [OF Cons.prems(1), of i]]
  show ?case by simp
qed simp

lemma count_step: "inv s \<Longrightarrow> count s \<le> count (step i s) \<and> count (step i s) \<le> Suc (count s)"
  using marked_step [of s i] unmarked_step [of s i] by (cases "marked s") auto

lemma count_run: "inv s \<Longrightarrow> count (fold step is s) \<le> Suc (count s)"
proof (induction "is" arbitrary: s)
  case (Cons i "is")
  have inv: "inv (step i s)" using Cons.prems by (rule inv_step)
  show ?case
  proof (cases "marked (step i s)")
    case True
    with inv have "count (fold step is (step i s)) = count (step i s)" by (simp add: marked_run)
    with count_step [OF Cons.prems, of i] show ?thesis by simp
  next
    case False
    with Cons.prems have "count (step i s) = count s"
      using marked_step [of s i] unmarked_step [of s i] by (cases "marked s") auto
    with Cons.IH [OF inv] show ?thesis by simp
  qed
qed simp

end

section \<open>Tables\<close>

text \<open>
  A table is the list of its rows in primary-key order, which is the order MySQL returns them
  in when no other is asked for, and the next value of its auto-increment column.
\<close>

record 'r table =
  rows :: "'r list"
  next_id :: int

definition empty_table :: "'r table" where
  "empty_table = \<lparr>rows = [], next_id = 1\<rparr>"

definition find_row :: "('r \<Rightarrow> bool) \<Rightarrow> 'r table \<Rightarrow> 'r option" where
  "find_row p t = List.find p (rows t)"

definition find_rows :: "('r \<Rightarrow> bool) \<Rightarrow> 'r table \<Rightarrow> 'r list" where
  "find_rows p t = filter p (rows t)"

definition update_rows :: "('r \<Rightarrow> bool) \<Rightarrow> ('r \<Rightarrow> 'r) \<Rightarrow> 'r table \<Rightarrow> 'r table" where
  "update_rows p f t = t\<lparr>rows := map (\<lambda>r. if p r then f r else r) (rows t)\<rparr>"

definition insert_row :: "'r \<Rightarrow> 'r table \<Rightarrow> 'r table" where
  "insert_row r t = t\<lparr>rows := rows t @ [r], next_id := next_id t + 1\<rparr>"

definition exists_row :: "('r \<Rightarrow> bool) \<Rightarrow> 'r table \<Rightarrow> bool" where
  "exists_row p t \<longleftrightarrow> list_ex p (rows t)"

lemma find_append: "List.find p (xs @ ys) = (case List.find p xs of None \<Rightarrow> List.find p ys | Some x \<Rightarrow> Some x)"
  by (induction xs) auto

lemma find_map_same:
  assumes "\<And>r. p r \<Longrightarrow> p (f r)"
  shows "List.find p (map (\<lambda>r. if p r then f r else r) xs) = map_option f (List.find p xs)"
  using assms by (induction xs) auto

lemma find_map_other:
  assumes "\<And>r. p r \<Longrightarrow> \<not> q r \<and> \<not> q (f r)"
  shows "List.find q (map (\<lambda>r. if p r then f r else r) xs) = List.find q xs"
  using assms by (induction xs) auto

lemma find_cong_on: "(\<And>x. x \<in> set xs \<Longrightarrow> p x = q x) \<Longrightarrow> List.find p xs = List.find q xs"
  by (induction xs) auto

lemma find_Some_mem: "List.find p xs = Some x \<Longrightarrow> x \<in> set xs \<and> p x"
  by (induction xs) (auto split: if_splits)

lemma find_None_notin: "List.find p xs = None \<longleftrightarrow> (\<forall>x \<in> set xs. \<not> p x)"
  by (induction xs) auto

lemma find_row_update_same:
  "(\<And>r. p r \<Longrightarrow> p (f r)) \<Longrightarrow> find_row p (update_rows p f t) = map_option f (find_row p t)"
  by (simp add: find_row_def update_rows_def find_map_same)

lemma find_row_update_other:
  "(\<And>r. p r \<Longrightarrow> \<not> q r \<and> \<not> q (f r)) \<Longrightarrow> find_row q (update_rows p f t) = find_row q t"
  by (simp add: find_row_def update_rows_def find_map_other)

lemma find_row_insert:
  "find_row p (insert_row r t) =
     (case find_row p t of None \<Rightarrow> (if p r then Some r else None) | Some x \<Rightarrow> Some x)"
  by (simp add: find_row_def insert_row_def find_append split: option.split)

lemma exists_row_insert: "exists_row p t \<Longrightarrow> exists_row p (insert_row r t)"
  by (auto simp: exists_row_def insert_row_def)

lemma exists_row_iff: "exists_row p t \<longleftrightarrow> find_row p t \<noteq> None"
  by (auto simp: exists_row_def find_row_def find_None_notin list_ex_iff)

lemma list_ex_map_if: "list_ex p (map (\<lambda>r. if q r then f r else r) xs) = list_ex (\<lambda>r. p (if q r then f r else r)) xs"
  by (induction xs) auto

lemma exists_row_update: "exists_row p (update_rows q f t) = exists_row (\<lambda>r. p (if q r then f r else r)) t"
  by (simp add: exists_row_def update_rows_def list_ex_map_if)

lemma exists_row_obtain:
  "exists_row p t \<Longrightarrow> \<exists>r. r \<in> set (rows t) \<and> p r"
  by (auto simp: exists_row_def list_ex_iff)

lemma find_row_mem: "find_row p t = Some r \<Longrightarrow> r \<in> set (rows t) \<and> p r"
  by (simp add: find_row_def find_Some_mem)

lemma rows_update_rows: "rows (update_rows p f t) = map (\<lambda>r. if p r then f r else r) (rows t)"
  by (simp add: update_rows_def)

lemma rows_insert_row: "rows (insert_row r t) = rows t @ [r]"
  by (simp add: insert_row_def)

text \<open>A lookup by a column whose values are distinct finds the row it is asked for.\<close>

lemma find_distinct_key:
  assumes "distinct (map key xs)" and "r \<in> set xs"
  shows "List.find (\<lambda>x. key x = key r) xs = Some r"
  using assms by (induction xs) auto

end
