(* ===== verification/JsNumber.thy ===== *)
theory JsNumber
  imports Prelude
begin

text \<open>
  The numbers of the program. A JavaScript number is an IEEE 754 double: a rational with a
  53-bit significand, a least exponent of -1074 and a magnitude below 2 to the 1024, or one of the special values. The arithmetic
  operators compute the exact result and round it to the nearest double, ties to even; that
  rounding (\<^verbatim>\<open>fl\<close>) is executable. The two zeros are one value here: no code of the program
  tells them apart.

  The second half models the \<^verbatim>\<open>Decimal\<close> columns of the database (\<^verbatim>\<open>prisma/schema.prisma\<close>):
  a value is stored with a fixed number of decimals, rounded half away from zero, and refused
  when it does not fit.
\<close>

section \<open>Rounding to a double\<close>

text \<open>The binary exponent of a rational: \<^verbatim>\<open>2 powi expo x \<le> |x| < 2 powi (expo x + 1)\<close>.\<close>

function bits :: "int \<Rightarrow> int" where
  "bits n = (if n \<le> 0 then 0 else 1 + bits (n div 2))"
  by pat_completeness auto
termination by (relation "measure nat") auto

declare bits.simps [simp del]

definition pow2 :: "int \<Rightarrow> rat" where
  "pow2 e = (if 0 \<le> e then of_int (2 ^ nat e) else 1 / of_int (2 ^ nat (- e)))"

definition expo :: "rat \<Rightarrow> int" where
  "expo x = (let (p, q) = quotient_of \<bar>x\<bar>; e = bits p - bits q
             in if \<bar>x\<bar> < pow2 e then e - 1 else e)"

definition round_even :: "rat \<Rightarrow> int" where
  "round_even x = (let r = \<lfloor>x\<rfloor>; d = x - of_int r
                   in if d < 1/2 then r else if 1/2 < d then r + 1
                      else if even r then r else r + 1)"

definition lsb :: "rat \<Rightarrow> int" where
  "lsb x = max (expo x - 52) (- 1074)"

definition fl :: "rat \<Rightarrow> rat" where
  "fl x = (let u = pow2 (lsb x) in of_int (round_even (x / u)) * u)"

text \<open>A rational is a double when rounding does not change it.\<close>

definition is_double :: "rat \<Rightarrow> bool" where
  "is_double x \<longleftrightarrow> fl x = x"

section \<open>The number type and its operators\<close>

datatype jsnum = Fin rat | NaN | PosInf | NegInf

definition to_double :: "rat \<Rightarrow> jsnum" where
  "to_double x = (let y = fl x in
     if expo y < 1024 then Fin y else if 0 < y then PosInf else NegInf)"

text \<open>The same from the numerator and the denominator, which is how it is computed.\<close>

fun double_of_frac :: "int \<times> int \<Rightarrow> jsnum" where
  "double_of_frac (p, q) = (let y = fl (of_int p / of_int q) in
     if expo y < 1024 then Fin y else if 0 < y then PosInf else NegInf)"

lemma to_double_code [code]: "to_double x = double_of_frac (quotient_of x)"
proof (cases "quotient_of x")
  case (Pair p q)
  then have "x = of_int p / of_int q" by (rule quotient_of_div)
  then show ?thesis unfolding Pair double_of_frac.simps by (simp only: to_double_def)
qed

text \<open>An integer as a number; the integers of the program are far below \<^verbatim>\<open>2 ^ 53\<close>.\<close>

definition js_int :: "int \<Rightarrow> jsnum" where
  "js_int t = Fin (of_int t)"

lemma js_int_code [code]:
  "js_int 0 = Fin 0" "js_int (Int.Pos n) = Fin (of_int (Int.Pos n))" "js_int (Int.Neg n) = Fin (of_int (Int.Neg n))"
  by (simp_all add: js_int_def)

fun js_neg :: "jsnum \<Rightarrow> jsnum" where
  "js_neg (Fin x) = Fin (- x)"
| "js_neg NaN = NaN"
| "js_neg PosInf = NegInf"
| "js_neg NegInf = PosInf"

fun js_add :: "jsnum \<Rightarrow> jsnum \<Rightarrow> jsnum" where
  "js_add (Fin x) (Fin y) = to_double (x + y)"
| "js_add NaN y = NaN"
| "js_add x NaN = NaN"
| "js_add PosInf NegInf = NaN"
| "js_add NegInf PosInf = NaN"
| "js_add PosInf y = PosInf"
| "js_add NegInf y = NegInf"
| "js_add x PosInf = PosInf"
| "js_add x NegInf = NegInf"

definition js_sub :: "jsnum \<Rightarrow> jsnum \<Rightarrow> jsnum" where
  "js_sub x y = js_add x (js_neg y)"

definition signed_inf :: "rat \<Rightarrow> jsnum" where
  "signed_inf x = (if 0 < x then PosInf else if x < 0 then NegInf else NaN)"

fun js_mul :: "jsnum \<Rightarrow> jsnum \<Rightarrow> jsnum" where
  "js_mul (Fin x) (Fin y) = to_double (x * y)"
| "js_mul NaN y = NaN"
| "js_mul x NaN = NaN"
| "js_mul (Fin x) PosInf = signed_inf x"
| "js_mul (Fin x) NegInf = signed_inf (- x)"
| "js_mul PosInf (Fin y) = signed_inf y"
| "js_mul NegInf (Fin y) = signed_inf (- y)"
| "js_mul PosInf PosInf = PosInf"
| "js_mul NegInf NegInf = PosInf"
| "js_mul PosInf NegInf = NegInf"
| "js_mul NegInf PosInf = NegInf"

text \<open>Division by zero gives an infinity; the program never divides by a negative zero.\<close>

fun js_div :: "jsnum \<Rightarrow> jsnum \<Rightarrow> jsnum" where
  "js_div (Fin x) (Fin y) = (if y = 0 then signed_inf x else to_double (x / y))"
| "js_div NaN y = NaN"
| "js_div x NaN = NaN"
| "js_div (Fin x) PosInf = Fin 0"
| "js_div (Fin x) NegInf = Fin 0"
| "js_div PosInf (Fin y) = (if y < 0 then NegInf else PosInf)"
| "js_div NegInf (Fin y) = (if y < 0 then PosInf else NegInf)"
| "js_div PosInf y = NaN"
| "js_div NegInf y = NaN"

fun js_less :: "jsnum \<Rightarrow> jsnum \<Rightarrow> bool" where
  "js_less (Fin x) (Fin y) \<longleftrightarrow> x < y"
| "js_less NaN y \<longleftrightarrow> False"
| "js_less x NaN \<longleftrightarrow> False"
| "js_less x PosInf \<longleftrightarrow> x \<noteq> PosInf"
| "js_less x NegInf \<longleftrightarrow> False"
| "js_less NegInf y \<longleftrightarrow> True"
| "js_less PosInf y \<longleftrightarrow> False"

definition js_eq :: "jsnum \<Rightarrow> jsnum \<Rightarrow> bool" where
  "js_eq x y \<longleftrightarrow> x = y \<and> x \<noteq> NaN"

definition js_less_eq :: "jsnum \<Rightarrow> jsnum \<Rightarrow> bool" where
  "js_less_eq x y \<longleftrightarrow> js_less x y \<or> js_eq x y"

definition js_abs :: "jsnum \<Rightarrow> jsnum" where
  "js_abs x = (if js_less x (Fin 0) then js_neg x else x)"

fun js_finite :: "jsnum \<Rightarrow> bool" where
  "js_finite (Fin x) \<longleftrightarrow> True"
| "js_finite x \<longleftrightarrow> False"

text \<open>Truth value of a number: zero and \<^verbatim>\<open>NaN\<close> are false.\<close>

definition js_num_truthy :: "jsnum \<Rightarrow> bool" where
  "js_num_truthy x \<longleftrightarrow> x \<noteq> Fin 0 \<and> x \<noteq> NaN"

text \<open>\<^verbatim>\<open>Math.round\<close>: the nearest integer, halves towards plus infinity.\<close>

fun math_round :: "jsnum \<Rightarrow> jsnum" where
  "math_round (Fin x) = Fin (of_int \<lfloor>x + 1/2\<rfloor>)"
| "math_round x = x"

section \<open>Facts about the rounding\<close>

lemma pow2_powi: "pow2 e = 2 powi e"
  by (simp add: pow2_def power_int_def power_one_over inverse_eq_divide)

lemma fl_powi: "fl x = of_int (round_even (x / 2 powi lsb x)) * 2 powi lsb x"
  by (simp add: fl_def Let_def pow2_powi)

lemma bits_bounds: "0 < n \<Longrightarrow> 0 < bits n \<and> 2 ^ nat (bits n - 1) \<le> n \<and> n < 2 ^ nat (bits n)"
proof (induction n rule: bits.induct)
  case (1 n)
  show ?case
  proof (cases "n div 2 = 0")
    case True
    with "1.prems" have "n = 1" by auto
    then show ?thesis by (simp add: bits.simps)
  next
    case False
    with "1.prems" have "0 < n div 2" by linarith
    with 1 have IH: "0 < bits (n div 2)" "2 ^ nat (bits (n div 2) - 1) \<le> n div 2"
        "n div 2 < 2 ^ nat (bits (n div 2))"
      by auto
    from "1.prems" have b: "bits n = 1 + bits (n div 2)" by (simp add: bits.simps [of n])
    from IH(1) have p: "(2::int) ^ nat (bits (n div 2)) = 2 * 2 ^ nat (bits (n div 2) - 1)"
      "(2::int) ^ nat (1 + bits (n div 2)) = 2 * 2 ^ nat (bits (n div 2))"
      by (simp_all add: nat_add_distrib flip: power_Suc Suc_nat_eq_nat_zadd1)
    with IH show ?thesis by (simp add: b) linarith
  qed
qed

lemma bits_bounds_powi:
  assumes "0 < n"
  shows "2 powi (bits n - 1) \<le> (of_int n :: rat)" and "(of_int n :: rat) < 2 powi bits n"
proof -
  from bits_bounds [OF assms] have b: "0 < bits n" "2 ^ nat (bits n - 1) \<le> n" "n < 2 ^ nat (bits n)"
    by auto
  from b(2) have "of_int (2 ^ nat (bits n - 1)) \<le> (of_int n :: rat)" by (simp only: of_int_le_iff)
  with b(1) show "2 powi (bits n - 1) \<le> (of_int n :: rat)" by (simp add: power_int_def)
  from b(3) have "(of_int n :: rat) < of_int (2 ^ nat (bits n))" by (simp only: of_int_less_iff)
  with b(1) show "(of_int n :: rat) < 2 powi bits n" by (simp add: power_int_def)
qed

lemma expo_bounds:
  assumes "x \<noteq> 0"
  shows "2 powi expo x \<le> \<bar>x\<bar>" and "\<bar>x\<bar> < 2 powi (expo x + 1)"
proof -
  obtain p q where pq: "quotient_of \<bar>x\<bar> = (p, q)" by fastforce
  then have q: "0 < q" by (rule quotient_of_denom_pos)
  from pq have xpq: "\<bar>x\<bar> = of_int p / of_int q" by (rule quotient_of_div)
  with assms q have p: "0 < p"
    by (metis abs_ge_zero abs_eq_0 divide_eq_0_iff linorder_not_le of_int_0 of_int_0_le_iff
        of_int_0_less_iff order_le_less zero_le_divide_iff)
  note pr = bits_bounds_powi [OF p] and qr = bits_bounds_powi [OF q]
  define e where "e = bits p - bits q"
  have lo: "2 powi (e - 1) \<le> \<bar>x\<bar>"
  proof -
    have "2 powi (e - 1) = (2::rat) powi (bits p - 1) / 2 powi bits q"
      by (simp add: e_def power_int_diff)
    also have "\<dots> \<le> of_int p / of_int q"
      using pr qr q p by (intro frac_le) auto
    finally show ?thesis by (simp add: xpq)
  qed
  have hi: "\<bar>x\<bar> < 2 powi (e + 1)"
  proof -
    have "of_int p / of_int q < (2::rat) powi bits p / 2 powi (bits q - 1)"
      using pr qr q p by (intro frac_less) auto
    also have "\<dots> = 2 powi (e + 1)"
      by (simp add: e_def power_int_diff power_int_add)
    finally show ?thesis by (simp add: xpq)
  qed
  have ex: "expo x = (if \<bar>x\<bar> < 2 powi e then e - 1 else e)"
    by (simp add: expo_def pq e_def Let_def pow2_powi)
  show "2 powi expo x \<le> \<bar>x\<bar>" using lo by (simp add: ex)
  show "\<bar>x\<bar> < 2 powi (expo x + 1)" using hi by (simp add: ex)
qed

lemma expo_mono:
  assumes "0 < \<bar>x\<bar>" and "\<bar>x\<bar> \<le> \<bar>y\<bar>"
  shows "expo x \<le> expo y"
proof (rule ccontr)
  assume "\<not> expo x \<le> expo y"
  then have "expo y + 1 \<le> expo x" by simp
  then have "(2::rat) powi (expo y + 1) \<le> 2 powi expo x" by (simp add: power_int_increasing)
  moreover have "2 powi expo x \<le> \<bar>x\<bar>" "\<bar>y\<bar> < 2 powi (expo y + 1)"
    using assms by (auto intro: expo_bounds)
  ultimately show False using assms(2) by linarith
qed

lemma lsb_mono: "0 < \<bar>x\<bar> \<Longrightarrow> \<bar>x\<bar> \<le> \<bar>y\<bar> \<Longrightarrow> lsb x \<le> lsb y"
  using expo_mono [of x y] by (simp add: lsb_def)

lemma expo_uminus [simp]: "expo (- x) = expo x"
  by (simp add: expo_def)

lemma lsb_uminus [simp]: "lsb (- x) = lsb x"
  by (simp add: lsb_def)

lemma round_even_of_int [simp]: "round_even (of_int k) = k"
  by (simp add: round_even_def)

lemma round_even_small: "0 \<le> v \<Longrightarrow> v < 1/2 \<Longrightarrow> round_even v = 0"
proof -
  assume v: "0 \<le> v" "v < 1/2"
  then have "\<lfloor>v\<rfloor> = 0" by (simp add: floor_eq_iff)
  with v show ?thesis by (simp add: round_even_def)
qed

lemma round_even_near: "\<bar>of_int (round_even x) - x\<bar> \<le> 1/2"
proof -
  have "of_int \<lfloor>x\<rfloor> \<le> x" "x < of_int \<lfloor>x\<rfloor> + 1" by linarith+
  then show ?thesis by (auto simp: round_even_def Let_def abs_le_iff)
qed

lemma round_even_mono:
  assumes "x \<le> y"
  shows "round_even x \<le> round_even y"
proof (cases "\<lfloor>x\<rfloor> = \<lfloor>y\<rfloor>")
  case True
  with assms show ?thesis by (auto simp: round_even_def Let_def)
next
  case False
  with assms have "\<lfloor>x\<rfloor> + 1 \<le> \<lfloor>y\<rfloor>" using floor_mono [OF assms] by linarith
  moreover have "round_even x \<le> \<lfloor>x\<rfloor> + 1" "\<lfloor>y\<rfloor> \<le> round_even y"
    by (auto simp: round_even_def Let_def)
  ultimately show ?thesis by linarith
qed

lemma round_even_uminus: "round_even (- x) = - round_even x"
proof (cases "x = of_int \<lfloor>x\<rfloor>")
  case True
  then show ?thesis by (metis of_int_minus round_even_of_int)
next
  case False
  then have "of_int \<lfloor>x\<rfloor> < x" "x < of_int \<lfloor>x\<rfloor> + 1" by linarith+
  then have f: "\<lfloor>- x\<rfloor> = - \<lfloor>x\<rfloor> - 1" by (subst floor_unique) auto
  define d where "d = x - of_int \<lfloor>x\<rfloor>"
  have d': "- x - of_int (- \<lfloor>x\<rfloor> - 1) = 1 - d" by (simp add: d_def)
  show ?thesis
    unfolding round_even_def Let_def f d' d_def [symmetric] by auto
qed

lemma fl_zero [simp]: "fl 0 = 0"
  using round_even_of_int [of 0] by (simp add: fl_powi del: round_even_of_int)

lemma fl_uminus [simp]: "fl (- x) = - fl x"
  by (simp add: fl_powi round_even_uminus flip: minus_divide_left)

lemma fl_nonneg: "0 \<le> x \<Longrightarrow> 0 \<le> fl x"
  using round_even_mono [of 0 "x / 2 powi lsb x"] round_even_of_int [of 0]
  by (simp add: fl_powi del: round_even_of_int)

text \<open>A multiple of a power of two that is no finer than the grid of \<^verbatim>\<open>x\<close> is not changed by rounding on that grid.\<close>

lemma round_grid:
  assumes "l \<le> m"
  shows "of_int (round_even (of_int k * 2 powi m / 2 powi l)) * 2 powi l = (of_int k * 2 powi m :: rat)"
proof -
  have "(2::rat) powi m / 2 powi l = of_int (2 ^ nat (m - l))"
    using assms power_int_diff [of "2::rat" m l] by (simp add: power_int_def [of "2::rat" "m - l"])
  then have e: "of_int k * 2 powi m / 2 powi l = (of_int (k * 2 ^ nat (m - l)) :: rat)"
    by (simp add: flip: times_divide_eq_right)
  show ?thesis unfolding e round_even_of_int
    by (metis e nonzero_eq_divide_eq power_int_not_zero zero_neq_numeral)
qed

lemma fl_exact: "lsb x \<le> m \<Longrightarrow> x = of_int k * 2 powi m \<Longrightarrow> fl x = x"
  unfolding fl_powi using round_grid [of "lsb x" m k] by simp

lemma fl_mono_pos:
  assumes "0 < x" and "x \<le> y"
  shows "fl x \<le> fl y"
proof (cases "lsb x = lsb y")
  case True
  have "x / 2 powi lsb y \<le> y / 2 powi lsb y" using assms(2) by (simp add: divide_right_mono)
  from round_even_mono [OF this] True show ?thesis by (simp add: fl_powi)
next
  case False
  have "lsb x \<le> lsb y" using assms by (intro lsb_mono) auto
  with False have lt: "lsb x < lsb y" by simp
  then have ly: "lsb y = expo y - 52" "expo x < expo y" by (auto simp: lsb_def max_def split: if_splits)
  define b :: rat where "b = 2 powi expo y"
  have "x < 2 powi (expo x + 1)" using expo_bounds(2) [of x] assms by simp
  also have "(2::rat) powi (expo x + 1) \<le> b" using ly by (simp add: b_def power_int_increasing)
  finally have "x / 2 powi lsb x \<le> b / 2 powi lsb x" by (simp add: divide_right_mono)
  from round_even_mono [OF this]
  have "fl x \<le> of_int (round_even (b / 2 powi lsb x)) * 2 powi lsb x" by (simp add: fl_powi)
  also have "\<dots> = b" using round_grid [of "lsb x" "expo y" 1] lt ly by (simp add: b_def)
  also have "b = of_int (round_even (b / 2 powi lsb y)) * 2 powi lsb y"
    using round_grid [of "lsb y" "expo y" 1] ly by (simp add: b_def)
  also have "\<dots> \<le> fl y"
  proof -
    have "b \<le> y" using expo_bounds(1) [of y] assms by (simp add: b_def)
    then have "b / 2 powi lsb y \<le> y / 2 powi lsb y" by (simp add: divide_right_mono)
    from round_even_mono [OF this] show ?thesis by (simp add: fl_powi)
  qed
  finally show ?thesis .
qed

lemma fl_mono:
  assumes "x \<le> y"
  shows "fl x \<le> fl y"
proof -
  consider "0 < x" | "x \<le> 0" "0 \<le> y" | "y < 0" by linarith
  then show ?thesis
  proof cases
    case 1
    with assms show ?thesis by (simp add: fl_mono_pos)
  next
    case 2
    then have "fl x \<le> 0" "0 \<le> fl y" using fl_nonneg [of "- x"] fl_nonneg [of y] by auto
    then show ?thesis by simp
  next
    case 3
    with assms have "fl (- y) \<le> fl (- x)" by (intro fl_mono_pos) auto
    then show ?thesis by simp
  qed
qed

lemma fl_int:
  assumes "\<bar>k\<bar> < 2 ^ 53"
  shows "fl (of_int k) = of_int k"
proof (cases "k = 0")
  case False
  then have "(1::rat) \<le> \<bar>of_int k\<bar>" by (metis of_int_abs of_int_1_le_iff zero_less_abs_iff int_one_le_iff_zero_less)
  have "expo (of_int k) < 53"
  proof (rule ccontr)
    assume "\<not> expo (of_int k) < 53"
    then have "(2::rat) powi 53 \<le> 2 powi expo (of_int k)" by (intro power_int_increasing) auto
    also have "\<dots> \<le> \<bar>of_int k\<bar>" using False by (intro expo_bounds) auto
    finally have "(2::rat) ^ 53 \<le> of_int \<bar>k\<bar>" by simp
    then have "(2::int) ^ 53 \<le> \<bar>k\<bar>" by (metis of_int_le_iff of_int_numeral of_int_power)
    with assms show False by simp
  qed
  then show ?thesis using fl_exact [of "of_int k" 0 k] by (simp add: lsb_def)
qed simp

lemma fl_near: "\<bar>fl x - x\<bar> \<le> 2 powi (lsb x) / 2"
proof -
  define u :: rat where "u = 2 powi lsb x"
  have u: "0 < u" by (simp add: u_def)
  have "fl x - x = (of_int (round_even (x / u)) - x / u) * u"
    using u by (simp add: fl_powi u_def [symmetric] left_diff_distrib)
  then have "\<bar>fl x - x\<bar> = \<bar>of_int (round_even (x / u)) - x / u\<bar> * u"
    using u by (simp add: abs_mult)
  also have "\<dots> \<le> 1/2 * u" using round_even_near [of "x / u"] u by (intro mult_right_mono) auto
  finally show ?thesis by (simp add: u_def)
qed

lemma fl_pow2: "- 1074 \<le> e \<Longrightarrow> fl (2 powi e) = 2 powi e"
proof (rule fl_exact [of _ e 1])
  assume e: "- 1074 \<le> e"
  have "expo (2 powi e) \<le> e"
  proof (rule ccontr)
    assume "\<not> expo (2 powi e) \<le> e"
    then have "(2::rat) powi (e + 1) \<le> 2 powi expo (2 powi e)" by (intro power_int_increasing) auto
    also have "\<dots> \<le> \<bar>2 powi e\<bar>" by (rule expo_bounds) simp
    finally show False by (simp add: power_int_add)
  qed
  with e show "lsb (2 powi e) \<le> e" by (simp add: lsb_def)
qed simp

lemma fl_idem_pos:
  assumes "0 < x"
  shows "fl (fl x) = fl x"
proof (cases "fl x = 0")
  case False
  with fl_nonneg [of x] assms have pos: "0 < fl x" by simp
  show ?thesis
  proof (cases "expo (fl x) \<le> expo x")
    case True
    then have "lsb (fl x) \<le> lsb x" by (simp add: lsb_def)
    then show ?thesis by (rule fl_exact) (rule fl_powi)
  next
    case False
    then have "(2::rat) powi (expo x + 1) \<le> 2 powi expo (fl x)" by (intro power_int_increasing) auto
    also have "\<dots> \<le> fl x" using expo_bounds(1) [of "fl x"] pos by simp
    finally have ge: "2 powi (expo x + 1) \<le> fl x" .
    have lo: "- 1074 \<le> expo x + 1"
    proof (rule ccontr)
      assume small: "\<not> - 1074 \<le> expo x + 1"
      have l: "lsb x = - 1074" using small by (simp add: lsb_def)
      have "x < 2 powi (expo x + 1)" using expo_bounds(2) [of x] assms by simp
      also have "\<dots> \<le> 2 powi (- 1075)" using small by (intro power_int_increasing) auto
      also have "\<dots> = 2 powi (lsb x) / (2::rat)"
        using power_int_diff [of "2::rat" "- 1074" 1] by (simp add: l)
      finally have "x / 2 powi lsb x < 1 / 2" by (simp add: field_simps)
      moreover have "0 \<le> x / 2 powi lsb x" using assms by simp
      ultimately have "round_even (x / 2 powi lsb x) = 0"
        by (intro round_even_small)
      with pos show False by (simp add: fl_powi)
    qed
    have "fl x \<le> fl (2 powi (expo x + 1))"
      using expo_bounds(2) [of x] assms by (intro fl_mono) auto
    with lo have "fl x \<le> 2 powi (expo x + 1)" by (simp add: fl_pow2)
    with ge have "fl x = 2 powi (expo x + 1)" by simp
    with lo show ?thesis by (simp add: fl_pow2)
  qed
qed simp

lemma fl_idem [simp]: "fl (fl x) = fl x"
proof -
  consider "0 < x" | "x = 0" | "0 < - x" by linarith
  then show ?thesis
  proof cases
    case 3
    from fl_idem_pos [OF 3] show ?thesis by simp
  qed (auto simp: fl_idem_pos)
qed

lemma is_double_fl [simp]: "is_double (fl x)"
  by (simp add: is_double_def)

lemma is_double_int: "\<bar>k\<bar> < 2 ^ 53 \<Longrightarrow> is_double (of_int k)"
  by (simp add: is_double_def fl_int)

text \<open>Numbers far below the largest double do not overflow.\<close>

lemma fl_abs_le:
  assumes "\<bar>x\<bar> \<le> 2 powi e" and "- 1074 \<le> e"
  shows "\<bar>fl x\<bar> \<le> 2 powi e"
proof -
  have "fl x \<le> 2 powi e" using fl_mono [of x "2 powi e"] assms fl_pow2 [of e] by simp
  moreover have "- (2 powi e) \<le> fl x" using fl_mono [of "- (2 powi e)" x] assms fl_pow2 [of e] by simp
  ultimately show ?thesis by simp
qed

lemma to_double_small:
  assumes "\<bar>x\<bar> \<le> 2 powi 1000"
  shows "to_double x = Fin (fl x)"
proof (cases "fl x = 0")
  case True
  have "expo 0 < 1024" by code_simp
  with True show ?thesis by (simp add: to_double_def)
next
  case False
  have "expo (fl x) < 1024"
  proof (rule ccontr)
    assume "\<not> expo (fl x) < 1024"
    then have "(2::rat) powi 1001 \<le> 2 powi expo (fl x)" by (intro power_int_increasing) auto
    also have "\<dots> \<le> \<bar>fl x\<bar>" using False by (rule expo_bounds)
    also have "\<dots> \<le> 2 powi 1000" using assms by (rule fl_abs_le) simp
    finally have "(2::rat) powi 1001 \<le> 2 powi 1000" .
    then show False by simp
  qed
  then show ?thesis by (simp add: to_double_def)
qed

section \<open>Contract of the rounding\<close>

text \<open>
  What the money computations need of the rounding: it is monotone, keeps zero and is
  idempotent. A bound that is itself representable then survives the rounding.
\<close>

locale monotone_rounding =
  fixes rnd :: "rat \<Rightarrow> rat"
  assumes rnd_mono: "x \<le> y \<Longrightarrow> rnd x \<le> rnd y"
    and rnd_idem: "rnd (rnd x) = rnd x"
    and rnd_zero: "rnd 0 = 0"
begin

lemma rnd_ge: "rnd b = b \<Longrightarrow> b \<le> x \<Longrightarrow> b \<le> rnd x"
  using rnd_mono [of b x] by simp

lemma rnd_le: "rnd b = b \<Longrightarrow> x \<le> b \<Longrightarrow> rnd x \<le> b"
  using rnd_mono [of x b] by simp

lemma rnd_nonneg: "0 \<le> x \<Longrightarrow> 0 \<le> rnd x"
  by (rule rnd_ge [OF rnd_zero])

text \<open>Grossing up a non-negative representable amount by a factor at most one never lowers it.\<close>

lemma gross_ge_net:
  assumes "rnd n = n" and "0 \<le> n" and "0 < f" and "f \<le> 1"
  shows "n \<le> rnd (n / f)"
proof (rule rnd_ge [OF assms(1)])
  show "n \<le> n / f" using assms by (simp add: le_divide_eq mult_left_le)
qed

lemma fee_nonneg:
  assumes "rnd n = n" and "0 \<le> n" and "0 < f" and "f \<le> 1"
  shows "0 \<le> rnd (rnd (n / f) - n)"
  using gross_ge_net [OF assms] by (intro rnd_nonneg) simp

end

interpretation dbl: monotone_rounding fl
  by unfold_locales (auto intro: fl_mono)

end
