(* ===== verification/JsString.thy ===== *)
theory JsString
  imports JsNumber
begin

text \<open>
  The string operations the program uses, and the conversions between strings and numbers.
  A string is a list of characters; a character is a code unit below 256, which covers every
  literal of the program.

  \<^item> \<^verbatim>\<open>trim\<close>, \<^verbatim>\<open>toLowerCase\<close>, \<^verbatim>\<open>toUpperCase\<close>, \<^verbatim>\<open>padStart\<close>, \<^verbatim>\<open>slice\<close>, \<^verbatim>\<open>startsWith\<close>,
    \<^verbatim>\<open>join\<close>, \<^verbatim>\<open>split(' ')\<close>, \<^verbatim>\<open>replace(/\D/g, '')\<close>.
  \<^item> \<^verbatim>\<open>String(n)\<close> for integers and for doubles (the shortest decimal that rounds to the
    number), \<^verbatim>\<open>toFixed\<close>, and \<^verbatim>\<open>Number(s)\<close>.
  \<^item> \<^verbatim>\<open>Decimal(p, s)\<close> columns, which receive a number through its decimal text.
\<close>

section \<open>Characters and strings\<close>

abbreviation char_code :: "char \<Rightarrow> int" where
  "char_code c \<equiv> of_char c"

definition is_digit :: "char \<Rightarrow> bool" where
  "is_digit c \<longleftrightarrow> 48 \<le> char_code c \<and> char_code c \<le> 57"

definition is_upper :: "char \<Rightarrow> bool" where
  "is_upper c \<longleftrightarrow> 65 \<le> char_code c \<and> char_code c \<le> 90"

definition is_lower :: "char \<Rightarrow> bool" where
  "is_lower c \<longleftrightarrow> 97 \<le> char_code c \<and> char_code c \<le> 122"

definition is_space :: "char \<Rightarrow> bool" where
  "is_space c \<longleftrightarrow> char_code c \<in> {9, 10, 11, 12, 13, 32, 160}"

text \<open>Letters of the upper half of the range that have a case: 192 to 222 but 215.\<close>

definition lower_char :: "char \<Rightarrow> char" where
  "lower_char c = (if is_upper c \<or> (192 \<le> char_code c \<and> char_code c \<le> 222 \<and> char_code c \<noteq> 215)
                   then char_of (char_code c + 32) else c)"

definition upper_char :: "char \<Rightarrow> char" where
  "upper_char c = (if is_lower c \<or> (224 \<le> char_code c \<and> char_code c \<le> 254 \<and> char_code c \<noteq> 247)
                   then char_of (char_code c - 32) else c)"

definition toLowerCase :: "string \<Rightarrow> string" where
  "toLowerCase s = map lower_char s"

definition toUpperCase :: "string \<Rightarrow> string" where
  "toUpperCase s = map upper_char s"

definition trimStart :: "string \<Rightarrow> string" where
  "trimStart s = dropWhile is_space s"

definition trim :: "string \<Rightarrow> string" where
  "trim s = rev (dropWhile is_space (rev (dropWhile is_space s)))"

definition padStart :: "nat \<Rightarrow> char \<Rightarrow> string \<Rightarrow> string" where
  "padStart n c s = replicate (n - length s) c @ s"

text \<open>\<^verbatim>\<open>s.slice(-n)\<close>, and \<^verbatim>\<open>s.slice(a, b)\<close> for natural bounds.\<close>

definition slice_last :: "nat \<Rightarrow> string \<Rightarrow> string" where
  "slice_last n s = drop (length s - n) s"

definition slice :: "nat \<Rightarrow> nat \<Rightarrow> string \<Rightarrow> string" where
  "slice a b s = take (b - a) (drop a s)"

definition startsWith :: "string \<Rightarrow> string \<Rightarrow> bool" where
  "startsWith p s \<longleftrightarrow> take (length p) s = p"

fun includes_str :: "string \<Rightarrow> string \<Rightarrow> bool" where
  "includes_str p [] \<longleftrightarrow> p = []"
| "includes_str p (c # s) \<longleftrightarrow> startsWith p (c # s) \<or> includes_str p s"

fun join :: "string \<Rightarrow> string list \<Rightarrow> string" where
  "join sep [] = []"
| "join sep [x] = x"
| "join sep (x # y # zs) = x @ sep @ join sep (y # zs)"

text \<open>\<^verbatim>\<open>s.split(c)\<close>: there is one piece more than there are separators.\<close>

fun split_on :: "char \<Rightarrow> string \<Rightarrow> string list" where
  "split_on c [] = [[]]"
| "split_on c (x # xs) =
     (if x = c then [] # split_on c xs
      else (case split_on c xs of [] \<Rightarrow> [[x]] | w # ws \<Rightarrow> (x # w) # ws))"

definition digits_only :: "string \<Rightarrow> string" where
  "digits_only s = filter is_digit s"

section \<open>Integers and their text\<close>

definition digit_char :: "int \<Rightarrow> char" where
  "digit_char d = char_of (48 + d)"

definition digit_val :: "char \<Rightarrow> int" where
  "digit_val c = char_code c - 48"

text \<open>The decimal digits of a natural number, most significant first.\<close>

function digits :: "int \<Rightarrow> string" where
  "digits n = (if n < 10 then [digit_char n] else digits (n div 10) @ [digit_char (n mod 10)])"
  by pat_completeness auto
termination by (relation "measure nat") auto

declare digits.simps [simp del]

definition string_of_int :: "int \<Rightarrow> string" where
  "string_of_int i = (if i < 0 then CHR ''-'' # digits (- i) else digits i)"

definition int_of_digits :: "string \<Rightarrow> int" where
  "int_of_digits s = foldl (\<lambda>n c. 10 * n + digit_val c) 0 s"

section \<open>Number(s)\<close>

text \<open>
  The grammar of a numeric string: blanks around, an optional sign, digits with an optional
  fraction, an optional exponent, or \<^verbatim>\<open>Infinity\<close>; the empty string is zero, and an unsigned
  literal may be hexadecimal, octal or binary. Anything else is \<^verbatim>\<open>NaN\<close>.
\<close>

fun parse_exponent :: "string \<Rightarrow> int option" where
  "parse_exponent [] = None"
| "parse_exponent (c # s) =
     (if c = CHR ''+'' \<and> s \<noteq> [] \<and> list_all is_digit s then Some (int_of_digits s)
      else if c = CHR ''-'' \<and> s \<noteq> [] \<and> list_all is_digit s then Some (- int_of_digits s)
      else if list_all is_digit (c # s) then Some (int_of_digits (c # s)) else None)"

definition pow10 :: "int \<Rightarrow> rat" where
  "pow10 e = (if 0 \<le> e then of_int (10 ^ nat e) else 1 / of_int (10 ^ nat (- e)))"

definition parse_decimal :: "string \<Rightarrow> rat option" where
  "parse_decimal s =
     (let ip = takeWhile is_digit s; r = dropWhile is_digit s;
          (fp, r') = (case r of c # t \<Rightarrow> if c = CHR ''.'' then (takeWhile is_digit t, dropWhile is_digit t)
                                        else ([], r) | [] \<Rightarrow> ([], []));
          m = of_int (int_of_digits (ip @ fp)) / of_int (10 ^ length fp)
      in if ip = [] \<and> fp = [] then None
         else case r' of [] \<Rightarrow> Some m
              | c # e \<Rightarrow> if c \<in> {CHR ''e'', CHR ''E''}
                         then map_option (\<lambda>k. m * pow10 k) (parse_exponent e) else None)"

definition radix_digit :: "char \<Rightarrow> int" where
  "radix_digit c = (if is_digit c then char_code c - 48 else if is_lower c then char_code c - 87
                    else if is_upper c then char_code c - 55 else 99)"

definition parse_radix :: "int \<Rightarrow> string \<Rightarrow> jsnum" where
  "parse_radix b s = (if s \<noteq> [] \<and> list_all (\<lambda>c. radix_digit c < b) s
                      then to_double (of_int (foldl (\<lambda>n c. b * n + radix_digit c) 0 s)) else NaN)"

definition unsigned_number :: "string \<Rightarrow> jsnum" where
  "unsigned_number s = (if s = ''Infinity'' then PosInf
     else case parse_decimal s of None \<Rightarrow> NaN | Some x \<Rightarrow> to_double x)"

definition number_of_string :: "string \<Rightarrow> jsnum" where
  "number_of_string s = (case trim s of
       [] \<Rightarrow> Fin 0
     | c # t \<Rightarrow>
         if c = CHR ''-'' then js_neg (unsigned_number t)
         else if c = CHR ''+'' then unsigned_number t
         else if c = CHR ''0'' \<and> t \<noteq> [] \<and> hd t \<in> {CHR ''x'', CHR ''X''} then parse_radix 16 (tl t)
         else if c = CHR ''0'' \<and> t \<noteq> [] \<and> hd t \<in> {CHR ''o'', CHR ''O''} then parse_radix 8 (tl t)
         else if c = CHR ''0'' \<and> t \<noteq> [] \<and> hd t \<in> {CHR ''b'', CHR ''B''} then parse_radix 2 (tl t)
         else unsigned_number (c # t))"

section \<open>String(x) and toFixed\<close>

text \<open>
  \<^verbatim>\<open>dec_exp x\<close> is the \<^verbatim>\<open>e\<close> with \<^verbatim>\<open>10 powi (e - 1) \<le> x < 10 powi e\<close>, for a positive double.
\<close>

definition dec_exp :: "rat \<Rightarrow> int" where
  "dec_exp x = (if 1 \<le> x then int (length (digits \<lfloor>x\<rfloor>))
     else case List.find (\<lambda>k. 1/10 \<le> x * pow10 (int k)) [0..<400] of None \<Rightarrow> 0 | Some k \<Rightarrow> - int k)"

text \<open>
  The shortest decimal \<^verbatim>\<open>n * 10 powi (e - k)\<close> with \<^verbatim>\<open>k\<close> digits that rounds to \<^verbatim>\<open>x\<close>, the
  closer one when two have \<^verbatim>\<open>k\<close> digits.
\<close>

definition rounds_to :: "rat \<Rightarrow> int \<Rightarrow> nat \<Rightarrow> int \<Rightarrow> bool" where
  "rounds_to x e k n \<longleftrightarrow> fl (of_int n * pow10 (e - int k)) = x"

definition pick_digits :: "int \<Rightarrow> nat \<Rightarrow> int \<Rightarrow> int \<times> nat \<times> int" where
  "pick_digits n k e = (if n = 10 ^ k then (1, 1, e + 1) else (n, k, e))"

definition choose_digits :: "rat \<Rightarrow> nat \<Rightarrow> int \<Rightarrow> rat \<Rightarrow> int \<Rightarrow> (int \<times> nat \<times> int) option" where
  "choose_digits x k e v n =
     (if rounds_to x e k n \<and> (v - of_int n \<le> 1/2 \<or> \<not> rounds_to x e k (n + 1)) then Some (pick_digits n k e)
      else if rounds_to x e k (n + 1) then Some (pick_digits (n + 1) k e) else None)"

definition scaled_digits :: "rat \<Rightarrow> nat \<Rightarrow> int \<Rightarrow> rat \<Rightarrow> (int \<times> nat \<times> int) option" where
  "scaled_digits x k e v = choose_digits x k e v \<lfloor>v\<rfloor>"

fun search_digits :: "nat \<Rightarrow> rat \<Rightarrow> nat \<Rightarrow> int \<Rightarrow> int \<times> nat \<times> int" where
  "search_digits 0 x k e = (0, 1, 1)"
| "search_digits (Suc m) x k e = (case scaled_digits x k e (x * pow10 (int k - e)) of
       None \<Rightarrow> search_digits m x (Suc k) e | Some r \<Rightarrow> r)"

text \<open>Seventeen digits always suffice for a double.\<close>

definition shortest :: "rat \<Rightarrow> int \<times> nat \<times> int" where
  "shortest x = search_digits 17 x 1 (dec_exp x)"

definition pos_num_str :: "rat \<Rightarrow> string" where
  "pos_num_str x = (case shortest x of (n, k, e) \<Rightarrow>
     let ds = digits n in
     if int k \<le> e \<and> e \<le> 21 then ds @ replicate (nat e - k) CHR ''0''
     else if 0 < e \<and> e \<le> 21 then take (nat e) ds @ ''.'' @ drop (nat e) ds
     else if - 6 < e \<and> e \<le> 0 then ''0.'' @ replicate (nat (- e)) CHR ''0'' @ ds
     else take 1 ds @ (if k = 1 then [] else ''.'' @ drop 1 ds) @ ''e''
          @ (if e - 1 < 0 then ''-'' else ''+'') @ digits \<bar>e - 1\<bar>)"

fun js_num_str :: "jsnum \<Rightarrow> string" where
  "js_num_str NaN = ''NaN''"
| "js_num_str PosInf = ''Infinity''"
| "js_num_str NegInf = ''-Infinity''"
| "js_num_str (Fin x) = (if x = 0 then ''0'' else if x < 0 then ''-'' @ pos_num_str (- x) else pos_num_str x)"

fun toFixed :: "nat \<Rightarrow> jsnum \<Rightarrow> string" where
  "toFixed f (Fin x) =
     (if of_int (10 ^ 21) \<le> \<bar>x\<bar> then js_num_str (Fin x)
      else let q = 10 ^ f; n = \<lfloor>\<bar>x\<bar> * of_int q + 1/2\<rfloor>
           in (if x < 0 then ''-'' else '''') @ digits (n div q)
              @ (if f = 0 then [] else ''.'' @ padStart f CHR ''0'' (digits (n mod q))))"
| "toFixed f x = js_num_str x"

section \<open>Decimal columns\<close>

text \<open>The value of the decimal text of a number, which is what a \<^verbatim>\<open>Decimal\<close> is built from.\<close>

definition decimal_value :: "rat \<Rightarrow> rat" where
  "decimal_value x = (if x = 0 then 0 else
     case shortest \<bar>x\<bar> of (n, k, e) \<Rightarrow> sgn x * of_int n * pow10 (e - int k))"

definition half_up :: "nat \<Rightarrow> rat \<Rightarrow> rat" where
  "half_up s x = (let q = of_int (10 ^ s) in sgn x * of_int \<lfloor>\<bar>x\<bar> * q + 1/2\<rfloor> / q)"

definition column_error :: error where
  "column_error = mk_error PrismaClientError ''The provided value for the column is not valid''"

fun store_decimal :: "nat \<Rightarrow> nat \<Rightarrow> jsnum \<Rightarrow> error + rat" where
  "store_decimal p s (Fin x) =
     (let d = half_up s (decimal_value x) in if \<bar>d\<bar> < of_int (10 ^ (p - s)) then Inr d else Inl column_error)"
| "store_decimal p s x = Inl column_error"

text \<open>\<^verbatim>\<open>decimal.toNumber()\<close>.\<close>

definition decimal_toNumber :: "rat \<Rightarrow> jsnum" where
  "decimal_toNumber d = to_double d"

end
