(* ===== verification/Json.thy ===== *)
theory Json
  imports JsString
begin

text \<open>
  JSON values: the request bodies the program receives and the \<^verbatim>\<open>Json\<close> columns of the database.
  The value \<^verbatim>\<open>undefined\<close> of a missing property is \<^verbatim>\<open>None\<close>; an object is the list of its
  properties in insertion order, without duplicate keys.
\<close>

datatype json =
    JNull
  | JBool bool
  | JNum jsnum
  | JStr string
  | JArr "json list"
  | JObj "(string \<times> json) list"

text \<open>
  \<^verbatim>\<open>v?.k\<close>: the property of an object; \<^verbatim>\<open>undefined\<close> for \<^verbatim>\<open>null\<close>, \<^verbatim>\<open>undefined\<close> and for the
  other kinds of values, which have no property with a name the program asks for.
\<close>

fun jprop :: "json option \<Rightarrow> string \<Rightarrow> json option" where
  "jprop (Some (JObj kvs)) k = map_of kvs k"
| "jprop _ k = None"

fun set_prop :: "string \<Rightarrow> json \<Rightarrow> (string \<times> json) list \<Rightarrow> (string \<times> json) list" where
  "set_prop k v [] = [(k, v)]"
| "set_prop k v ((k', v') # kvs) = (if k = k' then (k, v) # kvs else (k', v') # set_prop k v kvs)"

fun set_props :: "(string \<times> json) list \<Rightarrow> (string \<times> json) list \<Rightarrow> (string \<times> json) list" where
  "set_props [] base = base"
| "set_props ((k, v) # kvs) base = set_props kvs (set_prop k v base)"

text \<open>The own properties a spread \<^verbatim>\<open>{...v}\<close> copies; \<^verbatim>\<open>null\<close> and \<^verbatim>\<open>undefined\<close> have none.\<close>

fun own_props :: "json option \<Rightarrow> (string \<times> json) list" where
  "own_props (Some (JObj kvs)) = kvs"
| "own_props _ = []"

text \<open>An object literal in which a property whose value is \<^verbatim>\<open>undefined\<close> is not serialised.\<close>

fun jobject :: "(string \<times> json option) list \<Rightarrow> (string \<times> json) list" where
  "jobject [] = []"
| "jobject ((k, None) # r) = jobject r"
| "jobject ((k, Some v) # r) = (k, v) # jobject r"

definition jobj :: "(string \<times> json option) list \<Rightarrow> json" where
  "jobj ps = JObj (jobject ps)"

definition jstr :: "string option \<Rightarrow> json option" where
  "jstr = map_option JStr"

definition jnum :: "jsnum option \<Rightarrow> json option" where
  "jnum = map_option JNum"

definition jint :: "int \<Rightarrow> json" where
  "jint i = JNum (js_int i)"

fun json_string :: "json option \<Rightarrow> string option" where
  "json_string (Some (JStr s)) = Some s"
| "json_string _ = None"

text \<open>A string that is present and not blank, the test the webhook code applies to its candidates.\<close>

fun non_blank_string :: "json option \<Rightarrow> bool" where
  "non_blank_string (Some (JStr s)) \<longleftrightarrow> trim s \<noteq> []"
| "non_blank_string _ \<longleftrightarrow> False"

text \<open>\<^verbatim>\<open>String(v)\<close>, and \<^verbatim>\<open>v ?? d\<close>.\<close>

fun js_string :: "json \<Rightarrow> string" where
  "js_string JNull = ''null''"
| "js_string (JBool b) = (if b then ''true'' else ''false'')"
| "js_string (JNum n) = js_num_str n"
| "js_string (JStr s) = s"
| "js_string (JArr vs) = join '','' (map (\<lambda>v. if v = JNull then [] else js_string v) vs)"
| "js_string (JObj kvs) = ''[object Object]''"

definition js_string_opt :: "json option \<Rightarrow> string" where
  "js_string_opt v = (case v of None \<Rightarrow> ''undefined'' | Some j \<Rightarrow> js_string j)"

fun nullish_or :: "json option \<Rightarrow> json \<Rightarrow> json" where
  "nullish_or None d = d"
| "nullish_or (Some JNull) d = d"
| "nullish_or (Some v) d = v"

lemma map_of_set_prop: "map_of (set_prop k v kvs) = (map_of kvs)(k \<mapsto> v)"
  by (induction kvs) auto

lemma map_of_set_props_other: "k \<notin> fst ` set kvs \<Longrightarrow> map_of (set_props kvs base) k = map_of base k"
  by (induction kvs base rule: set_props.induct) (auto simp: map_of_set_prop)

lemma map_of_set_props_same:
  "distinct (map fst kvs) \<Longrightarrow> map_of kvs k = Some v \<Longrightarrow> map_of (set_props kvs base) k = Some v"
proof (induction kvs base rule: set_props.induct)
  case (2 k' v' kvs base)
  then show ?case
    by (auto simp: map_of_set_props_other map_of_set_prop split: if_splits)
qed simp

lemma map_of_set_props:
  "distinct (map fst kvs) \<Longrightarrow>
   map_of (set_props kvs base) k = (case map_of kvs k of None \<Rightarrow> map_of base k | Some v \<Rightarrow> Some v)"
  by (auto simp: map_of_set_props_same map_of_set_props_other map_of_eq_None_iff split: option.split)

lemma map_of_jobject_notin: "k \<notin> fst ` set ps \<Longrightarrow> map_of (jobject ps) k = None"
  by (induction ps rule: jobject.induct) auto

lemma jprop_JObj [simp]: "jprop (Some (JObj kvs)) k = map_of kvs k"
  by simp

lemma set_props_append: "set_props (xs @ ys) base = set_props ys (set_props xs base)"
  by (induction xs base rule: set_props.induct) auto

end
