(* ===== verification/Schemas.thy ===== *)
theory Schemas
  imports Json
begin

text \<open>
  The data types of \<^verbatim>\<open>src/src/schemas\<close> and the enumerations of \<^verbatim>\<open>prisma/schema.prisma\<close>:
  the requests the program receives, the requests it sends to other services and the
  responses it reads. An optional property is an \<^verbatim>\<open>option\<close>, a number that is an amount a
  \<^verbatim>\<open>jsnum\<close>, an identifier or a counter an \<^verbatim>\<open>int\<close>. Properties no code reads or copies are left out.
\<close>

section \<open>Enumerations\<close>

datatype payments_status = PENDING | PROCESSING | COMPLETED | FAILED | CANCELLED

primrec status_str :: "payments_status \<Rightarrow> string" where
  "status_str PENDING = ''PENDING''"
| "status_str PROCESSING = ''PROCESSING''"
| "status_str COMPLETED = ''COMPLETED''"
| "status_str FAILED = ''FAILED''"
| "status_str CANCELLED = ''CANCELLED''"

datatype Cards_cardType = VIRTUAL | PHYSICAL

datatype Cards_status = CARD_ACTIVE | CARD_BLOCKED | CARD_INACTIVE | CARD_EXPIRED | CARD_PENDING

datatype Transactions_type = TOPUP | DEDUCT | REVERSAL | ADJUSTMENT | BALANCE_INQUIRY

datatype TransferReceiptType = INTERNAL_TRANSFER | SPEI_CASHOUT

datatype push_platform = ANDROID | IOS

datatype gender = MASCULINO | FEMENINO

section \<open>Payments\<close>

record payment_create_request =
  pcr_amount :: jsnum
  pcr_currency :: "string option"
  pcr_description :: "string option"
  pcr_netAmountMxn :: "jsnum option"

record payment_create_response =
  pcs_paymentId :: string
  pcs_amount :: jsnum
  pcs_currency :: string
  pcs_description :: "string option"
  pcs_status :: payments_status
  pcs_paymentUrl :: string
  pcs_createdAt :: int

record prevention_data =
  prev_session_id :: "string option"
  prev_user_agent :: "string option"

record process_payment_request =
  ppr_card_token :: string
  ppr_prevention_data :: "prevention_data option"

record provider_request =
  prq_amount :: jsnum
  prq_currency :: string
  prq_description :: string
  prq_token :: string
  prq_email :: string
  prq_phone :: "string option"
  prq_prevention_data :: "prevention_data option"
  prq_webhook_url :: "string option"

record provider_card =
  pc_bin :: string
  pc_issuer :: string
  pc_name :: string
  pc_country :: string
  pc_last_digits :: string
  pc_exp_year :: string
  pc_exp_month :: string

record provider_method =
  pm_id :: string
  pm_type :: string
  pm_card :: "provider_card option"
  pm_token :: string

record provider_customer =
  pcu_email :: "string option"
  pcu_phone :: "string option"
  pcu_first_name :: "string option"
  pcu_last_name :: "string option"

record pending_action =
  pa_type :: string
  pa_url :: string

record provider_payment =
  pp_id :: string
  pp_amount :: jsnum
  pp_tip_amount :: jsnum
  pp_amount_refunded :: jsnum
  pp_installment_amount :: jsnum
  pp_installments :: jsnum
  pp_capture_method :: string
  pp_net_amount :: jsnum
  pp_paid_amount :: jsnum
  pp_captured_amount :: jsnum
  pp_binary_mode :: bool
  pp_approved_at :: "string option"
  pp_country :: string
  pp_currency :: string
  pp_description :: "string option"
  pp_external_reference :: "string option"
  pp_customer :: "provider_customer option"
  pp_payment_method :: provider_method
  pp_receipt_no :: string
  pp_status :: "string option"
  pp_status_code :: string
  pp_status_message :: string
  pp_pending_action :: "pending_action option"
  pp_created_at :: string
  pp_version :: jsnum

record card_summary =
  cs_lastDigits :: string
  cs_type :: string
  cs_issuer :: string

record payment_client_response =
  pcl_paymentId :: string
  pcl_amount :: jsnum
  pcl_currency :: string
  pcl_status :: payments_status
  pcl_statusMessage :: string
  pcl_receiptNo :: string
  pcl_approvedAt :: "string option"
  pcl_card :: "card_summary option"
  pcl_pendingAction :: "pending_action option"

record topup_request =
  tr_externalTransactionId :: string
  tr_balanceId :: int
  tr_amount :: jsnum
  tr_sourceCustomerID :: int

text \<open>The body of the wallet top-up response is kept as it came, to be stored.\<close>

record topup_response =
  ts_body :: json

record topup_extras =
  te_response :: "topup_response option"
  te_note :: "string option"
  te_error :: "string option"

record topup_payload =
  tp_status :: payments_status
  tp_externalTransactionId :: string
  tp_amount :: jsnum
  tp_balanceId :: int
  tp_sourceCustomerID :: int
  tp_extras :: topup_extras

record clip_webhook_response =
  cw_providerPaymentId :: string
  cw_paymentId :: string
  cw_status :: payments_status
  cw_topupTriggered :: bool
  cw_topupExternalTransactionId :: "string option"

section \<open>SIP payments\<close>

datatype sip_currency = BOB | USD

primrec currency_str :: "sip_currency \<Rightarrow> string" where
  "currency_str BOB = ''BOB''"
| "currency_str USD = ''USD''"

record create_sip_qr_request =
  cq_amount :: jsnum
  cq_currency :: sip_currency
  cq_description :: "string option"
  cq_netAmountMxn :: "jsnum option"

record sip_qr_request =
  sq_alias :: string
  sq_callback :: string
  sq_detalleGlosa :: string
  sq_monto :: jsnum
  sq_moneda :: sip_currency
  sq_fechaVencimiento :: string

record sip_token_response =
  st_codigo :: string
  st_mensaje :: string
  st_token :: "string option"

record sip_qr_objeto =
  so_imagenQr :: string
  so_idQr :: string
  so_fechaVencimiento :: string
  so_bancoDestino :: string
  so_cuentaDestino :: string
  so_idTransaccion :: jsnum

record sip_qr_response =
  sr_codigo :: string
  sr_mensaje :: string
  sr_objeto :: "sip_qr_objeto option"

text \<open>
  The callback body arrives from the network: \<^verbatim>\<open>monto\<close> and \<^verbatim>\<open>fechaproceso\<close> are numbers or
  numeric strings.
\<close>

record sip_callback =
  cb_alias :: string
  cb_monto :: "json option"
  cb_moneda :: "string option"
  cb_idQr :: "string option"
  cb_numeroOrdenOriginante :: "string option"
  cb_fechaproceso :: "json option"
  cb_cuentaCliente :: "string option"
  cb_nombreCliente :: "string option"
  cb_documentoCliente :: "string option"

record sip_ack =
  ack_codigo :: string
  ack_mensaje :: string

text \<open>The properties read back from a stored payload are whatever was stored.\<close>

record create_sip_qr_response =
  cqr_paymentId :: string
  cqr_orderId :: string
  cqr_qrBase64 :: json
  cqr_expiresAt :: json
  cqr_idQr :: "string option"
  cqr_idTransaccion :: "json option"
  cqr_bancoDestino :: "json option"
  cqr_cuentaDestino :: "json option"

section \<open>Notifications and mail\<close>

record notification_payload =
  np_title :: string
  np_body :: string
  np_data :: "(string \<times> string) list option"

record push_message =
  pn_token :: string
  pn_title :: string
  pn_body :: string
  pn_data :: "(string \<times> string) list option"

record notification_result =
  nr_tokensFound :: nat
  nr_tokensSent :: nat
  nr_tokensDeactivated :: nat

text \<open>The properties of an object whose values may be \<^verbatim>\<open>undefined\<close>, such as the data of a mail template.\<close>

type_synonym js_props = "(string \<times> json option) list"

datatype attachment_format = FormatPdf | FormatImage

datatype attachment_option =
    FromEmail attachment_format "string option"
  | FileAttachment string "string option" "attachment_format option"

record resolved_attachment =
  ra_filename :: string
  ra_content :: string
  ra_contentType :: string

record mail_message =
  mm_to :: string
  mm_subject :: string
  mm_html :: string
  mm_attachments :: "resolved_attachment list"

record send_mail_result =
  sm_success :: bool
  sm_messageId :: "string option"
  sm_error :: "string option"

section \<open>Backoffice responses\<close>

text \<open>
  \<^verbatim>\<open>ApiResponse<T>\<close>: the envelope of the backoffice answers. The payload may be missing, and
  code that reads it without a check then throws a \<^verbatim>\<open>TypeError\<close>.
\<close>

record 'p api_response =
  ar_text :: string
  ar_timestamp :: string
  ar_endpoint :: string
  ar_error :: json
  ar_payload :: "'p option"

section \<open>Cards\<close>

record activate_card_params =
  ac_card_identifier :: string
  ac_reference_batch :: string
  ac_pin :: string
  ac_customer_id :: string
  ac_balance_id :: int

record activate_card_payload =
  acp_reference_card :: string
  acp_status_card :: int
  acp_customer_id :: int
  acp_card_id :: int
  acp_customer_private_key :: string
  acp_customer_refresh_token :: string

record card_info =
  ci_card_number :: "string option"
  ci_card_type :: int
  ci_cvv :: string
  ci_valid_date :: string

record stop_card_params =
  sc_card_id :: jsnum
  sc_customer_id :: int
  sc_new_card_status :: int
  sc_note :: string

record unstop_card_params =
  uc_card_id :: jsnum
  uc_customer_id :: int
  uc_note :: string

record card_status_payload =
  csp_message :: string
  csp_card_id :: int
  csp_status :: int

record card_full_info =
  cfi_credit_limit :: string
  cfi_credit_line :: string
  cfi_duedate :: string
  cfi_original_billing_day :: int

record user_card_info =
  uci_totalLimit :: jsnum
  uci_usedLimit :: jsnum
  uci_availableBalance :: jsnum
  uci_cutoffDate :: string
  uci_paymentDueDate :: string

record linked_card_payload =
  lcp_card_id :: int
  lcp_card_number :: string
  lcp_cvv :: string
  lcp_valid_date :: string
  lcp_status :: int
  lcp_card_type :: int

record update_cvv_payload =
  ucp_cvv2 :: string
  ucp_expiration_time_in_minutes :: int

record show_cvv_payload =
  scp_cvv :: string
  scp_expiration_time_in_minutes :: "int option"

datatype CardUserStatus = US_PENDING | US_ACTIVE | US_BLOCKED | US_EXPIRED | US_INACTIVE

record billing_address =
  ba_firstName :: string
  ba_lastName :: string
  ba_street :: string
  ba_exteriorNumber :: string
  ba_interiorNumber :: "string option"
  ba_neighborhood :: string
  ba_city :: string
  ba_state :: string
  ba_postalCode :: string
  ba_phone :: string
  ba_additionalNotes :: "string option"

record physical_card_request =
  pcq_billingAddress :: "billing_address option"
  pcq_pickupLocation :: "string option"

record delivery_location =
  dl_first_names :: string
  dl_last_names :: string
  dl_street :: string
  dl_exterior_number :: string
  dl_interior_number :: string
  dl_neighborhood :: string
  dl_city :: string
  dl_state :: string
  dl_postal_code :: string
  dl_mobile :: jsnum
  dl_additional_notes :: string

record bulk_order =
  bo_delivery_location :: delivery_location
  bo_card_identifier :: string
  bo_campaign_id :: string
  bo_pin :: string

record bulk_order_payload =
  bop_reference_batch :: "string option"
  bop_reference :: "string option"
  bop_referenceBatch :: "string option"
  bop_status :: int

record status_counts =
  sc_active :: nat
  sc_inactive :: nat
  sc_blocked :: nat
  sc_expired :: nat
  sc_total :: nat

record card_status_detail =
  csd_id :: int
  csd_cardType :: Cards_cardType
  csd_status :: CardUserStatus
  csd_maskedNumber :: "string option"
  csd_cardIdentifier :: string
  csd_createdAt :: int

record card_status_response =
  csr_hasCards :: bool
  csr_hasActiveCards :: bool
  csr_hasRequestedCards :: bool
  csr_physical :: status_counts
  csr_virtual :: status_counts
  csr_cards :: "card_status_detail list"

record card_status_summary =
  css_hasActiveCards :: bool
  css_hasRequestedCards :: bool
  css_physical :: status_counts
  css_virtual :: status_counts
  css_cards :: "card_status_detail list"

record physical_card_response =
  pcp_success :: bool
  pcp_message :: string
  pcp_cardId :: int
  pcp_cardIdentifier :: string
  pcp_status :: CardUserStatus
  pcp_pickupLocation :: "string option"
  pcp_cardStatus :: card_status_summary

section \<open>Transfers\<close>

record transfer_request =
  tq_amount :: jsnum
  tq_target :: string
  tq_description :: "json option"

record transfer_backoffice_request =
  tbr_amount :: jsnum
  tbr_sourceCustomerID :: int
  tbr_targetID :: int
  tbr_description :: "json option"

record spei_cashout_request =
  spr_clabe :: string
  spr_amount :: jsnum
  spr_receiverName :: string
  spr_entityName :: string
  spr_description :: "string option"

record spei_backoffice_request =
  sbr_clabe :: string
  sbr_amount :: jsnum
  sbr_description :: "string option"

record name_parts =
  nm_first :: "string option"
  nm_middle :: "string option"
  nm_last :: "string option"
  nm_second_last :: "string option"

record transfer_receipt =
  trc_receiptType :: TransferReceiptType
  trc_title :: string
  trc_dateTime :: int
  trc_timezone :: string
  trc_amount :: jsnum
  trc_senderName :: string
  trc_receiverName :: string
  trc_entityName :: "string option"
  trc_receiverClabeMasked :: "string option"

record transfer_result =
  tre_transactionId :: string
  tre_receipt :: transfer_receipt

record account_info =
  ai_clabe :: string
  ai_bankReceptor :: string
  ai_beneficiaryName :: string

section \<open>Authentication\<close>

record refresh_request =
  rq_customer_refresh_token :: string
  rq_device_id :: string
  rq_ecommerce_token :: string
  rq_extra_login_data :: string

record refresh_response =
  rr_oauth_token :: string
  rr_expiration_timestamp :: string

record connection_request =
  cr_client_state :: int
  cr_customer_id :: int
  cr_customer_private_key :: string
  cr_customer_refresh_token :: string
  cr_device_id :: string
  cr_ecommerce_token :: string
  cr_extra_login_data :: string

record backoffice_jwt_data =
  bj_customer_oauth_token :: string
  bj_expiration_timestamp :: string
  bj_customer_refresh_token :: string
  bj_refresh_expiration_timestamp :: string
  bj_client_state_ret :: int
  bj_customerId :: int

record jwt_user =
  ju_userId :: int
  ju_email :: string
  ju_username :: "string option"

record jwt_payload =
  jp_user :: jwt_user
  jp_backoffice :: backoffice_jwt_data

text \<open>
  A verification fails because the token is expired, because it is not a valid token, or because
  its payload does not have the expected shape.
\<close>

datatype jwt_failure = TokenExpired | TokenInvalid | TokenMalformed

record biometric_verify_request =
  bv_deviceId :: string
  bv_challengeId :: string
  bv_signature :: string

record biometric_enroll_request =
  be_deviceId :: string
  be_publicKey :: json
  be_algorithm :: "string option"

record biometric_challenge_response =
  bc_challengeId :: string
  bc_challenge :: string
  bc_expiresIn :: int
  bc_algorithm :: string

datatype login_method = MPassword | MBiometric

datatype login_request = ByPassword string string | ByBiometric biometric_verify_request

section \<open>Account creation\<close>

text \<open>
  The answer to the creation of an account. The properties the code computes with are named;
  the others are copied to the profile by name.
\<close>

record account_response =
  acr_id :: "json option"
  acr_ewallet_id :: "json option"
  acr_oauth_token :: "string option"
  acr_private_key :: "string option"
  acr_refresh_token :: "string option"
  acr_email :: "string option"
  acr_mobile :: "json option"
  acr_property :: "string \<Rightarrow> json option"

record assign_customers_payload =
  asg_program_id :: int
  asg_new :: "int list"
  asg_updated :: "int list"

section \<open>Wallet transactions\<close>

record merchant_category =
  mc_description :: "string option"
  mc_category :: "string option"

record transaction_details =
  td_amount :: string
  td_timestamp :: string
  td_transactionId :: int
  td_description :: string
  td_merchantCategoryCode :: "merchant_category option"
  td_category :: int

record get_transactions_params =
  gt_customer_id :: int
  gt_limit :: jsnum
  gt_offset :: "jsnum option"
  gt_from :: "string option"
  gt_to :: "string option"
  gt_desc :: bool
  gt_transaction_id :: "jsnum option"
  gt_only_installment_charges :: bool

record transactions_payload =
  gtp_transactions :: "transaction_details list"
  gtp_totalCount :: int

record simplified_transaction =
  stx_id :: int
  stx_date :: string
  stx_title :: string
  stx_category :: string
  stx_amount :: jsnum

record chart_point =
  chp_label :: string
  chp_date :: string
  chp_amount :: jsnum
  chp_percentage :: jsnum
  chp_isCurrent :: bool

datatype range_type = DAILY | MONTHLY

record chart_response =
  chr_type :: range_type
  chr_totalBalance :: jsnum
  chr_chartData :: "chart_point list"

section \<open>Exchange rates\<close>

record banxico_serie =
  bs_titulo :: "string option"
  bs_datos :: "(string option \<times> string option) list option"

record criptoya_quote =
  cy_ask :: "jsnum option"
  cy_bid :: "jsnum option"

record exchange_rate_response =
  er_provider :: string
  er_seriesId :: string
  er_date :: string
  er_rate :: jsnum
  er_title :: "string option"

section \<open>Wallets, ramp orders and investments\<close>

datatype WalletProvider = WP_CROSSMINT | WP_PRIVY | WP_FIREBLOCKS

datatype WalletChain = STELLAR | POLYGON | BASE | ETHEREUM | SOLANA

datatype CustodyType = CUSTODIAL | NON_CUSTODIAL | MPC

datatype WalletStatus = WS_ACTIVE | WS_PENDING | WS_DISABLED

datatype RampProvider = RP_CROSSMINT | RP_ETHERFUSE

datatype RampOrderType = ONRAMP | OFFRAMP

datatype InvestmentProvider = DEFINDEX | OTHER

datatype InvestmentOperationType = DEPOSIT | WITHDRAW

datatype InvestmentOperationStatus = IO_PENDING | IO_SIGNING | IO_SUBMITTED | IO_COMPLETED | IO_FAILED | IO_CANCELLED

record wallet_response =
  wr_id :: int
  wr_userId :: int
  wr_crossmintWalletId :: string
  wr_walletAddress :: string
  wr_chainType :: WalletChain
  wr_status :: WalletStatus
  wr_createdAt :: int

section \<open>Card batch notifications\<close>

record bulk_card =
  bcd_card_identifier :: string
  bcd_card_id :: "int option"

record bulk_order_notification =
  bon_numCreated :: int
  bon_numFailed :: int
  bon_referenceBatch :: string
  bon_status :: int
  bon_cards :: "bulk_card list option"

end
