(* ===== verification/World.thy ===== *)
theory World
  imports Schemas
begin

text \<open>
  The state the program works on and the services it relies on.

  \<^item> One record per table of \<^verbatim>\<open>prisma/schema.prisma\<close>. A \<^verbatim>\<open>DateTime\<close> is a number of
    milliseconds; a \<^verbatim>\<open>DateTime(0)\<close> column keeps whole seconds. Text columns compare by equality
    and their maximal lengths are not modelled.
  \<^item> \<^verbatim>\<open>services\<close>: everything the program calls that is not its own code (the clock, random
    numbers, cryptography, the other HTTP services, mail and push delivery), as functions on an
    environment state of type \<^verbatim>\<open>'x\<close>. A remote call answers or fails, and may change the
    environment in any way.
  \<^item> \<^verbatim>\<open>world\<close>: the tables, the in-process caches, the environment state and the trace of the
    calls made and their outcomes, which the properties count.
\<close>

section \<open>Rows\<close>

text \<open>The questionnaire columns of a user, which only the user's own profile page shows.\<close>

record questionnaire =
  qu_occupation :: "string option"
  qu_sector :: "string option"
  qu_mainActivity :: "string option"
  qu_monthlyIncome :: "jsnum option"
  qu_monthlyOutcome :: "jsnum option"
  qu_hasOtherCreditCards :: "bool option"
  qu_universityRegistration :: "int option"
  qu_creditLimit :: "jsnum option"
  qu_interestRate :: "jsnum option"
  qu_paymentDates :: "string option"
  qu_initialDeposit :: "jsnum option"

record user_row =
  usr_id :: int
  usr_email :: string
  usr_password :: string
  usr_phone :: "string option"
  usr_completeName :: "string option"
  usr_gender :: gender
  usr_birthDate :: int
  usr_birthCountry :: "string option"
  usr_curp :: string
  usr_postalCode :: "string option"
  usr_state :: string
  usr_country :: "string option"
  usr_municipality :: string
  usr_street :: string
  usr_colony :: string
  usr_externalNumber :: string
  usr_internalNumber :: string
  usr_pin :: "string option"
  usr_rfc :: "string option"
  usr_createdAt :: int
  usr_lastLogin :: "int option"
  usr_firstName :: "string option"
  usr_lastName :: "string option"
  usr_secondLastName :: "string option"
  usr_nationality :: "string option"
  usr_countryCode :: "string option"
  usr_alias :: "string option"
  usr_questionnaire :: questionnaire

record auth_state_row =
  aus_userId :: int
  aus_clientState :: int
  aus_deviceId :: string
  aus_privateKey :: string
  aus_refreshToken :: string
  aus_extraLoginData :: "string option"
  aus_lastCustomerOauthToken :: "string option"
  aus_oauthExpirationTimestamp :: "string option"
  aus_refreshExpirationTimestamp :: "string option"
  aus_externalCustomerId :: "int option"
  aus_ewalletId :: "int option"
  aus_updatedAt :: int

record profile_row =
  prof_userId :: int
  prof_external_customer_id :: "int option"
  prof_ewallet_id :: "int option"
  prof_oauth_token :: "string option"
  prof_refresh_token :: "string option"
  prof_private_key :: "string option"
  prof_email :: "string option"
  prof_mobile :: "string option"
  prof_details :: "(string \<times> json option) list"
  prof_updatedAt :: int

record payment_row =
  pay_id :: int
  pay_user_id :: int
  pay_order_id :: "string option"
  pay_provider :: string
  pay_provider_payment_id :: "string option"
  pay_amount :: rat
  pay_currency :: string
  pay_description :: "string option"
  pay_business_fee_rate :: rat
  pay_business_fee_amount :: rat
  pay_net_amount :: rat
  pay_net_amount_mxn :: "rat option"
  pay_status :: payments_status
  pay_payment_method :: string
  pay_idempotency_key :: string
  pay_request_payload :: "json option"
  pay_response_payload :: "json option"
  pay_created_at :: int
  pay_updated_at :: int

record card_row =
  card_id :: int
  card_userId :: "int option"
  card_bulkBatchId :: "int option"
  card_prosperaCardId :: "string option"
  card_cardType :: Cards_cardType
  card_cardIdentifier :: string
  card_status :: Cards_status
  card_encryptedPin :: "string option"
  card_maskedNumber :: "string option"
  card_expiryDate :: "string option"
  card_cvv :: "string option"
  card_createdAt :: int
  card_updatedAt :: int

record bulk_batch_row =
  bb_id :: int
  bb_referenceBatch :: string
  bb_status :: "int option"
  bb_numCreated :: "int option"
  bb_numFailed :: "int option"
  bb_requestedAt :: int

record card_pickup_row =
  cp_id :: int
  cp_userId :: "int option"
  cp_cardId :: int
  cp_isSlanPoint :: bool
  cp_mobile :: string
  cp_street :: string
  cp_exteriorNumber :: string
  cp_interiorNumber :: string
  cp_neighborhood :: string
  cp_city :: string
  cp_state :: string
  cp_postalCode :: string
  cp_additionalNotes :: string

record transaction_row =
  tx_id :: int
  tx_userId :: int
  tx_type :: Transactions_type
  tx_amount :: rat
  tx_status :: payments_status
  tx_description :: "string option"
  tx_prosperaReference :: "string option"
  tx_updatedAt :: int

record transfer_receipt_row =
  rec_id :: int
  rec_userId :: int
  rec_type :: TransferReceiptType
  rec_transferData :: json
  rec_generatedAt :: int

record push_token_row =
  pt_id :: int
  pt_user_id :: int
  pt_device_id :: "string option"
  pt_fcm_token :: string
  pt_platform :: push_platform
  pt_is_active :: bool
  pt_updated_at :: int

record device_credential_row =
  dc_user_id :: int
  dc_device_id :: string
  dc_public_key_json :: json
  dc_algorithm :: string
  dc_revoked_at :: "int option"
  dc_last_used_at :: "int option"

record login_challenge_row =
  lc_id :: string
  lc_device_id :: string
  lc_challenge :: string
  lc_expires_at :: int
  lc_used_at :: "int option"

record user_wallet_row =
  uw_id :: int
  uw_userId :: int
  uw_provider :: WalletProvider
  uw_providerWalletId :: string
  uw_walletAddress :: string
  uw_chain :: WalletChain
  uw_custodyType :: CustodyType
  uw_status :: WalletStatus
  uw_metadata :: "json option"
  uw_createdAt :: int
  uw_updatedAt :: int

record ramp_order_row =
  ro_id :: int
  ro_userId :: int
  ro_walletId :: "int option"
  ro_provider :: RampProvider
  ro_type :: RampOrderType
  ro_providerOrderId :: "string option"
  ro_idempotencyKey :: string
  ro_fiatAmount :: "rat option"
  ro_fiatCurrency :: string
  ro_cryptoAmount :: "rat option"
  ro_cryptoAsset :: "string option"
  ro_chain :: "WalletChain option"
  ro_paymentMethod :: "string option"
  ro_bankName :: "string option"
  ro_accountSuffix :: "string option"
  ro_status :: payments_status
  ro_failureReason :: "string option"
  ro_requestPayload :: "json option"
  ro_responsePayload :: "json option"
  ro_createdAt :: int
  ro_updatedAt :: int

record investment_row =
  io_id :: int
  io_userId :: int
  io_walletId :: int
  io_provider :: InvestmentProvider
  io_type :: InvestmentOperationType
  io_externalProductId :: "string option"
  io_externalOperationId :: "string option"
  io_asset :: string
  io_amount :: rat
  io_chain :: WalletChain
  io_status :: InvestmentOperationStatus
  io_txHash :: "string option"
  io_providerTxId :: "string option"
  io_requestPayload :: "json option"
  io_responsePayload :: "json option"
  io_failureReason :: "string option"
  io_createdAt :: int
  io_updatedAt :: int

text \<open>A \<^verbatim>\<open>DateTime(0)\<close> column rounds a timestamp to the nearest second.\<close>

definition to_seconds :: "int \<Rightarrow> int" where
  "to_seconds t = (t + 500) div 1000 * 1000"

section \<open>Configuration\<close>

text \<open>The values of \<^verbatim>\<open>config/config.ts\<close> that the modelled code reads.\<close>

record config =
  cfg_apiUrl :: string
  cfg_version :: string
  cfg_ecommerceToken :: string
  cfg_jwtSecret :: string
  cfg_usdMxnFeeRate :: jsnum
  cfg_bobUsdtFeeRate :: jsnum
  cfg_usdtMxnFeeRate :: jsnum
  cfg_speiCashoutFee :: jsnum
  cfg_sipUsername :: string
  cfg_sipPassword :: string
  cfg_sipPublicCallbackUrl :: string
  cfg_sipCallbackBasicUser :: string
  cfg_sipCallbackBasicPass :: string
  cfg_sipTokenCacheTtlSeconds :: jsnum
  cfg_programCode :: string
  cfg_campaignId :: string
  cfg_creditLine :: string
  cfg_timeZone :: string
  cfg_resendApiKey :: string

section \<open>Outgoing calls and the services behind them\<close>

text \<open>What an axios rejection carries: the response status, the \<^verbatim>\<open>error\<close> and \<^verbatim>\<open>message\<close> properties of its body, and the message of the error itself.\<close>

record http_failure =
  hf_status :: "int option"
  hf_business :: "(string \<times> string) option"
  hf_body_message :: "string option"
  hf_message :: string

datatype call =
    CallTopUp topup_request
  | CallPay provider_request
  | CallPaymentDetails string
  | CallSipToken
  | CallSipQr string sip_qr_request
  | CallMail mail_message
  | CallPush push_message
  | CallActivate activate_card_params
  | CallCardInfo int jsnum
  | CallViewPin jsnum
  | CallStop stop_card_params
  | CallUnstop unstop_card_params
  | CallRetire jsnum int
  | CallFullInfo int "jsnum option"
  | CallLinkedCard string int
  | CallUpdateCvv jsnum
  | CallBulkOrder bulk_order
  | CallTransfer transfer_backoffice_request
  | CallSpei spei_backoffice_request
  | CallUserInfo int
  | CallClabe
  | CallRefresh refresh_request
  | CallConnection connection_request
  | CallCreateAccount "(string \<times> string) list"
  | CallAssign string "int list"
  | CallTransactions get_transactions_params
  | CallBanxico
  | CallCriptoya string
  | CallCreateWallet string

datatype push_failure = PushFailure "string option"

record 'x services =
  cfg :: config
  clock :: "'x \<Rightarrow> int \<times> 'x"
  random_uuid :: "'x \<Rightarrow> string \<times> 'x"
  new_ulid :: "'x \<Rightarrow> string \<times> 'x"
  random_base64url :: "nat \<Rightarrow> 'x \<Rightarrow> string \<times> 'x"
  random_bytes :: "nat \<Rightarrow> 'x \<Rightarrow> nat list \<times> 'x"
  random_unit :: "'x \<Rightarrow> rat \<times> 'x"
  base36_fraction :: "rat \<Rightarrow> string"
  sha256_hex :: "string \<Rightarrow> string"
  base64_decode :: "string \<Rightarrow> string"
  local_offset :: "int \<Rightarrow> int"
  utc_of_local :: "int \<Rightarrow> int"
  hash_password :: "string \<Rightarrow> 'x \<Rightarrow> string \<times> 'x"
  base64_encode :: "string \<Rightarrow> string"
  format_datetime :: "int \<Rightarrow> string \<times> string"
  locale_time :: "json \<Rightarrow> string"
  read_template :: "string \<Rightarrow> string option"
  read_file :: "string \<Rightarrow> string option"
  html_to_buffer :: "attachment_format \<Rightarrow> string \<Rightarrow> 'x \<Rightarrow> (string + string) \<times> 'x"
  resend_send :: "mail_message \<Rightarrow> 'x \<Rightarrow> (string + (string + string option)) \<times> 'x"
  push_send :: "push_message \<Rightarrow> 'x \<Rightarrow> (push_failure + unit) \<times> 'x"
  jwt_sign :: "jwt_payload \<Rightarrow> string \<Rightarrow> string \<Rightarrow> 'x \<Rightarrow> (unit + string) \<times> 'x"
  jwt_verify :: "string \<Rightarrow> string \<Rightarrow> 'x \<Rightarrow> (jwt_failure + jwt_payload) \<times> 'x"
  es256_verify :: "json \<Rightarrow> string \<Rightarrow> string \<Rightarrow> string + bool"
  api_topup :: "topup_request \<Rightarrow> 'x \<Rightarrow> (http_failure + topup_response) \<times> 'x"
  api_pay :: "provider_request \<Rightarrow> 'x \<Rightarrow> (http_failure + provider_payment) \<times> 'x"
  api_payment_details :: "string \<Rightarrow> 'x \<Rightarrow> (http_failure + provider_payment) \<times> 'x"
  api_sip_token :: "string \<Rightarrow> string \<Rightarrow> 'x \<Rightarrow> (http_failure + sip_token_response) \<times> 'x"
  api_sip_qr :: "string \<Rightarrow> sip_qr_request \<Rightarrow> 'x \<Rightarrow> (http_failure + sip_qr_response) \<times> 'x"
  api_activate :: "activate_card_params \<Rightarrow> string \<Rightarrow> 'x \<Rightarrow> (http_failure + activate_card_payload api_response) \<times> 'x"
  api_card_info :: "int \<Rightarrow> string \<Rightarrow> jsnum \<Rightarrow> 'x \<Rightarrow> (http_failure + card_info list option api_response) \<times> 'x"
  api_view_pin :: "jsnum \<Rightarrow> string \<Rightarrow> 'x \<Rightarrow> (http_failure + string option api_response) \<times> 'x"
  api_stop :: "stop_card_params \<Rightarrow> string \<Rightarrow> 'x \<Rightarrow> (http_failure + card_status_payload api_response) \<times> 'x"
  api_unstop :: "unstop_card_params \<Rightarrow> string \<Rightarrow> 'x \<Rightarrow> (http_failure + card_status_payload api_response) \<times> 'x"
  api_retire :: "jsnum \<Rightarrow> int \<Rightarrow> string \<Rightarrow> 'x \<Rightarrow> (http_failure + int api_response) \<times> 'x"
  api_full_info :: "int \<Rightarrow> string \<Rightarrow> jsnum option \<Rightarrow> 'x \<Rightarrow> (http_failure + card_full_info list option api_response) \<times> 'x"
  api_linked_card :: "string \<Rightarrow> int \<Rightarrow> string \<Rightarrow> 'x \<Rightarrow> (http_failure + linked_card_payload api_response) \<times> 'x"
  api_update_cvv :: "jsnum \<Rightarrow> string \<Rightarrow> 'x \<Rightarrow> (http_failure + update_cvv_payload api_response) \<times> 'x"
  api_bulk_order :: "bulk_order \<Rightarrow> 'x \<Rightarrow> (http_failure + bulk_order_payload option) \<times> 'x"
  api_transfer :: "transfer_backoffice_request \<Rightarrow> string \<Rightarrow> 'x \<Rightarrow> (http_failure + string api_response) \<times> 'x"
  api_spei :: "spei_backoffice_request \<Rightarrow> string \<Rightarrow> 'x \<Rightarrow> (http_failure + string api_response) \<times> 'x"
  api_user_info :: "int \<Rightarrow> 'x \<Rightarrow> (http_failure + name_parts option) \<times> 'x"
  api_clabe :: "string \<Rightarrow> 'x \<Rightarrow> (http_failure + string option) \<times> 'x"
  api_refresh :: "refresh_request \<Rightarrow> 'x \<Rightarrow> (http_failure + refresh_response option) \<times> 'x"
  api_connection :: "connection_request \<Rightarrow> 'x \<Rightarrow> (http_failure + backoffice_jwt_data option) \<times> 'x"
  api_create_account :: "(string \<times> string) list \<Rightarrow> 'x \<Rightarrow> (http_failure + account_response) \<times> 'x"
  api_assign :: "string \<Rightarrow> int list \<Rightarrow> 'x \<Rightarrow> (http_failure + assign_customers_payload api_response) \<times> 'x"
  api_transactions :: "get_transactions_params \<Rightarrow> string \<Rightarrow> 'x \<Rightarrow> (http_failure + transactions_payload api_response) \<times> 'x"
  api_banxico :: "'x \<Rightarrow> (http_failure + banxico_serie list option) \<times> 'x"
  api_criptoya :: "string \<Rightarrow> 'x \<Rightarrow> (http_failure + criptoya_quote option) \<times> 'x"
  api_create_wallet :: "string \<Rightarrow> 'x \<Rightarrow> (http_failure + string \<times> string) \<times> 'x"

section \<open>The world\<close>

record sip_token_cache =
  tc_token :: string
  tc_expiresAt :: jsnum

record 'x world =
  users :: "user_row table"
  authStates :: "auth_state_row table"
  profiles :: "profile_row table"
  payments :: "payment_row table"
  cards :: "card_row table"
  bulkBatches :: "bulk_batch_row table"
  cardPickups :: "card_pickup_row table"
  transactions :: "transaction_row table"
  transferReceipts :: "transfer_receipt_row table"
  pushTokens :: "push_token_row table"
  deviceCredentials :: "device_credential_row table"
  loginChallenges :: "login_challenge_row table"
  userWallets :: "user_wallet_row table"
  rampOrders :: "ramp_order_row table"
  investmentOperations :: "investment_row table"
  locks :: "string list"
  sipCache :: "sip_token_cache option"
  ext :: 'x
  trace :: "(call \<times> bool) list"

text \<open>Running a service on the environment state, and a remote call that is recorded.\<close>

definition service :: "('x \<Rightarrow> 'a \<times> 'x) \<Rightarrow> ('x world, 'a) op" where
  "service f = (\<lambda>w. case f (ext w) of (a, x) \<Rightarrow> (Inr a, w\<lparr>ext := x\<rparr>))"

definition now :: "'x services \<Rightarrow> ('x world, int) op" where
  "now E = service (clock E)"

text \<open>The trace keeps, with each call, whether it succeeded.\<close>

definition record_call :: "call \<Rightarrow> bool \<Rightarrow> ('x world, unit) op" where
  "record_call c b = modify (\<lambda>w. w\<lparr>trace := trace w @ [(c, b)]\<rparr>)"

fun succeeded :: "'a + 'b \<Rightarrow> bool" where
  "succeeded (Inl _) = False"
| "succeeded (Inr _) = True"

definition remote :: "call \<Rightarrow> ('x \<Rightarrow> (http_failure + 'r) \<times> 'x) \<Rightarrow> (http_failure \<Rightarrow> error) \<Rightarrow> ('x world, 'r) op" where
  "remote c f on_error =
     bindE (service f) (\<lambda>r.
     bindE (record_call c (succeeded r)) (\<lambda>_.
       case r of Inl h \<Rightarrow> throw (on_error h) | Inr a \<Rightarrow> ok a))"

text \<open>The database client's rejections: a missing row to update, a duplicate key, a dangling reference.\<close>

definition record_not_found :: error where
  "record_not_found = mk_error PrismaClientError ''Record to update not found''"

definition unique_violation :: error where
  "unique_violation = mk_error PrismaClientError ''Unique constraint failed''"

definition foreign_key_violation :: error where
  "foreign_key_violation = mk_error PrismaClientError ''Foreign key constraint failed''"

section \<open>What the services leave alone\<close>

text \<open>
  A service changes the environment state and nothing else; a remote call also extends the
  trace. A predicate that looks at neither is kept by both.
\<close>

lemma service_run: "service f w = (Inr (fst (f (ext w))), w\<lparr>ext := snd (f (ext w))\<rparr>)"
  by (simp add: service_def split: prod.split)

lemma now_run: "now E w = (Inr (fst (clock E (ext w))), w\<lparr>ext := snd (clock E (ext w))\<rparr>)"
  by (simp add: now_def service_run)

lemma record_call_run: "record_call c b w = (Inr (), w\<lparr>trace := trace w @ [(c, b)]\<rparr>)"
  by (simp add: record_call_def)

lemma remote_run:
  "remote c f g w =
     (case fst (f (ext w)) of Inl h \<Rightarrow> Inl (g h) | Inr a \<Rightarrow> Inr a,
      w\<lparr>ext := snd (f (ext w)), trace := trace w @ [(c, succeeded (fst (f (ext w))))]\<rparr>)"
  by (simp add: remote_def bindE_def record_call_run service_run split: sum.split)

lemmas service_simps [op_simps] = service_run now_run record_call_run remote_run

lemma keeps_service: "(\<And>w x. P w \<Longrightarrow> P (w\<lparr>ext := x\<rparr>)) \<Longrightarrow> keeps P (service f)"
  by (simp add: keeps_def service_run)

lemma keeps_now: "(\<And>w x. P w \<Longrightarrow> P (w\<lparr>ext := x\<rparr>)) \<Longrightarrow> keeps P (now E)"
  by (simp add: now_def keeps_service)

lemma keeps_remote:
  "(\<And>w x b. P w \<Longrightarrow> P (w\<lparr>ext := x, trace := trace w @ [(c, b)]\<rparr>)) \<Longrightarrow> keeps P (remote c f g)"
  by (simp add: keeps_def remote_run)

end
