(* ===== verification/Http.thy ===== *)
theory Http
  imports World
begin

text \<open>
  The edges of the program: how a failed call to another service becomes an error (the response
  interceptors of \<^verbatim>\<open>src/src/api\<close>), and how an error becomes an HTTP answer
  (\<^verbatim>\<open>src/src/shared/handlers\<close>).
\<close>

section \<open>Response interceptors\<close>

text \<open>The \<^verbatim>\<open>errorMap\<close> of each axios instance, from status codes to errors.\<close>

definition backoffice_errorMap :: "(int \<times> error) list" where
  "backoffice_errorMap =
     [(400, mk_error BadRequestError ''Invalid request parameters or malformed input.''),
      (401, mk_error UnauthorizedError ''Authorization failed or invalid token.''),
      (403, mk_error ForbiddenError ''Forbidden: Invalid checksum or access denied.''),
      (404, mk_error NotFoundError ''Not Found: Resource or transaction not found.''),
      (409, mk_error ConflictError ''Conflict: Duplicate or already processed transaction.''),
      (422, mk_error UnprocessableEntityError ''Unprocessable Entity: Invalid or inconsistent parameters.''),
      (500, mk_error InternalServerError ''Internal Server Error: Unexpected server failure.'')]"

definition payment_errorMap :: "(int \<times> error) list" where
  "payment_errorMap =
     [(400, mk_error BadRequestError ''Invalid request parameters.''),
      (401, mk_error UnauthorizedError ''Invalid API Key or authentication failed.''),
      (402, mk_error BadRequestError ''Insufficient funds or payment declined.''),
      (404, mk_error NotFoundError ''Payment or resource not found.''),
      (422, mk_error UnprocessableEntityError ''Invalid payment parameters or card data.''),
      (500, mk_error InternalServerError ''Payment API error: Unexpected server failure.''),
      (503, mk_error InternalServerError ''Payment API temporarily unavailable.'')]"

definition sip_errorMap :: "(int \<times> error) list" where
  "sip_errorMap =
     [(400, mk_error BadRequestError ''SIP: invalid request parameters.''),
      (401, mk_error UnauthorizedError ''SIP: token expired or invalid.''),
      (403, mk_error UnauthorizedError ''SIP: access denied.''),
      (500, mk_error InternalServerError ''SIP: internal server error.'')]"

definition mapped_error :: "(int \<times> error) list \<Rightarrow> http_failure \<Rightarrow> error option" where
  "mapped_error m h = (case hf_status h of None \<Rightarrow> None | Some s \<Rightarrow> map_of m s)"

definition or_default :: "string \<Rightarrow> string \<Rightarrow> string" where
  "or_default s d = (if s = [] then d else s)"

definition backoffice_error :: "http_failure \<Rightarrow> error" where
  "backoffice_error h = (case mapped_error backoffice_errorMap h of
       Some e \<Rightarrow> e
     | None \<Rightarrow> (case hf_business h of
           Some (code, txt) \<Rightarrow>
             if code \<noteq> [] then mk_error Error (''Business Error ['' @ code @ '']: '' @ txt)
             else mk_error Error (or_default (hf_message h) ''Unknown error occurred.'')
         | None \<Rightarrow> mk_error Error (or_default (hf_message h) ''Unknown error occurred.'')))"

definition payment_error :: "http_failure \<Rightarrow> error" where
  "payment_error h = (case mapped_error payment_errorMap h of
       Some e \<Rightarrow> e
     | None \<Rightarrow> (case hf_body_message h of
           Some m \<Rightarrow> if m \<noteq> [] then mk_error Error (''Payment API Error: '' @ m)
                    else mk_error Error (or_default (hf_message h) ''Unknown Payment API error occurred.'')
         | None \<Rightarrow> mk_error Error (or_default (hf_message h) ''Unknown Payment API error occurred.'')))"

definition sip_error :: "http_failure \<Rightarrow> error" where
  "sip_error h = (case mapped_error sip_errorMap h of
       Some e \<Rightarrow> e | None \<Rightarrow> mk_error InternalServerError (hf_message h))"

text \<open>The SIP authentication instance passes the axios error on as it is.\<close>

definition sip_auth_error :: "http_failure \<Rightarrow> error" where
  "sip_auth_error h = mk_error Error (hf_message h)"

section \<open>Answers\<close>

record error_body =
  eb_statusCode :: int
  eb_message :: string
  eb_error :: string

primrec errorResponseMap :: "error_class \<Rightarrow> (int \<times> string) option" where
  "errorResponseMap BadRequestError = Some (400, ''Bad request'')"
| "errorResponseMap UnauthorizedError = Some (401, ''Unauthorized'')"
| "errorResponseMap ForbiddenError = Some (403, ''Forbidden'')"
| "errorResponseMap NotFoundError = Some (404, ''Resource not found'')"
| "errorResponseMap Error = None"
| "errorResponseMap ConflictError = None"
| "errorResponseMap UnprocessableEntityError = None"
| "errorResponseMap InternalServerError = None"
| "errorResponseMap TypeError = None"
| "errorResponseMap PrismaClientError = None"

definition error_answer :: "error \<Rightarrow> error_body" where
  "error_answer e = (case errorResponseMap (err_class e) of
       Some (c, t) \<Rightarrow> \<lparr>eb_statusCode = c, eb_message = err_message e, eb_error = t\<rparr>
     | None \<Rightarrow> \<lparr>eb_statusCode = 500, eb_message = err_message e, eb_error = ''An unexpected error occurred''\<rparr>)"

datatype 'a answer = Answer int 'a | ErrorAnswer error_body

definition catchErrors :: "('s, 'a) op \<Rightarrow> 's \<Rightarrow> 'a answer \<times> 's" where
  "catchErrors m s = (case m s of (Inl e, s') \<Rightarrow> (ErrorAnswer (error_answer e), s')
                                | (Inr a, s') \<Rightarrow> (Answer 200 a, s'))"

fun answer_status :: "'a answer \<Rightarrow> int" where
  "answer_status (Answer c a) = c"
| "answer_status (ErrorAnswer b) = eb_statusCode b"

text \<open>The class of the error a failed backoffice call ends in, by status code.\<close>

lemma backoffice_error_class:
  "err_class (backoffice_error h) =
     (case hf_status h of
        Some s \<Rightarrow> if s = 400 then BadRequestError else if s = 401 then UnauthorizedError
                 else if s = 403 then ForbiddenError else if s = 404 then NotFoundError
                 else if s = 409 then ConflictError else if s = 422 then UnprocessableEntityError
                 else if s = 500 then InternalServerError else Error
      | None \<Rightarrow> Error)"
  by (simp add: backoffice_error_def mapped_error_def backoffice_errorMap_def split: option.split)

lemma sip_error_unauthorized:
  "err_class (sip_error h) = UnauthorizedError \<longleftrightarrow> hf_status h \<in> {Some 401, Some 403}"
  by (auto simp: sip_error_def mapped_error_def sip_errorMap_def split: option.split)

lemma catchErrors_state: "snd (catchErrors m s) = snd (m s)"
  by (simp add: catchErrors_def split: prod.split sum.split)

end
