(* ===== verification/Mail.thy ===== *)
theory Mail
  imports Http
begin

text \<open>
  Outgoing mail: the template renderer (\<^verbatim>\<open>utils/templateMaker.util.ts\<close>), the attachments
  (\<^verbatim>\<open>utils/attachment.util.ts\<close>), the sender (\<^verbatim>\<open>utils/sender.util.ts\<close>) and the proofs of payment
  (\<^verbatim>\<open>utils/proofPayment.utils.ts\<close>). The lemmas show that sending a mail never throws and touches
  no table.
\<close>

section \<open>Templates\<close>

definition is_word :: "char \<Rightarrow> bool" where
  "is_word c \<longleftrightarrow> is_digit c \<or> is_upper c \<or> is_lower c \<or> c = CHR ''_''"

text \<open>
  \<^verbatim>\<open>html.replace(/\{\{(\w+)\}\}/g, ...)\<close>: at a position where a placeholder starts its value is
  inserted, the empty string when the key is unknown; any other character is copied.
\<close>

definition placeholder :: "string \<Rightarrow> (string \<times> string) option" where
  "placeholder s =
     (if take 2 s = ''{{'' then
        (let k = takeWhile is_word (drop 2 s); r = dropWhile is_word (drop 2 s)
         in if k \<noteq> [] \<and> take 2 r = ''}}'' then Some (k, drop 2 r) else None)
      else None)"

lemma placeholder_shorter: "placeholder s = Some (k, r) \<Longrightarrow> length r < length s"
proof -
  assume a: "placeholder s = Some (k, r)"
  then have "take 2 s = ''{{''" "r = drop 2 (dropWhile is_word (drop 2 s))"
    by (auto simp: placeholder_def Let_def split: if_splits)
  moreover from this have "2 \<le> length s" by (cases s; cases "tl s") auto
  moreover have "length (dropWhile is_word (drop 2 s)) \<le> length (drop 2 s)"
    by (rule length_dropWhile_le)
  ultimately show ?thesis by simp
qed

function substitute :: "(string \<times> string) list \<Rightarrow> string \<Rightarrow> string" where
  "substitute vals [] = []"
| "substitute vals (c # s) = (case placeholder (c # s) of
       Some (k, r) \<Rightarrow> (case map_of vals k of Some v \<Rightarrow> v | None \<Rightarrow> []) @ substitute vals r
     | None \<Rightarrow> c # substitute vals s)"
  by pat_completeness auto
termination
  by (relation "measure (\<lambda>(vals, s). length s)") (auto dest: placeholder_shorter)

definition template_error :: "string \<Rightarrow> error" where
  "template_error path = mk_error Error
     (''[sender.helpers] Could not read template at: '' @ path @ ''. ''
      @ ''Make sure the template HTML is present in public/'')"

definition template_values :: "'x services \<Rightarrow> js_props \<Rightarrow> (string \<times> string) list" where
  "template_values E data =
     (''timeZone'', cfg_timeZone (cfg E)) # map (\<lambda>(k, v). (k, js_string_opt v)) data"

definition renderTemplate :: "'x services \<Rightarrow> js_props \<Rightarrow> string \<Rightarrow> error + string" where
  "renderTemplate E data path = (case read_template E path of
       None \<Rightarrow> Inl (template_error path)
     | Some html \<Rightarrow> Inr (substitute (template_values E data) html))"

section \<open>Attachments\<close>

definition basename :: "string \<Rightarrow> string" where
  "basename p = last (split_on CHR ''/'' p)"

text \<open>\<^verbatim>\<open>path.extname\<close>: from the last dot of the base name, unless the name starts with it.\<close>

definition extname :: "string \<Rightarrow> string" where
  "extname p = (let b = basename p; e = takeWhile (\<lambda>c. c \<noteq> CHR ''.'') (rev b)
                in if length e + 1 < length b then CHR ''.'' # rev e else [])"

definition basename_without :: "string \<Rightarrow> string \<Rightarrow> string" where
  "basename_without p x = (let b = basename p in
     if x \<noteq> [] \<and> x \<noteq> b \<and> drop (length b - length x) b = x then take (length b - length x) b else b)"

definition MIME_MAP :: "(string \<times> string) list" where
  "MIME_MAP =
     [(''.pdf'', ''application/pdf''), (''.png'', ''image/png''), (''.jpg'', ''image/jpeg''),
      (''.jpeg'', ''image/jpeg''), (''.gif'', ''image/gif''), (''.webp'', ''image/webp''),
      (''.html'', ''text/html'')]"

fun getMimeType :: "string \<Rightarrow> attachment_format option \<Rightarrow> string" where
  "getMimeType p (Some FormatPdf) = ''application/pdf''"
| "getMimeType p (Some FormatImage) = ''image/png''"
| "getMimeType p None = (case map_of MIME_MAP (toLowerCase (extname p)) of
     Some m \<Rightarrow> m | None \<Rightarrow> ''application/octet-stream'')"

fun inferFilename :: "string \<Rightarrow> attachment_format option \<Rightarrow> string" where
  "inferFilename p (Some FormatPdf) = basename_without p (extname p) @ ''.pdf''"
| "inferFilename p (Some FormatImage) = basename_without p (extname p) @ ''.png''"
| "inferFilename p None = basename p"

definition htmlToBuffer :: "'x services \<Rightarrow> string \<Rightarrow> attachment_format \<Rightarrow> ('x world, string) op" where
  "htmlToBuffer E html f = bindE (service (html_to_buffer E f html))
     (\<lambda>r. case r of Inl m \<Rightarrow> throw (mk_error Error m) | Inr b \<Rightarrow> ok b)"

fun resolveAttachment :: "'x services \<Rightarrow> attachment_option \<Rightarrow> string \<Rightarrow> js_props \<Rightarrow> ('x world, resolved_attachment) op" where
  "resolveAttachment E (FromEmail f name) html data =
     bindE (htmlToBuffer E html f) (\<lambda>b.
     ok \<lparr>ra_filename = (case name of Some n \<Rightarrow> n | None \<Rightarrow> if f = FormatPdf then ''document.pdf'' else ''document.png''),
         ra_content = b,
         ra_contentType = (if f = FormatPdf then ''application/pdf'' else ''image/png'')\<rparr>)"
| "resolveAttachment E (FileAttachment path name conv) html data =
     (if toLowerCase (extname path) = ''.html'' then
        (case conv of
           None \<Rightarrow> throw (mk_error Error
             (''[sender.attachments] HTML attachments must specify htmlConvertTo format. '' @ ''Missing for file: '' @ path))
         | Some f \<Rightarrow>
             (case renderTemplate E data path of
                Inl e \<Rightarrow> throw e
              | Inr raw \<Rightarrow> bindE (htmlToBuffer E raw f) (\<lambda>b.
                  ok \<lparr>ra_filename = (case name of Some n \<Rightarrow> n | None \<Rightarrow> inferFilename path (Some f)),
                      ra_content = b, ra_contentType = getMimeType path (Some f)\<rparr>)))
      else (case read_file E path of
          None \<Rightarrow> throw (mk_error Error (''[sender.attachments] Could not read file at: '' @ path))
        | Some b \<Rightarrow> ok \<lparr>ra_filename = (case name of Some n \<Rightarrow> n | None \<Rightarrow> inferFilename path None),
                         ra_content = b, ra_contentType = getMimeType path None\<rparr>))"

fun resolve_all :: "'x services \<Rightarrow> attachment_option list \<Rightarrow> string \<Rightarrow> js_props \<Rightarrow> ('x world, resolved_attachment list) op" where
  "resolve_all E [] html data = ok []"
| "resolve_all E (a # as) html data =
     bindE (resolveAttachment E a html data) (\<lambda>r. bindE (resolve_all E as html data) (\<lambda>rs. ok (r # rs)))"

section \<open>Sending\<close>

definition mail_ok :: "string option \<Rightarrow> send_mail_result" where
  "mail_ok i = \<lparr>sm_success = True, sm_messageId = i, sm_error = None\<rparr>"

definition mail_failed :: "string \<Rightarrow> send_mail_result" where
  "mail_failed m = \<lparr>sm_success = False, sm_messageId = None, sm_error = Some m\<rparr>"

fun mail_accepted :: "'a + ('b + 'c) \<Rightarrow> bool" where
  "mail_accepted (Inr (Inr _)) = True"
| "mail_accepted _ = False"

definition resend_mail :: "'x services \<Rightarrow> mail_message \<Rightarrow> ('x world, send_mail_result) op" where
  "resend_mail E msg =
     bindE (ensure (cfg_resendApiKey (cfg E) \<noteq> [])
              (mk_error Error ''[sender.helpers] RESEND_API_KEY is not set in environment variables.'')) (\<lambda>_.
     bindE (service (resend_send E msg)) (\<lambda>r.
     bindE (record_call (CallMail msg) (mail_accepted r)) (\<lambda>_. case r of
         Inl m \<Rightarrow> throw (mk_error Error m)
       | Inr (Inl m) \<Rightarrow> ok (mail_failed m)
       | Inr (Inr i) \<Rightarrow> ok (mail_ok i))))"

definition sendMail :: "'x services \<Rightarrow> string \<Rightarrow> string \<Rightarrow> string option \<Rightarrow> js_props \<Rightarrow> attachment_option list \<Rightarrow> ('x world, send_mail_result) op" where
  "sendMail E path to_addr subject data atts =
     (case renderTemplate E data path of
        Inl e \<Rightarrow> ok (mail_failed (err_message e))
      | Inr html \<Rightarrow>
          bindE (try_catch (bindE (resolve_all E atts html data) (\<lambda>rs. ok (Inr rs)))
                           (\<lambda>e. ok (Inl (err_message e)))) (\<lambda>r. case r of
              Inl m \<Rightarrow> ok (mail_failed m)
            | Inr rs \<Rightarrow>
                try_catch
                  (resend_mail E \<lparr>mm_to = to_addr,
                     mm_subject = (case subject of Some s \<Rightarrow> s | None \<Rightarrow> ''Slan - Notificaci'' @ [CHR 0xF3] @ ''n''),
                     mm_html = html, mm_attachments = rs\<rparr>)
                  (\<lambda>e. ok (mail_failed (err_message e)))))"

datatype PaymentType = External | Internal | Link | Qr

primrec payment_type_str :: "PaymentType \<Rightarrow> string" where
  "payment_type_str External = ''external''"
| "payment_type_str Internal = ''internal''"
| "payment_type_str Link = ''link''"
| "payment_type_str Qr = ''qr''"

text \<open>The path of the template, relative to the root of the repository.\<close>

definition getViewProofOfPaymentTemplate :: "PaymentType \<Rightarrow> string" where
  "getViewProofOfPaymentTemplate t =
     ''public/emails/proofs-of-payment/'' @ payment_type_str t @ ''-proof-of-payment.email.html''"

definition js_get :: "js_props \<Rightarrow> string \<Rightarrow> json option" where
  "js_get data k = (case map_of data k of Some v \<Rightarrow> v | None \<Rightarrow> None)"

text \<open>Setting a property of an object literal after a spread: its place is kept when it is there.\<close>

fun js_set :: "string \<Rightarrow> json option \<Rightarrow> js_props \<Rightarrow> js_props" where
  "js_set k v [] = [(k, v)]"
| "js_set k v ((k', v') # r) = (if k = k' then (k, v) # r else (k', v') # js_set k v r)"

definition sendPaymentProofByEmail :: "'x services \<Rightarrow> PaymentType \<Rightarrow> string \<Rightarrow> js_props \<Rightarrow> attachment_option list \<Rightarrow> ('x world, send_mail_result) op" where
  "sendPaymentProofByEmail E t email payload opts =
     bindE (now E) (\<lambda>d. case format_datetime E d of (date, time) \<Rightarrow>
       sendMail E (getViewProofOfPaymentTemplate t) email None
         (js_set ''timezone'' (Some (nullish_or (js_get payload ''timezone'') (JStr ''CDMX'')))
         (js_set ''time'' (Some (nullish_or (js_get payload ''time'') (JStr time)))
         (js_set ''date'' (Some (nullish_or (js_get payload ''date'') (JStr date))) payload)))
         opts)"

section \<open>Mail never fails the caller\<close>

lemma try_catch_total:
  "(\<And>e s. \<exists>a s'. h e s = (Inr a, s')) \<Longrightarrow> \<exists>a s'. try_catch m h s = (Inr a, s')"
  by (cases "m s") (auto simp: try_catch_def split: sum.split)

lemma sendMail_total: "\<exists>r w'. sendMail E path to_addr subject data atts w = (Inr r, w')"
proof (cases "renderTemplate E data path")
  case (Inr html)
  let ?m = "try_catch (bindE (resolve_all E atts html data) (\<lambda>rs. ok (Inr rs))) (\<lambda>e. ok (Inl (err_message e)))"
  obtain r w1 where r: "?m w = (Inr r, w1)"
    using try_catch_total [of "\<lambda>e. ok (Inl (err_message e))" _ w] by fastforce
  show ?thesis
    by (cases r) (simp_all add: sendMail_def Inr bindE_def [of ?m] r try_catch_total)
qed (simp add: sendMail_def)

lemma sendPaymentProofByEmail_total:
  "\<exists>r w'. sendPaymentProofByEmail E t email payload opts w = (Inr r, w')"
  by (simp add: sendPaymentProofByEmail_def bindE_def now_run sendMail_total split: prod.split)

text \<open>
  A predicate that does not depend on the environment state and is not changed by a mail in the
  trace is kept by all of this module.
\<close>

locale mail_frame =
  fixes P :: "'x world \<Rightarrow> bool"
  assumes env: "P w \<Longrightarrow> P (w\<lparr>ext := x\<rparr>)"
    and mail: "P w \<Longrightarrow> P (w\<lparr>trace := trace w @ [(CallMail m, b)]\<rparr>)"
begin

lemma keeps_serv: "keeps P (service f)"
  by (rule keeps_service) (rule env)

lemma keeps_clock: "keeps P (now E)"
  by (rule keeps_now) (rule env)

lemma keeps_htmlToBuffer: "keeps P (htmlToBuffer E html f)"
  unfolding htmlToBuffer_def by (intro keeps_intros keeps_serv)

lemma keeps_resolveAttachment: "keeps P (resolveAttachment E a html data)"
  by (cases a) (auto intro!: keeps_intros keeps_htmlToBuffer)

lemma keeps_resolve_all: "keeps P (resolve_all E as html data)"
  by (induction as) (auto intro!: keeps_intros keeps_resolveAttachment)

lemma keeps_resend: "keeps P (resend_mail E msg)"
  unfolding resend_mail_def record_call_def
  by (intro keeps_intros keeps_serv keeps_modify) (simp add: mail)

lemma keeps_sendMail: "keeps P (sendMail E path to_addr subject data atts)"
  unfolding sendMail_def by (intro keeps_intros keeps_resolve_all keeps_resend)

lemma keeps_proof: "keeps P (sendPaymentProofByEmail E t email payload opts)"
  unfolding sendPaymentProofByEmail_def by (intro keeps_intros keeps_clock keeps_sendMail)

end

end
