(* ===== verification/Payments.thy ===== *)
theory Payments
  imports Notifications
begin

text \<open>
  Card payments through the Clip provider: \<^verbatim>\<open>utils/payment.utils.ts\<close>, \<^verbatim>\<open>utils/topup.utils.ts\<close>,
  \<^verbatim>\<open>repositories/payment.repository.ts\<close>, \<^verbatim>\<open>services/payment.provider.service.ts\<close>,
  \<^verbatim>\<open>services/topup.backoffice.service.ts\<close> and \<^verbatim>\<open>services/payment.service.ts\<close>. A payment is
  created with its fees, sent to the provider, and completed by the provider's webhook, which
  tops up the user's wallet.
\<close>

section \<open>Fees, statuses and webhook payloads\<close>

record payment_fees =
  pf_businessFeeRate :: jsnum
  pf_businessFeeAmount :: jsnum
  pf_grossAmount :: jsnum
  pf_netAmount :: jsnum

definition calculatePaymentFees :: "config \<Rightarrow> jsnum \<Rightarrow> payment_fees" where
  "calculatePaymentFees c amount =
     (let businessFeeRate = cfg_usdMxnFeeRate c;
          netAmount = amount;
          grossAmount = js_div netAmount (js_sub (Fin 1) businessFeeRate);
          businessFeeAmount = js_sub grossAmount netAmount
      in \<lparr>pf_businessFeeRate = businessFeeRate, pf_businessFeeAmount = businessFeeAmount,
          pf_grossAmount = grossAmount, pf_netAmount = netAmount\<rparr>)"

definition mapClipStatusToInternal :: "string option \<Rightarrow> payments_status" where
  "mapClipStatusToInternal status =
     (let s = map_option toLowerCase status in
      if s \<in> {Some ''approved'', Some ''succeeded'', Some ''completed''} then COMPLETED
      else if s \<in> {Some ''pending'', Some ''in_process'', Some ''authorized''} then PROCESSING
      else if s \<in> {Some ''rejected'', Some ''failed'', Some ''declined''} then FAILED
      else if s \<in> {Some ''cancelled'', Some ''canceled''} then CANCELLED
      else PENDING)"

type_synonym payload = "(string \<times> json) list"

definition first_non_blank :: "json option list \<Rightarrow> string option" where
  "first_non_blank candidates =
     (case List.find non_blank_string candidates of None \<Rightarrow> None | Some c \<Rightarrow> json_string c)"

definition extractClipWebhookPaymentId :: "payload \<Rightarrow> string option" where
  "extractClipWebhookPaymentId p =
     (let v = Some (JObj p); item = jprop v ''item''; data = jprop v ''data'' in
      first_non_blank
        [jprop v ''provider_payment_id'', jprop v ''payment_id'', jprop v ''resource_id'',
         jprop item ''payment_id'', jprop item ''id'', jprop data ''payment_id'', jprop data ''id'',
         jprop v ''id''])"

definition extractClipWebhookStatus :: "payload \<Rightarrow> string option" where
  "extractClipWebhookStatus p =
     (let v = Some (JObj p) in
      first_non_blank [jprop v ''status'', jprop (jprop v ''item'') ''status'', jprop (jprop v ''data'') ''status''])"

section \<open>Values stored in the payload columns\<close>

definition prevention_json :: "prevention_data \<Rightarrow> json" where
  "prevention_json p = jobj [(''session_id'', jstr (prev_session_id p)), (''user_agent'', jstr (prev_user_agent p))]"

definition provider_request_props :: "provider_request \<Rightarrow> (string \<times> json) list" where
  "provider_request_props q = jobject
     [(''amount'', Some (JNum (prq_amount q))), (''currency'', Some (JStr (prq_currency q))),
      (''description'', Some (JStr (prq_description q))),
      (''payment_method'', Some (jobj [(''token'', Some (JStr (prq_token q)))])),
      (''customer'', Some (jobj [(''email'', Some (JStr (prq_email q))),
         (''phone'', Some (case prq_phone q of None \<Rightarrow> JNull | Some s \<Rightarrow> JStr s))])),
      (''prevention_data'', map_option prevention_json (prq_prevention_data q)),
      (''webhook_url'', jstr (prq_webhook_url q))]"

definition provider_card_json :: "provider_card \<Rightarrow> json" where
  "provider_card_json c = jobj
     [(''bin'', Some (JStr (pc_bin c))), (''issuer'', Some (JStr (pc_issuer c))),
      (''name'', Some (JStr (pc_name c))), (''country'', Some (JStr (pc_country c))),
      (''last_digits'', Some (JStr (pc_last_digits c))), (''exp_year'', Some (JStr (pc_exp_year c))),
      (''exp_month'', Some (JStr (pc_exp_month c)))]"

definition provider_payment_props :: "provider_payment \<Rightarrow> (string \<times> json) list" where
  "provider_payment_props p = jobject
     [(''id'', Some (JStr (pp_id p))), (''amount'', Some (JNum (pp_amount p))),
      (''tip_amount'', Some (JNum (pp_tip_amount p))), (''amount_refunded'', Some (JNum (pp_amount_refunded p))),
      (''installment_amount'', Some (JNum (pp_installment_amount p))),
      (''installments'', Some (JNum (pp_installments p))), (''capture_method'', Some (JStr (pp_capture_method p))),
      (''net_amount'', Some (JNum (pp_net_amount p))), (''paid_amount'', Some (JNum (pp_paid_amount p))),
      (''captured_amount'', Some (JNum (pp_captured_amount p))), (''binary_mode'', Some (JBool (pp_binary_mode p))),
      (''approved_at'', jstr (pp_approved_at p)), (''country'', Some (JStr (pp_country p))),
      (''currency'', Some (JStr (pp_currency p))), (''description'', jstr (pp_description p)),
      (''external_reference'', jstr (pp_external_reference p)),
      (''customer'', map_option (\<lambda>c. jobj [(''email'', jstr (pcu_email c)), (''phone'', jstr (pcu_phone c)),
         (''first_name'', jstr (pcu_first_name c)), (''last_name'', jstr (pcu_last_name c))]) (pp_customer p)),
      (''payment_method'', Some (let m = pp_payment_method p in
         jobj [(''id'', Some (JStr (pm_id m))), (''type'', Some (JStr (pm_type m))),
               (''card'', map_option provider_card_json (pm_card m)), (''token'', Some (JStr (pm_token m)))])),
      (''receipt_no'', Some (JStr (pp_receipt_no p))), (''status'', jstr (pp_status p)),
      (''status_detail'', Some (jobj [(''code'', Some (JStr (pp_status_code p))),
                                      (''message'', Some (JStr (pp_status_message p)))])),
      (''pending_action'', map_option (\<lambda>a. jobj [(''type'', Some (JStr (pa_type a))), (''url'', Some (JStr (pa_url a)))]) (pp_pending_action p)),
      (''created_at'', Some (JStr (pp_created_at p))), (''version'', Some (JNum (pp_version p)))]"

definition topup_payload_json :: "topup_payload \<Rightarrow> json" where
  "topup_payload_json t = jobj
     [(''status'', Some (JStr (status_str (tp_status t)))),
      (''externalTransactionId'', Some (JStr (tp_externalTransactionId t))),
      (''amount'', Some (JNum (tp_amount t))), (''balanceId'', Some (jint (tp_balanceId t))),
      (''sourceCustomerID'', Some (jint (tp_sourceCustomerID t))),
      (''response'', map_option ts_body (te_response (tp_extras t))),
      (''note'', jstr (te_note (tp_extras t))), (''error'', jstr (te_error (tp_extras t)))]"

section \<open>Repository\<close>

text \<open>The rows a query with \<^verbatim>\<open>include: { Users: { include: ... } }\<close> joins.\<close>

record payment_with_user =
  pwu_payment :: payment_row
  pwu_user :: user_row
  pwu_authState :: "auth_state_row option"
  pwu_profile :: "profile_row option"

definition missing_relation :: error where
  "missing_relation = mk_error PrismaClientError ''Inconsistent query result: Field Users is required''"

definition with_user :: "payment_row option \<Rightarrow> ('x world, payment_with_user option) op" where
  "with_user p = (case p of
       None \<Rightarrow> ok None
     | Some r \<Rightarrow>
         bindE (gets (\<lambda>w. find_row (\<lambda>u. usr_id u = pay_user_id r) (users w))) (\<lambda>u.
         bindE (require u missing_relation) (\<lambda>u.
         bindE (gets (\<lambda>w. (find_row (\<lambda>a. aus_userId a = usr_id u) (authStates w),
                           find_row (\<lambda>a. prof_userId a = usr_id u) (profiles w)))) (\<lambda>(a, q).
         ok (Some \<lparr>pwu_payment = r, pwu_user = u, pwu_authState = a, pwu_profile = q\<rparr>)))))"

text \<open>
  \<^verbatim>\<open>db.payments.create\<close>: the foreign key on the user and the unique keys on the idempotency
  key and on the provider's identifier are checked, the id is assigned.
\<close>

definition payment_keys_free :: "payment_row \<Rightarrow> payment_row table \<Rightarrow> bool" where
  "payment_keys_free r t \<longleftrightarrow>
     \<not> exists_row (\<lambda>q. pay_id q \<noteq> pay_id r \<and>
         (pay_idempotency_key q = pay_idempotency_key r \<or>
          pay_provider_payment_id r \<noteq> None \<and> pay_provider q = pay_provider r
            \<and> pay_provider_payment_id q = pay_provider_payment_id r)) t"

definition insert_payment :: "(int \<Rightarrow> payment_row) \<Rightarrow> ('x world, payment_row) op" where
  "insert_payment mk =
     bindE (gets (\<lambda>w. mk (next_id (payments w)))) (\<lambda>r.
     bindE (gets (\<lambda>w. exists_row (\<lambda>u. usr_id u = pay_user_id r) (users w))) (\<lambda>u.
     bindE (ensure u foreign_key_violation) (\<lambda>_.
     bindE (gets (\<lambda>w. payment_keys_free r (payments w))) (\<lambda>free.
     bindE (ensure free unique_violation) (\<lambda>_.
     bindE (modify (\<lambda>w. w\<lparr>payments := insert_row r (payments w)\<rparr>)) (\<lambda>_. ok r))))))"

definition update_payment :: "int \<Rightarrow> (payment_row \<Rightarrow> payment_row) \<Rightarrow> ('x world, payment_row) op" where
  "update_payment i f =
     bindE (gets (\<lambda>w. find_row (\<lambda>r. pay_id r = i) (payments w))) (\<lambda>r.
     bindE (require r record_not_found) (\<lambda>r.
     bindE (gets (\<lambda>w. payment_keys_free (f r) (payments w))) (\<lambda>free.
     bindE (ensure free unique_violation) (\<lambda>_.
     bindE (modify (\<lambda>w. w\<lparr>payments := update_rows (\<lambda>r. pay_id r = i) f (payments w)\<rparr>)) (\<lambda>_.
     ok (f r))))))"

definition or_str :: "string option \<Rightarrow> string \<Rightarrow> string" where
  "or_str s d = (case s of None \<Rightarrow> d | Some t \<Rightarrow> if t = [] then d else t)"

definition CLIP :: string where
  "CLIP = ''clip''"

definition PaymentRepository_createPayment :: "'x services \<Rightarrow> int \<Rightarrow> payment_create_request \<Rightarrow> payment_fees \<Rightarrow> string \<Rightarrow> ('x world, payment_row) op" where
  "PaymentRepository_createPayment E userId paymentData fees key =
     bindE (now E) (\<lambda>t.
     bindE (from_sum (store_decimal 10 2 (pcr_amount paymentData))) (\<lambda>amount.
     bindE (from_sum (store_decimal 5 2 (pf_businessFeeRate fees))) (\<lambda>rate.
     bindE (from_sum (store_decimal 10 2 (pf_businessFeeAmount fees))) (\<lambda>fee.
     bindE (from_sum (store_decimal 10 2 (pf_netAmount fees))) (\<lambda>net.
     bindE (from_sum (store_decimal 14 2 (case pcr_netAmountMxn paymentData of Some m \<Rightarrow> m | None \<Rightarrow> pf_netAmount fees))) (\<lambda>mxn.
     insert_payment (\<lambda>i.
       \<lparr>pay_id = i, pay_user_id = userId, pay_order_id = None, pay_provider = CLIP,
        pay_provider_payment_id = None, pay_amount = amount,
        pay_currency = (case pcr_currency paymentData of Some c \<Rightarrow> c | None \<Rightarrow> ''MXN''),
        pay_description = Some (or_str (pcr_description paymentData) ''Payment via banking app''),
        pay_business_fee_rate = rate, pay_business_fee_amount = fee, pay_net_amount = net,
        pay_net_amount_mxn = Some mxn, pay_status = PENDING, pay_payment_method = ''card'',
        pay_idempotency_key = key, pay_request_payload = None, pay_response_payload = None,
        pay_created_at = to_seconds t, pay_updated_at = to_seconds t\<rparr>)))))))"

definition getPaymentById :: "int \<Rightarrow> ('x world, payment_with_user option) op" where
  "getPaymentById i = bindE (gets (\<lambda>w. find_row (\<lambda>r. pay_id r = i) (payments w))) with_user"

definition getPaymentByProviderPaymentId :: "string \<Rightarrow> string \<Rightarrow> ('x world, payment_with_user option) op" where
  "getPaymentByProviderPaymentId provider ppid =
     bindE (gets (\<lambda>w. find_row (\<lambda>r. pay_provider r = provider \<and> pay_provider_payment_id r = Some ppid) (payments w)))
       with_user"

text \<open>
  The update writes both payload columns every time: a payload that is not given is stored as
  the empty object its spread yields. The date computed for \<^verbatim>\<open>updated_at\<close> is not written.
\<close>

definition updatePaymentStatus :: "int \<Rightarrow> payments_status \<Rightarrow> string option \<Rightarrow> provider_payment option \<Rightarrow> provider_request option \<Rightarrow> ('x world, payment_row) op" where
  "updatePaymentStatus i status ppid response request =
     update_payment i (\<lambda>r. r\<lparr>pay_status := status,
       pay_provider_payment_id := (if truthy_str ppid then ppid else pay_provider_payment_id r),
       pay_request_payload := Some (JObj (case request of None \<Rightarrow> [] | Some q \<Rightarrow> provider_request_props q)),
       pay_response_payload := Some (JObj (case response of None \<Rightarrow> [] | Some p \<Rightarrow> provider_payment_props p))\<rparr>)"

definition merged_payload :: "json option \<Rightarrow> provider_payment option \<Rightarrow> payload option \<Rightarrow> topup_payload option \<Rightarrow> json" where
  "merged_payload current provider webhook topup =
     JObj (set_props (jobject
       [(''providerPayment'', map_option (\<lambda>p. JObj (provider_payment_props p)) provider),
        (''clipWebhook'', map_option JObj webhook),
        (''topup'', map_option topup_payload_json topup)]) (own_props current))"

definition mergeWebhookProcessingResult :: "'x services \<Rightarrow> int \<Rightarrow> payments_status \<Rightarrow> provider_payment option \<Rightarrow> payload option \<Rightarrow> topup_payload option \<Rightarrow> ('x world, payment_row) op" where
  "mergeWebhookProcessingResult E i status provider webhook topup =
     bindE (gets (\<lambda>w. find_row (\<lambda>r. pay_id r = i) (payments w))) (\<lambda>existing.
     bindE (now E) (\<lambda>t.
     update_payment i (\<lambda>r. r\<lparr>pay_status := status,
       pay_response_payload := Some (merged_payload
         (case existing of None \<Rightarrow> None | Some q \<Rightarrow> pay_response_payload q) provider webhook topup),
       pay_updated_at := to_seconds t\<rparr>)))"

text \<open>
  \<^verbatim>\<open>GET_LOCK\<close> waits five seconds and then gives up: it succeeds when no other session holds the
  lock. \<^verbatim>\<open>RELEASE_LOCK\<close> frees it.
\<close>

definition acquirePaymentLock :: "string \<Rightarrow> ('x world, bool) op" where
  "acquirePaymentLock name =
     bindE (gets (\<lambda>w. \<not> List.member (locks w) name)) (\<lambda>free.
     if free then bindE (modify (\<lambda>w. w\<lparr>locks := name # locks w\<rparr>)) (\<lambda>_. ok True) else ok False)"

definition releasePaymentLock :: "string \<Rightarrow> ('x world, unit) op" where
  "releasePaymentLock name = modify (\<lambda>w. w\<lparr>locks := remove1 name (locks w)\<rparr>)"

section \<open>Calls to the provider and to the wallet\<close>

definition PaymentProviderService_processPayment :: "'x services \<Rightarrow> provider_request \<Rightarrow> ('x world, provider_payment) op" where
  "PaymentProviderService_processPayment E q = remote (CallPay q) (api_pay E q) payment_error"

definition PaymentProviderService_getPaymentDetails :: "'x services \<Rightarrow> string \<Rightarrow> ('x world, provider_payment) op" where
  "PaymentProviderService_getPaymentDetails E i = remote (CallPaymentDetails i) (api_payment_details E i) payment_error"

definition topUp :: "'x services \<Rightarrow> topup_request \<Rightarrow> ('x world, topup_response) op" where
  "topUp E q = remote (CallTopUp q) (api_topup E q) backoffice_error"

text \<open>
  \<^verbatim>\<open>buildTopupRequestFromPayment\<close>: the wallet of the user, from the auth state or else from the
  profile. Both are asserted to exist, so a missing one is a \<^verbatim>\<open>TypeError\<close>.
\<close>

definition nullish_field :: "int option \<Rightarrow> 'p option \<Rightarrow> ('p \<Rightarrow> int option) \<Rightarrow> ('s, int option) op" where
  "nullish_field v p f = (case v of Some n \<Rightarrow> ok (Some n) | None \<Rightarrow> bindE (deref p) (\<lambda>q. ok (f q)))"

definition truthy_int :: "int option \<Rightarrow> bool" where
  "truthy_int n \<longleftrightarrow> n \<noteq> None \<and> n \<noteq> Some 0"

definition topup_amount :: "payment_row \<Rightarrow> rat" where
  "topup_amount p = (case pay_net_amount_mxn p of Some m \<Rightarrow> m | None \<Rightarrow> pay_net_amount p)"

definition buildTopupRequestFromPayment :: "payment_with_user \<Rightarrow> ('s, topup_request) op" where
  "buildTopupRequestFromPayment pu =
     bindE (deref (pwu_authState pu)) (\<lambda>authState.
     bindE (nullish_field (aus_ewalletId authState) (pwu_profile pu) prof_ewallet_id) (\<lambda>ewalletId.
     bindE (nullish_field (aus_externalCustomerId authState) (pwu_profile pu) prof_external_customer_id) (\<lambda>externalCustomerId.
     bindE (ensure (truthy_int ewalletId \<and> truthy_int externalCustomerId)
              (mk_error BadRequestError ''User backoffice data is incomplete for topup'')) (\<lambda>_.
     ok \<lparr>tr_externalTransactionId = pay_idempotency_key (pwu_payment pu), tr_balanceId = the ewalletId,
         tr_amount = decimal_toNumber (topup_amount (pwu_payment pu)), tr_sourceCustomerID = the externalCustomerId\<rparr>))))"

definition no_extras :: topup_extras where
  "no_extras = \<lparr>te_response = None, te_note = None, te_error = None\<rparr>"

definition buildTopupPayloadFromRequest :: "topup_request \<Rightarrow> payments_status \<Rightarrow> topup_extras \<Rightarrow> topup_payload" where
  "buildTopupPayloadFromRequest q status extras =
     \<lparr>tp_status = status, tp_externalTransactionId = tr_externalTransactionId q, tp_amount = tr_amount q,
      tp_balanceId = tr_balanceId q, tp_sourceCustomerID = tr_sourceCustomerID q, tp_extras = extras\<rparr>"

section \<open>Payment service\<close>

definition createPayment :: "'x services \<Rightarrow> int \<Rightarrow> payment_create_request \<Rightarrow> ('x world, payment_create_response) op" where
  "createPayment E userId paymentData =
     (let fees = calculatePaymentFees (cfg E) (pcr_amount paymentData) in
      bindE (service (random_uuid E)) (\<lambda>idempotencyKey.
      bindE (PaymentRepository_createPayment E userId (paymentData\<lparr>pcr_amount := pf_grossAmount fees\<rparr>) fees idempotencyKey) (\<lambda>payment.
      ok \<lparr>pcs_paymentId = string_of_int (pay_id payment),
          pcs_amount = decimal_toNumber (pay_amount payment),
          pcs_currency = pay_currency payment,
          pcs_description = (if truthy_str (pay_description payment) then pay_description payment else None),
          pcs_status = pay_status payment,
          pcs_paymentUrl = cfg_apiUrl (cfg E) @ ''/public/checkout.html'' @ ''?paymentId='' @ string_of_int (pay_id payment),
          pcs_createdAt = pay_created_at payment\<rparr>)))"

definition mapClipStatusBeforeWebhook :: "string option \<Rightarrow> payments_status" where
  "mapClipStatusBeforeWebhook status =
     (let finalStatus = mapClipStatusToInternal status
      in if finalStatus = COMPLETED then PROCESSING else finalStatus)"

text \<open>
  \<^verbatim>\<open>mapToClientResponse\<close> reads the card and the pending action before it tests whether they are
  there.
\<close>

definition mapToClientResponse :: "provider_payment \<Rightarrow> payments_status option \<Rightarrow> ('s, payment_client_response) op" where
  "mapToClientResponse p override =
     bindE (deref (pm_card (pp_payment_method p))) (\<lambda>card.
     bindE (deref (pp_pending_action p)) (\<lambda>action.
     ok \<lparr>pcl_paymentId = pp_id p, pcl_amount = pp_amount p, pcl_currency = pp_currency p,
         pcl_status = (case override of Some s \<Rightarrow> s | None \<Rightarrow> mapClipStatusToInternal (pp_status p)),
         pcl_statusMessage = pp_status_message p, pcl_receiptNo = pp_receipt_no p,
         pcl_approvedAt = pp_approved_at p,
         pcl_card = Some \<lparr>cs_lastDigits = pc_last_digits card, cs_type = pm_type (pp_payment_method p), cs_issuer = pc_issuer card\<rparr>,
         pcl_pendingAction = Some action\<rparr>))"

definition provider_request_for :: "config \<Rightarrow> payment_with_user \<Rightarrow> process_payment_request \<Rightarrow> provider_request" where
  "provider_request_for c pu d =
     (let p = pwu_payment pu in
      \<lparr>prq_amount = decimal_toNumber (pay_amount p), prq_currency = pay_currency p,
       prq_description = or_str (pay_description p) ''Payment via banking app'',
       prq_token = ppr_card_token d, prq_email = usr_email (pwu_user pu), prq_phone = usr_phone (pwu_user pu),
       prq_prevention_data = ppr_prevention_data d,
       prq_webhook_url = (if cfg_apiUrl c \<noteq> [] then
         Some (cfg_apiUrl c @ ''/api/v'' @ cfg_version c @ ''/webhooks/clip/payment'') else None)\<rparr>)"

definition processPayment :: "'x services \<Rightarrow> int \<Rightarrow> process_payment_request \<Rightarrow> ('x world, payment_client_response) op" where
  "processPayment E paymentId paymentData =
     bindE (getPaymentById paymentId) (\<lambda>dbPayment.
     bindE (require dbPayment (mk_error BadRequestError ''Payment not found'')) (\<lambda>dbPayment.
     bindE (ensure (pay_status (pwu_payment dbPayment) = PENDING)
              (mk_error BadRequestError ''Payment has already been processed'')) (\<lambda>_.
     let providerRequest = provider_request_for (cfg E) dbPayment paymentData in
     bindE (updatePaymentStatus paymentId PENDING None None (Some providerRequest)) (\<lambda>_.
     bindE (PaymentProviderService_processPayment E providerRequest) (\<lambda>payment.
     let preWebhookStatus = mapClipStatusBeforeWebhook (pp_status payment) in
     bindE (updatePaymentStatus paymentId preWebhookStatus (Some (pp_id payment)) (Some payment) None) (\<lambda>_.
     mapToClientResponse payment (Some preWebhookStatus)))))))"

definition getPaymentDetails :: "'x services \<Rightarrow> string \<Rightarrow> ('x world, payment_client_response) op" where
  "getPaymentDetails E paymentId =
     bindE (PaymentProviderService_getPaymentDetails E paymentId) (\<lambda>payment. mapToClientResponse payment None)"

definition verifyPaymentStatus :: "'x services \<Rightarrow> int \<Rightarrow> ('x world, payment_client_response) op" where
  "verifyPaymentStatus E dbPaymentId =
     bindE (getPaymentById dbPaymentId) (\<lambda>dbPayment.
     bindE (require dbPayment (mk_error BadRequestError ''Payment not found'')) (\<lambda>dbPayment.
     bindE (ensure (truthy_str (pay_provider_payment_id (pwu_payment dbPayment)))
              (mk_error BadRequestError ''Payment has not been submitted to provider yet'')) (\<lambda>_.
     bindE (PaymentProviderService_getPaymentDetails E (the (pay_provider_payment_id (pwu_payment dbPayment)))) (\<lambda>payment.
     let preWebhookStatus = mapClipStatusBeforeWebhook (pp_status payment) in
     bindE (updatePaymentStatus dbPaymentId preWebhookStatus (Some (pp_id payment)) (Some payment) None) (\<lambda>_.
     mapToClientResponse payment (Some preWebhookStatus))))))"

definition hasCompletedTopup :: "json option \<Rightarrow> bool" where
  "hasCompletedTopup v \<longleftrightarrow> jprop (jprop v ''topup'') ''status'' = Some (JStr (status_str COMPLETED))"

section \<open>Clip webhook\<close>

definition proof_attachments :: "attachment_option list" where
  "proof_attachments = [FromEmail FormatImage (Some ''comprobante.png'')]"

definition string_or_undefined :: "string option \<Rightarrow> string" where
  "string_or_undefined s = (case s of Some t \<Rightarrow> t | None \<Rightarrow> ''undefined'')"

definition clip_receipt :: "payment_row \<Rightarrow> provider_payment \<Rightarrow> ('s, js_props) op" where
  "clip_receipt p pp =
     bindE (deref (pp_customer pp)) (\<lambda>c.
     ok [(''amount'', Some (JNum (pp_amount pp))), (''currency'', Some (JStr (pp_currency pp))),
         (''reference'', Some (JStr (string_of_int (pay_id p)))),
         (''recipient'', Some (JStr (string_or_undefined (pcu_first_name c) @ '' '' @ string_or_undefined (pcu_last_name c))))])"

definition clip_response :: "string \<Rightarrow> payment_row \<Rightarrow> payments_status \<Rightarrow> bool \<Rightarrow> string option \<Rightarrow> clip_webhook_response" where
  "clip_response ppid p status triggered externalId =
     \<lparr>cw_providerPaymentId = ppid, cw_paymentId = string_of_int (pay_id p), cw_status = status,
      cw_topupTriggered = triggered, cw_topupExternalTransactionId = externalId\<rparr>"

text \<open>The text a decimal is printed with in a template literal.\<close>

definition decimal_str :: "rat \<Rightarrow> string" where
  "decimal_str d = js_num_str (to_double d)"

definition clip_notification :: "payment_row \<Rightarrow> provider_payment \<Rightarrow> notification_payload" where
  "clip_notification p pp =
     \<lparr>np_title = ''Dep'' @ [CHR 0xF3] @ ''sito recibido'',
      np_body = ''Se acreditaron $'' @ decimal_str (topup_amount p) @ '' '' @ pp_currency pp @ '' a tu cuenta'',
      np_data = Some [(''type'', ''clip_topup''), (''paymentId'', string_of_int (pay_id p))]\<rparr>"

text \<open>The \<^verbatim>\<open>try\<close> block around the top-up and its \<^verbatim>\<open>catch\<close>.\<close>

definition clip_topup :: "'x services \<Rightarrow> string \<Rightarrow> payload \<Rightarrow> payment_with_user \<Rightarrow> provider_payment \<Rightarrow> js_props \<Rightarrow> topup_request \<Rightarrow> ('x world, clip_webhook_response) op" where
  "clip_topup E ppid payload locked pp receipt q =
     (let p = pwu_payment locked;
          merge = (\<lambda>status extras. mergeWebhookProcessingResult E (pay_id p) COMPLETED (Some pp) (Some payload)
                     (Some (buildTopupPayloadFromRequest q status extras)))
      in try_catch
        (bindE (topUp E q) (\<lambda>topupResponse.
         bindE (merge COMPLETED (no_extras\<lparr>te_response := Some topupResponse\<rparr>)) (\<lambda>_.
         bindE (sendPaymentProofByEmail E Link (usr_email (pwu_user locked)) receipt proof_attachments) (\<lambda>_.
         bindE (sendToUser E (pay_user_id p) (clip_notification p pp)) (\<lambda>_.
         ok (clip_response ppid p COMPLETED True (Some (tr_externalTransactionId q))))))))
        (\<lambda>e. if err_class e = ConflictError then
               bindE (merge COMPLETED (no_extras\<lparr>te_note := Some ''Topup conflict treated as idempotent duplicate''\<rparr>)) (\<lambda>_.
               ok (clip_response ppid p COMPLETED False (Some (tr_externalTransactionId q))))
             else
               bindE (merge FAILED (no_extras\<lparr>te_error := Some (err_message e)\<rparr>)) (\<lambda>_. throw e)))"

text \<open>The work done under the lock, on the payment read again.\<close>

definition clip_process :: "'x services \<Rightarrow> string \<Rightarrow> payload \<Rightarrow> payment_with_user \<Rightarrow> ('x world, clip_webhook_response) op" where
  "clip_process E ppid payload locked =
     (let p = pwu_payment locked in
     bindE (PaymentProviderService_getPaymentDetails E ppid) (\<lambda>pp.
     let internalStatus = mapClipStatusToInternal (pp_status pp) in
     bindE (clip_receipt p pp) (\<lambda>receipt.
     if internalStatus \<noteq> COMPLETED then
       bindE (mergeWebhookProcessingResult E (pay_id p) internalStatus (Some pp) (Some payload) None) (\<lambda>_.
       bindE (sendPaymentProofByEmail E Link (usr_email (pwu_user locked)) receipt proof_attachments) (\<lambda>_.
       ok (clip_response ppid p internalStatus False None)))
     else
       bindE (mergeWebhookProcessingResult E (pay_id p) COMPLETED (Some pp) (Some payload) None) (\<lambda>_.
       if hasCompletedTopup (pay_response_payload p) then
         ok (clip_response ppid p COMPLETED False (Some (pay_idempotency_key p)))
       else
         bindE (buildTopupRequestFromPayment locked) (\<lambda>q.
         clip_topup E ppid payload locked pp receipt q)))))"

definition clip_locked :: "'x services \<Rightarrow> string \<Rightarrow> payload \<Rightarrow> ('x world, clip_webhook_response) op" where
  "clip_locked E ppid payload =
     bindE (getPaymentByProviderPaymentId CLIP ppid) (\<lambda>lockedPayment.
     bindE (require lockedPayment (mk_error NotFoundError ''Payment not found for Clip webhook'')) (\<lambda>locked.
     clip_process E ppid payload locked))"

definition handleClipWebhook :: "'x services \<Rightarrow> payload \<Rightarrow> ('x world, clip_webhook_response) op" where
  "handleClipWebhook E payload =
     bindE (require (extractClipWebhookPaymentId payload)
              (mk_error BadRequestError ''Clip webhook does not include a payment identifier'')) (\<lambda>ppid.
     bindE (getPaymentByProviderPaymentId CLIP ppid) (\<lambda>dbPayment.
     bindE (require dbPayment (mk_error NotFoundError ''Payment not found for Clip webhook'')) (\<lambda>dbPayment.
     let lockName = pay_idempotency_key (pwu_payment dbPayment) in
     bindE (acquirePaymentLock lockName) (\<lambda>lockAcquired.
     bindE (ensure lockAcquired (mk_error ConflictError ''Clip webhook is already being processed'')) (\<lambda>_.
     try_finally (clip_locked E ppid payload) (releasePaymentLock lockName))))))"

end
