(* ===== verification/PaymentProofs.thy ===== *)
theory PaymentProofs
  imports Payments
begin

text \<open>
  What the card payments guarantee: the keys of the payments table stay unique, the webhook tops
  up a wallet at most once per payment and only when the provider confirms the payment, the lock
  it takes is always given back, and no other operation completes a payment.
\<close>

section \<open>Facts about the repository\<close>

text \<open>
  The keys of the table: ids are distinct and below the counter, and no two rows share an
  idempotency key or a provider's identifier.
\<close>

definition payments_wf :: "payment_row table \<Rightarrow> bool" where
  "payments_wf t \<longleftrightarrow> distinct (map pay_id (rows t)) \<and> (\<forall>r \<in> set (rows t). pay_id r < next_id t \<and> payment_keys_free r t)"

lemma payments_wf_id_inj:
  "payments_wf t \<Longrightarrow> r \<in> set (rows t) \<Longrightarrow> q \<in> set (rows t) \<Longrightarrow> pay_id r = pay_id q \<Longrightarrow> r = q"
  by (auto simp: payments_wf_def distinct_map inj_on_def)

lemma payments_wf_key_inj:
  "payments_wf t \<Longrightarrow> r \<in> set (rows t) \<Longrightarrow> q \<in> set (rows t) \<Longrightarrow>
   pay_idempotency_key r = pay_idempotency_key q \<Longrightarrow> pay_id r = pay_id q"
  by (auto simp: payments_wf_def payment_keys_free_def exists_row_def list_ex_iff)

text \<open>An update that leaves the keys of a row alone.\<close>

definition same_keys :: "payment_row \<Rightarrow> payment_row \<Rightarrow> bool" where
  "same_keys r q \<longleftrightarrow> pay_id q = pay_id r \<and> pay_idempotency_key q = pay_idempotency_key r
     \<and> pay_provider q = pay_provider r \<and> pay_provider_payment_id q = pay_provider_payment_id r"

lemma keys_free_same:
  "same_keys r q \<Longrightarrow> payment_keys_free q t = payment_keys_free r t"
  by (simp add: same_keys_def payment_keys_free_def)

lemma keys_free_update:
  assumes f: "\<And>r. same_keys r (f r)"
  shows "payment_keys_free r (update_rows p f t) = payment_keys_free r t"
proof -
  have "pay_id (if p q then f q else q) = pay_id q"
    "pay_idempotency_key (if p q then f q else q) = pay_idempotency_key q"
    "pay_provider (if p q then f q else q) = pay_provider q"
    "pay_provider_payment_id (if p q then f q else q) = pay_provider_payment_id q" for q
    using f [of q] by (auto simp: same_keys_def)
  then show ?thesis
    by (simp add: payment_keys_free_def exists_row_update)
qed

lemma payments_wf_update:
  assumes "payments_wf t" and f: "\<And>r. same_keys r (f r)"
  shows "payments_wf (update_rows p f t)"
proof -
  have ids: "map pay_id (rows (update_rows p f t)) = map pay_id (rows t)"
    using f by (auto simp: rows_update_rows same_keys_def)
  have nx: "next_id (update_rows p f t) = next_id t" by (simp add: update_rows_def)
  have "pay_id q < next_id t \<and> payment_keys_free q t" if "q \<in> set (rows (update_rows p f t))" for q
  proof -
    from that obtain r where r: "r \<in> set (rows t)" "q = (if p r then f r else r)"
      by (auto simp: rows_update_rows)
    then have k: "same_keys r q" using f by (auto simp: same_keys_def)
    from r(1) assms(1) have "pay_id r < next_id t" "payment_keys_free r t"
      by (auto simp: payments_wf_def)
    with k show ?thesis using keys_free_same [OF k, of t] by (simp add: same_keys_def)
  qed
  with assms(1) show ?thesis
    by (simp add: payments_wf_def ids nx keys_free_update [OF f])
qed

lemma payments_wf_insert:
  assumes "payments_wf t" and "pay_id r = next_id t" and "payment_keys_free r t"
  shows "payments_wf (insert_row r t)"
proof -
  have new: "\<not> (pay_id q = pay_id r)" if "q \<in> set (rows t)" for q
    using that assms(1,2) by (auto simp: payments_wf_def)
  have free: "payment_keys_free q (insert_row r t)" if q: "q \<in> set (rows t)" for q
  proof -
    from q assms(1) have "payment_keys_free q t" by (simp add: payments_wf_def)
    moreover have "\<not> (pay_idempotency_key r = pay_idempotency_key q \<or> pay_provider_payment_id q \<noteq> None \<and>
        pay_provider r = pay_provider q \<and> pay_provider_payment_id r = pay_provider_payment_id q)"
      using assms(3) q new [OF q] by (auto simp: payment_keys_free_def exists_row_def list_ex_iff)
    ultimately show ?thesis
      by (simp add: payment_keys_free_def exists_row_def rows_insert_row list_ex_iff)
  qed
  have "payment_keys_free r (insert_row r t)"
    using assms(3) by (simp add: payment_keys_free_def exists_row_def rows_insert_row)
  with assms free new show ?thesis
    by (auto simp: payments_wf_def rows_insert_row insert_row_def)
qed

lemma find_payment:
  "payments_wf t \<Longrightarrow> find_row (\<lambda>r. pay_id r = j) t = Some r \<longleftrightarrow> r \<in> set (rows t) \<and> pay_id r = j"
  using find_distinct_key [of pay_id "rows t" r]
  by (auto simp: payments_wf_def find_row_def dest: find_Some_mem)

lemma update_payment_run:
  assumes "payments_wf (payments w)" and "r \<in> set (rows (payments w))" and "pay_id r = j"
    and "\<And>q. same_keys q (f q)"
  shows "update_payment j f w = (Inr (f r), w\<lparr>payments := update_rows (\<lambda>r. pay_id r = j) f (payments w)\<rparr>)"
proof -
  have "find_row (\<lambda>r. pay_id r = j) (payments w) = Some r" using assms by (simp add: find_payment)
  moreover have "payment_keys_free (f r) (payments w)"
    using assms keys_free_same [OF assms(4), of r "payments w"] by (simp add: payments_wf_def)
  ultimately show ?thesis by (simp add: update_payment_def bindE_def require_run ensure_run)
qed

definition merge_row :: "payments_status \<Rightarrow> json \<Rightarrow> int \<Rightarrow> payment_row \<Rightarrow> payment_row" where
  "merge_row status v t r = r\<lparr>pay_status := status, pay_response_payload := Some v, pay_updated_at := to_seconds t\<rparr>"

lemma same_keys_merge_row: "same_keys r (merge_row status v t r)"
  by (simp add: same_keys_def merge_row_def)

lemma merge_row_fold:
  "(\<lambda>r. r\<lparr>pay_status := status, pay_response_payload := Some v, pay_updated_at := to_seconds t\<rparr>) = merge_row status v t"
  by (simp add: fun_eq_iff merge_row_def)

lemma merge_run:
  assumes "payments_wf (payments w)" and "r \<in> set (rows (payments w))" and "pay_id r = j"
  shows "mergeWebhookProcessingResult E j status provider webhook topup w =
    (let v = merged_payload (pay_response_payload r) provider webhook topup; t = fst (clock E (ext w))
     in (Inr (merge_row status v t r), w\<lparr>ext := snd (clock E (ext w)),
           payments := update_rows (\<lambda>q. pay_id q = j) (merge_row status v t) (payments w)\<rparr>))"
proof -
  have "find_row (\<lambda>r. pay_id r = j) (payments w) = Some r" using assms by (simp add: find_payment)
  then show ?thesis
    using update_payment_run [of "w\<lparr>ext := snd (clock E (ext w))\<rparr>" r j "merge_row status
        (merged_payload (pay_response_payload r) provider webhook topup) (fst (clock E (ext w)))"] assms
    by (simp add: mergeWebhookProcessingResult_def bindE_def now_run Let_def merge_row_fold same_keys_merge_row)
qed

text \<open>Merging keeps the stored top-up unless it writes one.\<close>

lemma hasCompletedTopup_merged:
  "hasCompletedTopup (Some (merged_payload current provider webhook topup)) =
     (case topup of None \<Rightarrow> hasCompletedTopup current | Some t \<Rightarrow> tp_status t = COMPLETED)"
proof -
  have own: "jprop current k = map_of (own_props current) k" for k
    by (cases current; cases "the current") auto
  have "(case topup of None \<Rightarrow> jprop current ''topup'' | Some t \<Rightarrow> Some (topup_payload_json t))
      = jprop (Some (merged_payload current provider webhook topup)) ''topup''"
    by (cases provider; cases webhook; cases topup) (simp_all add: merged_payload_def map_of_set_prop own)
  then have "hasCompletedTopup (Some (merged_payload current provider webhook topup)) =
      (jprop (case topup of None \<Rightarrow> jprop current ''topup'' | Some t \<Rightarrow> Some (topup_payload_json t)) ''status''
         = Some (JStr (status_str COMPLETED)))"
    by (simp add: hasCompletedTopup_def)
  also have "\<dots> = (case topup of None \<Rightarrow> hasCompletedTopup current | Some t \<Rightarrow> tp_status t = COMPLETED)"
  proof (cases topup)
    case None
    then show ?thesis by (simp add: hasCompletedTopup_def)
  next
    case (Some t)
    then show ?thesis by (cases "tp_status t") (simp_all add: topup_payload_json_def jobj_def)
  qed
  finally show ?thesis .
qed

section \<open>A payment is topped up at most once by webhooks\<close>

text \<open>
  For the payment with id \<^verbatim>\<open>i\<close> and idempotency key \<^verbatim>\<open>K\<close>: the marker is the completed top-up in
  its response payload, the counter the number of successful wallet top-ups made with its key.
\<close>

fun topup_done :: "string \<Rightarrow> call \<times> bool \<Rightarrow> bool" where
  "topup_done K (CallTopUp q, b) \<longleftrightarrow> b \<and> tr_externalTransactionId q = K"
| "topup_done K _ \<longleftrightarrow> False"

definition topups :: "string \<Rightarrow> 'x world \<Rightarrow> nat" where
  "topups K w = length (filter (topup_done K) (trace w))"

definition topup_marked :: "int \<Rightarrow> 'x world \<Rightarrow> bool" where
  "topup_marked i w \<longleftrightarrow> list_ex (\<lambda>r. pay_id r = i \<and> hasCompletedTopup (pay_response_payload r)) (rows (payments w))"

definition clip_inv :: "int \<Rightarrow> string \<Rightarrow> 'x world \<Rightarrow> bool" where
  "clip_inv i K w \<longleftrightarrow> payments_wf (payments w)
     \<and> list_ex (\<lambda>r. pay_id r = i \<and> pay_idempotency_key r = K) (rows (payments w))"

definition clip_phase :: "int \<Rightarrow> string \<Rightarrow> bool \<Rightarrow> nat \<Rightarrow> 'x world \<Rightarrow> bool" where
  "clip_phase i K m n w \<longleftrightarrow> clip_inv i K w \<and> topup_marked i w = m \<and> topups K w = n"

text \<open>The same, with a payment \<^verbatim>\<open>j\<close> that is known to be in the table.\<close>

definition clip_at :: "int \<Rightarrow> string \<Rightarrow> int \<Rightarrow> bool \<Rightarrow> nat \<Rightarrow> 'x world \<Rightarrow> bool" where
  "clip_at i K j m n w \<longleftrightarrow> clip_phase i K m n w \<and> exists_row (\<lambda>r. pay_id r = j) (payments w)"

lemmas clip_defs = clip_at_def clip_phase_def clip_inv_def topup_marked_def topups_def

interpretation clip: push_frame "clip_at i K j m n" for i K j m n
  by unfold_locales (simp_all add: clip_defs)

lemma clip_lock: "clip_at i K j m n (w\<lparr>locks := l\<rparr>) = clip_at i K j m n w"
  by (simp add: clip_defs)

text \<open>What is known of a payment read from the table, whatever happens to the table afterwards.\<close>

definition clip_read :: "int \<Rightarrow> string \<Rightarrow> bool \<Rightarrow> payment_row \<Rightarrow> bool" where
  "clip_read i K m r \<longleftrightarrow>
     (if pay_id r = i then pay_idempotency_key r = K \<and> hasCompletedTopup (pay_response_payload r) = m
      else pay_idempotency_key r \<noteq> K)"

lemma clip_read_row:
  assumes "clip_phase i K m n w" and r: "r \<in> set (rows (payments w))"
  shows "clip_read i K m r"
proof -
  from assms(1) obtain q where wf: "payments_wf (payments w)" and
    q: "q \<in> set (rows (payments w))" "pay_id q = i" "pay_idempotency_key q = K" and
    m: "topup_marked i w = m"
    by (auto simp: clip_defs list_ex_iff)
  have u: "r' = q" if "r' \<in> set (rows (payments w))" "pay_id r' = i" for r'
    using payments_wf_id_inj [OF wf that(1) q(1)] that(2) q(2) by simp
  show ?thesis
  proof (cases "pay_id r = i")
    case True
    with r have "r = q" by (rule u)
    moreover have "topup_marked i w = hasCompletedTopup (pay_response_payload q)"
      using q by (auto simp: topup_marked_def list_ex_iff dest: u)
    ultimately show ?thesis using q m by (simp add: clip_read_def)
  next
    case False
    then have "pay_idempotency_key r \<noteq> K" using payments_wf_key_inj [OF wf r q(1)] q by auto
    with False show ?thesis by (simp add: clip_read_def)
  qed
qed

lemma with_user_state: "snd (with_user p w) = w"
  by (simp add: with_user_def bindE_def require_run split: option.split)

lemma with_user_result:
  "with_user p w = (r, w') \<Longrightarrow> w' = w \<and> (\<forall>a. r = Inr (Some a) \<longrightarrow> p = Some (pwu_payment a))"
  by (auto simp: with_user_def bindE_def require_run split: option.splits)

lemma spec_find_clip:
  "spec (clip_phase i K m n) (getPaymentByProviderPaymentId provider ppid)
     (\<lambda>res w. clip_phase i K m n w \<and> (\<forall>a. res = Some a \<longrightarrow>
        clip_read i K m (pwu_payment a) \<and> clip_at i K (pay_id (pwu_payment a)) m n w))
     (\<lambda>_. clip_phase i K m n)"
proof (rule specI)
  fix w :: "'a world" assume P: "clip_phase i K m n w"
  let ?p = "find_row (\<lambda>r. pay_provider r = provider \<and> pay_provider_payment_id r = Some ppid) (payments w)"
  obtain r w' where rw: "with_user ?p w = (r, w')" by fastforce
  have run: "getPaymentByProviderPaymentId provider ppid w = (r, w')"
    by (simp add: getPaymentByProviderPaymentId_def bindE_def rw)
  have "clip_read i K m (pwu_payment a) \<and> clip_at i K (pay_id (pwu_payment a)) m n w"
    if "r = Inr (Some a)" for a
  proof -
    from with_user_result [OF rw] that have "?p = Some (pwu_payment a)" by simp
    then have mem: "pwu_payment a \<in> set (rows (payments w))" using find_row_mem by fastforce
    with clip_read_row [OF P] P show ?thesis
      by (auto simp: clip_at_def exists_row_def list_ex_iff)
  qed
  with P with_user_result [OF rw] run show "case getPaymentByProviderPaymentId provider ppid w of
      (Inr res, w) \<Rightarrow> clip_phase i K m n w \<and> (\<forall>a. res = Some a \<longrightarrow>
        clip_read i K m (pwu_payment a) \<and> clip_at i K (pay_id (pwu_payment a)) m n w)
    | (Inl e, w) \<Rightarrow> clip_phase i K m n w"
    by (cases r) auto
qed

text \<open>The marker after a merge: what the merge writes for its own payment, unchanged for the others.\<close>

lemma clip_merge:
  "spec (clip_at i K j m n) (mergeWebhookProcessingResult E j status provider webhook topup)
     (\<lambda>_. clip_at i K j (case topup of Some t \<Rightarrow> if j = i then tp_status t = COMPLETED else m | None \<Rightarrow> m) n)
     (\<lambda>_ _. False)"
proof (rule specI)
  fix w :: "'a world" assume P: "clip_at i K j m n w"
  then have wf: "payments_wf (payments w)" by (simp add: clip_defs)
  from P obtain r where r: "r \<in> set (rows (payments w))" "pay_id r = j"
    unfolding clip_at_def using exists_row_obtain by blast
  define v where "v = merged_payload (pay_response_payload r) provider webhook topup"
  define g where "g = merge_row status v (fst (clock E (ext w)))"
  define w' where "w' = w\<lparr>ext := snd (clock E (ext w)), payments := update_rows (\<lambda>q. pay_id q = j) g (payments w)\<rparr>"
  have run: "mergeWebhookProcessingResult E j status provider webhook topup w = (Inr (g r), w')"
    by (simp add: merge_run [OF wf r] v_def g_def w'_def Let_def)
  have g: "same_keys q (g q)" "pay_response_payload (g q) = Some v" for q
    by (simp_all add: g_def same_keys_merge_row) (simp add: merge_row_def)
  have keys: "pay_id (if pay_id q = j then g q else q) = pay_id q"
    "pay_idempotency_key (if pay_id q = j then g q else q) = pay_idempotency_key q" for q
    using g [of q] by (auto simp: same_keys_def)
  have mk: "topup_marked i w' = list_ex (\<lambda>q. pay_id q = i \<and>
      hasCompletedTopup (if pay_id q = j then Some v else pay_response_payload q)) (rows (payments w))"
    by (simp add: topup_marked_def w'_def rows_update_rows list_ex_map_if keys g if_distrib [of pay_response_payload])
  have mark: "topup_marked i w' = (case topup of Some t \<Rightarrow> if j = i then tp_status t = COMPLETED else m | None \<Rightarrow> m)"
  proof (cases "j = i")
    case True
    have "topup_marked i w' = hasCompletedTopup (Some v)"
      using True r by (auto simp: mk list_ex_iff)
    moreover have "hasCompletedTopup (pay_response_payload r) = m"
      using clip_read_row [of i K m n w r] P r True by (simp add: clip_read_def clip_at_def)
    ultimately show ?thesis using True by (simp add: v_def hasCompletedTopup_merged split: option.split)
  next
    case False
    then have "topup_marked i w' = topup_marked i w"
      unfolding mk by (auto simp: topup_marked_def [of i w] list_ex_iff)
    with False P show ?thesis by (simp add: clip_at_def clip_phase_def split: option.split)
  qed
  have "clip_inv i K w'" "exists_row (\<lambda>r. pay_id r = j) (payments w')" "topups K w' = n"
    using P payments_wf_update [OF wf, of g] g(1)
    by (simp_all add: clip_at_def clip_phase_def clip_inv_def w'_def exists_row_update rows_update_rows
        list_ex_map_if topups_def keys)
  with mark show "case mergeWebhookProcessingResult E j status provider webhook topup w of
      (Inr a, w) \<Rightarrow> clip_at i K j (case topup of Some t \<Rightarrow> if j = i then tp_status t = COMPLETED else m | None \<Rightarrow> m) n w
    | (Inl e, w) \<Rightarrow> False"
    by (simp add: run clip_at_def clip_phase_def)
qed

lemma clip_topUp:
  "spec (clip_at i K j m n) (topUp E q)
     (\<lambda>_. clip_at i K j m (if tr_externalTransactionId q = K then Suc n else n)) (\<lambda>_. clip_at i K j m n)"
  by (rule specI) (auto simp: topUp_def remote_run clip_defs split: sum.split)

lemmas clip_mail = spec_total [OF clip.keeps_proof sendPaymentProofByEmail_total]
lemmas clip_push = spec_total [OF clip.keeps_sendToUser sendToUser_total]

text \<open>
  The top-up of the payment itself, not yet marked: when it returns, the payment is marked, and
  topped up at most once more; when it throws, nothing was topped up.
\<close>

lemma clip_topup_own:
  assumes "pay_id (pwu_payment locked) = i" and "tr_externalTransactionId q = K"
  shows "spec (clip_at i K i False n) (clip_topup E ppid payload locked pp receipt q)
     (\<lambda>_ w. clip_at i K i True (Suc n) w \<or> clip_at i K i True n w) (\<lambda>_. clip_at i K i False n)"
  unfolding clip_topup_def Let_def assms(1)
proof (rule spec_try_catch [where R' = "\<lambda>_. clip_at i K i False n"])
  let ?body = "\<lambda>topupResponse. bindE (mergeWebhookProcessingResult E i COMPLETED (Some pp) (Some payload)
      (Some (buildTopupPayloadFromRequest q COMPLETED (no_extras\<lparr>te_response := Some topupResponse\<rparr>)))) (\<lambda>_.
    bindE (sendPaymentProofByEmail E Link (usr_email (pwu_user locked)) receipt proof_attachments) (\<lambda>_.
    bindE (sendToUser E (pay_user_id (pwu_payment locked)) (clip_notification (pwu_payment locked) pp)) (\<lambda>_.
    ok (clip_response ppid (pwu_payment locked) COMPLETED True (Some (tr_externalTransactionId q))))))"
  have t: "spec (clip_at i K i False n) (topUp E q) (\<lambda>_. clip_at i K i False (Suc n)) (\<lambda>_. clip_at i K i False n)"
    using clip_topUp [of i K i False n E q] assms(2) by simp
  have b: "spec (clip_at i K i False (Suc n)) (?body r) (\<lambda>_. clip_at i K i True (Suc n)) (\<lambda>_ _. False)" for r
    by (rule spec_bindE [OF clip_merge], simp add: buildTopupPayloadFromRequest_def)
       (intro spec_bindE [OF clip_mail] spec_bindE [OF clip_push] spec_ok)
  have "spec (clip_at i K i False n) (bindE (topUp E q) ?body) (\<lambda>_. clip_at i K i True (Suc n)) (\<lambda>_. clip_at i K i False n)"
    by (rule spec_bindE [OF t], rule spec_any, rule b)
  then show "spec (clip_at i K i False n) (bindE (topUp E q) ?body)
      (\<lambda>_ w. clip_at i K i True (Suc n) w \<or> clip_at i K i True n w) (\<lambda>_. clip_at i K i False n)"
    by (rule spec_post) auto
next
  fix e
  let ?merge = "\<lambda>status extras. mergeWebhookProcessingResult E i COMPLETED (Some pp) (Some payload)
      (Some (buildTopupPayloadFromRequest q status extras))"
  have m: "spec (clip_at i K i False n) (?merge status extras) (\<lambda>_. clip_at i K i (status = COMPLETED) n) R" for status extras R
    using spec_any [OF clip_merge [of i K i False n E COMPLETED "Some pp" "Some payload"
        "Some (buildTopupPayloadFromRequest q status extras)"]]
    by (simp add: buildTopupPayloadFromRequest_def)
  show "spec (clip_at i K i False n)
      (if err_class e = ConflictError then bindE (?merge COMPLETED (no_extras\<lparr>te_note := Some ''Topup conflict treated as idempotent duplicate''\<rparr>))
           (\<lambda>_. ok (clip_response ppid (pwu_payment locked) COMPLETED False (Some (tr_externalTransactionId q))))
       else bindE (?merge FAILED (no_extras\<lparr>te_error := Some (err_message e)\<rparr>)) (\<lambda>_. throw e))
      (\<lambda>_ w. clip_at i K i True (Suc n) w \<or> clip_at i K i True n w) (\<lambda>_. clip_at i K i False n)"
    by (auto intro!: spec_bindE [OF m] spec_ok spec_throw)
qed

lemma clip_topup_other:
  assumes "pay_id (pwu_payment locked) = j" and "j \<noteq> i" and "tr_externalTransactionId q \<noteq> K"
  shows "spec (clip_at i K j m n) (clip_topup E ppid payload locked pp receipt q)
     (\<lambda>_. clip_at i K j m n) (\<lambda>_. clip_at i K j m n)"
proof -
  have m: "spec (clip_at i K j m n) (mergeWebhookProcessingResult E j status provider webhook topup) (\<lambda>_. clip_at i K j m n) R"
    for status provider webhook topup R
    using spec_any [OF clip_merge [of i K j m n E status provider webhook topup]] assms(2)
    by (cases topup) simp_all
  have t: "spec (clip_at i K j m n) (topUp E q) (\<lambda>_. clip_at i K j m n) (\<lambda>_. clip_at i K j m n)"
    using clip_topUp [of i K j m n E q] assms(3) by simp
  show ?thesis
    unfolding clip_topup_def Let_def assms(1)
  proof (rule spec_try_catch [where R' = "\<lambda>_. clip_at i K j m n"], goal_cases)
    case 1
    show ?case
      by (intro spec_bindE [OF t] spec_bindE [OF m] spec_bindE [OF spec_any [OF clip_mail]]
          spec_bindE [OF spec_any [OF clip_push]] spec_ok)
  next
    case (2 e)
    show ?case by (simp add: spec_bindE [OF m] spec_ok spec_throw)
  qed
qed

definition clip_out :: "int \<Rightarrow> string \<Rightarrow> bool \<Rightarrow> nat \<Rightarrow> 'x world \<Rightarrow> bool" where
  "clip_out i K m n w \<longleftrightarrow> clip_phase i K m n w \<or>
     \<not> m \<and> (clip_phase i K True n w \<or> clip_phase i K True (Suc n) w)"

lemma topup_request_key:
  "spec P (buildTopupRequestFromPayment pu)
     (\<lambda>q w. P w \<and> tr_externalTransactionId q = pay_idempotency_key (pwu_payment pu)) (\<lambda>_. P)"
  by (rule specI)
     (auto simp: buildTopupRequestFromPayment_def nullish_field_def bindE_def deref_run ensure_run split: option.split)

lemma clip_at_phase: "clip_at i K j m n w \<Longrightarrow> clip_phase i K m n w"
  by (simp add: clip_at_def)

lemma clip_out_phase: "clip_phase i K m n w \<Longrightarrow> clip_out i K m n w"
  by (simp add: clip_out_def)

lemma clip_out_at: "clip_at i K j m n w \<Longrightarrow> clip_out i K m n w"
  by (simp add: clip_out_def clip_at_def)

lemma clip_details:
  "spec (clip_at i K j m n) (PaymentProviderService_getPaymentDetails E ppid) (\<lambda>_. clip_at i K j m n) (\<lambda>_. clip_at i K j m n)"
  unfolding PaymentProviderService_getPaymentDetails_def
  by (intro spec_keeps keeps_remote) (simp add: clip_defs)

lemma clip_receipt_state: "spec P (clip_receipt p pp) (\<lambda>_. P) (\<lambda>_. P)"
  by (rule specI) (simp add: clip_receipt_def bindE_def deref_run split: option.split)

lemma clip_topup_read:
  assumes "clip_read i K m (pwu_payment locked)"
    and "\<not> hasCompletedTopup (pay_response_payload (pwu_payment locked))"
    and q: "tr_externalTransactionId q = pay_idempotency_key (pwu_payment locked)"
  shows "spec (clip_at i K (pay_id (pwu_payment locked)) m n) (clip_topup E ppid payload locked pp receipt q)
           (\<lambda>_. clip_out i K m n) (\<lambda>_. clip_out i K m n)"
proof (cases "pay_id (pwu_payment locked) = i")
  case True
  with assms have m: "m = False" "tr_externalTransactionId q = K" by (auto simp: clip_read_def)
  show ?thesis
    unfolding m(1) True
    by (rule spec_post [OF clip_topup_own [OF True m(2)]]) (auto simp: clip_out_def clip_at_phase)
next
  case False
  with assms have "tr_externalTransactionId q \<noteq> K" by (auto simp: clip_read_def)
  then show ?thesis
    by (rule spec_post [OF clip_topup_other [OF refl False]]) (auto intro: clip_out_at)
qed

lemma clip_process_spec:
  assumes "clip_read i K m (pwu_payment locked)"
  shows "spec (clip_at i K (pay_id (pwu_payment locked)) m n) (clip_process E ppid payload locked)
           (\<lambda>_. clip_out i K m n) (\<lambda>_. clip_out i K m n)"
proof -
  let ?j = "pay_id (pwu_payment locked)"
  let ?I = "clip_at i K ?j m n"
  let ?O = "clip_out i K m n"
  have merge: "spec ?I (mergeWebhookProcessingResult E ?j st pv wh None) (\<lambda>_. ?I) R" for st pv wh R
    using spec_any [OF clip_merge [of i K ?j m n E st pv wh None]] by simp
  have topup: "spec ?I (bindE (buildTopupRequestFromPayment locked) (\<lambda>q. clip_topup E ppid payload locked pp receipt q))
      (\<lambda>_. ?O) (\<lambda>_. ?O)" if "\<not> hasCompletedTopup (pay_response_payload (pwu_payment locked))" for pp receipt
  proof (rule spec_step [OF topup_request_key], erule clip_out_at)
    fix q
    show "spec (\<lambda>w. ?I w \<and> tr_externalTransactionId q = pay_idempotency_key (pwu_payment locked))
        (clip_topup E ppid payload locked pp receipt q) (\<lambda>_. ?O) (\<lambda>_. ?O)"
      by (rule spec_fact) (rule clip_topup_read [OF assms that])
  qed
  have sent: "spec ?I (bindE (sendPaymentProofByEmail E t email receipt opts) (\<lambda>_. ok r)) (\<lambda>_. ?O) (\<lambda>_. ?O)"
    for t email receipt opts r
    by (rule spec_step [OF clip_mail]) (auto intro!: spec_ok clip_out_at)
  show ?thesis
    unfolding clip_process_def Let_def
    by (rule spec_step [OF clip_details], erule clip_out_at, rule spec_step [OF clip_receipt_state], erule clip_out_at)
       (auto intro!: spec_bindE [OF merge] sent topup spec_ok clip_out_at)
qed

lemma clip_locked_spec:
  "spec (clip_phase i K m n) (clip_locked E ppid payload) (\<lambda>_. clip_out i K m n) (\<lambda>_. clip_out i K m n)"
  unfolding clip_locked_def
proof (rule spec_step [OF spec_find_clip], erule clip_out_phase, rule spec_step [OF spec_require], goal_cases)
  case (1 res e s)
  then show ?case by (simp add: clip_out_phase)
next
  case (2 res locked)
  show ?case
    using clip_process_spec [of i K m locked n E ppid payload] by (fastforce simp: spec_def)
qed

lemma clip_out_lock: "clip_out i K m n (w\<lparr>locks := l\<rparr>) = clip_out i K m n w"
  by (simp add: clip_out_def clip_defs)

lemma handleClipWebhook_spec:
  "spec (clip_phase i K m n) (handleClipWebhook E payload) (\<lambda>_. clip_out i K m n) (\<lambda>_. clip_out i K m n)"
proof -
  have lock: "spec (clip_phase i K m n) (acquirePaymentLock name) (\<lambda>_. clip_phase i K m n) (\<lambda>_. clip_phase i K m n)" for name
    unfolding acquirePaymentLock_def by (intro spec_keeps keeps_intros keeps_modify) (simp add: clip_defs)
  have ens: "spec (clip_phase i K m n) (ensure b e) (\<lambda>_. clip_phase i K m n) (\<lambda>_. clip_phase i K m n)" for b e
    by (intro spec_keeps keeps_intros)
  have find: "spec (clip_phase i K m n) (getPaymentByProviderPaymentId prov ppid) (\<lambda>_. clip_phase i K m n) (\<lambda>_. clip_phase i K m n)" for prov ppid
    by (rule spec_post [OF spec_find_clip]) auto
  have fin: "spec (clip_phase i K m n) (try_finally (clip_locked E ppid payload) (releasePaymentLock name))
      (\<lambda>_. clip_out i K m n) (\<lambda>_. clip_out i K m n)" for ppid name
    by (rule spec_try_finally [OF clip_locked_spec, where g = "\<lambda>w. w\<lparr>locks := remove1 name (locks w)\<rparr>" and u = "()"])
       (simp_all add: releasePaymentLock_def clip_out_lock)
  show ?thesis
    unfolding handleClipWebhook_def Let_def
    by (intro spec_step [OF spec_keeps [OF keeps_require]] spec_step [OF find] spec_step [OF lock] spec_step [OF ens] fin)
       (auto intro: clip_out_phase)
qed

lemma createPayment_keeps:
  fixes E :: "'x services"
  shows "keeps (clip_phase i K m n) (createPayment E userId req)"
proof -
  have ins: "keeps (clip_phase i K m n :: 'x world \<Rightarrow> bool) (insert_payment mk)" if mk: "\<And>j. pay_id (mk j) = j \<and> pay_response_payload (mk j) = None" for mk
  proof (rule keepsI)
    fix w :: "'x world" assume P: "clip_phase i K m n w"
    let ?r = "mk (next_id (payments w))"
    have "clip_phase i K m n (w\<lparr>payments := insert_row ?r (payments w)\<rparr>)" if free: "payment_keys_free ?r (payments w)"
    proof -
      have "payments_wf (insert_row ?r (payments w))"
        using P mk free by (intro payments_wf_insert) (auto simp: clip_defs)
      then show ?thesis using P mk by (auto simp: clip_defs rows_insert_row hasCompletedTopup_def)
    qed
    then show "clip_phase i K m n (snd (insert_payment mk w))"
      using P by (simp add: insert_payment_def bindE_def ensure_run)
  qed
  have fs: "keeps (clip_phase i K m n :: 'x world \<Rightarrow> bool) (from_sum r)" for r :: "error + rat"
    unfolding from_sum_def by (intro keeps_intros)
  show ?thesis
    unfolding createPayment_def PaymentRepository_createPayment_def Let_def now_def
    by (intro keeps_intros fs ins keeps_service) (simp_all add: clip_defs)
qed

text \<open>The inputs that reach the payments without going to the provider to pay: webhooks, new payments, lookups.\<close>

datatype clip_event = ClipWebhook payload | ClipCreate int payment_create_request | ClipDetails string

primrec clip_step :: "'x services \<Rightarrow> clip_event \<Rightarrow> 'x world \<Rightarrow> 'x world" where
  "clip_step E (ClipWebhook payload) w = snd (handleClipWebhook E payload w)"
| "clip_step E (ClipCreate userId req) w = snd (createPayment E userId req w)"
| "clip_step E (ClipDetails ppid) w = snd (getPaymentDetails E ppid w)"

lemma getPaymentDetails_keeps: "keeps (clip_phase i K m n) (getPaymentDetails E ppid)"
  unfolding getPaymentDetails_def PaymentProviderService_getPaymentDetails_def mapToClientResponse_def
  by (intro keeps_intros keeps_remote) (simp add: clip_defs)

lemma clip_step_out:
  assumes "clip_phase i K m n w"
  shows "clip_out i K m n (clip_step E ev w)"
proof (cases ev)
  case (ClipWebhook payload)
  from specD [OF handleClipWebhook_spec assms, of E payload] ClipWebhook show ?thesis
    by (cases "handleClipWebhook E payload w"; cases "fst (handleClipWebhook E payload w)") auto
qed (use assms in \<open>auto intro!: clip_out_phase keepsD [OF createPayment_keeps] keepsD [OF getPaymentDetails_keeps]\<close>)

interpretation clip_once: at_most_once "clip_step E" "clip_inv i K" "topup_marked i" "topups K"
  for E :: "'x services" and i K
proof
  fix w :: "'x world" and ev
  assume inv: "clip_inv i K w"
  then have P: "clip_phase i K (topup_marked i w) (topups K w) w" by (simp add: clip_phase_def)
  note out = clip_step_out [OF P, of E ev]
  from out show "clip_inv i K (clip_step E ev w)" by (auto simp: clip_out_def clip_phase_def)
  from out show "topup_marked i (clip_step E ev w) \<and> topups K (clip_step E ev w) = topups K w" if "topup_marked i w"
    using that by (auto simp: clip_out_def clip_phase_def)
  from out show "topups K (clip_step E ev w) = topups K w \<or>
      topup_marked i (clip_step E ev w) \<and> topups K (clip_step E ev w) = Suc (topups K w)" if "\<not> topup_marked i w"
    using that by (auto simp: clip_out_def clip_phase_def)
qed

section \<open>The lock and the confirmation of the provider\<close>

text \<open>Predicates that none of the calls of the webhook changes: the locks, and a bound on the top-ups of every key.\<close>

definition locks_are :: "string list \<Rightarrow> 'x world \<Rightarrow> bool" where
  "locks_are l w \<longleftrightarrow> locks w = l"

definition topups_are :: "(string \<Rightarrow> nat) \<Rightarrow> 'x world \<Rightarrow> bool" where
  "topups_are f w \<longleftrightarrow> (\<forall>K. topups K w = f K)"

interpretation locks_frame: push_frame "locks_are l" for l
  by unfold_locales (simp_all add: locks_are_def)

interpretation topups_frame: push_frame "topups_are f" for f
  by unfold_locales (simp_all add: topups_are_def topups_def)

lemma keeps_update_payment:
  "(\<And>w t. P w \<Longrightarrow> P (w\<lparr>payments := t\<rparr>)) \<Longrightarrow> keeps P (update_payment i f)"
  unfolding update_payment_def by (intro keeps_intros keeps_modify) simp

lemma keeps_merge:
  "(\<And>w t. P w \<Longrightarrow> P (w\<lparr>payments := t\<rparr>)) \<Longrightarrow> (\<And>w x. P w \<Longrightarrow> P (w\<lparr>ext := x\<rparr>)) \<Longrightarrow>
   keeps P (mergeWebhookProcessingResult E i status provider webhook topup)"
  unfolding mergeWebhookProcessingResult_def by (intro keeps_intros keeps_now keeps_update_payment) auto

lemma keeps_with_user [keeps_intros]: "keeps P (with_user p)"
  unfolding with_user_def by (intro keeps_intros)

lemma keeps_getPaymentByProviderPaymentId [keeps_intros]: "keeps P (getPaymentByProviderPaymentId provider ppid)"
  unfolding getPaymentByProviderPaymentId_def by (intro keeps_intros)

lemma keeps_getPaymentById [keeps_intros]: "keeps P (getPaymentById i)"
  unfolding getPaymentById_def by (intro keeps_intros)

lemma keeps_clip_receipt [keeps_intros]: "keeps P (clip_receipt p pp)"
  unfolding clip_receipt_def by (intro keeps_intros)

lemma keeps_buildTopupRequest [keeps_intros]: "keeps P (buildTopupRequestFromPayment pu)"
  unfolding buildTopupRequestFromPayment_def nullish_field_def by (intro keeps_intros)

lemma keeps_locks_clip_locked: "keeps (locks_are l) (clip_locked E ppid payload)"
  unfolding clip_locked_def clip_process_def clip_topup_def PaymentProviderService_getPaymentDetails_def topUp_def Let_def
  by (intro keeps_intros keeps_remote keeps_merge locks_frame.keeps_proof locks_frame.keeps_sendToUser)
     (simp_all add: locks_are_def)

text \<open>A lock that is taken is released on every path, and a lock held by another session stops the webhook.\<close>

lemma locks_try_finally:
  assumes "locks w = name # l"
  shows "locks (snd (try_finally (clip_locked E ppid payload) (releasePaymentLock name) w)) = l"
proof -
  have "locks (snd (clip_locked E ppid payload w)) = name # l"
    using keepsD [OF keeps_locks_clip_locked, of "name # l" w] assms by (simp add: locks_are_def)
  then show ?thesis
    by (auto simp: try_finally_def releasePaymentLock_def split: prod.split sum.split)
qed

lemma with_user_cases: "with_user p w = (fst (with_user p w), w)"
  using with_user_state [of p w] by (metis prod.collapse)

lemma find_by_provider_run:
  "getPaymentByProviderPaymentId provider ppid w = (fst (getPaymentByProviderPaymentId provider ppid w), w)"
  unfolding getPaymentByProviderPaymentId_def bindE_def gets_run prod.case sum.case by (rule with_user_cases)

lemma handleClipWebhook_unfold:
  "handleClipWebhook E payload w =
     (case extractClipWebhookPaymentId payload of
        None \<Rightarrow> (Inl (mk_error BadRequestError ''Clip webhook does not include a payment identifier''), w)
      | Some ppid \<Rightarrow>
          (case fst (getPaymentByProviderPaymentId CLIP ppid w) of
             Inl e \<Rightarrow> (Inl e, w)
           | Inr None \<Rightarrow> (Inl (mk_error NotFoundError ''Payment not found for Clip webhook''), w)
           | Inr (Some pu) \<Rightarrow>
               (let name = pay_idempotency_key (pwu_payment pu) in
                if List.member (locks w) name
                then (Inl (mk_error ConflictError ''Clip webhook is already being processed''), w)
                else try_finally (clip_locked E ppid payload) (releasePaymentLock name) (w\<lparr>locks := name # locks w\<rparr>))))"
proof (cases "extractClipWebhookPaymentId payload")
  case (Some ppid)
  obtain r where r: "getPaymentByProviderPaymentId CLIP ppid w = (r, w)" using find_by_provider_run by blast
  show ?thesis
    unfolding handleClipWebhook_def Let_def Some
    by (simp add: bindE_def require_run acquirePaymentLock_def ensure_run r split: sum.split option.split)
qed (simp add: handleClipWebhook_def bindE_def require_run)

lemma keeps_topups_process:
  assumes "api_payment_details E ppid (ext w) = (Inr pp, x)" and "mapClipStatusToInternal (pp_status pp) \<noteq> COMPLETED"
    and "topups_are f w"
  shows "topups_are f (snd (clip_process E ppid payload locked w))"
proof -
  let ?w = "w\<lparr>ext := x, trace := trace w @ [(CallPaymentDetails ppid, True)]\<rparr>"
  let ?rest = "bindE (clip_receipt (pwu_payment locked) pp) (\<lambda>receipt.
      bindE (mergeWebhookProcessingResult E (pay_id (pwu_payment locked)) (mapClipStatusToInternal (pp_status pp)) (Some pp) (Some payload) None) (\<lambda>_.
      bindE (sendPaymentProofByEmail E Link (usr_email (pwu_user locked)) receipt proof_attachments) (\<lambda>_.
      ok (clip_response ppid (pwu_payment locked) (mapClipStatusToInternal (pp_status pp)) False None))))"
  have "clip_process E ppid payload locked w = ?rest ?w"
    using assms(1,2) by (simp add: clip_process_def Let_def PaymentProviderService_getPaymentDetails_def bindE_def [of "remote _ _ _"] remote_run)
  moreover have "keeps (topups_are f) ?rest"
    by (intro keeps_intros keeps_merge topups_frame.keeps_proof) (simp_all add: topups_are_def topups_def)
  moreover have "topups_are f ?w" using assms(3) by (simp add: topups_are_def topups_def)
  ultimately show ?thesis by (simp add: keepsD)
qed

section \<open>What the webhook asks the wallet for\<close>

text \<open>Every top-up call of a trace is one of an older trace or the one wanted.\<close>

definition topups_within :: "(call \<times> bool) list \<Rightarrow> (topup_request \<Rightarrow> bool) \<Rightarrow> 'x world \<Rightarrow> bool" where
  "topups_within old good w \<longleftrightarrow> (\<forall>q b. (CallTopUp q, b) \<in> set (trace w) \<longrightarrow> (CallTopUp q, b) \<in> set old \<or> good q)"

interpretation within_frame: push_frame "topups_within old good" for old good
  by unfold_locales (auto simp: topups_within_def)

definition topup_request_of :: "payment_with_user \<Rightarrow> topup_request \<Rightarrow> bool" where
  "topup_request_of pu q \<longleftrightarrow>
     tr_externalTransactionId q = pay_idempotency_key (pwu_payment pu) \<and>
     tr_amount q = decimal_toNumber (case pay_net_amount_mxn (pwu_payment pu) of Some m \<Rightarrow> m | None \<Rightarrow> pay_net_amount (pwu_payment pu)) \<and>
     (\<exists>a. pwu_authState pu = Some a \<and>
        Some (tr_balanceId q) = (case aus_ewalletId a of Some n \<Rightarrow> Some n | None \<Rightarrow> Option.bind (pwu_profile pu) prof_ewallet_id) \<and>
        Some (tr_sourceCustomerID q) = (case aus_externalCustomerId a of Some n \<Rightarrow> Some n | None \<Rightarrow> Option.bind (pwu_profile pu) prof_external_customer_id))
     \<and> tr_balanceId q \<noteq> 0 \<and> tr_sourceCustomerID q \<noteq> 0"

lemma buildTopupRequest_spec:
  "spec P (buildTopupRequestFromPayment pu) (\<lambda>q w. P w \<and> topup_request_of pu q) (\<lambda>_. P)"
  by (rule specI)
     (auto simp: buildTopupRequestFromPayment_def nullish_field_def bindE_def deref_run ensure_run topup_request_of_def topup_amount_def truthy_int_def
        split: option.split)

lemma within_topup:
  assumes "good q"
  shows "keeps (topups_within old good) (clip_topup E ppid payload locked pp receipt q)"
  unfolding clip_topup_def topUp_def Let_def
  by (intro keeps_intros keeps_remote keeps_merge within_frame.keeps_proof within_frame.keeps_sendToUser)
     (use assms in \<open>auto simp: topups_within_def\<close>)

lemma within_process: "keeps (topups_within old (topup_request_of locked)) (clip_process E ppid payload locked)"
proof -
  let ?P = "topups_within old (topup_request_of locked)"
  have built: "keeps ?P (bindE (buildTopupRequestFromPayment locked) (\<lambda>q. clip_topup E ppid payload locked pp receipt q))"
    for pp receipt
  proof (rule keeps_spec, rule spec_step [OF buildTopupRequest_spec])
    fix q
    show "spec (\<lambda>w. ?P w \<and> topup_request_of locked q) (clip_topup E ppid payload locked pp receipt q) (\<lambda>_. ?P) (\<lambda>_. ?P)"
      by (rule spec_fact) (intro spec_keeps within_topup)
  qed
  show ?thesis
    unfolding clip_process_def PaymentProviderService_getPaymentDetails_def Let_def
    by (intro keeps_intros keeps_remote keeps_merge within_frame.keeps_proof built) (auto simp: topups_within_def)
qed

lemma with_user_locks: "with_user p (w\<lparr>locks := l\<rparr>) = (fst (with_user p w), w\<lparr>locks := l\<rparr>)"
  by (simp add: with_user_def bindE_def require_run split: option.split)

lemma find_by_provider_locks:
  "getPaymentByProviderPaymentId provider ppid (w\<lparr>locks := l\<rparr>) =
     (fst (getPaymentByProviderPaymentId provider ppid w), w\<lparr>locks := l\<rparr>)"
  by (simp add: getPaymentByProviderPaymentId_def bindE_def with_user_locks)

text \<open>
  A webhook for a payment that is in the table and whose lock is free does the work of
  \<^verbatim>\<open>clip_process\<close> on that payment.
\<close>

lemma handleClipWebhook_process:
  assumes "extractClipWebhookPaymentId payload = Some ppid"
    and "fst (getPaymentByProviderPaymentId CLIP ppid w) = Inr (Some pu)"
    and "pay_idempotency_key (pwu_payment pu) \<notin> set (locks w)"
  defines "w1 \<equiv> w\<lparr>locks := pay_idempotency_key (pwu_payment pu) # locks w\<rparr>"
  shows "handleClipWebhook E payload w =
     (fst (clip_process E ppid payload pu w1),
      (snd (clip_process E ppid payload pu w1))\<lparr>locks := locks w\<rparr>)"
proof -
  obtain r w2 where cp: "clip_process E ppid payload pu w1 = (r, w2)" by fastforce
  have lk: "clip_locked E ppid payload w1 = (r, w2)"
    by (simp add: clip_locked_def bindE_def find_by_provider_locks require_run assms(2) w1_def)
       (simp add: cp flip: w1_def)
  have "locks w2 = pay_idempotency_key (pwu_payment pu) # locks w"
    using keepsD [OF keeps_locks_clip_locked, of "locks w1" w1 E ppid payload] lk by (simp add: locks_are_def w1_def)
  moreover have "handleClipWebhook E payload w =
      try_finally (clip_locked E ppid payload) (releasePaymentLock (pay_idempotency_key (pwu_payment pu))) w1"
    using assms(1-3) by (simp add: handleClipWebhook_unfold Let_def w1_def)
  ultimately show ?thesis by (simp add: try_finally_def lk cp releasePaymentLock_def)
qed

text \<open>In every other case the webhook stops before it changes anything.\<close>

lemma handleClipWebhook_stopped:
  assumes "\<And>ppid pu. extractClipWebhookPaymentId payload = Some ppid \<Longrightarrow>
      fst (getPaymentByProviderPaymentId CLIP ppid w) = Inr (Some pu) \<Longrightarrow>
      pay_idempotency_key (pwu_payment pu) \<in> set (locks w)"
  shows "snd (handleClipWebhook E payload w) = w"
  using assms by (auto simp: handleClipWebhook_unfold Let_def split: option.split sum.split)

lemma handleClipWebhook_cases:
  obtains (stopped) "snd (handleClipWebhook E payload w) = w"
  | (processed) ppid pu w1 where "extractClipWebhookPaymentId payload = Some ppid"
      and "fst (getPaymentByProviderPaymentId CLIP ppid w) = Inr (Some pu)"
      and "w1 = w\<lparr>locks := pay_idempotency_key (pwu_payment pu) # locks w\<rparr>"
      and "handleClipWebhook E payload w = (fst (clip_process E ppid payload pu w1),
             (snd (clip_process E ppid payload pu w1))\<lparr>locks := locks w\<rparr>)"
  using handleClipWebhook_process [of payload _ w _ E] handleClipWebhook_stopped [of payload w E] by metis

section \<open>Only the webhook completes a payment\<close>

definition completed_ids :: "'x world \<Rightarrow> int set" where
  "completed_ids w = pay_id ` {r \<in> set (rows (payments w)). pay_status r = COMPLETED}"

datatype payment_call =
    PCreate int payment_create_request
  | PProcess int process_payment_request
  | PVerify int
  | PDetails string

primrec payment_step :: "'x services \<Rightarrow> payment_call \<Rightarrow> 'x world \<Rightarrow> 'x world" where
  "payment_step E (PCreate userId req) w = snd (createPayment E userId req w)"
| "payment_step E (PProcess i req) w = snd (processPayment E i req w)"
| "payment_step E (PVerify i) w = snd (verifyPaymentStatus E i w)"
| "payment_step E (PDetails ppid) w = snd (getPaymentDetails E ppid w)"

definition completed_in :: "int set \<Rightarrow> 'x world \<Rightarrow> bool" where
  "completed_in S w \<longleftrightarrow> completed_ids w \<subseteq> S"

lemma mapClipStatusBeforeWebhook_not_completed [simp]: "mapClipStatusBeforeWebhook s \<noteq> COMPLETED"
  by (simp add: mapClipStatusBeforeWebhook_def Let_def)

lemma completed_update:
  "(\<And>r. pay_id (f r) = pay_id r) \<Longrightarrow> (\<And>r. pay_status (f r) \<noteq> COMPLETED) \<Longrightarrow> keeps (completed_in S) (update_payment i f)"
  unfolding update_payment_def
  by (intro keeps_intros keeps_modify) (auto simp: completed_in_def completed_ids_def rows_update_rows split: if_splits)

lemma completed_updatePaymentStatus:
  "status \<noteq> COMPLETED \<Longrightarrow> keeps (completed_in S) (updatePaymentStatus i status ppid response request)"
  unfolding updatePaymentStatus_def by (rule completed_update) auto

lemma completed_env: "completed_in S w \<Longrightarrow> completed_in S (w\<lparr>ext := x\<rparr>)"
  "completed_in S w \<Longrightarrow> completed_in S (w\<lparr>ext := x, trace := t\<rparr>)"
  by (simp_all add: completed_in_def completed_ids_def)

lemma keeps_mapToClientResponse [keeps_intros]: "keeps P (mapToClientResponse p st)"
  unfolding mapToClientResponse_def by (intro keeps_intros)

lemma completed_insert: "(\<And>i. pay_status (mk i) \<noteq> COMPLETED) \<Longrightarrow> keeps (completed_in S) (insert_payment mk)"
proof (rule keepsI)
  fix w :: "'a world" assume "\<And>i. pay_status (mk i) \<noteq> COMPLETED" "completed_in S w"
  then show "completed_in S (snd (insert_payment mk w))"
    by (auto simp: insert_payment_def bindE_def ensure_run completed_in_def completed_ids_def rows_insert_row)
qed

lemma payment_step_completed: "completed_in S w \<Longrightarrow> completed_in S (payment_step E c w)"
proof (cases c)
  case (PCreate u q)
  have "keeps (completed_in S) (createPayment E u q)"
    unfolding createPayment_def PaymentRepository_createPayment_def now_def Let_def
    by (intro keeps_intros keeps_service completed_insert completed_env) auto
  then show "completed_in S w \<Longrightarrow> ?thesis" using PCreate by (simp add: keepsD)
next
  case (PProcess i q)
  have "keeps (completed_in S) (processPayment E i q)"
    unfolding processPayment_def PaymentProviderService_processPayment_def Let_def
    by (intro keeps_intros keeps_remote completed_updatePaymentStatus completed_env) auto
  then show "completed_in S w \<Longrightarrow> ?thesis" using PProcess by (simp add: keepsD)
next
  case (PVerify i)
  have "keeps (completed_in S) (verifyPaymentStatus E i)"
    unfolding verifyPaymentStatus_def PaymentProviderService_getPaymentDetails_def Let_def
    by (intro keeps_intros keeps_remote completed_updatePaymentStatus completed_env) auto
  then show "completed_in S w \<Longrightarrow> ?thesis" using PVerify by (simp add: keepsD)
next
  case (PDetails i)
  have "keeps (completed_in S) (getPaymentDetails E i)"
    unfolding getPaymentDetails_def PaymentProviderService_getPaymentDetails_def
    by (intro keeps_intros keeps_remote completed_env) auto
  then show "completed_in S w \<Longrightarrow> ?thesis" using PDetails by (simp add: keepsD)
qed

section \<open>What the other operations do to a payment\<close>

lemma getPaymentById_run:
  "getPaymentById i w = (fst (getPaymentById i w), w)"
  unfolding getPaymentById_def bindE_def gets_run prod.case sum.case by (rule with_user_cases)

lemma getPaymentById_eq: "fst (getPaymentById i w) = r \<Longrightarrow> getPaymentById i w = (r, w)"
  by (rule trans [OF getPaymentById_run]) simp

lemma getPaymentById_row:
  assumes "fst (getPaymentById i w) = Inr (Some pu)"
  shows "find_row (\<lambda>r. pay_id r = i) (payments w) = Some (pwu_payment pu)"
proof -
  have "with_user (find_row (\<lambda>r. pay_id r = i) (payments w)) w = (Inr (Some pu), w)"
    using getPaymentById_eq [OF assms] by (simp add: getPaymentById_def bindE_def)
  from with_user_result [OF this] show ?thesis by simp
qed

lemma no_topup_in_provider_payment: "\<not> hasCompletedTopup (Some (JObj (provider_payment_props p)))"
  by (simp add: hasCompletedTopup_def provider_payment_props_def map_of_jobject_notin)

text \<open>The row \<^verbatim>\<open>updatePaymentStatus\<close> writes.\<close>

definition status_row :: "payments_status \<Rightarrow> string option \<Rightarrow> provider_payment option \<Rightarrow> provider_request option \<Rightarrow> payment_row \<Rightarrow> payment_row" where
  "status_row status ppid response request r = r\<lparr>pay_status := status,
     pay_provider_payment_id := (if truthy_str ppid then ppid else pay_provider_payment_id r),
     pay_request_payload := Some (JObj (case request of None \<Rightarrow> [] | Some q \<Rightarrow> provider_request_props q)),
     pay_response_payload := Some (JObj (case response of None \<Rightarrow> [] | Some p \<Rightarrow> provider_payment_props p))\<rparr>"

lemma status_row_simps:
  "pay_id (status_row status ppid response request r) = pay_id r"
  "pay_response_payload (status_row status ppid (Some p) request r) = Some (JObj (provider_payment_props p))"
  by (simp_all add: status_row_def)

lemma updatePaymentStatus_run:
  assumes "find_row (\<lambda>r. pay_id r = i) (payments w) = Some r"
    and "payment_keys_free (status_row status ppid response request r) (payments w)"
  shows "updatePaymentStatus i status ppid response request w =
    (Inr (status_row status ppid response request r),
     w\<lparr>payments := update_rows (\<lambda>r. pay_id r = i) (status_row status ppid response request) (payments w)\<rparr>)"
proof -
  have u: "updatePaymentStatus i status ppid response request = update_payment i (status_row status ppid response request)"
    unfolding updatePaymentStatus_def by (rule arg_cong [where f = "update_payment i"]) (simp add: fun_eq_iff status_row_def)
  show ?thesis unfolding u using assms by (simp add: update_payment_def bindE_def require_run ensure_run)
qed

lemma verify_run:
  assumes "fst (getPaymentById i w) = Inr (Some pu)" and "pay_provider_payment_id (pwu_payment pu) = Some ppid"
    and "ppid \<noteq> []" and "api_payment_details E ppid (ext w) = (Inr pp, x)"
  defines "w1 \<equiv> w\<lparr>ext := x, trace := trace w @ [(CallPaymentDetails ppid, True)]\<rparr>"
  shows "verifyPaymentStatus E i w =
     bindE (updatePaymentStatus i (mapClipStatusBeforeWebhook (pp_status pp)) (Some (pp_id pp)) (Some pp) None)
       (\<lambda>_. mapToClientResponse pp (Some (mapClipStatusBeforeWebhook (pp_status pp)))) w1"
proof -
  have g: "getPaymentById i w = (Inr (Some pu), w)" by (rule getPaymentById_eq [OF assms(1)])
  show ?thesis
    unfolding verifyPaymentStatus_def bindE_def [of "getPaymentById i"] g
    using assms(2-4) by (simp add: bindE_def [of "require _ _"] bindE_def [of "ensure _ _"] require_run ensure_run truthy_str_def
        PaymentProviderService_getPaymentDetails_def bindE_def [of "remote _ _ _"] remote_run w1_def Let_def)
qed

section \<open>A confirmed payment is topped up\<close>

lemma clip_topUp_up:
  assumes "\<And>x. succeeded (fst (api_topup E q x))" and "tr_externalTransactionId q = K"
  shows "spec (clip_at i K j m n) (topUp E q) (\<lambda>_. clip_at i K j m (Suc n)) (\<lambda>_ _. False)"
proof (rule specI)
  fix w :: "'a world" assume P: "clip_at i K j m n w"
  obtain r where r: "fst (api_topup E q (ext w)) = Inr r"
    using assms(1) [of "ext w"] by (cases "fst (api_topup E q (ext w))") auto
  have "topUp E q w = (Inr r, w\<lparr>ext := snd (api_topup E q (ext w)), trace := trace w @ [(CallTopUp q, True)]\<rparr>)"
    by (simp add: topUp_def remote_run r)
  with P assms(2) show "case topUp E q w of (Inr a, w) \<Rightarrow> clip_at i K j m (Suc n) w | (Inl e, w) \<Rightarrow> False"
    by (simp add: clip_defs)
qed

lemma clip_topup_success:
  assumes "pay_id (pwu_payment locked) = i" and "tr_externalTransactionId q = K"
    and "\<And>x. succeeded (fst (api_topup E q x))"
  shows "spec (clip_at i K i False n) (clip_topup E ppid payload locked pp receipt q)
     (\<lambda>res w. clip_at i K i True (Suc n) w \<and> res = clip_response ppid (pwu_payment locked) COMPLETED True (Some K)) (\<lambda>_ _. False)"
  unfolding clip_topup_def Let_def assms(1,2)
proof (rule spec_try_catch [where R' = "\<lambda>_ _. False"])
  let ?body = "\<lambda>topupResponse. bindE (mergeWebhookProcessingResult E i COMPLETED (Some pp) (Some payload)
      (Some (buildTopupPayloadFromRequest q COMPLETED (no_extras\<lparr>te_response := Some topupResponse\<rparr>)))) (\<lambda>_.
    bindE (sendPaymentProofByEmail E Link (usr_email (pwu_user locked)) receipt proof_attachments) (\<lambda>_.
    bindE (sendToUser E (pay_user_id (pwu_payment locked)) (clip_notification (pwu_payment locked) pp)) (\<lambda>_.
    ok (clip_response ppid (pwu_payment locked) COMPLETED True (Some K)))))"
  let ?Q = "\<lambda>res w. clip_at i K i True (Suc n) w \<and> res = clip_response ppid (pwu_payment locked) COMPLETED True (Some K)"
  have b: "spec (clip_at i K i False (Suc n)) (?body r) ?Q (\<lambda>_ _. False)" for r
    by (rule spec_bindE [OF clip_merge], simp add: buildTopupPayloadFromRequest_def)
       (intro spec_bindE [OF clip_mail] spec_bindE [OF clip_push] spec_ok conjI refl)
  show "spec (clip_at i K i False n) (bindE (topUp E q) ?body) ?Q (\<lambda>_ _. False)"
    by (rule spec_bindE [OF clip_topUp_up [OF assms(3,2)]], rule b)
qed (rule spec_false)

lemma clip_process_success:
  assumes "pay_id (pwu_payment locked) = i" and "pay_idempotency_key (pwu_payment locked) = K"
    and "\<not> hasCompletedTopup (pay_response_payload (pwu_payment locked))"
    and "api_payment_details E ppid (ext w) = (Inr pp, x)" and "mapClipStatusToInternal (pp_status pp) = COMPLETED"
    and "pp_customer pp \<noteq> None"
    and "\<And>s. buildTopupRequestFromPayment locked (s :: 'x world) = (Inr q, s)"
    and "\<And>x. succeeded (fst (api_topup E q x))"
    and "clip_at i K i False n w"
  shows "\<exists>w'. clip_process E ppid payload locked w = (Inr (clip_response ppid (pwu_payment locked) COMPLETED True (Some K)), w')
    \<and> clip_at i K i True (Suc n) (w' :: 'x world)"
proof -
  define w1 where "w1 = w\<lparr>ext := x, trace := trace w @ [(CallPaymentDetails ppid, True)]\<rparr>"
  have w1: "clip_at i K i False n w1" using assms(9) by (simp add: w1_def clip_defs)
  obtain receipt where receipt: "(clip_receipt (pwu_payment locked) pp :: ('x world, js_props) op) = ok receipt"
    using assms(6) by (auto simp: clip_receipt_def deref_def require_def bindE_def fun_eq_iff)
  have q: "tr_externalTransactionId q = K"
    using specD [OF topup_request_key, of "\<lambda>_ :: 'x world. True" w1 locked] assms(2,7) by simp
  let ?merge = "mergeWebhookProcessingResult E i COMPLETED (Some pp) (Some payload) None"
  let ?top = "clip_topup E ppid payload locked pp receipt q"
  have run: "clip_process E ppid payload locked w = bindE ?merge (\<lambda>_. bindE (buildTopupRequestFromPayment locked) (\<lambda>q.
      clip_topup E ppid payload locked pp receipt q)) w1"
    using assms(1-5) by (simp add: clip_process_def Let_def PaymentProviderService_getPaymentDetails_def
        bindE_def [of "remote _ _ _"] remote_run receipt bindE_def [of "ok _"] w1_def)
  have "bindE (buildTopupRequestFromPayment locked) f = f q" for f :: "topup_request \<Rightarrow> ('x world, clip_webhook_response) op"
    by (simp add: fun_eq_iff bindE_def assms(7))
  then have "clip_process E ppid payload locked w = bindE ?merge (\<lambda>_. ?top) w1" by (simp add: run)
  moreover have "spec (clip_at i K i False n) (bindE ?merge (\<lambda>_. ?top))
      (\<lambda>res w. clip_at i K i True (Suc n) w \<and> res = clip_response ppid (pwu_payment locked) COMPLETED True (Some K)) (\<lambda>_ _. False)"
    by (rule spec_bindE [OF clip_merge], simp) (rule clip_topup_success [OF assms(1) q assms(8)])
  from specD [OF this w1] have "\<exists>w'. bindE ?merge (\<lambda>_. ?top) w1 = (Inr (clip_response ppid (pwu_payment locked) COMPLETED True (Some K)), w')
    \<and> clip_at i K i True (Suc n) w'"
    by (cases "bindE ?merge (\<lambda>_. ?top) w1"; cases "fst (bindE ?merge (\<lambda>_. ?top) w1)") auto
  ultimately show ?thesis by simp
qed

end
