(* ===== verification/Samples.thy ===== *)
theory Samples
  imports World
begin

text \<open>
  A small concrete environment in which the properties are exercised: services whose state is
  the clock, which answer every call with a fixed response, and a world with one user whose
  wallet is known to the backoffice.
\<close>

definition sample_config :: config where
  "sample_config =
     \<lparr>cfg_apiUrl = ''https://api'', cfg_version = ''1'', cfg_ecommerceToken = ''ecommerce'',
      cfg_jwtSecret = ''secret'', cfg_usdMxnFeeRate = Fin (1/4), cfg_bobUsdtFeeRate = Fin (1/8),
      cfg_usdtMxnFeeRate = Fin (1/4), cfg_speiCashoutFee = Fin 0, cfg_sipUsername = ''sip'',
      cfg_sipPassword = ''pass'', cfg_sipPublicCallbackUrl = ''https://api/cb'',
      cfg_sipCallbackBasicUser = ''bank'', cfg_sipCallbackBasicPass = ''word'',
      cfg_sipTokenCacheTtlSeconds = Fin 1, cfg_programCode = ''PROG'', cfg_campaignId = ''CAMP'',
      cfg_creditLine = ''0'', cfg_timeZone = ''America/Mexico_City'', cfg_resendApiKey = ''key''\<rparr>"

definition unavailable :: http_failure where
  "unavailable = \<lparr>hf_status = None, hf_business = None, hf_body_message = None, hf_message = ''unavailable''\<rparr>"

definition sample_payment :: "string \<Rightarrow> string \<Rightarrow> provider_payment" where
  "sample_payment i status =
     \<lparr>pp_id = i, pp_amount = Fin 100, pp_tip_amount = Fin 0, pp_amount_refunded = Fin 0,
      pp_installment_amount = Fin 0, pp_installments = Fin 1, pp_capture_method = ''automatic'',
      pp_net_amount = Fin 100, pp_paid_amount = Fin 100, pp_captured_amount = Fin 100,
      pp_binary_mode = False, pp_approved_at = None, pp_country = ''MX'', pp_currency = ''MXN'',
      pp_description = None, pp_external_reference = None,
      pp_customer = Some \<lparr>pcu_email = None, pcu_phone = None, pcu_first_name = Some ''Ana'', pcu_last_name = Some ''Paz''\<rparr>,
      pp_payment_method = \<lparr>pm_id = ''m'', pm_type = ''credit'',
        pm_card = Some \<lparr>pc_bin = ''411111'', pc_issuer = ''visa'', pc_name = ''ANA'', pc_country = ''MX'',
          pc_last_digits = ''1111'', pc_exp_year = ''30'', pc_exp_month = ''01''\<rparr>, pm_token = ''t''\<rparr>,
      pp_receipt_no = ''r'', pp_status = Some status, pp_status_code = ''C'', pp_status_message = ''msg'',
      pp_pending_action = Some \<lparr>pa_type = ''3ds'', pa_url = ''u''\<rparr>, pp_created_at = '''', pp_version = Fin 1\<rparr>"

text \<open>The environment state is the time; reading the clock advances it by a second.\<close>

definition tick :: "int \<Rightarrow> int \<times> int" where
  "tick x = (x, x + 1000)"

definition sample_services :: "int services" where
  "sample_services =
     \<lparr>cfg = sample_config,
      clock = tick,
      random_uuid = (\<lambda>x. (''uuid'', x)),
      new_ulid = (\<lambda>x. (''ulid'', x)),
      random_base64url = (\<lambda>n x. (''challenge'', x)),
      random_bytes = (\<lambda>n x. (replicate n 0, x)),
      random_unit = (\<lambda>x. (1/2, x)),
      base36_fraction = (\<lambda>r. ''0.i''),
      sha256_hex = (\<lambda>s. s),
      base64_decode = (\<lambda>s. s),
      local_offset = (\<lambda>t. 0),
      utc_of_local = (\<lambda>t. t),
      hash_password = (\<lambda>p x. (''hash:'' @ p, x)),
      base64_encode = (\<lambda>s. s),
      format_datetime = (\<lambda>t. (''01/01/2025'', ''00:00:00 AM'')),
      locale_time = (\<lambda>v. ''12:00''),
      read_template = (\<lambda>p. None),
      read_file = (\<lambda>p. None),
      html_to_buffer = (\<lambda>f s x. (Inr s, x)),
      resend_send = (\<lambda>m x. (Inr (Inr (Some ''mail'')), x)),
      push_send = (\<lambda>m x. (Inr (), x)),
      jwt_sign = (\<lambda>p s e x. (Inr ''token'', x)),
      jwt_verify = (\<lambda>t s x. (Inl TokenInvalid, x)),
      es256_verify = (\<lambda>k m s. Inr (s = ''sig:'' @ m)),
      api_topup = (\<lambda>q x. (Inr \<lparr>ts_body = JObj []\<rparr>, x)),
      api_pay = (\<lambda>q x. (Inr (sample_payment ''p1'' ''approved''), x)),
      api_payment_details = (\<lambda>i x. (Inr (sample_payment i ''approved''), x)),
      api_sip_token = (\<lambda>u p x. (Inr \<lparr>st_codigo = ''OK'', st_mensaje = '''', st_token = Some ''tok''\<rparr>, x)),
      api_sip_qr = (\<lambda>t q x. (Inr \<lparr>sr_codigo = ''0000'', sr_mensaje = '''', sr_objeto =
        Some \<lparr>so_imagenQr = ''img'', so_idQr = ''qr1'', so_fechaVencimiento = ''02/01/2025'',
              so_bancoDestino = ''b'', so_cuentaDestino = ''c'', so_idTransaccion = Fin 7\<rparr>\<rparr>, x)),
      api_activate = (\<lambda>q t x. (Inl unavailable, x)),
      api_card_info = (\<lambda>c t i x. (Inl unavailable, x)),
      api_view_pin = (\<lambda>i t x. (Inl unavailable, x)),
      api_stop = (\<lambda>q t x. (Inl unavailable, x)),
      api_unstop = (\<lambda>q t x. (Inl unavailable, x)),
      api_retire = (\<lambda>i c t x. (Inl unavailable, x)),
      api_full_info = (\<lambda>c t i x. (Inl unavailable, x)),
      api_linked_card = (\<lambda>c b t x. (Inl unavailable, x)),
      api_update_cvv = (\<lambda>i t x. (Inl unavailable, x)),
      api_bulk_order = (\<lambda>q x. (Inl unavailable, x)),
      api_transfer = (\<lambda>q t x. (Inl unavailable, x)),
      api_spei = (\<lambda>q t x. (Inl unavailable, x)),
      api_user_info = (\<lambda>c x. (Inl unavailable, x)),
      api_clabe = (\<lambda>t x. (Inl unavailable, x)),
      api_refresh = (\<lambda>q x. (Inl unavailable, x)),
      api_connection = (\<lambda>q x. (Inl unavailable, x)),
      api_create_account = (\<lambda>q x. (Inl unavailable, x)),
      api_assign = (\<lambda>p c x. (Inl unavailable, x)),
      api_transactions = (\<lambda>q t x. (Inl unavailable, x)),
      api_banxico = (\<lambda>x. (Inl unavailable, x)),
      api_criptoya = (\<lambda>p x. (Inl unavailable, x)),
      api_create_wallet = (\<lambda>u x. (Inl unavailable, x))\<rparr>"

definition sample_user :: "int \<Rightarrow> string \<Rightarrow> user_row" where
  "sample_user i email =
     \<lparr>usr_id = i, usr_email = email, usr_password = ''pw'', usr_phone = Some ''9981234567'',
      usr_completeName = Some ''Ana Paz'', usr_gender = FEMENINO, usr_birthDate = 0, usr_birthCountry = None,
      usr_curp = ''CURP'', usr_postalCode = None, usr_state = ''QR'', usr_country = None,
      usr_municipality = ''BJ'', usr_street = ''s'', usr_colony = ''c'', usr_externalNumber = ''1'',
      usr_internalNumber = ''2'', usr_pin = None, usr_rfc = None, usr_createdAt = 0, usr_lastLogin = None,
      usr_firstName = Some ''Ana'', usr_lastName = Some ''Paz'', usr_secondLastName = None,
      usr_nationality = None, usr_countryCode = None, usr_alias = None,
      usr_questionnaire =
        \<lparr>qu_occupation = None, qu_sector = None, qu_mainActivity = None, qu_monthlyIncome = None,
         qu_monthlyOutcome = None, qu_hasOtherCreditCards = None, qu_universityRegistration = None,
         qu_creditLimit = None, qu_interestRate = None, qu_paymentDates = None, qu_initialDeposit = None\<rparr>\<rparr>"

definition sample_auth :: "int \<Rightarrow> auth_state_row" where
  "sample_auth i =
     \<lparr>aus_userId = i, aus_clientState = 9, aus_deviceId = ''dev'', aus_privateKey = ''key'',
      aus_refreshToken = ''refresh'', aus_extraLoginData = None, aus_lastCustomerOauthToken = None,
      aus_oauthExpirationTimestamp = None, aus_refreshExpirationTimestamp = None,
      aus_externalCustomerId = Some 501, aus_ewalletId = Some 77, aus_updatedAt = 0\<rparr>"

definition sample_profile :: "int \<Rightarrow> profile_row" where
  "sample_profile i =
     \<lparr>prof_userId = i, prof_external_customer_id = Some (500 + i), prof_ewallet_id = Some 77,
      prof_oauth_token = None, prof_refresh_token = None, prof_private_key = None, prof_email = None,
      prof_mobile = None, prof_details = [], prof_updatedAt = 0\<rparr>"

definition empty_world :: "int world" where
  "empty_world =
     \<lparr>users = empty_table, authStates = empty_table, profiles = empty_table, payments = empty_table,
      cards = empty_table, bulkBatches = empty_table, cardPickups = empty_table,
      transactions = empty_table, transferReceipts = empty_table, pushTokens = empty_table,
      deviceCredentials = empty_table, loginChallenges = empty_table, userWallets = empty_table,
      rampOrders = empty_table, investmentOperations = empty_table, locks = [], sipCache = None,
      ext = 0, trace = []\<rparr>"

definition table_of :: "'r list \<Rightarrow> 'r table" where
  "table_of rs = \<lparr>rows = rs, next_id = int (length rs) + 1\<rparr>"

definition sample_world :: "int world" where
  "sample_world = empty_world
     \<lparr>users := table_of [sample_user 1 ''ana@x'', sample_user 2 ''bob@x''],
      authStates := table_of [sample_auth 1, sample_auth 2],
      profiles := table_of [sample_profile 1, sample_profile 2]\<rparr>"

definition sample_payment_row :: "int \<Rightarrow> string \<Rightarrow> payment_row" where
  "sample_payment_row i key =
     \<lparr>pay_id = i, pay_user_id = 1, pay_order_id = None, pay_provider = ''clip'',
      pay_provider_payment_id = Some ''p1'', pay_amount = 100, pay_currency = ''MXN'',
      pay_description = None, pay_business_fee_rate = 0, pay_business_fee_amount = 0,
      pay_net_amount = 75, pay_net_amount_mxn = Some 75, pay_status = PROCESSING,
      pay_payment_method = ''card'', pay_idempotency_key = key, pay_request_payload = None,
      pay_response_payload = None, pay_created_at = 0, pay_updated_at = 0\<rparr>"

end
