(* ===== verification/PaymentProps.thy ===== *)
theory PaymentProps
  imports PaymentProofs Samples
begin

text \<open>
  The properties of the card payments: what the webhook may and must do with the wallet, what the
  other operations leave to it, and the amounts of a new payment.
\<close>

section \<open>A sample payment\<close>

definition clip_world :: "int world" where
  "clip_world = sample_world\<lparr>payments := table_of [sample_payment_row 1 ''k1'']\<rparr>"

definition clip_payload :: payload where
  "clip_payload = [(''id'', JStr ''p1''), (''status'', JStr ''approved'')]"

lemma clip_world_inv: "clip_inv 1 ''k1'' clip_world"
  by code_simp

lemma clip_payload_id: "extractClipWebhookPaymentId clip_payload = Some ''p1''"
  by code_simp

text \<open>
  C1: However many webhooks arrive for a payment, in whatever order and mixed with new payments
  and lookups, the wallet is topped up at most once for it, and not at all once a completed
  top-up is stored with it. \<^verbatim>\<open>clip_inv i K\<close> says that the payment \<^verbatim>\<open>i\<close> with key \<^verbatim>\<open>K\<close> is in a
  payments table whose keys are unique; \<^verbatim>\<open>topups K\<close> counts the successful calls.
\<close>

theorem clip_topup_at_most_once:
  fixes E :: "'x services" and w :: "'x world"
  assumes "clip_inv i K w"
  shows "topups K (fold (clip_step E) evs w) \<le> Suc (topups K w)
       \<and> (topup_marked i w \<longrightarrow> topups K (fold (clip_step E) evs w) = topups K w)"
  using clip_once.count_run [OF assms] clip_once.marked_run [OF assms] by blast

theorem clip_topup_at_most_once_witness:
  "topups ''k1'' clip_world = 0 \<and>
   topups ''k1'' (fold (clip_step sample_services) [ClipWebhook clip_payload, ClipWebhook clip_payload] clip_world) = 1"
proof -
  have "topups ''k1'' clip_world = 0" by code_simp
  moreover have "0 < topups ''k1'' (fold (clip_step sample_services) [ClipWebhook clip_payload, ClipWebhook clip_payload] clip_world)"
    by code_simp
  ultimately show ?thesis
    using clip_topup_at_most_once [OF clip_world_inv, of sample_services "[ClipWebhook clip_payload, ClipWebhook clip_payload]"]
    by linarith
qed


text \<open>
  C8: Every top-up the webhook asks for is the one of the payment it names: the payment's
  idempotency key as external transaction, its net amount in pesos, and the wallet and customer
  of its user, taken from the auth state or else from the profile.
\<close>

theorem clip_topup_request:
  assumes "(CallTopUp q, b) \<in> set (trace (snd (handleClipWebhook E payload w)))"
  shows "(CallTopUp q, b) \<in> set (trace w) \<or>
    (\<exists>ppid pu. extractClipWebhookPaymentId payload = Some ppid \<and>
       fst (getPaymentByProviderPaymentId CLIP ppid w) = Inr (Some pu) \<and> topup_request_of pu q)"
proof (rule handleClipWebhook_cases [of E payload w])
  assume "snd (handleClipWebhook E payload w) = w"
  with assms show ?thesis by simp
next
  fix ppid pu w1
  assume p: "extractClipWebhookPaymentId payload = Some ppid"
    "fst (getPaymentByProviderPaymentId CLIP ppid w) = Inr (Some pu)"
    "w1 = w\<lparr>locks := pay_idempotency_key (pwu_payment pu) # locks w\<rparr>"
    "handleClipWebhook E payload w = (fst (clip_process E ppid payload pu w1),
       (snd (clip_process E ppid payload pu w1))\<lparr>locks := locks w\<rparr>)"
  have "topups_within (trace w) (topup_request_of pu) w1" by (simp add: p(3) topups_within_def)
  from keepsD [OF within_process this, of E ppid payload] assms p show ?thesis
    by (auto simp: topups_within_def)
qed

definition clip_topup_call :: "call \<times> bool" where
  "clip_topup_call = (CallTopUp \<lparr>tr_externalTransactionId = ''k1'', tr_balanceId = 77, tr_amount = Fin 75, tr_sourceCustomerID = 501\<rparr>, True)"

theorem clip_topup_request_witness:
  "\<exists>pu. fst (getPaymentByProviderPaymentId CLIP ''p1'' clip_world) = Inr (Some pu) \<and>
     topup_request_of pu \<lparr>tr_externalTransactionId = ''k1'', tr_balanceId = 77, tr_amount = Fin 75, tr_sourceCustomerID = 501\<rparr>"
proof -
  have "list_ex (\<lambda>c. c = clip_topup_call) (trace (snd (handleClipWebhook sample_services clip_payload clip_world)))"
    by code_simp
  then have "clip_topup_call \<in> set (trace (snd (handleClipWebhook sample_services clip_payload clip_world)))"
    by (simp add: list_ex_iff)
  moreover have "trace clip_world = []" by code_simp
  ultimately show ?thesis
    using clip_topup_request [of _ True sample_services clip_payload clip_world]
    by (auto simp: clip_topup_call_def clip_payload_id)
qed




text \<open>
  C16: Creating a payment, sending it to the provider, verifying it and looking it up never make a
  payment completed: the payments completed afterwards were completed before. Completion is left
  to the webhook.
\<close>

theorem only_webhook_completes: "completed_ids (payment_step E c w) \<subseteq> completed_ids w"
  using payment_step_completed [of "completed_ids w" w E c] by (simp add: completed_in_def)



text \<open>
  Sending a payment to the provider is refused, with nothing changed and nothing called, when
  the payment does not exist or is no longer pending.
\<close>

theorem processPayment_refuses:
  assumes "fst (getPaymentById i w) = Inr p" and "\<And>pu. p = Some pu \<Longrightarrow> pay_status (pwu_payment pu) \<noteq> PENDING"
  shows "processPayment E i req w = (Inl (mk_error BadRequestError
           (if p = None then ''Payment not found'' else ''Payment has already been processed'')), w)"
proof -
  have g: "getPaymentById i w = (Inr p, w)" by (rule getPaymentById_eq [OF assms(1)])
  show ?thesis
    using assms(2) by (cases p) (simp_all add: processPayment_def bindE_def [of "getPaymentById i"] bindE_def [of "require _ _"]
        bindE_def [of "ensure _ _"] require_run ensure_run g)
qed

definition sample_process :: process_payment_request where
  "sample_process = \<lparr>ppr_card_token = ''tok'', ppr_prevention_data = None\<rparr>"

theorem processPayment_refuses_witness:
  "processPayment sample_services 2 sample_process clip_world =
     (Inl (mk_error BadRequestError ''Payment not found''), clip_world)"
proof -
  have "fst (getPaymentById 2 clip_world) = Inr None" by (simp add: getPaymentById_def bindE_def find_row_def clip_world_def table_of_def sample_payment_row_def with_user_def)
  from processPayment_refuses [OF this, of sample_services sample_process] show ?thesis by simp
qed

text \<open>
  C18: For a fee rate between zero and a half and an amount of up to a trillion, the fees are
  finite numbers, the gross amount charged to the card covers the net amount credited to the
  wallet, and the fee is not negative and below the gross amount, rounding included.
\<close>

theorem calculatePaymentFees_bounds:
  assumes "cfg_usdMxnFeeRate c = Fin r" and "0 \<le> r" and "r \<le> 1/2"
    and "is_double a" and "0 \<le> a" and "a \<le> 10 ^ 12"
  shows "\<exists>g f. calculatePaymentFees c (Fin a) =
      \<lparr>pf_businessFeeRate = Fin r, pf_businessFeeAmount = Fin f, pf_grossAmount = Fin g, pf_netAmount = Fin a\<rparr>
    \<and> a \<le> g \<and> 0 \<le> f \<and> f \<le> g"
proof -
  have big: "x \<le> 2 powi 1000" if "x \<le> 10 ^ 13" for x :: rat
  proof -
    have "(10::rat) ^ 13 \<le> 2 powi 1000" by simp
    with that show ?thesis by (rule order_trans)
  qed
  define d where "d = fl (1 - r)"
  have half: "fl (1/2) = 1/2" using fl_pow2 [of "-1"] by simp
  have one: "fl 1 = 1" using fl_int [of 1] by simp
  have d: "1/2 \<le> d" "d \<le> 1"
    using fl_mono [of "1/2" "1 - r"] fl_mono [of "1 - r" 1] assms(2,3) half one by (simp_all add: d_def)
  have d1: "js_sub (Fin 1) (Fin r) = Fin d"
    using assms(2,3) big [of 1] by (simp add: js_sub_def d_def to_double_small)
  define g where "g = fl (a / d)"
  have le: "a / d \<le> 10 ^ 13"
  proof -
    have "a / d \<le> a / (1/2)" using d assms(5) by (intro divide_left_mono) auto
    with assms(6) show ?thesis by simp
  qed
  have nn: "0 \<le> a / d" using d assms(5) by simp
  have g1: "js_div (Fin a) (Fin d) = Fin g"
    using d nn big [OF le] by (simp add: g_def to_double_small)
  have fa: "fl a = a" using assms(4) by (simp add: is_double_def)
  have ag: "a \<le> g" unfolding g_def using dbl.gross_ge_net [OF fa assms(5)] d by simp
  have fg: "fl g = g" by (simp add: g_def)
  have g13: "g \<le> 10 ^ 13"
    using fl_mono [OF le] fl_int [of "10 ^ 13"] by (simp add: g_def)
  have f1: "js_sub (Fin g) (Fin a) = Fin (fl (g - a))"
    using ag assms(5) g13 big [of "g - a"] by (simp add: js_sub_def to_double_small)
  have "0 \<le> fl (g - a)" using ag by (simp add: fl_nonneg)
  moreover have "fl (g - a) \<le> g" using fl_mono [of "g - a" g] assms(5) fg by simp
  ultimately show ?thesis
    using ag by (intro exI [of _ g] exI [of _ "fl (g - a)"]) (simp add: calculatePaymentFees_def Let_def assms(1) d1 g1 f1 del: js_div.simps)
qed

theorem calculatePaymentFees_bounds_witness:
  "\<exists>g f. calculatePaymentFees sample_config (Fin 75) =
      \<lparr>pf_businessFeeRate = Fin (1/4), pf_businessFeeAmount = Fin f, pf_grossAmount = Fin g, pf_netAmount = Fin 75\<rparr>
    \<and> 75 \<le> g \<and> 0 \<le> f \<and> f \<le> g"
  by (rule calculatePaymentFees_bounds) (simp_all add: sample_config_def is_double_int [of 75, simplified])

text \<open>
  A payment that is created is one new row, pending, for the user who asks, with a fresh id
  and no provider data; the amounts stored are those of the fee computation, and the keys of the
  table stay unique.
\<close>

theorem createPayment_row:
  assumes "createPayment E userId req w = (Inr res, w')" and "payments_wf (payments w)"
  shows "\<exists>r. rows (payments w') = rows (payments w) @ [r] \<and> payments_wf (payments w')
    \<and> pay_id r = next_id (payments w) \<and> pay_user_id r = userId \<and> pay_status r = PENDING
    \<and> pay_provider_payment_id r = None \<and> pay_response_payload r = None
    \<and> store_decimal 10 2 (pf_grossAmount (calculatePaymentFees (cfg E) (pcr_amount req))) = Inr (pay_amount r)
    \<and> store_decimal 10 2 (pf_netAmount (calculatePaymentFees (cfg E) (pcr_amount req))) = Inr (pay_net_amount r)
    \<and> pcs_paymentId res = string_of_int (pay_id r)"
proof -
  have ins: "\<exists>r. mk (next_id (payments v)) = r \<and> q = r \<and> payments v' = insert_row r (payments v) \<and> payment_keys_free r (payments v)"
    if "insert_payment mk v = (Inr q, v')" for mk q and v v' :: "'a world"
    using that by (auto simp: insert_payment_def bindE_def ensure_run split: if_splits)
  from assms(1) obtain mk :: "int \<Rightarrow> payment_row" and v q where
    i: "insert_payment mk v = (Inr q, w')" and v: "payments v = payments w" and
    mk: "\<And>j. pay_id (mk j) = j \<and> pay_user_id (mk j) = userId \<and> pay_status (mk j) = PENDING
      \<and> pay_provider_payment_id (mk j) = None \<and> pay_response_payload (mk j) = None
      \<and> store_decimal 10 2 (pf_grossAmount (calculatePaymentFees (cfg E) (pcr_amount req))) = Inr (pay_amount (mk j))
      \<and> store_decimal 10 2 (pf_netAmount (calculatePaymentFees (cfg E) (pcr_amount req))) = Inr (pay_net_amount (mk j))" and
    res: "pcs_paymentId res = string_of_int (pay_id q)"
    by (fastforce simp: createPayment_def PaymentRepository_createPayment_def bindE_Inr_iff service_run now_run from_sum_def
        Let_def split: sum.splits)
  from ins [OF i] v assms(2) mk res show ?thesis
    by (auto simp: rows_insert_row intro!: payments_wf_insert)
qed

definition sample_create :: payment_create_request where
  "sample_create = \<lparr>pcr_amount = Fin 75, pcr_currency = None, pcr_description = None, pcr_netAmountMxn = None\<rparr>"

theorem createPayment_row_witness:
  "\<exists>r. rows (payments (snd (createPayment sample_services 1 sample_create sample_world))) = [r] \<and> pay_status r = PENDING
     \<and> store_decimal 10 2 (pf_netAmount (calculatePaymentFees sample_config (Fin 75))) = Inr (pay_net_amount r)"
proof -
  have "succeeded (fst (createPayment sample_services 1 sample_create sample_world))" by code_simp
  then obtain res w' where c: "createPayment sample_services 1 sample_create sample_world = (Inr res, w')"
    by (cases "createPayment sample_services 1 sample_create sample_world"; cases "fst (createPayment sample_services 1 sample_create sample_world)") auto
  have e: "rows (payments sample_world) = []" by code_simp
  then have "payments_wf (payments sample_world)" by (simp add: payments_wf_def)
  from createPayment_row [OF c this] e c show ?thesis
    by (auto simp: sample_create_def sample_services_def)
qed

text \<open>
  C7: A webhook for a payment not yet topped up, which the provider confirms, whose lock is free
  and whose user has a wallet, does top the wallet up while the wallet service answers: it
  returns with the top-up reported, one more top-up is made with the payment's key, and the
  payment is marked. Mail and push failures do not get in the way.
\<close>

theorem clip_webhook_tops_up:
  fixes E :: "'x services" and w :: "'x world"
  assumes "payments_wf (payments w)"
    and "extractClipWebhookPaymentId payload = Some ppid"
    and "fst (getPaymentByProviderPaymentId CLIP ppid w) = Inr (Some pu)"
    and "pay_idempotency_key (pwu_payment pu) \<notin> set (locks w)"
    and "\<not> hasCompletedTopup (pay_response_payload (pwu_payment pu))"
    and "api_payment_details E ppid (ext w) = (Inr pp, x)"
    and "mapClipStatusToInternal (pp_status pp) = COMPLETED" and "pp_customer pp \<noteq> None"
    and "\<And>s :: 'x world. buildTopupRequestFromPayment pu s = (Inr q, s)"
    and "\<And>x. succeeded (fst (api_topup E q x))"
  defines "K \<equiv> pay_idempotency_key (pwu_payment pu)"
  shows "\<exists>w'. handleClipWebhook E payload w = (Inr (clip_response ppid (pwu_payment pu) COMPLETED True (Some K)), w')
    \<and> topups K w' = Suc (topups K w) \<and> topup_marked (pay_id (pwu_payment pu)) w'"
proof -
  define i where "i = pay_id (pwu_payment pu)"
  define w1 where "w1 = w\<lparr>locks := K # locks w\<rparr>"
  have "with_user (find_row (\<lambda>r. pay_provider r = CLIP \<and> pay_provider_payment_id r = Some ppid) (payments w)) w = (Inr (Some pu), w)"
    using find_by_provider_run [of CLIP ppid w] assms(3) by (auto simp: getPaymentByProviderPaymentId_def bindE_def intro: prod_eqI)
  from with_user_result [OF this] have mem: "pwu_payment pu \<in> set (rows (payments w))" using find_row_mem by fastforce
  then have inv: "clip_inv i K w" using assms(1) by (auto simp: clip_inv_def list_ex_iff i_def K_def)
  then have ph: "clip_phase i K (topup_marked i w) (topups K w) w" by (simp add: clip_phase_def)
  have "\<not> topup_marked i w" using clip_read_row [OF ph mem] assms(5) by (simp add: clip_read_def i_def)
  with ph mem have at: "clip_at i K i False (topups K w) w1"
    by (auto simp: clip_at_def w1_def clip_phase_def clip_inv_def topup_marked_def topups_def exists_row_def list_ex_iff i_def)
  from clip_process_success [OF _ _ assms(5) _ assms(7-10) at, of ppid x payload] assms(6) obtain w' where
    "clip_process E ppid payload pu w1 = (Inr (clip_response ppid (pwu_payment pu) COMPLETED True (Some K)), w')"
    "clip_at i K i True (Suc (topups K w)) w'"
    by (auto simp: i_def K_def w1_def)
  then show ?thesis
    using handleClipWebhook_process [OF assms(2-4), of E] unfolding K_def [symmetric] w1_def [symmetric]
    by (simp add: clip_at_def clip_phase_def topups_def topup_marked_def i_def)
qed

definition clip_user_payment :: payment_with_user where
  "clip_user_payment = \<lparr>pwu_payment = sample_payment_row 1 ''k1'', pwu_user = sample_user 1 ''ana@x'',
     pwu_authState = Some (sample_auth 1), pwu_profile = Some (sample_profile 1)\<rparr>"

theorem clip_webhook_tops_up_witness:
  "\<exists>w'. handleClipWebhook sample_services clip_payload clip_world =
       (Inr (clip_response ''p1'' (sample_payment_row 1 ''k1'') COMPLETED True (Some ''k1'')), w')
     \<and> topups ''k1'' w' = Suc (topups ''k1'' clip_world) \<and> topup_marked 1 w'"
proof -
  have wf: "payments_wf (payments clip_world)" using clip_world_inv by (simp add: clip_inv_def)
  have find: "fst (getPaymentByProviderPaymentId CLIP ''p1'' clip_world) = Inr (Some clip_user_payment)" by code_simp
  have lock: "pay_idempotency_key (pwu_payment clip_user_payment) \<notin> set (locks clip_world)" by code_simp
  have fresh: "\<not> hasCompletedTopup (pay_response_payload (pwu_payment clip_user_payment))" by code_simp
  have pp: "api_payment_details sample_services ''p1'' (ext clip_world) = (Inr (sample_payment ''p1'' ''approved''), ext clip_world)"
    by (simp add: sample_services_def)
  have st: "mapClipStatusToInternal (pp_status (sample_payment ''p1'' ''approved'')) = COMPLETED" by code_simp
  have cu: "pp_customer (sample_payment ''p1'' ''approved'') \<noteq> None" by (simp add: sample_payment_def)
  have q: "buildTopupRequestFromPayment clip_user_payment s = (Inr \<lparr>tr_externalTransactionId = ''k1'', tr_balanceId = 77,
      tr_amount = decimal_toNumber 75, tr_sourceCustomerID = 501\<rparr>, s)" for s :: "int world"
    by (simp add: buildTopupRequestFromPayment_def clip_user_payment_def bindE_def deref_run ensure_run nullish_field_def
        truthy_int_def sample_auth_def sample_payment_row_def topup_amount_def)
  have up: "succeeded (fst (api_topup sample_services r x))" for r x by (simp add: sample_services_def)
  from clip_webhook_tops_up [OF wf clip_payload_id find lock fresh pp st cu q up] show ?thesis
    by (simp add: clip_user_payment_def sample_payment_row_def)
qed

end
