(* ===== verification/JsDate.thy ===== *)
theory JsDate
  imports JsString
begin

text \<open>
  Dates: a \<^verbatim>\<open>Date\<close> is a number of milliseconds since 1970. The calendar follows the definition
  of the language: the day number of the first of January of a year, the year a day falls in,
  and the month table.
\<close>

definition msPerDay :: int where
  "msPerDay = 86400000"

definition day_of :: "int \<Rightarrow> int" where
  "day_of t = t div msPerDay"

definition time_within_day :: "int \<Rightarrow> int" where
  "time_within_day t = t mod msPerDay"

definition leap_year :: "int \<Rightarrow> bool" where
  "leap_year y \<longleftrightarrow> y mod 4 = 0 \<and> (y mod 100 \<noteq> 0 \<or> y mod 400 = 0)"

definition day_from_year :: "int \<Rightarrow> int" where
  "day_from_year y = 365 * (y - 1970) + (y - 1969) div 4 - (y - 1901) div 100 + (y - 1601) div 400"

text \<open>The mean length of a year estimates the year within one.\<close>

definition year_from_day :: "int \<Rightarrow> int" where
  "year_from_day d = (let y = 1970 + d * 400 div 146097 in
     if d < day_from_year y then y - 1 else if day_from_year (y + 1) \<le> d then y + 1 else y)"

text \<open>Days before each month of a year, and the length of a month; months are counted from 0.\<close>

definition month_lengths :: "bool \<Rightarrow> int list" where
  "month_lengths leap = [31, if leap then 29 else 28, 31, 30, 31, 30, 31, 31, 30, 31, 30, 31]"

fun month_day :: "int list \<Rightarrow> int \<Rightarrow> int \<Rightarrow> int \<times> int" where
  "month_day [] m d = (m, d + 1)"
| "month_day (l # ls) m d = (if d < l then (m, d + 1) else month_day ls (m + 1) (d - l))"

text \<open>Year, month from 0 and day of the month from 1 of a day number.\<close>

definition civil_of_day :: "int \<Rightarrow> int \<times> int \<times> int" where
  "civil_of_day d = (let y = year_from_day d; (m, k) = month_day (month_lengths (leap_year y)) 0 (d - day_from_year y)
                     in (y, m, k))"

definition day_of_civil :: "int \<Rightarrow> int \<Rightarrow> int \<Rightarrow> int" where
  "day_of_civil y m k = day_from_year y + sum_list (take (nat m) (month_lengths (leap_year y))) + (k - 1)"

definition hours_of :: "int \<Rightarrow> int" where
  "hours_of t = time_within_day t div 3600000"

definition minutes_of :: "int \<Rightarrow> int" where
  "minutes_of t = time_within_day t div 60000 mod 60"

definition pad2 :: "int \<Rightarrow> string" where
  "pad2 n = padStart 2 CHR ''0'' (string_of_int n)"

lemma div_bounds: "0 < k \<Longrightarrow> k * (n div k) \<le> n \<and> n < k * (n div k) + k" for n k :: int
  using pos_mod_bound [of k n] pos_mod_sign [of k n] by (simp add: minus_mod_eq_mult_div [symmetric])

lemma div_succ:
  fixes n k :: int
  assumes "0 < k"
  shows "(n + 1) div k = n div k + (if (n + 1) mod k = 0 then 1 else 0)"
proof -
  define q r where "q = n div k" and "r = n mod k"
  have n: "n = k * q + r" and r: "0 \<le> r" "r < k" using assms by (simp_all add: q_def r_def)
  show ?thesis
  proof (cases "r + 1 = k")
    case True
    then have "n + 1 = k * (q + 1)" by (simp add: n algebra_simps)
    then show ?thesis using assms by (simp add: q_def [symmetric])
  next
    case False
    with r have b: "0 \<le> r + 1" "r + 1 < k" by auto
    have m: "n + 1 = k * q + (r + 1)" by (simp add: n)
    have "(n + 1) div k = q" "(n + 1) mod k = r + 1"
      using int_div_pos_eq [OF m b] int_mod_pos_eq [OF m b] by simp_all
    then show ?thesis using r by (simp add: q_def)
  qed
qed

lemma mod_shift: "(y - k * j) mod k = y mod k" for y k j :: int
  using mod_mult_self2 [of y k "- j"] by simp

lemma div_year:
  fixes y k j :: int
  assumes "0 < k" and "c = k * j + 1"
  shows "(y + 1 - c) div k = (y - c) div k + (if y mod k = 0 then 1 else 0)"
proof -
  have a: "y + 1 - c = y - c + 1" and b: "(y - c + 1) mod k = y mod k"
    using mod_shift [of y k j] by (simp_all add: assms(2))
  show ?thesis unfolding a div_succ [OF assms(1), of "y - c"] b ..
qed

lemma year_length: "day_from_year (y + 1) - day_from_year y = (if leap_year y then 366 else 365)"
proof -
  define A B C where "A = (y - 1969) div 4" and "B = (y - 1901) div 100" and "C = (y - 1601) div 400"
  define i j k :: int where "i = (if y mod 4 = 0 then 1 else 0)" and "j = (if y mod 100 = 0 then 1 else 0)"
    and "k = (if y mod 400 = 0 then 1 else 0)"
  have "(y + 1 - 1969) div 4 = A + i" "(y + 1 - 1901) div 100 = B + j" "(y + 1 - 1601) div 400 = C + k"
    unfolding A_def B_def C_def i_def j_def k_def by (rule div_year; simp)+
  then have "day_from_year (y + 1) - day_from_year y = 365 * (y + 1 - 1970) + (A + i) - (B + j) + (C + k) - (365 * (y - 1970) + A - B + C)"
    by (simp only: day_from_year_def A_def B_def C_def)
  also have "\<dots> = 365 + i - j + k" by (simp add: algebra_simps)
  finally have e: "day_from_year (y + 1) - day_from_year y = 365 + i - j + k" .
  have d: "y mod 400 = 0 \<Longrightarrow> y mod 100 = 0" "y mod 100 = 0 \<Longrightarrow> y mod 4 = 0"
    by (auto simp: mod_eq_0_iff_dvd elim!: dvd_trans [rotated])
  show ?thesis unfolding e i_def j_def k_def leap_year_def using d by (cases "y mod 4 = 0"; cases "y mod 100 = 0"; cases "y mod 400 = 0") simp_all
qed

lemma day_from_year_bounds:
  "400 * day_from_year y \<le> 146097 * (y - 1970) + 600 \<and> 146097 * (y - 1970) - 600 \<le> 400 * day_from_year y"
proof -
  define a b c where "a = (y - 1969) div 4" and "b = (y - 1901) div 100" and "c = (y - 1601) div 400"
  have "4 * a \<le> y - 1969 \<and> y - 1969 < 4 * a + 4" unfolding a_def by (rule div_bounds) simp
  moreover have "100 * b \<le> y - 1901 \<and> y - 1901 < 100 * b + 100" unfolding b_def by (rule div_bounds) simp
  moreover have "400 * c \<le> y - 1601 \<and> y - 1601 < 400 * c + 400" unfolding c_def by (rule div_bounds) simp
  ultimately show ?thesis unfolding day_from_year_def a_def [symmetric] b_def [symmetric] c_def [symmetric] by (simp add: algebra_simps)
qed

text \<open>The year of a day is the one whose days it is among.\<close>

lemma year_from_day_bounds:
  "day_from_year (year_from_day d) \<le> d \<and> d < day_from_year (year_from_day d + 1)"
proof -
  define y where "y = 1970 + d * 400 div 146097"
  have e: "146097 * (y - 1970) \<le> d * 400 \<and> d * 400 < 146097 * (y - 1970) + 146097"
    unfolding y_def add_diff_cancel_left' by (rule div_bounds) simp
  then have e1: "146097 * (y - 1970) \<le> d * 400" and e2: "d * 400 < 146097 * (y - 1970) + 146097" by auto
  from day_from_year_bounds [of y] have b1: "400 * day_from_year y \<le> 146097 * (y - 1970) + 600"
    and b2: "146097 * (y - 1970) - 600 \<le> 400 * day_from_year y" by auto
  have prev: "day_from_year (y - 1) + 365 \<le> day_from_year y" using year_length [of "y - 1"] by (simp split: if_splits)
  have nxt: "day_from_year y + 365 \<le> day_from_year (y + 1)" using year_length [of y] by (simp split: if_splits)
  have nxt2: "day_from_year (y + 1) + 365 \<le> day_from_year (y + 2)" using year_length [of "y + 1"] by (simp add: add.assoc split: if_splits)
  consider "d < day_from_year y" | "day_from_year y \<le> d" "day_from_year (y + 1) \<le> d" | "day_from_year y \<le> d" "d < day_from_year (y + 1)"
    by linarith
  then show ?thesis
  proof cases
    case 1
    then have "year_from_day d = y - 1" by (simp add: year_from_day_def y_def Let_def)
    moreover have "day_from_year (y - 1) \<le> d" using e1 b1 prev by (simp add: algebra_simps)
    ultimately show ?thesis using 1 by simp
  next
    case 2
    then have "year_from_day d = y + 1" by (simp add: year_from_day_def y_def Let_def)
    moreover have "d < day_from_year (y + 2)" using e2 b2 nxt nxt2 by (simp add: algebra_simps)
    ultimately show ?thesis using 2 by (simp add: add.assoc)
  next
    case 3
    then have "year_from_day d = y" by (simp add: year_from_day_def y_def Let_def)
    with 3 show ?thesis by simp
  qed
qed

lemma month_day_bounds:
  assumes "0 \<le> d" and "d < sum_list ls" and "month_day ls m d = (m', k)"
  shows "\<exists>j < length ls. m' = m + int j \<and> d = sum_list (take j ls) + (k - 1) \<and> 1 \<le> k \<and> k \<le> ls ! j"
  using assms
proof (induction ls m d rule: month_day.induct)
  case (2 l ls m d)
  show ?case
  proof (cases "d < l")
    case True
    with 2 show ?thesis by (intro exI [of _ 0]) auto
  next
    case False
    with 2 obtain j where "j < length ls" "m' = m + 1 + int j" "d - l = sum_list (take j ls) + (k - 1)" "1 \<le> k" "k \<le> ls ! j"
      by auto
    then show ?thesis by (intro exI [of _ "Suc j"]) simp
  qed
qed simp

lemma sum_month_lengths: "sum_list (month_lengths leap) = (if leap then 366 else 365)"
  by (simp add: month_lengths_def)

text \<open>The calendar fields of a day are in range, and name that day again.\<close>

lemma civil_of_day_roundtrip:
  assumes "civil_of_day d = (y, m, k)"
  shows "day_of_civil y m k = d \<and> 0 \<le> m \<and> m \<le> 11 \<and> 1 \<le> k \<and> k \<le> month_lengths (leap_year y) ! nat m"
proof -
  from assms have y: "y = year_from_day d"
    and md: "month_day (month_lengths (leap_year y)) 0 (d - day_from_year y) = (m, k)"
    by (auto simp: civil_of_day_def Let_def split: prod.splits)
  have "0 \<le> d - day_from_year y" "d - day_from_year y < sum_list (month_lengths (leap_year y))"
    using year_from_day_bounds [of d] year_length [of y] by (auto simp: y sum_month_lengths)
  from month_day_bounds [OF this md] obtain j where
    "j < 12" "m = int j" "d - day_from_year y = sum_list (take j (month_lengths (leap_year y))) + (k - 1)"
    "1 \<le> k" "k \<le> month_lengths (leap_year y) ! j"
    by (auto simp: month_lengths_def)
  then show ?thesis by (auto simp: day_of_civil_def)
qed

end
