(* ===== verification/SipPayments.thy ===== *)
theory SipPayments
  imports Payments JsDate
begin

text \<open>
  QR payments through the SIP bank interface: \<^verbatim>\<open>services/bmsc.payment.service.ts\<close>,
  \<^verbatim>\<open>repositories/bmsc.payment.repository.ts\<close>, \<^verbatim>\<open>services/sip.bmsc.service.ts\<close>,
  \<^verbatim>\<open>services/sip.auth.service.ts\<close>, \<^verbatim>\<open>middlewares/sip.basicAuth.middleware.ts\<close> and the SIP part
  of \<^verbatim>\<open>utils/payment.utils.ts\<close>. A QR is created for an order; the bank's callback completes
  the payment and tops up the wallet.
\<close>

section \<open>Keys and dates\<close>

definition minute_bucket :: "int \<Rightarrow> string" where
  "minute_bucket t = (case civil_of_day (day_of t) of (year, month, day) \<Rightarrow>
     string_of_int year @ pad2 (month + 1) @ pad2 day @ pad2 (hours_of t) @ pad2 (minutes_of t))"

definition generateSipQrIdempotencyKey :: "'x services \<Rightarrow> int \<Rightarrow> jsnum \<Rightarrow> sip_currency \<Rightarrow> ('x world, string) op" where
  "generateSipQrIdempotencyKey E userId amount currency =
     bindE (now E) (\<lambda>t.
     ok (sha256_hex E (''SIP_TOPUP|'' @ string_of_int userId @ ''|'' @ toFixed 2 amount @ ''|''
           @ currency_str currency @ ''|'' @ minute_bucket t)))"

text \<open>The date a number of days ahead, in the time zone of the process.\<close>

definition buildExpirationDate :: "'x services \<Rightarrow> int \<Rightarrow> ('x world, string) op" where
  "buildExpirationDate E daysFromNow =
     bindE (now E) (\<lambda>t. case civil_of_day (day_of (t + local_offset E t) + daysFromNow) of (yyyy, mm, dd) \<Rightarrow>
     ok (pad2 dd @ ''/'' @ pad2 (mm + 1) @ ''/'' @ string_of_int yyyy))"

section \<open>Token and QR calls\<close>

definition refreshToken :: "'x services \<Rightarrow> ('x world, string) op" where
  "refreshToken E =
     bindE (modify (\<lambda>w. w\<lparr>sipCache := None\<rparr>)) (\<lambda>_.
     bindE (remote CallSipToken (api_sip_token E (cfg_sipUsername (cfg E)) (cfg_sipPassword (cfg E))) sip_auth_error) (\<lambda>body.
     bindE (ensure (st_codigo body = ''OK'' \<and> truthy_str (st_token body))
              (mk_error InternalServerError (''SIP authentication failed: '' @ st_mensaje body))) (\<lambda>_.
     bindE (now E) (\<lambda>t.
     bindE (modify (\<lambda>w. w\<lparr>sipCache := Some \<lparr>tc_token = the (st_token body),
              tc_expiresAt = js_add (js_int t) (js_mul (cfg_sipTokenCacheTtlSeconds (cfg E)) (Fin 1000))\<rparr>\<rparr>)) (\<lambda>_.
     ok (the (st_token body)))))))"

definition getToken :: "'x services \<Rightarrow> ('x world, string) op" where
  "getToken E =
     bindE (gets sipCache) (\<lambda>cache. case cache of
         None \<Rightarrow> refreshToken E
       | Some c \<Rightarrow> bindE (now E) (\<lambda>t.
           if js_less (js_int t) (tc_expiresAt c) then ok (tc_token c) else refreshToken E))"

definition withToken :: "'x services \<Rightarrow> (string \<Rightarrow> ('x world, 'a) op) \<Rightarrow> ('x world, 'a) op" where
  "withToken E fn =
     bindE (getToken E) (\<lambda>token.
     try_catch (fn token) (\<lambda>e.
       if err_class e = UnauthorizedError then bindE (refreshToken E) fn else throw e))"

definition sip_post_qr :: "'x services \<Rightarrow> sip_qr_request \<Rightarrow> string \<Rightarrow> ('x world, sip_qr_response) op" where
  "sip_post_qr E q token = remote (CallSipQr token q) (api_sip_qr E token q) sip_error"

definition generateQr :: "'x services \<Rightarrow> sip_qr_request \<Rightarrow> ('x world, sip_qr_objeto) op" where
  "generateQr E q = bindE (withToken E (sip_post_qr E q)) (\<lambda>body. deref (sr_objeto body))"

section \<open>Repository\<close>

definition SIP_PROVIDER :: string where
  "SIP_PROVIDER = ''QRBMSC''"

definition SIP_PAYMENT_METHOD :: string where
  "SIP_PAYMENT_METHOD = ''QR''"

definition sip_request_json :: "sip_qr_request \<Rightarrow> json" where
  "sip_request_json q = jobj
     [(''alias'', Some (JStr (sq_alias q))), (''callback'', Some (JStr (sq_callback q))),
      (''detalleGlosa'', Some (JStr (sq_detalleGlosa q))), (''monto'', Some (JNum (sq_monto q))),
      (''moneda'', Some (JStr (currency_str (sq_moneda q)))),
      (''fechaVencimiento'', Some (JStr (sq_fechaVencimiento q))),
      (''tipoSolicitud'', Some (JStr ''API'')), (''unicoUso'', Some (JStr ''true''))]"

definition qr_objeto_json :: "sip_qr_objeto \<Rightarrow> json" where
  "qr_objeto_json q = jobj
     [(''imagenQr'', Some (JStr (so_imagenQr q))), (''idQr'', Some (JStr (so_idQr q))),
      (''fechaVencimiento'', Some (JStr (so_fechaVencimiento q))),
      (''bancoDestino'', Some (JStr (so_bancoDestino q))),
      (''cuentaDestino'', Some (JStr (so_cuentaDestino q))),
      (''idTransaccion'', Some (JNum (so_idTransaccion q)))]"

record create_sip_payment_input =
  sin_userId :: int
  sin_orderId :: string
  sin_amount :: jsnum
  sin_currency :: sip_currency
  sin_description :: string
  sin_netAmountMxn :: "jsnum option"
  sin_idempotencyKey :: string
  sin_requestPayload :: sip_qr_request

definition createSipPayment :: "'x services \<Rightarrow> create_sip_payment_input \<Rightarrow> ('x world, payment_row) op" where
  "createSipPayment E i =
     bindE (now E) (\<lambda>t.
     bindE (from_sum (store_decimal 10 2 (sin_amount i))) (\<lambda>amount.
     bindE (from_sum (store_decimal 14 2 (case sin_netAmountMxn i of Some m \<Rightarrow> m | None \<Rightarrow> Fin 0))) (\<lambda>mxn.
     insert_payment (\<lambda>k.
       \<lparr>pay_id = k, pay_user_id = sin_userId i, pay_order_id = Some (sin_orderId i), pay_provider = SIP_PROVIDER,
        pay_provider_payment_id = None, pay_amount = amount, pay_currency = currency_str (sin_currency i),
        pay_description = Some (slice 0 255 (sin_description i)), pay_business_fee_rate = 0,
        pay_business_fee_amount = 0, pay_net_amount = 0, pay_net_amount_mxn = Some mxn,
        pay_status = PENDING, pay_payment_method = SIP_PAYMENT_METHOD,
        pay_idempotency_key = sin_idempotencyKey i,
        pay_request_payload = Some (sip_request_json (sin_requestPayload i)), pay_response_payload = None,
        pay_created_at = to_seconds t, pay_updated_at = to_seconds t\<rparr>))))"

definition findByIdempotencyKey :: "string \<Rightarrow> ('x world, payment_row option) op" where
  "findByIdempotencyKey key = gets (\<lambda>w. find_row (\<lambda>r. pay_idempotency_key r = key) (payments w))"

definition findByOrderId :: "string \<Rightarrow> ('x world, payment_with_user option) op" where
  "findByOrderId orderId =
     bindE (gets (\<lambda>w. find_row (\<lambda>r. pay_provider r = SIP_PROVIDER \<and> pay_order_id r = Some orderId) (payments w))) with_user"

definition saveSipQrResponse :: "'x services \<Rightarrow> int \<Rightarrow> string \<Rightarrow> sip_qr_objeto \<Rightarrow> ('x world, payment_row) op" where
  "saveSipQrResponse E paymentId idQr response =
     bindE (now E) (\<lambda>t. update_payment paymentId (\<lambda>r. r\<lparr>pay_provider_payment_id := Some idQr,
       pay_response_payload := Some (qr_objeto_json response), pay_updated_at := to_seconds t\<rparr>))"

definition markFailed :: "'x services \<Rightarrow> int \<Rightarrow> json \<Rightarrow> ('x world, payment_row) op" where
  "markFailed E paymentId reason =
     bindE (now E) (\<lambda>t. update_payment paymentId (\<lambda>r. r\<lparr>pay_status := FAILED,
       pay_response_payload := Some reason, pay_updated_at := to_seconds t\<rparr>))"

definition callback_json :: "sip_callback \<Rightarrow> json" where
  "callback_json c = jobj
     [(''alias'', Some (JStr (cb_alias c))), (''monto'', cb_monto c), (''moneda'', jstr (cb_moneda c)),
      (''idQr'', jstr (cb_idQr c)), (''numeroOrdenOriginante'', jstr (cb_numeroOrdenOriginante c)),
      (''fechaproceso'', cb_fechaproceso c), (''cuentaCliente'', jstr (cb_cuentaCliente c)),
      (''nombreCliente'', jstr (cb_nombreCliente c)), (''documentoCliente'', jstr (cb_documentoCliente c))]"

definition completeSipPayment :: "'x services \<Rightarrow> int \<Rightarrow> sip_callback \<Rightarrow> ('x world, payment_row) op" where
  "completeSipPayment E paymentId callback =
     bindE (gets (\<lambda>w. find_row (\<lambda>r. pay_id r = paymentId) (payments w))) (\<lambda>existing.
     bindE (now E) (\<lambda>t. update_payment paymentId (\<lambda>r. r\<lparr>pay_status := COMPLETED,
       pay_response_payload := Some (JObj (set_prop ''callback'' (callback_json callback)
         (own_props (case existing of None \<Rightarrow> None | Some q \<Rightarrow> pay_response_payload q)))),
       pay_updated_at := to_seconds t\<rparr>)))"

text \<open>A decimal that is already rounded still has to fit the column it is copied to.\<close>

definition fit_decimal :: "nat \<Rightarrow> nat \<Rightarrow> rat \<Rightarrow> error + rat" where
  "fit_decimal p s d = (if \<bar>d\<bar> < of_int (10 ^ (p - s)) then Inr d else Inl column_error)"

definition createTopupIfNotExists :: "'x services \<Rightarrow> int \<Rightarrow> rat \<Rightarrow> string \<Rightarrow> string \<Rightarrow> ('x world, transaction_row) op" where
  "createTopupIfNotExists E userId amount prosperaReference description =
     bindE (gets (\<lambda>w. find_row (\<lambda>r. tx_prosperaReference r = Some prosperaReference) (transactions w))) (\<lambda>existing.
     case existing of
       Some r \<Rightarrow> ok r
     | None \<Rightarrow>
         bindE (now E) (\<lambda>t.
         bindE (from_sum (fit_decimal 10 2 amount)) (\<lambda>d.
         bindE (gets (\<lambda>w. exists_row (\<lambda>u. usr_id u = userId) (users w))) (\<lambda>u.
         bindE (ensure u foreign_key_violation) (\<lambda>_.
         bindE (gets (\<lambda>w. \<lparr>tx_id = next_id (transactions w), tx_userId = userId, tx_type = TOPUP, tx_amount = d,
             tx_status = COMPLETED, tx_description = Some description,
             tx_prosperaReference = Some prosperaReference, tx_updatedAt = t\<rparr>)) (\<lambda>r.
         bindE (modify (\<lambda>w. w\<lparr>transactions := insert_row r (transactions w)\<rparr>)) (\<lambda>_. ok r)))))))"

section \<open>Creating a QR\<close>

definition cached_qr :: "payment_row \<Rightarrow> create_sip_qr_response" where
  "cached_qr r =
     \<lparr>cqr_paymentId = string_of_int (pay_id r),
      cqr_orderId = (case pay_order_id r of Some s \<Rightarrow> s | None \<Rightarrow> ''''),
      cqr_qrBase64 = nullish_or (jprop (pay_response_payload r) ''imagenQr'') (JStr ''''),
      cqr_expiresAt = nullish_or (jprop (pay_response_payload r) ''fechaVencimiento'') (JStr ''''),
      cqr_idQr = pay_provider_payment_id r,
      cqr_idTransaccion = jprop (pay_response_payload r) ''idTransaccion'',
      cqr_bancoDestino = jprop (pay_response_payload r) ''bancoDestino'',
      cqr_cuentaDestino = jprop (pay_response_payload r) ''cuentaDestino''\<rparr>"

definition new_qr :: "payment_row \<Rightarrow> string \<Rightarrow> sip_qr_objeto \<Rightarrow> create_sip_qr_response" where
  "new_qr payment orderId qrObj =
     \<lparr>cqr_paymentId = string_of_int (pay_id payment), cqr_orderId = orderId,
      cqr_qrBase64 = JStr (so_imagenQr qrObj), cqr_expiresAt = JStr (so_fechaVencimiento qrObj),
      cqr_idQr = Some (so_idQr qrObj), cqr_idTransaccion = Some (JNum (so_idTransaccion qrObj)),
      cqr_bancoDestino = Some (JStr (so_bancoDestino qrObj)), cqr_cuentaDestino = Some (JStr (so_cuentaDestino qrObj))\<rparr>"

definition sip_request_for :: "config \<Rightarrow> create_sip_qr_request \<Rightarrow> string \<Rightarrow> string \<Rightarrow> sip_qr_request" where
  "sip_request_for c q orderId expires =
     \<lparr>sq_alias = orderId, sq_callback = cfg_sipPublicCallbackUrl c,
      sq_detalleGlosa = slice 0 30 (case cq_description q of Some d \<Rightarrow> d | None \<Rightarrow> ''Compra USDT''),
      sq_monto = cq_amount q, sq_moneda = cq_currency q, sq_fechaVencimiento = expires\<rparr>"

definition createSipQr :: "'x services \<Rightarrow> int \<Rightarrow> create_sip_qr_request \<Rightarrow> ('x world, create_sip_qr_response) op" where
  "createSipQr E userId q =
     bindE (generateSipQrIdempotencyKey E userId (cq_amount q) (cq_currency q)) (\<lambda>idempotencyKey.
     bindE (findByIdempotencyKey idempotencyKey) (\<lambda>existing. case existing of
         Some r \<Rightarrow> ok (cached_qr r)
       | None \<Rightarrow>
           bindE (service (random_uuid E)) (\<lambda>orderId.
           bindE (buildExpirationDate E 1) (\<lambda>fechaVencimiento.
           let sipRequest = sip_request_for (cfg E) q orderId fechaVencimiento in
           bindE (createSipPayment E
             \<lparr>sin_userId = userId, sin_orderId = orderId, sin_amount = cq_amount q, sin_currency = cq_currency q,
              sin_description = (case cq_description q of Some d \<Rightarrow> d | None \<Rightarrow> ''USDT Purchase''),
              sin_netAmountMxn = cq_netAmountMxn q, sin_idempotencyKey = idempotencyKey,
              sin_requestPayload = sipRequest\<rparr>) (\<lambda>payment.
           bindE (generateQr E sipRequest) (\<lambda>qrObj.
           bindE (saveSipQrResponse E (pay_id payment) (so_idQr qrObj) qrObj) (\<lambda>_.
           ok (new_qr payment orderId qrObj))))))))"

section \<open>The bank's callback\<close>

text \<open>\<^verbatim>\<open>Number(v)\<close> of a JSON value, and a number as JSON writes it.\<close>

fun number_of_json :: "json \<Rightarrow> jsnum" where
  "number_of_json JNull = Fin 0"
| "number_of_json (JBool b) = (if b then Fin 1 else Fin 0)"
| "number_of_json (JNum n) = n"
| "number_of_json (JStr s) = number_of_string s"
| "number_of_json (JArr vs) = number_of_string (js_string (JArr vs))"
| "number_of_json (JObj kvs) = NaN"

definition number_of_json_opt :: "json option \<Rightarrow> jsnum" where
  "number_of_json_opt v = (case v of None \<Rightarrow> NaN | Some j \<Rightarrow> number_of_json j)"

definition json_number :: "jsnum \<Rightarrow> json" where
  "json_number n = (if js_finite n then JNum n else JNull)"

fun json_truthy :: "json option \<Rightarrow> bool" where
  "json_truthy None \<longleftrightarrow> False"
| "json_truthy (Some JNull) \<longleftrightarrow> False"
| "json_truthy (Some (JBool b)) \<longleftrightarrow> b"
| "json_truthy (Some (JNum n)) \<longleftrightarrow> js_num_truthy n"
| "json_truthy (Some (JStr s)) \<longleftrightarrow> s \<noteq> []"
| "json_truthy (Some (JArr vs)) \<longleftrightarrow> True"
| "json_truthy (Some (JObj kvs)) \<longleftrightarrow> True"

definition amount_mismatch :: "jsnum \<Rightarrow> jsnum \<Rightarrow> bool" where
  "amount_mismatch expected received \<longleftrightarrow> js_less (to_double (1/100)) (js_abs (js_sub expected received))"

definition sip_ack_ok :: sip_ack where
  "sip_ack_ok = \<lparr>ack_codigo = ''0000'', ack_mensaje = ''Registro Exitoso''\<rparr>"

definition check_amount :: "'x services \<Rightarrow> payment_row \<Rightarrow> json option \<Rightarrow> ('x world, unit) op" where
  "check_amount E p monto = (case monto of
       None \<Rightarrow> ok ()
     | Some m \<Rightarrow>
         let expected = decimal_toNumber (pay_amount p); received = number_of_json m in
         if amount_mismatch expected received then
           bindE (markFailed E (pay_id p) (jobj [(''reason'', Some (JStr ''amount_mismatch'')),
             (''expected'', Some (json_number expected)), (''received'', Some (json_number received))])) (\<lambda>_.
           throw (mk_error BadRequestError
             (''Amount mismatch. Expected: '' @ js_num_str expected @ '', received: '' @ js_num_str received)))
         else ok ())"

definition check_currency :: "'x services \<Rightarrow> payment_row \<Rightarrow> string option \<Rightarrow> ('x world, unit) op" where
  "check_currency E p moneda = (case moneda of
       None \<Rightarrow> ok ()
     | Some m \<Rightarrow>
         if m \<noteq> pay_currency p then
           bindE (markFailed E (pay_id p) (jobj [(''reason'', Some (JStr ''currency_mismatch'')),
             (''expected'', Some (JStr (pay_currency p))), (''received'', Some (JStr m))])) (\<lambda>_.
           throw (mk_error BadRequestError
             (''Currency mismatch. Expected: '' @ pay_currency p @ '', received: '' @ m)))
         else ok ())"

definition sip_receipt :: "'x services \<Rightarrow> sip_callback \<Rightarrow> payment_row \<Rightarrow> js_props" where
  "sip_receipt E c p =
     [(''amount'', Some (JNum (number_of_json_opt (cb_monto c)))), (''currency'', Some (JStr (pay_currency p))),
      (''recipient'', Some (JStr (case cb_nombreCliente c of Some n \<Rightarrow> n | None \<Rightarrow> ''Cliente SIP''))),
      (''reference'', Some (JStr (case cb_numeroOrdenOriginante c of Some n \<Rightarrow> n | None \<Rightarrow> ''''))),
      (''date'', cb_fechaproceso c),
      (''time'', if json_truthy (cb_fechaproceso c) then Some (JStr (locale_time E (the (cb_fechaproceso c)))) else None),
      (''timezone'', Some (JStr ''CDMX'')), (''method'', Some (JStr ''qr'')),
      (''qrTransactionId'', jstr (cb_idQr c)), (''provider'', Some (JStr SIP_PROVIDER))]"

definition sip_notification :: "topup_request \<Rightarrow> payment_row \<Rightarrow> string \<Rightarrow> notification_payload" where
  "sip_notification q p alias =
     \<lparr>np_title = ''Dep'' @ [CHR 0xF3] @ ''sito recibido'',
      np_body = ''Se acreditaron '' @ js_num_str (tr_amount q) @ '' '' @ pay_currency p @ '' a tu cuenta'',
      np_data = Some [(''type'', ''sip_topup''), (''orderId'', alias)]\<rparr>"

text \<open>The part of the callback after the payment was completed and its transaction recorded.\<close>

definition sip_topup :: "'x services \<Rightarrow> sip_callback \<Rightarrow> payment_with_user \<Rightarrow> ('x world, sip_ack) op" where
  "sip_topup E dto updated =
     (let p = pwu_payment updated in
      bindE (buildTopupRequestFromPayment updated) (\<lambda>topupRequest.
      bindE (topUp E topupRequest) (\<lambda>topupResponse.
      bindE (mergeWebhookProcessingResult E (pay_id p) COMPLETED None None
               (Some (buildTopupPayloadFromRequest topupRequest COMPLETED (no_extras\<lparr>te_response := Some topupResponse\<rparr>)))) (\<lambda>_.
      bindE (sendPaymentProofByEmail E Qr (usr_email (pwu_user updated)) (sip_receipt E dto p) proof_attachments) (\<lambda>_.
      bindE (sendToUser E (pay_user_id p) (sip_notification topupRequest p (cb_alias dto))) (\<lambda>_.
      ok sip_ack_ok))))))"

definition handleSipCallback :: "'x services \<Rightarrow> sip_callback \<Rightarrow> ('x world, sip_ack) op" where
  "handleSipCallback E dto =
     (let alias = cb_alias dto in
      bindE (findByOrderId alias) (\<lambda>payment.
      bindE (require payment (mk_error NotFoundError (''Payment not found for alias: '' @ alias))) (\<lambda>pu.
      let p = pwu_payment pu in
      if pay_status p = COMPLETED then ok sip_ack_ok
      else
        bindE (check_amount E p (cb_monto dto)) (\<lambda>_.
        bindE (check_currency E p (cb_moneda dto)) (\<lambda>_.
        bindE (completeSipPayment E (pay_id p) dto) (\<lambda>_.
        bindE (createTopupIfNotExists E (pay_user_id p) (topup_amount p) (SIP_PROVIDER @ ''-'' @ alias) ''SIP QR TOPUP'') (\<lambda>_.
        bindE (findByOrderId alias) (\<lambda>updatedPayment.
        bindE (require updatedPayment (mk_error NotFoundError ''Payment not found after completion'')) (\<lambda>updated.
        sip_topup E dto updated)))))))))"

section \<open>Basic authentication of the callback\<close>

text \<open>The loop of the comparison, over code units of 16 bits.\<close>

fun diff_loop :: "string \<Rightarrow> string \<Rightarrow> int \<Rightarrow> int" where
  "diff_loop (x # xs) (y # ys) diff = diff_loop xs ys (or diff (xor (char_code x) (char_code y)))"
| "diff_loop _ _ diff = diff"

definition timingSafeEqual :: "string \<Rightarrow> string \<Rightarrow> bool" where
  "timingSafeEqual a b \<longleftrightarrow> (if length a \<noteq> length b then False else diff_loop a b 0 = 0)"

text \<open>The position of the first colon, if there is one, and the two parts around it.\<close>

fun split_colon :: "string \<Rightarrow> (string \<times> string) option" where
  "split_colon [] = None"
| "split_colon (c # s) = (if c = CHR '':'' then Some ([], s)
     else map_option (\<lambda>(u, p). (c # u, p)) (split_colon s))"

definition sipBasicAuth :: "'x services \<Rightarrow> string option \<Rightarrow> bool" where
  "sipBasicAuth E authorization =
     (let authHeader = (case authorization of Some h \<Rightarrow> h | None \<Rightarrow> '''') in
      if \<not> startsWith ''Basic '' authHeader then False
      else case split_colon (base64_decode E (drop 6 authHeader)) of
          None \<Rightarrow> False
        | Some (user, pass) \<Rightarrow> timingSafeEqual user (cfg_sipCallbackBasicUser (cfg E))
                             \<and> timingSafeEqual pass (cfg_sipCallbackBasicPass (cfg E)))"

end
