(* ===== verification/SipProofs.thy ===== *)
theory SipProofs
  imports SipPayments PaymentProofs
begin

text \<open>
  What the QR payments guarantee: the keys of the payments table stay unique under every update,
  and a payment is topped up at most once by the bank's callbacks. The marker is the completed
  status, which is written before the wallet is called.
\<close>

section \<open>The keys of the payments table\<close>

text \<open>An update whose new keys were found free keeps the keys unique, whatever it changes but the id.\<close>

lemma payments_wf_update_row:
  assumes wf: "payments_wf t" and r: "r \<in> set (rows t)" "pay_id r = i"
    and id: "pay_id (f r) = i" and free: "payment_keys_free (f r) t"
  shows "payments_wf (update_rows (\<lambda>q. pay_id q = i) f t)"
proof -
  let ?t = "update_rows (\<lambda>q. pay_id q = i) f t"
  have only: "q = r" if "q \<in> set (rows t)" "pay_id q = i" for q
    using payments_wf_id_inj [OF wf that(1) r(1)] that(2) r(2) by simp
  have rows: "rows ?t = map (\<lambda>q. if pay_id q = i then f r else q) (rows t)"
    using only by (auto simp: rows_update_rows)
  have mem: "q \<in> set (rows ?t) \<longleftrightarrow> q = f r \<or> q \<in> set (rows t) \<and> pay_id q \<noteq> i" for q
    using r by (auto simp: rows)
  have "map pay_id (rows ?t) = map pay_id (rows t)" using id by (auto simp: rows)
  then have "distinct (map pay_id (rows ?t))" using wf by (simp add: payments_wf_def)
  moreover have "next_id ?t = next_id t" by (simp add: update_rows_def)
  then have "pay_id q < next_id ?t" if "q \<in> set (rows ?t)" for q
    using that wf r id by (auto simp: mem payments_wf_def)
  moreover have "payment_keys_free (f r) ?t"
    using free by (auto simp: payment_keys_free_def exists_row_def list_ex_iff mem)
  moreover have "payment_keys_free q ?t" if q: "q \<in> set (rows t)" "pay_id q \<noteq> i" for q
  proof -
    have "payment_keys_free q t" using wf q(1) by (simp add: payments_wf_def)
    moreover have "pay_idempotency_key (f r) \<noteq> pay_idempotency_key q \<and> (pay_provider_payment_id q \<noteq> None \<longrightarrow>
        pay_provider (f r) = pay_provider q \<longrightarrow> pay_provider_payment_id (f r) \<noteq> pay_provider_payment_id q)"
      using free q id by (auto simp: payment_keys_free_def exists_row_def list_ex_iff)
    ultimately show ?thesis by (auto simp: payment_keys_free_def exists_row_def list_ex_iff mem)
  qed
  ultimately show ?thesis by (auto simp: payments_wf_def mem)
qed

lemma update_payment_cases:
  obtains (failed) e where "update_payment i f w = (Inl e, w)"
  | (updated) r where "find_row (\<lambda>r. pay_id r = i) (payments w) = Some r"
      and "payment_keys_free (f r) (payments w)"
      and "update_payment i f w = (Inr (f r), w\<lparr>payments := update_rows (\<lambda>r. pay_id r = i) f (payments w)\<rparr>)"
proof (cases "find_row (\<lambda>r. pay_id r = i) (payments w)")
  case None
  then show thesis using failed by (simp add: update_payment_def bindE_def require_run)
next
  case (Some r)
  then show thesis
    using failed updated by (cases "payment_keys_free (f r) (payments w)") (simp_all add: update_payment_def bindE_def require_run ensure_run)
qed

text \<open>An update that keeps the id, the idempotency key, the provider and the order of a row.\<close>

definition order_kept :: "(payment_row \<Rightarrow> payment_row) \<Rightarrow> bool" where
  "order_kept f \<longleftrightarrow> (\<forall>r. pay_id (f r) = pay_id r \<and> pay_idempotency_key (f r) = pay_idempotency_key r
     \<and> pay_provider (f r) = pay_provider r \<and> pay_order_id (f r) = pay_order_id r)"

lemma find_row_update_kept:
  "(\<And>r. P (f r) = P r) \<Longrightarrow>
   find_row P (update_rows q f t) = map_option (\<lambda>r. if q r then f r else r) (find_row P t)"
proof -
  assume "\<And>r. P (f r) = P r"
  then have "List.find P (map (\<lambda>r. if q r then f r else r) xs) = map_option (\<lambda>r. if q r then f r else r) (List.find P xs)" for xs
    by (induction xs) auto
  then show ?thesis by (simp add: find_row_def rows_update_rows)
qed

section \<open>A SIP payment is topped up at most once\<close>

definition sip_marked :: "int \<Rightarrow> 'x world \<Rightarrow> bool" where
  "sip_marked i w \<longleftrightarrow> list_ex (\<lambda>r. pay_id r = i \<and> pay_status r = COMPLETED) (rows (payments w))"

definition sip_phase :: "int \<Rightarrow> string \<Rightarrow> bool \<Rightarrow> nat \<Rightarrow> 'x world \<Rightarrow> bool" where
  "sip_phase i K m n w \<longleftrightarrow> clip_inv i K w \<and> sip_marked i w = m \<and> topups K w = n"

abbreviation sip_order :: "string \<Rightarrow> payment_row \<Rightarrow> bool" where
  "sip_order a r \<equiv> pay_provider r = SIP_PROVIDER \<and> pay_order_id r = Some a"

text \<open>The same, with the payment \<^verbatim>\<open>j\<close> being the one found for the order \<^verbatim>\<open>a\<close>.\<close>

definition sip_at :: "int \<Rightarrow> string \<Rightarrow> string \<Rightarrow> int \<Rightarrow> bool \<Rightarrow> nat \<Rightarrow> 'x world \<Rightarrow> bool" where
  "sip_at i K a j m n w \<longleftrightarrow> sip_phase i K m n w
     \<and> map_option pay_id (find_row (sip_order a) (payments w)) = Some j"

lemmas sip_defs = sip_at_def sip_phase_def clip_inv_def sip_marked_def topups_def

interpretation sip: push_frame "sip_at i K a j m n" for i K a j m n
  by unfold_locales (simp_all add: sip_defs)

lemma sip_status:
  assumes "clip_inv i K w" and "r \<in> set (rows (payments w))"
  shows "(pay_id r = i \<longrightarrow> pay_idempotency_key r = K \<and> (pay_status r = COMPLETED) = sip_marked i w)
       \<and> (pay_id r \<noteq> i \<longrightarrow> pay_idempotency_key r \<noteq> K)"
proof -
  from assms(1) obtain q where wf: "payments_wf (payments w)"
    and q: "q \<in> set (rows (payments w))" "pay_id q = i" "pay_idempotency_key q = K"
    by (auto simp: clip_inv_def list_ex_iff)
  have u: "r' = q" if "r' \<in> set (rows (payments w))" "pay_id r' = i" for r'
    using payments_wf_id_inj [OF wf that(1) q(1)] that(2) q(2) by simp
  have "sip_marked i w = (pay_status q = COMPLETED)"
    using q by (auto simp: sip_marked_def list_ex_iff dest: u)
  show ?thesis
  proof (cases "pay_id r = i")
    case True
    with u [OF assms(2)] have "r = q" by blast
    with True q show ?thesis using \<open>sip_marked i w = (pay_status q = COMPLETED)\<close> by simp
  next
    case False
    then show ?thesis using payments_wf_key_inj [OF wf assms(2) q(1)] q by auto
  qed
qed

lemma sip_phase_update:
  assumes f: "order_kept f" and st: "\<And>r. (pay_status (f r) = COMPLETED) = fm (pay_status r = COMPLETED)"
    and P: "sip_phase i K m n w"
    and r: "find_row (\<lambda>r. pay_id r = j) (payments w) = Some r" and free: "payment_keys_free (f r) (payments w)"
  defines "t \<equiv> update_rows (\<lambda>r. pay_id r = j) f (payments w)"
  shows "sip_phase i K (if j = i then fm m else m) n (w\<lparr>payments := t\<rparr>)"
proof -
  from P have inv: "clip_inv i K w" by (simp add: sip_defs)
  then have wf: "payments_wf (payments w)" by (simp add: clip_inv_def)
  from r have mem: "r \<in> set (rows (payments w))" "pay_id r = j" using find_row_mem by fastforce+
  have wf': "payments_wf t"
    unfolding t_def using wf mem f free by (intro payments_wf_update_row) (auto simp: order_kept_def)
  have keys: "pay_id (if c then f q else q) = pay_id q" "pay_idempotency_key (if c then f q else q) = pay_idempotency_key q" for c q
    using f by (simp_all add: order_kept_def)
  have st': "(pay_status (if c then f q else q) = COMPLETED) = (if c then fm (pay_status q = COMPLETED) else pay_status q = COMPLETED)" for c q
    using st by simp
  have mk: "sip_marked i (w\<lparr>payments := t\<rparr>) = list_ex (\<lambda>q. pay_id q = i \<and>
      (if pay_id q = j then fm (pay_status q = COMPLETED) else pay_status q = COMPLETED)) (rows (payments w))"
    by (simp add: sip_marked_def t_def rows_update_rows list_ex_map_if keys st')
  have "sip_marked i (w\<lparr>payments := t\<rparr>) = (if j = i then fm m else m)"
  proof (cases "j = i")
    case True
    have "(pay_status q = COMPLETED) = m" if "q \<in> set (rows (payments w))" "pay_id q = i" for q
      using sip_status [OF inv that(1)] that(2) P by (simp add: sip_phase_def)
    then show ?thesis unfolding mk using True mem by (auto simp: list_ex_iff)
  next
    case False
    then have "sip_marked i (w\<lparr>payments := t\<rparr>) = sip_marked i w"
      unfolding mk by (auto simp: sip_marked_def list_ex_iff)
    with False P show ?thesis by (simp add: sip_phase_def)
  qed
  moreover have "clip_inv i K (w\<lparr>payments := t\<rparr>)"
    using inv wf' by (simp add: clip_inv_def t_def rows_update_rows list_ex_map_if keys)
  ultimately show ?thesis using P by (simp add: sip_phase_def topups_def)
qed

lemma sip_update:
  assumes f: "order_kept f" and st: "\<And>r. (pay_status (f r) = COMPLETED) = fm (pay_status r = COMPLETED)"
  shows "spec (sip_at i K a j m n) (update_payment j f) (\<lambda>_. sip_at i K a j (if j = i then fm m else m) n) (\<lambda>_. sip_at i K a j m n)"
proof (rule specI)
  fix w :: "'a world" assume P: "sip_at i K a j m n w"
  have ord: "find_row (sip_order a) (update_rows (\<lambda>r. pay_id r = j) f (payments w)) =
      map_option (\<lambda>r. if pay_id r = j then f r else r) (find_row (sip_order a) (payments w))"
    using f by (intro find_row_update_kept) (simp add: order_kept_def)
  show "case update_payment j f w of (Inr _, w) \<Rightarrow> sip_at i K a j (if j = i then fm m else m) n w | (Inl _, w) \<Rightarrow> sip_at i K a j m n w"
  proof (rule update_payment_cases [of j f w])
    fix r
    assume r: "find_row (\<lambda>r. pay_id r = j) (payments w) = Some r" and free: "payment_keys_free (f r) (payments w)"
      and run: "update_payment j f w = (Inr (f r), w\<lparr>payments := update_rows (\<lambda>r. pay_id r = j) f (payments w)\<rparr>)"
    from P have ph: "sip_phase i K m n w" by (simp add: sip_at_def)
    from sip_phase_update [OF f st ph r free] P f show ?thesis
      by (auto simp: run sip_at_def ord order_kept_def)
  qed (use P in simp)
qed

text \<open>An update that leaves the status alone.\<close>

lemma sip_phase_keeps_update:
  assumes f: "order_kept f" and st: "\<And>r. pay_status (f r) = pay_status r"
  shows "keeps (sip_phase i K m n) (update_payment j f)"
proof (rule keepsI)
  fix w :: "'a world" assume P: "sip_phase i K m n w"
  show "sip_phase i K m n (snd (update_payment j f w))"
  proof (rule update_payment_cases [of j f w])
    fix r
    assume r: "find_row (\<lambda>r. pay_id r = j) (payments w) = Some r" and free: "payment_keys_free (f r) (payments w)"
      and run: "update_payment j f w = (Inr (f r), w\<lparr>payments := update_rows (\<lambda>r. pay_id r = j) f (payments w)\<rparr>)"
    from sip_phase_update [OF f _ P r free, of "\<lambda>b. b"] st show ?thesis by (simp add: run)
  qed (use P in simp)
qed

lemma sip_now_update:
  assumes "\<And>t. order_kept (f t)" and "\<And>t r. (pay_status (f t r) = COMPLETED) = fm (pay_status r = COMPLETED)"
  shows "spec (sip_at i K a j m n) (bindE (now E) (\<lambda>t. update_payment j (f t)))
    (\<lambda>_. sip_at i K a j (if j = i then fm m else m) n) (\<lambda>_. sip_at i K a j m n)"
  by (rule spec_bindE [OF spec_keeps [OF sip.keeps_clock]], rule sip_update) (use assms in auto)

lemma sip_markFailed:
  "spec (sip_at i K a j m n) (markFailed E j reason) (\<lambda>_. sip_at i K a j (if j = i then False else m) n) (\<lambda>_. sip_at i K a j m n)"
  unfolding markFailed_def by (rule sip_now_update [where fm = "\<lambda>_. False"]) (simp_all add: order_kept_def)

lemma sip_complete:
  "spec (sip_at i K a j m n) (completeSipPayment E j dto) (\<lambda>_. sip_at i K a j (if j = i then True else m) n) (\<lambda>_. sip_at i K a j m n)"
  unfolding completeSipPayment_def
  by (rule spec_bindE [OF spec_keeps [OF keeps_gets]], rule sip_now_update [where fm = "\<lambda>_. True"]) (simp_all add: order_kept_def)

lemma sip_merge:
  "spec (sip_at i K a j m n) (mergeWebhookProcessingResult E j COMPLETED provider webhook topup)
     (\<lambda>_. sip_at i K a j (if j = i then True else m) n) (\<lambda>_. sip_at i K a j m n)"
  unfolding mergeWebhookProcessingResult_def
  by (rule spec_bindE [OF spec_keeps [OF keeps_gets]], rule sip_now_update [where fm = "\<lambda>_. True"]) (simp_all add: order_kept_def)

lemma sip_topUp:
  "spec (sip_at i K a j m n) (topUp E q)
     (\<lambda>_. sip_at i K a j m (if tr_externalTransactionId q = K then Suc n else n)) (\<lambda>_. sip_at i K a j m n)"
  by (rule specI) (auto simp: topUp_def remote_run sip_defs split: sum.split)

lemmas sip_mail = spec_total [OF sip.keeps_proof sendPaymentProofByEmail_total]
lemmas sip_push = spec_total [OF sip.keeps_sendToUser sendToUser_total]

lemma sip_createTopup: "keeps (sip_at i K a j m n) (createTopupIfNotExists E u d ref desc)"
  unfolding createTopupIfNotExists_def
  by (intro keeps_intros sip.keeps_clock keeps_modify) (simp_all add: sip_defs)

text \<open>What is known of a payment when it is read.\<close>

definition sip_read :: "int \<Rightarrow> string \<Rightarrow> bool \<Rightarrow> payment_row \<Rightarrow> bool" where
  "sip_read i K m r \<longleftrightarrow> (if pay_id r = i then pay_idempotency_key r = K \<and> (pay_status r = COMPLETED) = m
                       else pay_idempotency_key r \<noteq> K)"

lemma findByOrderId_run: "findByOrderId a w = (fst (findByOrderId a w), w)"
  unfolding findByOrderId_def bindE_def gets_run prod.case sum.case by (rule with_user_cases)

lemma findByOrderId_row:
  assumes "fst (findByOrderId a w) = Inr (Some pu)"
  shows "find_row (sip_order a) (payments w) = Some (pwu_payment pu)"
proof -
  have "findByOrderId a w = (Inr (Some pu), w)" by (rule trans [OF findByOrderId_run]) (simp add: assms)
  then have "with_user (find_row (sip_order a) (payments w)) w = (Inr (Some pu), w)"
    by (simp add: findByOrderId_def bindE_def)
  from with_user_result [OF this] show ?thesis by simp
qed

lemma sip_read_row: "sip_phase i K m n w \<Longrightarrow> r \<in> set (rows (payments w)) \<Longrightarrow> sip_read i K m r"
  using sip_status [of i K w r] by (auto simp: sip_read_def sip_phase_def)

lemma spec_findByOrderId:
  "spec (sip_phase i K m n) (findByOrderId a)
     (\<lambda>res w. sip_phase i K m n w \<and> (\<forall>pu. res = Some pu \<longrightarrow>
        sip_at i K a (pay_id (pwu_payment pu)) m n w \<and> sip_read i K m (pwu_payment pu))) (\<lambda>_. sip_phase i K m n)"
proof (rule specI)
  fix w :: "'a world" assume P: "sip_phase i K m n w"
  obtain r where r: "findByOrderId a w = (r, w)" using findByOrderId_run by blast
  have "sip_at i K a (pay_id (pwu_payment pu)) m n w \<and> sip_read i K m (pwu_payment pu)" if "r = Inr (Some pu)" for pu
  proof -
    have f: "find_row (sip_order a) (payments w) = Some (pwu_payment pu)"
      by (rule findByOrderId_row) (simp add: r that)
    then have "pwu_payment pu \<in> set (rows (payments w))" using find_row_mem by fastforce
    with f P show ?thesis by (simp add: sip_at_def sip_read_row)
  qed
  with P show "case findByOrderId a w of (Inr res, w) \<Rightarrow> sip_phase i K m n w \<and> (\<forall>pu. res = Some pu \<longrightarrow>
        sip_at i K a (pay_id (pwu_payment pu)) m n w \<and> sip_read i K m (pwu_payment pu))
     | (Inl e, w) \<Rightarrow> sip_phase i K m n w"
    by (simp add: r split: sum.split)
qed

lemma spec_findByOrderId_again:
  "spec (sip_at i K a j m n) (findByOrderId a)
     (\<lambda>res w. sip_at i K a j m n w \<and> (\<forall>pu. res = Some pu \<longrightarrow> pay_id (pwu_payment pu) = j \<and> sip_read i K m (pwu_payment pu)))
     (\<lambda>_. sip_at i K a j m n)"
proof (rule specI)
  fix w :: "'a world" assume P: "sip_at i K a j m n w"
  then have ph: "sip_phase i K m n w" by (simp add: sip_at_def)
  obtain r where r: "findByOrderId a w = (r, w)" using findByOrderId_run by blast
  have "pay_id (pwu_payment pu) = j \<and> sip_read i K m (pwu_payment pu)" if "r = Inr (Some pu)" for pu
  proof -
    have f: "find_row (sip_order a) (payments w) = Some (pwu_payment pu)"
      by (rule findByOrderId_row) (simp add: r that)
    then have "pwu_payment pu \<in> set (rows (payments w))" using find_row_mem by fastforce
    with f P ph show ?thesis by (simp add: sip_at_def sip_read_row)
  qed
  with P show "case findByOrderId a w of (Inr res, w) \<Rightarrow> sip_at i K a j m n w \<and> (\<forall>pu. res = Some pu \<longrightarrow>
        pay_id (pwu_payment pu) = j \<and> sip_read i K m (pwu_payment pu))
     | (Inl e, w) \<Rightarrow> sip_at i K a j m n w"
    by (simp add: r split: sum.split)
qed

definition sip_out :: "int \<Rightarrow> string \<Rightarrow> bool \<Rightarrow> nat \<Rightarrow> 'x world \<Rightarrow> bool" where
  "sip_out i K m n w \<longleftrightarrow> sip_phase i K m n w \<or> \<not> m \<and> (sip_phase i K True n w \<or> sip_phase i K True (Suc n) w)"

text \<open>The top-up of a payment that has just been completed.\<close>

lemma sip_topup_spec:
  fixes n :: nat and i j :: int
  assumes "pay_id (pwu_payment pu) = j" and "sip_read i K M (pwu_payment pu)" and "j = i \<longrightarrow> M"
  defines "n' \<equiv> if j = i then Suc n else n"
  shows "spec (sip_at i K a j M n) (sip_topup E dto pu) (\<lambda>_. sip_at i K a j M n')
           (\<lambda>_ w. sip_at i K a j M n w \<or> sip_at i K a j M n' w)"
proof -
  have merge: "spec (sip_at i K a j M n') (mergeWebhookProcessingResult E j COMPLETED p wh tp) (\<lambda>_. sip_at i K a j M n') (\<lambda>_. sip_at i K a j M n')" for p wh tp
    using sip_merge [of i K a j M n' E p wh tp] assms(3) by (cases "j = i") simp_all
  have key: "tr_externalTransactionId q = pay_idempotency_key (pwu_payment pu) \<Longrightarrow>
      (if tr_externalTransactionId q = K then Suc n else n) = n'" for q
    using assms(1,2) by (auto simp: n'_def sip_read_def split: if_splits)
  have top: "spec (\<lambda>w. sip_at i K a j M n w \<and> tr_externalTransactionId q = pay_idempotency_key (pwu_payment pu)) (topUp E q)
      (\<lambda>_. sip_at i K a j M n') (\<lambda>_. sip_at i K a j M n)" for q
  proof (rule spec_fact)
    assume "tr_externalTransactionId q = pay_idempotency_key (pwu_payment pu)"
    from sip_topUp [of i K a j M n E q] show "spec (sip_at i K a j M n) (topUp E q) (\<lambda>_. sip_at i K a j M n') (\<lambda>_. sip_at i K a j M n)"
      unfolding key [OF \<open>tr_externalTransactionId q = _\<close>] .
  qed
  show ?thesis
    unfolding sip_topup_def Let_def assms(1)
    by (rule spec_step [OF topup_request_key], simp, rule spec_step [OF top], simp, rule spec_step [OF merge], simp)
       (rule spec_any, intro spec_bindE [OF sip_mail] spec_bindE [OF sip_push] spec_ok)
qed


lemma sip_fail:
  "spec (sip_at i K a j m n) (bindE (markFailed E j reason) (\<lambda>_. throw e)) Q
     (\<lambda>_ w. sip_at i K a j m n w \<or> sip_at i K a j (if j = i then False else m) n w)"
  by (rule spec_step [OF sip_markFailed]) (auto intro: spec_throw)

lemma sip_checks:
  assumes "pay_id p = j"
  shows "spec (sip_at i K a j m n) (check_amount E p monto)
     (\<lambda>_. sip_at i K a j m n) (\<lambda>_ w. sip_at i K a j m n w \<or> sip_at i K a j (if j = i then False else m) n w)"
  and "spec (sip_at i K a j m n) (check_currency E p moneda)
     (\<lambda>_. sip_at i K a j m n) (\<lambda>_ w. sip_at i K a j m n w \<or> sip_at i K a j (if j = i then False else m) n w)"
  using assms sip_fail [of i K a j m n E]
  by (auto simp: check_amount_def check_currency_def Let_def intro!: spec_ok split: option.split)

text \<open>A callback for a payment that is not completed.\<close>

definition sip_settle :: "'x services \<Rightarrow> sip_callback \<Rightarrow> payment_row \<Rightarrow> ('x world, sip_ack) op" where
  "sip_settle E dto p =
     bindE (check_amount E p (cb_monto dto)) (\<lambda>_.
     bindE (check_currency E p (cb_moneda dto)) (\<lambda>_.
     bindE (completeSipPayment E (pay_id p) dto) (\<lambda>_.
     bindE (createTopupIfNotExists E (pay_user_id p) (topup_amount p) (SIP_PROVIDER @ ''-'' @ cb_alias dto) ''SIP QR TOPUP'') (\<lambda>_.
     bindE (findByOrderId (cb_alias dto)) (\<lambda>updatedPayment.
     bindE (require updatedPayment (mk_error NotFoundError ''Payment not found after completion'')) (\<lambda>updated.
     sip_topup E dto updated))))))"

lemma handleSipCallback_settle:
  "handleSipCallback E dto =
     bindE (findByOrderId (cb_alias dto)) (\<lambda>payment.
     bindE (require payment (mk_error NotFoundError (''Payment not found for alias: '' @ cb_alias dto))) (\<lambda>pu.
     if pay_status (pwu_payment pu) = COMPLETED then ok sip_ack_ok else sip_settle E dto (pwu_payment pu)))"
  by (simp only: handleSipCallback_def sip_settle_def Let_def)

lemma sip_settle_spec:
  assumes j: "pay_id p = j" and m: "j = i \<longrightarrow> \<not> m"
  shows "spec (sip_at i K (cb_alias dto) j m n) (sip_settle E dto p) (\<lambda>_. sip_out i K m n) (\<lambda>_. sip_out i K m n)"
proof -
  let ?a = "cb_alias dto"
  let ?I = "sip_at i K ?a j m n"
  define M where "M = (if j = i then True else m)"
  let ?J = "sip_at i K ?a j M n"
  have outI: "sip_at i K ?a j (if j = i then False else m) n w \<Longrightarrow> sip_out i K m n w" "?I w \<Longrightarrow> sip_out i K m n w"
    "?J w \<Longrightarrow> sip_out i K m n w" "sip_at i K ?a j M (if j = i then Suc n else n) w \<Longrightarrow> sip_out i K m n w" for w :: "'a world"
    using m by (auto simp: sip_out_def sip_at_def M_def split: if_splits)
  have fin: "spec (\<lambda>w. ?J w \<and> (\<forall>pu. res = Some pu \<longrightarrow> pay_id (pwu_payment pu) = j \<and> sip_read i K M (pwu_payment pu)))
      (bindE (require res e) (\<lambda>u. sip_topup E dto u)) (\<lambda>_. sip_out i K m n) (\<lambda>_. sip_out i K m n)" for res e
  proof (cases res)
    case None
    then show ?thesis by (auto simp: spec_def bindE_def require_run intro: outI)
  next
    case (Some pu)
    have "spec ?J (sip_topup E dto pu) (\<lambda>_. sip_out i K m n) (\<lambda>_. sip_out i K m n)"
      if "pay_id (pwu_payment pu) = j" "sip_read i K M (pwu_payment pu)"
      by (rule spec_post [OF sip_topup_spec [OF that]]) (auto simp: M_def intro: outI outI [unfolded M_def])
    then show ?thesis by (auto simp: spec_def bindE_def require_run Some)
  qed
  show ?thesis
    unfolding sip_settle_def j
    by (rule spec_step [OF sip_checks(1) [OF j]], use outI in blast, rule spec_step [OF sip_checks(2) [OF j]], use outI in blast,
        rule spec_step [OF sip_complete], erule outI, fold M_def,
        rule spec_step [OF spec_keeps [OF sip_createTopup]], erule outI, rule spec_step [OF spec_findByOrderId_again], erule outI, rule fin)
qed

lemma handleSipCallback_spec:
  "spec (sip_phase i K m n) (handleSipCallback E dto) (\<lambda>_. sip_out i K m n) (\<lambda>_. sip_out i K m n)"
  unfolding handleSipCallback_settle
proof (rule spec_step [OF spec_findByOrderId])
  fix res :: "payment_with_user option"
  show "spec (\<lambda>w. sip_phase i K m n w \<and> (\<forall>pu. res = Some pu \<longrightarrow>
          sip_at i K (cb_alias dto) (pay_id (pwu_payment pu)) m n w \<and> sip_read i K m (pwu_payment pu)))
      (bindE (require res (mk_error NotFoundError (''Payment not found for alias: '' @ cb_alias dto))) (\<lambda>pu.
         if pay_status (pwu_payment pu) = COMPLETED then ok sip_ack_ok else sip_settle E dto (pwu_payment pu)))
      (\<lambda>_. sip_out i K m n) (\<lambda>_. sip_out i K m n)"
  proof (cases res)
    case (Some pu)
    have "spec (sip_at i K (cb_alias dto) (pay_id (pwu_payment pu)) m n) (sip_settle E dto (pwu_payment pu)) (\<lambda>_. sip_out i K m n) (\<lambda>_. sip_out i K m n)"
      if "sip_read i K m (pwu_payment pu)" "pay_status (pwu_payment pu) \<noteq> COMPLETED"
      by (rule sip_settle_spec [OF refl]) (use that in \<open>auto simp: sip_read_def\<close>)
    then show ?thesis
      by (auto simp: spec_def bindE_def require_run Some sip_out_def)
  qed (auto simp: spec_def bindE_def require_run sip_out_def)
qed (simp add: sip_out_def)


section \<open>Creating a QR changes nothing of the other payments\<close>

lemma sip_phase_frame:
  "sip_phase i K m n w \<Longrightarrow> sip_phase i K m n (w\<lparr>ext := x\<rparr>)"
  "sip_phase i K m n w \<Longrightarrow> sip_phase i K m n (w\<lparr>sipCache := c\<rparr>)"
  "sip_phase i K m n w \<Longrightarrow> sip_phase i K m n (w\<lparr>ext := x, trace := trace w @ [(CallSipToken, b)]\<rparr>)"
  "sip_phase i K m n w \<Longrightarrow> sip_phase i K m n (w\<lparr>ext := x, trace := trace w @ [(CallSipQr tok q, b)]\<rparr>)"
  by (simp_all add: sip_defs)

lemma insert_payment_cases:
  obtains (failed) e where "insert_payment mk w = (Inl e, w)"
  | (inserted) "payment_keys_free (mk (next_id (payments w))) (payments w)"
      and "insert_payment mk w = (Inr (mk (next_id (payments w))), w\<lparr>payments := insert_row (mk (next_id (payments w))) (payments w)\<rparr>)"
  by (cases "exists_row (\<lambda>u. usr_id u = pay_user_id (mk (next_id (payments w)))) (users w)";
      cases "payment_keys_free (mk (next_id (payments w))) (payments w)")
     (simp_all add: insert_payment_def bindE_def ensure_run)

lemma sip_phase_insert:
  assumes "\<And>k. pay_id (mk k) = k" and "\<And>k. pay_status (mk k) \<noteq> COMPLETED"
  shows "keeps (sip_phase i K m n) (insert_payment mk)"
proof (rule keepsI)
  fix w :: "'a world" assume P: "sip_phase i K m n w"
  show "sip_phase i K m n (snd (insert_payment mk w))"
  proof (rule insert_payment_cases [of mk w])
    let ?r = "mk (next_id (payments w))"
    assume free: "payment_keys_free ?r (payments w)"
      and run: "insert_payment mk w = (Inr ?r, w\<lparr>payments := insert_row ?r (payments w)\<rparr>)"
    have "payments_wf (insert_row ?r (payments w))"
      using P assms(1) free by (intro payments_wf_insert) (auto simp: sip_defs)
    then show ?thesis using P assms by (auto simp: run sip_defs rows_insert_row)
  qed (use P in simp)
qed

lemma generateQr_keeps: "keeps (sip_phase i K m n) (generateQr E q)"
  unfolding generateQr_def withToken_def getToken_def refreshToken_def sip_post_qr_def
  by (intro keeps_intros keeps_modify keeps_remote keeps_now) (simp_all add: sip_phase_frame)

lemma createSipQr_keeps: "keeps (sip_phase i K m n) (createSipQr E u q)"
proof -
  have save: "keeps (sip_phase i K m n) (saveSipQrResponse E j idQr res)" for j idQr res
    unfolding saveSipQrResponse_def
    by (intro keeps_intros keeps_now sip_phase_keeps_update) (simp_all add: sip_phase_frame order_kept_def)
  have create: "keeps (sip_phase i K m n) (createSipPayment E inp)" for inp
    unfolding createSipPayment_def
    by (intro keeps_intros keeps_now sip_phase_insert) (simp_all add: sip_phase_frame)
  show ?thesis
    unfolding createSipQr_def generateSipQrIdempotencyKey_def findByIdempotencyKey_def buildExpirationDate_def Let_def
    by (intro keeps_intros keeps_now keeps_service save create generateQr_keeps) (simp_all add: sip_phase_frame)
qed

section \<open>Sequences of QR requests and callbacks\<close>

datatype sip_event = SipCallback sip_callback | SipQr int create_sip_qr_request

primrec sip_step :: "'x services \<Rightarrow> sip_event \<Rightarrow> 'x world \<Rightarrow> 'x world" where
  "sip_step E (SipCallback dto) w = snd (handleSipCallback E dto w)"
| "sip_step E (SipQr u q) w = snd (createSipQr E u q w)"

lemma sip_step_out:
  assumes "sip_phase i K m n w"
  shows "sip_out i K m n (sip_step E ev w)"
proof (cases ev)
  case (SipCallback dto)
  from specD [OF handleSipCallback_spec assms, of E dto] SipCallback show ?thesis
    by (cases "handleSipCallback E dto w"; cases "fst (handleSipCallback E dto w)") auto
next
  case (SipQr u q)
  then show ?thesis using keepsD [OF createSipQr_keeps assms, of E u q] by (simp add: sip_out_def)
qed

interpretation sip_once: at_most_once "sip_step E" "clip_inv i K" "sip_marked i" "topups K"
  for E :: "'x services" and i K
proof
  fix w :: "'x world" and ev
  assume inv: "clip_inv i K w"
  then have P: "sip_phase i K (sip_marked i w) (topups K w) w" by (simp add: sip_phase_def)
  note out = sip_step_out [OF P, of E ev]
  from out show "clip_inv i K (sip_step E ev w)" by (auto simp: sip_out_def sip_phase_def)
  from out show "sip_marked i (sip_step E ev w) \<and> topups K (sip_step E ev w) = topups K w" if "sip_marked i w"
    using that by (auto simp: sip_out_def sip_phase_def)
  from out show "topups K (sip_step E ev w) = topups K w \<or>
      sip_marked i (sip_step E ev w) \<and> topups K (sip_step E ev w) = Suc (topups K w)" if "\<not> sip_marked i w"
    using that by (auto simp: sip_out_def sip_phase_def)
qed

end
