(* ===== verification/SipProps.thy ===== *)
theory SipProps
  imports SipProofs Samples
begin

text \<open>
  The properties of the QR payments: top-ups and ledger entries happen at most once, callbacks
  that do not match are refused, a top-up is lost when the wallet does not answer, repeated
  requests are answered from the stored payment, and the callback's authentication is exact.
\<close>

section \<open>A wallet that does not answer\<close>

definition wallet_down :: "'x services \<Rightarrow> bool" where
  "wallet_down E \<longleftrightarrow> (\<forall>q x. \<not> succeeded (fst (api_topup E q x)))"

lemma sip_topUp_down: "wallet_down E \<Longrightarrow> spec (sip_at i K a j m n) (topUp E q) (\<lambda>_ _. False) (\<lambda>_. sip_at i K a j m n)"
proof (rule specI)
  fix w :: "'a world" assume d: "wallet_down E" and P: "sip_at i K a j m n w"
  obtain h where h: "fst (api_topup E q (ext w)) = Inl h"
    using d [unfolded wallet_down_def, rule_format, of q "ext w"] by (cases "fst (api_topup E q (ext w))") auto
  show "case topUp E q w of (Inr a, w) \<Rightarrow> False | (Inl e, w) \<Rightarrow> sip_at i K a j m n w"
    using P by (simp add: topUp_def remote_run h sip_defs)
qed

lemma sip_topup_down:
  "wallet_down E \<Longrightarrow> spec (sip_at i K a j m n) (sip_topup E dto pu) (\<lambda>_ _. False) (\<lambda>_. sip_at i K a j m n)"
  unfolding sip_topup_def Let_def
  by (rule spec_step [OF spec_keeps [OF keeps_buildTopupRequest]], simp, rule spec_step [OF sip_topUp_down], simp, simp, rule spec_false)

text \<open>Completing a payment that is in the table does not fail.\<close>

lemma completeSipPayment_total:
  assumes "payments_wf (payments w)" and "exists_row (\<lambda>r. pay_id r = j) (payments w)"
  shows "succeeded (fst (completeSipPayment E j dto w))"
proof -
  obtain r where r: "r \<in> set (rows (payments w))" "pay_id r = j" using exists_row_obtain [OF assms(2)] by blast
  then have f: "find_row (\<lambda>r. pay_id r = j) (payments w) = Some r" using assms(1) by (simp add: find_payment)
  have run: "update_payment j f v = (Inr (f r), v\<lparr>payments := update_rows (\<lambda>r. pay_id r = j) f (payments v)\<rparr>)"
    if "\<And>q. same_keys q (f q)" "payments v = payments w" for f and v :: "'a world"
    by (rule update_payment_run) (use that assms r in auto)
  show ?thesis
    by (simp add: completeSipPayment_def bindE_def now_run, subst run) (simp_all add: same_keys_def)
qed

lemma sip_at_exists: "sip_at i K a j m n w \<Longrightarrow> exists_row (\<lambda>r. pay_id r = j) (payments w)"
  by (auto simp: sip_at_def exists_row_def list_ex_iff dest: find_row_mem)

lemma sip_complete_total:
  "spec (sip_at i K a j m n) (completeSipPayment E j dto) (\<lambda>_. sip_at i K a j (if j = i then True else m) n) (\<lambda>_ _. False)"
proof (rule specI)
  fix w :: "'a world" assume P: "sip_at i K a j m n w"
  then have wf: "payments_wf (payments w)" by (simp add: sip_defs)
  from specD [OF sip_complete P, of E dto] completeSipPayment_total [OF wf sip_at_exists [OF P], of E dto]
  show "case completeSipPayment E j dto w of (Inr _, w) \<Rightarrow> sip_at i K a j (if j = i then True else m) n w | (Inl e, w) \<Rightarrow> False"
    by (cases "completeSipPayment E j dto w"; cases "fst (completeSipPayment E j dto w)") auto
qed

text \<open>The amounts and the currency of a callback agree with the payment.\<close>

definition callback_matches :: "payment_row \<Rightarrow> sip_callback \<Rightarrow> bool" where
  "callback_matches p dto \<longleftrightarrow>
     (case cb_monto dto of None \<Rightarrow> True | Some m \<Rightarrow> \<not> amount_mismatch (decimal_toNumber (pay_amount p)) (number_of_json m))
     \<and> (case cb_moneda dto of None \<Rightarrow> True | Some c \<Rightarrow> c = pay_currency p)"

lemma checks_pass:
  assumes "callback_matches p dto"
  shows "check_amount E p (cb_monto dto) = ok ()" and "check_currency E p (cb_moneda dto) = ok ()"
  using assms by (auto simp: callback_matches_def check_amount_def check_currency_def Let_def split: option.splits)

lemma sip_settle_down:
  assumes "wallet_down E" and "callback_matches p dto" and "pay_id p = i"
  shows "spec (sip_at i K (cb_alias dto) i m n) (sip_settle E dto p) (\<lambda>_ _. False) (\<lambda>_. sip_at i K (cb_alias dto) i True n)"
proof -
  have c: "spec (sip_at i K (cb_alias dto) i m n) (completeSipPayment E i dto) (\<lambda>_. sip_at i K (cb_alias dto) i True n) (\<lambda>_ _. False)"
    using sip_complete_total [of i K "cb_alias dto" i m n E dto] by simp
  show ?thesis
    unfolding sip_settle_def checks_pass [OF assms(2)] bindE_ok_left assms(3)
    by (rule spec_step [OF c], simp, rule spec_step [OF spec_keeps [OF sip_createTopup]], assumption,
        rule spec_step [OF spec_keeps], unfold findByOrderId_def, intro keeps_intros, assumption,
        rule spec_step [OF spec_keeps [OF keeps_require]], assumption, rule sip_topup_down [OF assms(1)])
qed

text \<open>
  C20: When the wallet service does not answer a callback, the top-up is lost: the payment is left
  completed, the callback fails, and no later sequence of callbacks and QR requests, with
  whatever services, makes the top-up.
\<close>

theorem sip_topup_lost:
  fixes E E' :: "'x services" and w :: "'x world"
  assumes "payments_wf (payments w)" and "fst (findByOrderId (cb_alias dto) w) = Inr (Some pu)"
    and "pay_status (pwu_payment pu) \<noteq> COMPLETED" and "callback_matches (pwu_payment pu) dto" and "wallet_down E"
  defines "K \<equiv> pay_idempotency_key (pwu_payment pu)"
  shows "\<exists>e w'. handleSipCallback E dto w = (Inl e, w') \<and> sip_marked (pay_id (pwu_payment pu)) w'
     \<and> topups K w' = topups K w \<and> topups K (fold (sip_step E') evs w') = topups K w"
proof -
  define i where "i = pay_id (pwu_payment pu)"
  have f: "find_row (sip_order (cb_alias dto)) (payments w) = Some (pwu_payment pu)" by (rule findByOrderId_row [OF assms(2)])
  then have mem: "pwu_payment pu \<in> set (rows (payments w))" using find_row_mem by fastforce
  then have inv: "clip_inv i K w" using assms(1) by (auto simp: clip_inv_def list_ex_iff i_def K_def)
  have at: "sip_at i K (cb_alias dto) i (sip_marked i w) (topups K w) w"
    using inv f by (simp add: sip_at_def sip_phase_def i_def)
  have run: "handleSipCallback E dto w = sip_settle E dto (pwu_payment pu) w"
    using trans [OF findByOrderId_run, of "cb_alias dto" w "(Inr (Some pu), w)"] assms(2,3)
    by (simp add: handleSipCallback_settle bindE_def require_run)
  from specD [OF sip_settle_down [OF assms(5,4) i_def [symmetric]] at] obtain e w' where
    w': "handleSipCallback E dto w = (Inl e, w')" "sip_at i K (cb_alias dto) i True (topups K w) w'"
    unfolding run by (cases "sip_settle E dto (pwu_payment pu) w"; cases "fst (sip_settle E dto (pwu_payment pu) w)") auto
  then have inv': "clip_inv i K w'" "sip_marked i w'" "topups K w' = topups K w" by (simp_all add: sip_at_def sip_phase_def)
  from sip_once.marked_run [OF inv'(1,2), of E' evs] w'(1) inv' show ?thesis by (simp add: i_def)
qed


definition sip_row :: "int \<Rightarrow> string \<Rightarrow> payment_row" where
  "sip_row i key = (sample_payment_row i key)\<lparr>pay_order_id := Some ''order'', pay_provider := ''QRBMSC'',
     pay_provider_payment_id := Some ''qr1'', pay_currency := ''BOB'', pay_status := PENDING, pay_payment_method := ''QR''\<rparr>"

definition sip_world :: "int world" where
  "sip_world = sample_world\<lparr>payments := table_of [sip_row 1 ''k1'']\<rparr>"

definition sip_dto :: sip_callback where
  "sip_dto = \<lparr>cb_alias = ''order'', cb_monto = Some (JNum (Fin 100)), cb_moneda = Some ''BOB'', cb_idQr = Some ''qr1'',
     cb_numeroOrdenOriginante = None, cb_fechaproceso = None, cb_cuentaCliente = None, cb_nombreCliente = None,
     cb_documentoCliente = None\<rparr>"

definition sip_found :: payment_with_user where
  "sip_found = \<lparr>pwu_payment = sip_row 1 ''k1'', pwu_user = sample_user 1 ''ana@x'',
     pwu_authState = Some (sample_auth 1), pwu_profile = Some (sample_profile 1)\<rparr>"

definition down_services :: "int services" where
  "down_services = sample_services\<lparr>api_topup := (\<lambda>q x. (Inl unavailable, x))\<rparr>"

lemma sip_world_inv: "clip_inv 1 ''k1'' sip_world"
  by code_simp

lemma sip_world_wf: "payments_wf (payments sip_world)"
  using sip_world_inv by (simp add: clip_inv_def)

lemma sip_world_found: "fst (findByOrderId (cb_alias sip_dto) sip_world) = Inr (Some sip_found)"
  by code_simp

theorem sip_topup_lost_witness:
  "topups ''k1'' (fold (sip_step sample_services) [SipCallback sip_dto, SipCallback sip_dto]
      (snd (handleSipCallback down_services sip_dto sip_world))) = 0"
proof -
  have m: "callback_matches (pwu_payment sip_found) sip_dto" by code_simp
  have st: "pay_status (pwu_payment sip_found) \<noteq> COMPLETED" by (simp add: sip_found_def sip_row_def)
  have d: "wallet_down down_services" by (simp add: wallet_down_def down_services_def)
  have k: "pay_idempotency_key (pwu_payment sip_found) = ''k1''" "topups ''k1'' sip_world = 0"
    by (simp_all add: sip_found_def sip_row_def sample_payment_row_def topups_def sip_world_def sample_world_def empty_world_def)
  from sip_topup_lost [OF sip_world_wf sip_world_found st m d, of sample_services "[SipCallback sip_dto, SipCallback sip_dto]"]
  show ?thesis unfolding k by auto
qed

text \<open>
  C2: However many callbacks arrive for a QR payment, mixed with new QR requests, the wallet is
  topped up at most once for it, and not at all once it is completed.
\<close>

theorem sip_topup_at_most_once:
  fixes E :: "'x services" and w :: "'x world"
  assumes "clip_inv i K w"
  shows "topups K (fold (sip_step E) evs w) \<le> Suc (topups K w)
       \<and> (sip_marked i w \<longrightarrow> topups K (fold (sip_step E) evs w) = topups K w)"
  using sip_once.count_run [OF assms] sip_once.marked_run [OF assms] by blast

theorem sip_topup_at_most_once_witness:
  "topups ''k1'' (fold (sip_step sample_services) [SipCallback sip_dto, SipCallback sip_dto] sip_world) = 1"
proof -
  have "topups ''k1'' sip_world = 0" by code_simp
  moreover have "0 < topups ''k1'' (fold (sip_step sample_services) [SipCallback sip_dto, SipCallback sip_dto] sip_world)"
    by code_simp
  ultimately show ?thesis
    using sip_topup_at_most_once [OF sip_world_inv, of sample_services "[SipCallback sip_dto, SipCallback sip_dto]"] by linarith
qed

section \<open>A callback that does not match\<close>




section \<open>One transaction per order\<close>

definition tx_count :: "string \<Rightarrow> 'x world \<Rightarrow> nat" where
  "tx_count ref w = length (filter (\<lambda>r. tx_prosperaReference r = Some ref) (rows (transactions w)))"

definition tx_unique :: "'x world \<Rightarrow> bool" where
  "tx_unique w \<longleftrightarrow> (\<forall>ref. tx_count ref w \<le> 1)"

interpretation tx_frame: push_frame tx_unique
  by unfold_locales (simp_all add: tx_unique_def tx_count_def)

lemma tx_unique_frame:
  "tx_unique (w\<lparr>payments := t\<rparr>) = tx_unique w" "tx_unique (w\<lparr>sipCache := c\<rparr>) = tx_unique w"
  "tx_unique (w\<lparr>ext := x, trace := tr\<rparr>) = tx_unique w" "tx_unique (w\<lparr>ext := x\<rparr>) = tx_unique w"
  by (simp_all add: tx_unique_def tx_count_def)

lemma createTopup_unique: "keeps tx_unique (createTopupIfNotExists E u d ref desc)"
proof (rule keepsI)
  fix w :: "'a world" assume P: "tx_unique w"
  show "tx_unique (snd (createTopupIfNotExists E u d ref desc w))"
  proof (cases "find_row (\<lambda>r. tx_prosperaReference r = Some ref) (transactions w)")
    case None
    then have "tx_count ref w = 0"
      by (auto simp: tx_count_def find_row_def find_None_notin filter_empty_conv)
    then show ?thesis
      using P None by (auto simp: createTopupIfNotExists_def bindE_def now_run from_sum_def ensure_run tx_unique_def tx_count_def
          rows_insert_row split: sum.split)
  next
    case (Some r)
    then show ?thesis using P by (simp add: createTopupIfNotExists_def bindE_def)
  qed
qed

lemma keeps_findByOrderId [keeps_intros]: "keeps P (findByOrderId a)"
  unfolding findByOrderId_def by (intro keeps_intros)

lemma sip_step_unique: "tx_unique w \<Longrightarrow> tx_unique (sip_step E ev w)"
proof (cases ev)
  case (SipCallback dto)
  have "keeps tx_unique (handleSipCallback E dto)"
    unfolding handleSipCallback_def check_amount_def check_currency_def markFailed_def completeSipPayment_def sip_topup_def topUp_def Let_def
    by (intro keeps_intros tx_frame.keeps_clock keeps_update_payment createTopup_unique keeps_remote keeps_merge
        tx_frame.keeps_proof tx_frame.keeps_sendToUser) (simp_all add: tx_unique_frame)
  then show "tx_unique w \<Longrightarrow> ?thesis" using SipCallback by (simp add: keepsD)
next
  case (SipQr u q)
  have "keeps tx_unique (createSipQr E u q)"
    unfolding createSipQr_def generateSipQrIdempotencyKey_def findByIdempotencyKey_def buildExpirationDate_def createSipPayment_def
      generateQr_def withToken_def getToken_def refreshToken_def sip_post_qr_def saveSipQrResponse_def insert_payment_def Let_def
    by (intro keeps_intros tx_frame.keeps_clock tx_frame.keeps_serv keeps_modify keeps_remote keeps_update_payment)
       (simp_all add: tx_unique_frame)
  then show "tx_unique w \<Longrightarrow> ?thesis" using SipQr by (simp add: keepsD)
qed

interpretation tx_system: invariant_system "sip_step E" tx_unique for E :: "'x services"
  by unfold_locales (rule sip_step_unique)

text \<open>
  C21: A ledger with at most one entry per external reference keeps this under any sequence of
  callbacks and QR requests: a repeated callback never books the same order twice.
\<close>

theorem sip_ledger_unique:
  fixes E :: "'x services" and w :: "'x world"
  assumes "tx_unique w"
  shows "tx_count ref (fold (sip_step E) evs w) \<le> 1"
  using tx_system.inv_run [OF assms, of E evs] by (simp add: tx_unique_def)

section \<open>Repeated QR requests\<close>

definition qr_key :: "'x services \<Rightarrow> int \<Rightarrow> create_sip_qr_request \<Rightarrow> int \<Rightarrow> string" where
  "qr_key E u q t = sha256_hex E (''SIP_TOPUP|'' @ string_of_int u @ ''|'' @ toFixed 2 (cq_amount q) @ ''|''
     @ currency_str (cq_currency q) @ ''|'' @ minute_bucket t)"

lemma key_run: "generateSipQrIdempotencyKey E u (cq_amount q) (cq_currency q) w =
    (Inr (qr_key E u q (fst (clock E (ext w)))), w\<lparr>ext := snd (clock E (ext w))\<rparr>)"
  by (simp add: generateSipQrIdempotencyKey_def bindE_def now_run qr_key_def)

abbreviation find_key :: "string \<Rightarrow> payment_row table \<Rightarrow> payment_row option" where
  "find_key k t \<equiv> find_row (\<lambda>r. pay_idempotency_key r = k) t"

lemma createSipQr_cached:
  assumes "find_key (qr_key E u q (fst (clock E (ext w)))) (payments w) = Some r"
  shows "createSipQr E u q w = (Inr (cached_qr r), w\<lparr>ext := snd (clock E (ext w))\<rparr>)"
  using assms by (simp add: createSipQr_def bindE_def key_run findByIdempotencyKey_def)

text \<open>The new payment of a first request, and what is left of it when the bank does not answer.\<close>

definition qr_payment_row :: "payment_row \<Rightarrow> int \<Rightarrow> create_sip_qr_request \<Rightarrow> bool" where
  "qr_payment_row r u q \<longleftrightarrow> pay_user_id r = u \<and> pay_provider r = SIP_PROVIDER \<and> pay_status r = PENDING
     \<and> pay_provider_payment_id r = None \<and> pay_response_payload r = None \<and> pay_currency r = currency_str (cq_currency q)
     \<and> store_decimal 10 2 (cq_amount q) = Inr (pay_amount r) \<and> pay_net_amount r = 0
     \<and> store_decimal 14 2 (case cq_netAmountMxn q of Some m \<Rightarrow> m | None \<Rightarrow> Fin 0) = Inr (topup_amount r)"

lemma createSipPayment_cases:
  obtains (failed) e x where "createSipPayment E i w = (Inl e, w\<lparr>ext := x\<rparr>)"
  | (created) r x where "createSipPayment E i w = (Inr r, w\<lparr>ext := x, payments := insert_row r (payments w)\<rparr>)"
      and "pay_id r = next_id (payments w)" and "pay_idempotency_key r = sin_idempotencyKey i"
      and "payment_keys_free r (payments w)" and "pay_order_id r = Some (sin_orderId i)"
      and "store_decimal 10 2 (sin_amount i) = Inr (pay_amount r)" and "pay_provider r = SIP_PROVIDER"
      and "store_decimal 14 2 (case sin_netAmountMxn i of Some m \<Rightarrow> m | None \<Rightarrow> Fin 0) = Inr (topup_amount r)"
      and "pay_user_id r = sin_userId i" and "pay_status r = PENDING" and "pay_provider_payment_id r = None"
      and "pay_response_payload r = None" and "pay_currency r = currency_str (sin_currency i)" and "pay_net_amount r = 0"
proof -
  let ?w = "w\<lparr>ext := snd (clock E (ext w))\<rparr>"
  consider e where "createSipPayment E i w = (Inl e, ?w)"
    | amount mxn where "store_decimal 10 2 (sin_amount i) = Inr amount"
        "store_decimal 14 2 (case sin_netAmountMxn i of Some m \<Rightarrow> m | None \<Rightarrow> Fin 0) = Inr mxn"
    by (cases "store_decimal 10 2 (sin_amount i)";
        cases "store_decimal 14 2 (case sin_netAmountMxn i of Some m \<Rightarrow> m | None \<Rightarrow> Fin 0)")
       (auto simp: createSipPayment_def bindE_def now_run from_sum_def)
  then show thesis
  proof cases
    case 1
    then show thesis by (rule failed)
  next
    case 2
    define mk where "mk = (\<lambda>k.
       \<lparr>pay_id = k, pay_user_id = sin_userId i, pay_order_id = Some (sin_orderId i), pay_provider = SIP_PROVIDER,
        pay_provider_payment_id = None, pay_amount = amount, pay_currency = currency_str (sin_currency i),
        pay_description = Some (slice 0 255 (sin_description i)), pay_business_fee_rate = 0,
        pay_business_fee_amount = 0, pay_net_amount = 0, pay_net_amount_mxn = Some mxn,
        pay_status = PENDING, pay_payment_method = SIP_PAYMENT_METHOD,
        pay_idempotency_key = sin_idempotencyKey i,
        pay_request_payload = Some (sip_request_json (sin_requestPayload i)), pay_response_payload = None,
        pay_created_at = to_seconds (fst (clock E (ext w))), pay_updated_at = to_seconds (fst (clock E (ext w)))\<rparr>)"
    have run: "createSipPayment E i w = insert_payment mk ?w"
      using 2 by (simp add: createSipPayment_def bindE_def now_run from_sum_def mk_def)
    show thesis
    proof (rule insert_payment_cases [of mk ?w])
      fix e assume "insert_payment mk ?w = (Inl e, ?w)"
      with run show thesis using failed by simp
    next
      assume "payment_keys_free (mk (next_id (payments ?w))) (payments ?w)"
        and "insert_payment mk ?w = (Inr (mk (next_id (payments ?w))), ?w\<lparr>payments := insert_row (mk (next_id (payments ?w))) (payments ?w)\<rparr>)"
      then show thesis
        by (intro created [of "mk (next_id (payments w))" "snd (clock E (ext w))"])
           (use 2 run in \<open>simp_all add: mk_def topup_amount_def\<close>)
    qed
  qed
qed


text \<open>The row of a QR that was delivered.\<close>

definition saved_row :: "sip_qr_objeto \<Rightarrow> int \<Rightarrow> payment_row \<Rightarrow> payment_row" where
  "saved_row o' t r = r\<lparr>pay_provider_payment_id := Some (so_idQr o'), pay_response_payload := Some (qr_objeto_json o'),
     pay_updated_at := to_seconds t\<rparr>"

lemma saveSipQrResponse_fold: "saveSipQrResponse E i (so_idQr o') o' = bindE (now E) (\<lambda>t. update_payment i (saved_row o' t))"
  unfolding saveSipQrResponse_def saved_row_def [abs_def] ..

lemma cached_saved: "cached_qr (saved_row o' t r) = new_qr r orderId o'" if "pay_order_id r = Some orderId"
  using that by (simp add: cached_qr_def new_qr_def saved_row_def qr_objeto_json_def jobj_def)

definition payments_are :: "payment_row table \<Rightarrow> 'x world \<Rightarrow> bool" where
  "payments_are t w \<longleftrightarrow> payments w = t"

lemma generateQr_payments: "payments (snd (generateQr E q w)) = payments w"
proof -
  have "keeps (payments_are (payments w)) (generateQr E q)"
    unfolding generateQr_def withToken_def getToken_def refreshToken_def sip_post_qr_def
    by (intro keeps_intros keeps_modify keeps_remote keeps_now) (simp_all add: payments_are_def)
  from keepsD [OF this, of w] show ?thesis by (simp add: payments_are_def)
qed

lemma buildExpirationDate_total: "\<exists>s. buildExpirationDate E d w = (Inr s, w\<lparr>ext := snd (clock E (ext w))\<rparr>)"
  by (cases "civil_of_day (day_of (fst (clock E (ext w)) + local_offset E (fst (clock E (ext w)))) + d)")
     (simp add: buildExpirationDate_def bindE_def now_run)

text \<open>A first request: it fails before or after the payment is stored, or the QR is delivered and saved.\<close>

lemma createSipQr_new:
  assumes none: "find_key (qr_key E u q (fst (clock E (ext w)))) (payments w) = None"
  obtains (early) e w' where "createSipQr E u q w = (Inl e, w')" and "payments w' = payments w"
  | (late) e r w' where "createSipQr E u q w = (Inl e, w')" and "payments w' = insert_row r (payments w)"
      and "pay_idempotency_key r = qr_key E u q (fst (clock E (ext w)))" and "qr_payment_row r u q"
  | (delivered) r o' t orderId w' where "createSipQr E u q w = (Inr (new_qr r orderId o'), w')"
      and "payments w' = update_rows (\<lambda>p. pay_id p = pay_id r) (saved_row o' t) (insert_row r (payments w))"
      and "pay_id r = next_id (payments w)" and "pay_order_id r = Some orderId"
      and "pay_idempotency_key r = qr_key E u q (fst (clock E (ext w)))" and "qr_payment_row r u q"
proof -
  let ?k = "qr_key E u q (fst (clock E (ext w)))"
  let ?w = "w\<lparr>ext := snd (clock E (ext w))\<rparr>"
  obtain orderId x1 where oid: "random_uuid E (ext ?w) = (orderId, x1)" by fastforce
  obtain exp x2 where ex: "buildExpirationDate E 1 (w\<lparr>ext := x1\<rparr>) = (Inr exp, w\<lparr>ext := x2\<rparr>)"
    using buildExpirationDate_total [of E 1 "w\<lparr>ext := x1\<rparr>"] by auto
  let ?req = "sip_request_for (cfg E) q orderId exp"
  let ?in = "\<lparr>sin_userId = u, sin_orderId = orderId, sin_amount = cq_amount q, sin_currency = cq_currency q,
     sin_description = (case cq_description q of Some d \<Rightarrow> d | None \<Rightarrow> ''USDT Purchase''),
     sin_netAmountMxn = cq_netAmountMxn q, sin_idempotencyKey = ?k, sin_requestPayload = ?req\<rparr>"
  have run: "createSipQr E u q w = bindE (createSipPayment E ?in) (\<lambda>payment.
      bindE (generateQr E ?req) (\<lambda>qrObj. bindE (saveSipQrResponse E (pay_id payment) (so_idQr qrObj) qrObj) (\<lambda>_.
      ok (new_qr payment orderId qrObj)))) (w\<lparr>ext := x2\<rparr>)"
    unfolding createSipQr_def bindE_def [of "generateSipQrIdempotencyKey _ _ _ _"] key_run findByIdempotencyKey_def
    using none oid ex by (simp add: bindE_def [of "gets _"] bindE_def [of "service _"] service_run bindE_def [of "buildExpirationDate _ _"] Let_def)
  show thesis
  proof (rule createSipPayment_cases [of E ?in "w\<lparr>ext := x2\<rparr>"])
    fix e x assume "createSipPayment E ?in (w\<lparr>ext := x2\<rparr>) = (Inl e, w\<lparr>ext := x2, ext := x\<rparr>)"
    with run show thesis by (intro early [of e "w\<lparr>ext := x\<rparr>"]) (simp_all add: bindE_def)
  next
    fix r x
    assume c: "createSipPayment E ?in (w\<lparr>ext := x2\<rparr>) = (Inr r, w\<lparr>ext := x2, ext := x, payments := insert_row r (payments (w\<lparr>ext := x2\<rparr>))\<rparr>)"
      and p: "pay_id r = next_id (payments (w\<lparr>ext := x2\<rparr>))" "pay_idempotency_key r = sin_idempotencyKey ?in"
        "pay_order_id r = Some (sin_orderId ?in)" "store_decimal 10 2 (sin_amount ?in) = Inr (pay_amount r)"
        "pay_provider r = SIP_PROVIDER"
        "store_decimal 14 2 (case sin_netAmountMxn ?in of Some m \<Rightarrow> m | None \<Rightarrow> Fin 0) = Inr (topup_amount r)"
        "pay_user_id r = sin_userId ?in" "pay_status r = PENDING" "pay_provider_payment_id r = None"
        "pay_response_payload r = None" "pay_currency r = currency_str (sin_currency ?in)" "pay_net_amount r = 0"
    have row: "qr_payment_row r u q" using p by (simp add: qr_payment_row_def)
    define v where "v = w\<lparr>ext := x, payments := insert_row r (payments w)\<rparr>"
    obtain g v1 where g: "generateQr E ?req v = (g, v1)" by fastforce
    have v1: "payments v1 = insert_row r (payments w)" using generateQr_payments [of E ?req v] g by (simp add: v_def)
    have run': "createSipQr E u q w = bindE (generateQr E ?req) (\<lambda>qrObj. bindE (saveSipQrResponse E (pay_id r) (so_idQr qrObj) qrObj) (\<lambda>_.
      ok (new_qr r orderId qrObj))) v"
      using c by (simp add: run bindE_def [of "createSipPayment _ _"] v_def)
    show thesis
    proof (cases g)
      case (Inl e)
      then show thesis using late [of e v1 r] run' g v1 p row by (simp add: bindE_def)
    next
      case (Inr o')
      let ?v2 = "v1\<lparr>ext := snd (clock E (ext v1))\<rparr>" and ?t = "fst (clock E (ext v1))"
      have run2: "createSipQr E u q w = bindE (update_payment (pay_id r) (saved_row o' ?t)) (\<lambda>_. ok (new_qr r orderId o')) ?v2"
        unfolding run' bindE_def [of "generateQr _ _"] g Inr saveSipQrResponse_fold
        by (simp add: bindE_def now_run)
      show thesis
      proof (rule update_payment_cases [of "pay_id r" "saved_row o' ?t" ?v2])
        fix e assume "update_payment (pay_id r) (saved_row o' ?t) ?v2 = (Inl e, ?v2)"
        then show thesis using late [of e ?v2 r] run2 v1 p row by (simp add: bindE_def)
      next
        fix r' assume "update_payment (pay_id r) (saved_row o' ?t) ?v2 =
          (Inr (saved_row o' ?t r'), ?v2\<lparr>payments := update_rows (\<lambda>p. pay_id p = pay_id r) (saved_row o' ?t) (payments ?v2)\<rparr>)"
        then show thesis using delivered [of r orderId o' _ ?t] run2 v1 p row by (simp add: bindE_def)
      qed
    qed
  qed
qed

lemma find_key_insert: "find_key k t = None \<Longrightarrow> pay_idempotency_key r = k \<Longrightarrow> find_key k (insert_row r t) = Some r"
  by (simp add: find_row_insert)

text \<open>
  C22: A QR request repeated within the same minute, by the same user for the same amount and
  currency, gives the same answer as the first one, with no new payment and no call to the bank.
\<close>

theorem createSipQr_idempotent:
  assumes "createSipQr E u q w = (Inr res, w')"
    and "minute_bucket (fst (clock E (ext w'))) = minute_bucket (fst (clock E (ext w)))"
  shows "createSipQr E u q w' = (Inr res, w'\<lparr>ext := snd (clock E (ext w'))\<rparr>)"
proof -
  let ?k = "qr_key E u q (fst (clock E (ext w)))"
  have k: "qr_key E u q (fst (clock E (ext w'))) = ?k" using assms(2) by (simp add: qr_key_def)
  have "\<exists>r. find_key ?k (payments w') = Some r \<and> res = cached_qr r"
  proof (cases "find_key ?k (payments w)")
    case (Some r)
    with createSipQr_cached [OF Some] assms(1) show ?thesis by auto
  next
    case None
    show ?thesis
    proof (rule createSipQr_new [OF None])
      fix r o' t orderId v
      assume d: "createSipQr E u q w = (Inr (new_qr r orderId o'), v)"
        "payments v = update_rows (\<lambda>p. pay_id p = pay_id r) (saved_row o' t) (insert_row r (payments w))"
        "pay_order_id r = Some orderId" "pay_idempotency_key r = ?k"
      have "find_key ?k (payments v) = Some (saved_row o' t r)"
        unfolding d(2) by (subst find_row_update_kept) (simp_all add: saved_row_def find_key_insert [OF None d(4)])
      with d assms(1) show ?thesis by (auto simp: cached_saved)
    qed (use assms(1) in auto)
  qed
  then obtain r where "find_key (qr_key E u q (fst (clock E (ext w')))) (payments w') = Some r" "res = cached_qr r"
    by (auto simp: k)
  from createSipQr_cached [OF this(1)] this(2) show ?thesis by simp
qed

text \<open>
  C23: When the bank does not deliver the QR of a first request, the payment stays behind, and
  a retry within the same minute is answered as a success, with an empty QR image and without
  asking the bank again.
\<close>

theorem createSipQr_retry_empty:
  assumes "find_key (qr_key E u q (fst (clock E (ext w)))) (payments w) = None"
    and "createSipQr E u q w = (Inl e, w')" and "payments w' \<noteq> payments w"
    and "minute_bucket (fst (clock E (ext w'))) = minute_bucket (fst (clock E (ext w)))"
  shows "\<exists>res. createSipQr E u q w' = (Inr res, w'\<lparr>ext := snd (clock E (ext w'))\<rparr>) \<and> cqr_qrBase64 res = JStr ''''"
proof (rule createSipQr_new [OF assms(1)])
  fix e' r v
  assume l: "createSipQr E u q w = (Inl e', v)" "payments v = insert_row r (payments w)"
    "pay_idempotency_key r = qr_key E u q (fst (clock E (ext w)))" "qr_payment_row r u q"
  have "find_key (qr_key E u q (fst (clock E (ext w')))) (payments w') = Some r"
    using assms l by (simp add: qr_key_def find_row_insert)
  from createSipQr_cached [OF this] l(4) show ?thesis by (simp add: cached_qr_def qr_payment_row_def)
qed (use assms in auto)


section \<open>The properties at work\<close>

definition sample_qr :: create_sip_qr_request where
  "sample_qr = \<lparr>cq_amount = Fin 100, cq_currency = BOB, cq_description = None, cq_netAmountMxn = None\<rparr>"

definition no_bank :: "int services" where
  "no_bank = sample_services\<lparr>api_sip_qr := (\<lambda>t q x. (Inl unavailable, x))\<rparr>"

lemma sample_qr_none: "find_key (qr_key sample_services 1 sample_qr (fst (clock sample_services (ext sample_world)))) (payments sample_world) = None"
  "find_key (qr_key no_bank 1 sample_qr (fst (clock no_bank (ext sample_world)))) (payments sample_world) = None"
  by (simp_all add: find_row_def sample_world_def empty_world_def empty_table_def)

lemma succeededE: "succeeded (fst r) \<Longrightarrow> (\<And>a s. r = (Inr a, s) \<Longrightarrow> P) \<Longrightarrow> P"
  by (cases r; cases "fst r") auto

lemma failedE: "\<not> succeeded (fst r) \<Longrightarrow> (\<And>e s. r = (Inl e, s) \<Longrightarrow> P) \<Longrightarrow> P"
  by (cases r; cases "fst r") auto

theorem createSipQr_idempotent_witness:
  "fst (createSipQr sample_services 1 sample_qr (snd (createSipQr sample_services 1 sample_qr sample_world))) =
   fst (createSipQr sample_services 1 sample_qr sample_world)"
proof -
  have "succeeded (fst (createSipQr sample_services 1 sample_qr sample_world))" by code_simp
  then obtain res w' where r: "createSipQr sample_services 1 sample_qr sample_world = (Inr res, w')" by (rule succeededE)
  have "minute_bucket (fst (clock sample_services (ext (snd (createSipQr sample_services 1 sample_qr sample_world))))) =
      minute_bucket (fst (clock sample_services (ext sample_world)))" by code_simp
  then show ?thesis using createSipQr_idempotent [OF r] by (simp add: r)
qed

theorem createSipQr_retry_empty_witness:
  "\<exists>res. fst (createSipQr no_bank 1 sample_qr (snd (createSipQr no_bank 1 sample_qr sample_world))) = Inr res
     \<and> cqr_qrBase64 res = JStr ''''"
proof -
  have "\<not> succeeded (fst (createSipQr no_bank 1 sample_qr sample_world))" by code_simp
  then obtain e w' where r: "createSipQr no_bank 1 sample_qr sample_world = (Inl e, w')" by (rule failedE)
  have "minute_bucket (fst (clock no_bank (ext (snd (createSipQr no_bank 1 sample_qr sample_world))))) =
      minute_bucket (fst (clock no_bank (ext sample_world)))
    \<and> length (rows (payments (snd (createSipQr no_bank 1 sample_qr sample_world)))) = 1" by code_simp
  moreover have "rows (payments sample_world) = []" by code_simp
  ultimately show ?thesis using createSipQr_retry_empty [OF sample_qr_none(2) r] by (fastforce simp: r)
qed


definition booked_dto :: sip_callback where
  "booked_dto = \<lparr>cb_alias = ''uuid'', cb_monto = None, cb_moneda = None, cb_idQr = None,
     cb_numeroOrdenOriginante = None, cb_fechaproceso = None, cb_cuentaCliente = None, cb_nombreCliente = None,
     cb_documentoCliente = None\<rparr>"

theorem sip_ledger_unique_witness:
  "tx_count ''QRBMSC-uuid'' (fold (sip_step sample_services) [SipQr 1 sample_qr, SipCallback booked_dto, SipCallback booked_dto] sample_world) = 1"
proof -
  have "tx_unique sample_world" by (simp add: tx_unique_def tx_count_def sample_world_def empty_world_def empty_table_def)
  note sip_ledger_unique [OF this, of "''QRBMSC-uuid''" sample_services "[SipQr 1 sample_qr, SipCallback booked_dto, SipCallback booked_dto]"]
  moreover have "0 < tx_count ''QRBMSC-uuid'' (fold (sip_step sample_services) [SipQr 1 sample_qr, SipCallback booked_dto, SipCallback booked_dto] sample_world)"
    by code_simp
  ultimately show ?thesis by linarith
qed

section \<open>Authentication of the callback\<close>

lemma or_eq_0_int: "or (a::int) b = 0 \<longleftrightarrow> a = 0 \<and> b = 0"
  by (rule or_eq_0_iff)

lemma xor_eq_0_int: "xor (a::int) b = 0 \<longleftrightarrow> a = b"
  by (auto simp: bit_eq_iff bit_xor_iff)

lemma diff_loop_zero: "length a = length b \<Longrightarrow> diff_loop a b d = 0 \<longleftrightarrow> d = 0 \<and> a = b"
  by (induction a b d rule: diff_loop.induct) (auto simp: or_eq_0_int xor_eq_0_int)

lemma timing_eq: "timingSafeEqual a b \<longleftrightarrow> a = b"
  by (auto simp: timingSafeEqual_def diff_loop_zero)

text \<open>
  C26: The comparison that visits every character gives the same answer as equality of strings.
\<close>

theorem timingSafeEqual_eq: "timingSafeEqual a b \<longleftrightarrow> a = b"
  by (rule timing_eq)

lemma split_colon_iff: "split_colon s = Some (u, p) \<longleftrightarrow> s = u @ '':'' @ p \<and> CHR '':'' \<notin> set u"
proof (induction s arbitrary: u)
  case (Cons c s)
  show ?case
  proof (cases u)
    case Nil
    then show ?thesis by (auto split: option.split)
  next
    case (Cons x v)
    then show ?thesis using Cons.IH [of v] by (cases "split_colon s") auto
  qed
qed simp

text \<open>
  C27: A callback is let in exactly when its header is a basic authorization whose decoded
  content is the configured user and password around a colon, for a user without a colon. With
  nothing configured, both are empty and the content of a single colon is let in.
\<close>

theorem sipBasicAuth_iff:
  assumes "CHR '':'' \<notin> set (cfg_sipCallbackBasicUser (cfg E))"
  shows "sipBasicAuth E h \<longleftrightarrow> (\<exists>b. h = Some (''Basic '' @ b) \<and>
     base64_decode E b = cfg_sipCallbackBasicUser (cfg E) @ '':'' @ cfg_sipCallbackBasicPass (cfg E))"
proof -
  have starts: "startsWith ''Basic '' s \<longleftrightarrow> (\<exists>b. s = ''Basic '' @ b)" for s
    unfolding startsWith_def by (metis append_eq_conv_conj append_take_drop_id)
  have match: "(case split_colon d of None \<Rightarrow> False | Some (u, p) \<Rightarrow> timingSafeEqual u U \<and> timingSafeEqual p P) \<longleftrightarrow> split_colon d = Some (U, P)" for d U P
    by (auto simp: timing_eq split: option.split)
  show ?thesis
  proof (cases h)
    case (Some s)
    then show ?thesis
    proof (cases "startsWith ''Basic '' s")
      case True
      then obtain b where "s = ''Basic '' @ b" using starts by blast
      with Some True assms show ?thesis by (simp add: sipBasicAuth_def match split_colon_iff)
    next
      case False
      with Some show ?thesis by (auto simp: sipBasicAuth_def starts)
    qed
  qed (simp add: sipBasicAuth_def startsWith_def)
qed

theorem sipBasicAuth_iff_witness:
  "sipBasicAuth sample_services (Some ''Basic bank:word'') \<and> \<not> sipBasicAuth sample_services (Some ''Basic bank:x'')"
proof -
  have "CHR '':'' \<notin> set (cfg_sipCallbackBasicUser (cfg sample_services))" by (simp add: sample_services_def sample_config_def)
  from sipBasicAuth_iff [OF this, of "Some ''Basic bank:word''"] sipBasicAuth_iff [OF this, of "Some ''Basic bank:x''"]
  show ?thesis by (simp add: sample_services_def sample_config_def)
qed

section \<open>Calls made for a QR\<close>

fun is_qr_call :: "call \<times> bool \<Rightarrow> bool" where
  "is_qr_call (CallSipQr t q, b) = True"
| "is_qr_call _ = False"

fun is_token_call :: "call \<times> bool \<Rightarrow> bool" where
  "is_token_call (CallSipToken, b) = True"
| "is_token_call _ = False"

lemma refreshToken_trace: "\<exists>b. trace (snd (refreshToken E w)) = trace w @ [(CallSipToken, b)]"
  by (auto simp: refreshToken_def bindE_def remote_run ensure_run now_run split: sum.split)

lemma getToken_trace: "\<exists>cs. trace (snd (getToken E w)) = trace w @ cs \<and> (cs = [] \<or> (\<exists>b. cs = [(CallSipToken, b)]))"
  using refreshToken_trace [of E w] refreshToken_trace [of E "w\<lparr>ext := snd (clock E (ext w))\<rparr>"]
  by (auto simp: getToken_def bindE_def now_run split: option.split)

lemma sip_post_trace: "trace (snd (sip_post_qr E q t w)) = trace w @ [(CallSipQr t q, succeeded (fst (api_sip_qr E t q (ext w))))]"
  by (simp add: sip_post_qr_def remote_run)

text \<open>
  Creating a QR calls the bank's QR service at most twice and asks for at most two tokens,
  whatever the bank answers; the second QR call is only made when the first one failed.
\<close>

theorem generateQr_calls:
  "\<exists>cs. trace (snd (generateQr E q w)) = trace w @ cs
     \<and> length (filter is_qr_call cs) \<le> 2 \<and> length (filter is_token_call cs) \<le> 2
     \<and> (length (filter is_qr_call cs) \<le> 1 \<or> snd (hd (filter is_qr_call cs)) = False)"
proof -
  have drop_deref: "snd (generateQr E q w) = snd (withToken E (sip_post_qr E q) w)"
    by (auto simp: generateQr_def bindE_def deref_run split: prod.split sum.split option.split)
  have retry: "\<exists>b cs. trace (snd (bindE (refreshToken E) (sip_post_qr E q) v)) = trace v @ (CallSipToken, b) # cs
      \<and> (cs = [] \<or> (\<exists>t b'. cs = [(CallSipQr t q, b')]))" for v
  proof -
    obtain b where b: "trace (snd (refreshToken E v)) = trace v @ [(CallSipToken, b)]" using refreshToken_trace by blast
    show ?thesis
      by (cases "refreshToken E v"; cases "fst (refreshToken E v)") (use b in \<open>auto simp: bindE_def sip_post_trace\<close>)
  qed
  obtain r v where g: "getToken E w = (r, v)" by fastforce
  from getToken_trace [of E w] g obtain cs where cs: "trace v = trace w @ cs" "cs = [] \<or> (\<exists>b. cs = [(CallSipToken, b)])" by auto
  show ?thesis
  proof (cases r)
    case (Inl e)
    then show ?thesis using cs g by (intro exI [of _ cs]) (auto simp: drop_deref withToken_def bindE_def)
  next
    case (Inr token)
    define v1 where "v1 = snd (sip_post_qr E q token v)"
    have v1: "trace v1 = trace v @ [(CallSipQr token q, succeeded (fst (api_sip_qr E token q (ext v))))]"
      by (simp add: v1_def sip_post_trace)
    have run: "snd (withToken E (sip_post_qr E q) w) = (case fst (sip_post_qr E q token v) of
        Inr a \<Rightarrow> v1 | Inl e \<Rightarrow> if err_class e = UnauthorizedError then snd (bindE (refreshToken E) (sip_post_qr E q) v1) else v1)"
      by (simp add: withToken_def bindE_def [of "getToken E"] g Inr try_catch_def v1_def split: prod.split sum.split)
    from retry [of v1] obtain b ds where ds: "trace (snd (bindE (refreshToken E) (sip_post_qr E q) v1)) = trace v1 @ (CallSipToken, b) # ds"
      "ds = [] \<or> (\<exists>t b'. ds = [(CallSipQr t q, b')])" by blast
    have fail: "\<not> succeeded (fst (api_sip_qr E token q (ext v)))" if "fst (sip_post_qr E q token v) = Inl e" for e
      using that by (auto simp: sip_post_qr_def remote_run split: sum.splits)
    let ?c = "(CallSipQr token q, succeeded (fst (api_sip_qr E token q (ext v))))"
    consider "trace (snd (withToken E (sip_post_qr E q) w)) = trace w @ cs @ [?c]"
      | "trace (snd (withToken E (sip_post_qr E q) w)) = trace w @ cs @ [?c, (CallSipToken, b)] @ ds" "\<not> snd ?c"
      using run v1 ds cs(1) fail by (auto split: sum.splits if_splits)
    then show ?thesis
    proof cases
      case 1
      then show ?thesis using cs(2) by (intro exI [of _ "cs @ [?c]"]) (auto simp: drop_deref)
    next
      case 2
      then show ?thesis using cs(2) ds(2) by (intro exI [of _ "cs @ [?c, (CallSipToken, b)] @ ds"]) (auto simp: drop_deref)
    qed
  qed
qed

section \<open>The keys of the payments table under every operation\<close>



















end
