(* ===== verification/JsParse.thy ===== *)
theory JsParse
  imports JsDate
begin

text \<open>
  The remaining parts of the language the services use: \<^verbatim>\<open>parseFloat\<close> and \<^verbatim>\<open>parseInt\<close>, which read
  a prefix of a string, the text of a date, and the constructor of a date from its local parts.
\<close>

text \<open>\<^verbatim>\<open>parseFloat\<close> reads the longest prefix that is a decimal literal.\<close>

definition prefixes_desc :: "string \<Rightarrow> string list" where
  "prefixes_desc s = map (\<lambda>n. take n s) (rev [0..<Suc (length s)])"

definition unsigned_prefix :: "string \<Rightarrow> jsnum" where
  "unsigned_prefix s = (if startsWith ''Infinity'' s then PosInf
     else case List.find (\<lambda>p. parse_decimal p \<noteq> None) (prefixes_desc s) of
            None \<Rightarrow> NaN | Some p \<Rightarrow> to_double (the (parse_decimal p)))"

definition parseFloat :: "string \<Rightarrow> jsnum" where
  "parseFloat s = (case trimStart s of
       [] \<Rightarrow> NaN
     | c # t \<Rightarrow> if c = CHR ''-'' then js_neg (unsigned_prefix t)
                else if c = CHR ''+'' then unsigned_prefix t else unsigned_prefix (c # t))"

definition unsigned_int_prefix :: "string \<Rightarrow> jsnum" where
  "unsigned_int_prefix s =
     (if startsWith ''0x'' s \<or> startsWith ''0X'' s
      then parse_radix 16 (takeWhile (\<lambda>c. radix_digit c < 16) (drop 2 s))
      else parse_radix 10 (takeWhile is_digit s))"

definition parseInt :: "string \<Rightarrow> jsnum" where
  "parseInt s = (case trimStart s of
       [] \<Rightarrow> NaN
     | c # t \<Rightarrow> if c = CHR ''-'' then js_neg (unsigned_int_prefix t)
                else if c = CHR ''+'' then unsigned_int_prefix t else unsigned_int_prefix (c # t))"

section \<open>Dates\<close>

definition iso_year :: "int \<Rightarrow> string" where
  "iso_year y = (if 0 \<le> y \<and> y \<le> 9999 then padStart 4 CHR ''0'' (string_of_int y)
                 else (if y < 0 then CHR ''-'' else CHR ''+'') # padStart 6 CHR ''0'' (string_of_int \<bar>y\<bar>))"

definition iso_date :: "int \<Rightarrow> string" where
  "iso_date t = (case civil_of_day (day_of t) of (y, m, d) \<Rightarrow>
     iso_year y @ ''-'' @ pad2 (m + 1) @ ''-'' @ pad2 d)"

definition toISOString :: "int \<Rightarrow> string" where
  "toISOString t = iso_date t @ ''T'' @ pad2 (hours_of t) @ '':'' @ pad2 (minutes_of t) @ '':''
     @ pad2 (time_within_day t div 1000 mod 60) @ ''.''
     @ padStart 3 CHR ''0'' (string_of_int (time_within_day t mod 1000)) @ ''Z''"

text \<open>A month outside the year and a day outside the month carry over.\<close>

definition make_day :: "int \<Rightarrow> int \<Rightarrow> int \<Rightarrow> int" where
  "make_day y m d = day_of_civil (y + m div 12) (m mod 12) 1 + (d - 1)"

text \<open>The day of the week, 0 for Sunday.\<close>

definition week_day :: "int \<Rightarrow> int" where
  "week_day d = (d + 4) mod 7"

lemma week_day_bounds: "0 \<le> week_day d \<and> week_day d < 7"
  by (simp add: week_day_def)

lemma week_day_shift: "0 \<le> i \<Longrightarrow> i < 7 \<Longrightarrow> week_day (d - (week_day d + 6) mod 7 + i) = (i + 1) mod 7"
  unfolding week_day_def by presburger

section \<open>JSON.stringify\<close>

text \<open>
  Strings are quoted with the escapes of the language. Objects are the ones the program builds
  from strings and \<^verbatim>\<open>null\<close>; a property that is \<^verbatim>\<open>undefined\<close> is left out.
\<close>

definition hex_digit :: "int \<Rightarrow> char" where
  "hex_digit d = (if d < 10 then char_of (48 + d) else char_of (87 + d))"

definition quote_char :: "char \<Rightarrow> string" where
  "quote_char c =
     (if c = CHR 0x22 then [CHR 0x5C, CHR 0x22]
      else if c = CHR 0x5C then [CHR 0x5C, CHR 0x5C]
      else if c = CHR 0x08 then [CHR 0x5C, CHR ''b'']
      else if c = CHR 0x09 then [CHR 0x5C, CHR ''t'']
      else if c = CHR 0x0A then [CHR 0x5C, CHR ''n'']
      else if c = CHR 0x0C then [CHR 0x5C, CHR ''f'']
      else if c = CHR 0x0D then [CHR 0x5C, CHR ''r'']
      else if char_code c < 32 then [CHR 0x5C] @ ''u00'' @ [hex_digit (char_code c div 16), hex_digit (char_code c mod 16)]
      else [c])"

definition json_quote :: "string \<Rightarrow> string" where
  "json_quote s = [CHR 0x22] @ concat (map quote_char s) @ [CHR 0x22]"

definition stringify_props :: "(string \<times> string option option) list \<Rightarrow> string" where
  "stringify_props ps = ''{'' @ join '',''
     (concat (map (\<lambda>(k, v). case v of None \<Rightarrow> [] | Some x \<Rightarrow>
        [json_quote k @ '':'' @ (case x of None \<Rightarrow> ''null'' | Some s \<Rightarrow> json_quote s)]) ps)) @ ''}''"

end
