(* ===== verification/Accounts.thy ===== *)
theory Accounts
  imports Payments JsParse
begin

text \<open>
  The accounts of the users: \<^verbatim>\<open>repositories/user.repository.ts\<close>, which keeps the rows of the
  users, and \<^verbatim>\<open>repositories/backoffice.repository.ts\<close>, which keeps for each user the profile and
  the session state the backoffice assigned. Also the conversion of a number to an integer
  column, which the database client checks before it sends a query.
\<close>

section \<open>Integer columns and arguments\<close>

definition prisma_validation :: error where
  "prisma_validation = mk_error PrismaClientError ''Invalid value for argument''"

definition prisma_int :: "jsnum \<Rightarrow> error + int" where
  "prisma_int n = (case n of
       Fin r \<Rightarrow> if of_int \<lfloor>r\<rfloor> = r \<and> - (2 ^ 31) \<le> \<lfloor>r\<rfloor> \<and> \<lfloor>r\<rfloor> < 2 ^ 31 then Inr \<lfloor>r\<rfloor> else Inl prisma_validation
     | _ \<Rightarrow> Inl prisma_validation)"

lemma prisma_int_Inr: "prisma_int n = Inr i \<longleftrightarrow> n = Fin (of_int i) \<and> - (2 ^ 31) \<le> i \<and> i < 2 ^ 31"
  by (cases n) (auto simp: prisma_int_def)

section \<open>Users\<close>

definition findByEmail :: "string \<Rightarrow> ('x world, user_row option) op" where
  "findByEmail email = gets (\<lambda>w. find_row (\<lambda>u. usr_email u = email) (users w))"

definition findById :: "int \<Rightarrow> ('x world, user_row option) op" where
  "findById i = gets (\<lambda>w. find_row (\<lambda>u. usr_id u = i) (users w))"

definition findByEmailWithAuthState :: "string \<Rightarrow> ('x world, (user_row \<times> auth_state_row option) option) op" where
  "findByEmailWithAuthState email =
     gets (\<lambda>w. map_option (\<lambda>u. (u, find_row (\<lambda>a. aus_userId a = usr_id u) (authStates w)))
                (find_row (\<lambda>u. usr_email u = email) (users w)))"

definition findByAlias :: "string \<Rightarrow> ('x world, user_row option) op" where
  "findByAlias alias = gets (\<lambda>w. find_row (\<lambda>u. usr_alias u = Some alias) (users w))"

text \<open>The unique keys of a user: the email and, when there is one, the alias.\<close>

definition user_keys_free :: "user_row \<Rightarrow> user_row table \<Rightarrow> bool" where
  "user_keys_free u t \<longleftrightarrow>
     \<not> exists_row (\<lambda>q. usr_id q \<noteq> usr_id u \<and>
         (usr_email q = usr_email u \<or> usr_alias u \<noteq> None \<and> usr_alias q = usr_alias u)) t"

definition updateUser_row :: "int \<Rightarrow> (user_row \<Rightarrow> user_row) \<Rightarrow> ('x world, user_row) op" where
  "updateUser_row i f =
     bindE (gets (\<lambda>w. find_row (\<lambda>u. usr_id u = i) (users w))) (\<lambda>u.
     bindE (require u record_not_found) (\<lambda>u.
     bindE (gets (\<lambda>w. user_keys_free (f u) (users w))) (\<lambda>free.
     bindE (ensure free unique_violation) (\<lambda>_.
     bindE (modify (\<lambda>w. w\<lparr>users := update_rows (\<lambda>u. usr_id u = i) f (users w)\<rparr>)) (\<lambda>_.
     ok (f u))))))"

definition updateLastLogin :: "int \<Rightarrow> int \<Rightarrow> ('x world, user_row) op" where
  "updateLastLogin i lastLogin = updateUser_row i (\<lambda>u. u\<lparr>usr_lastLogin := Some lastLogin\<rparr>)"

section \<open>Backoffice profile and session state\<close>

definition findProfileByUserId :: "int \<Rightarrow> ('x world, profile_row option) op" where
  "findProfileByUserId i = gets (\<lambda>w. find_row (\<lambda>p. prof_userId p = i) (profiles w))"

text \<open>
  An upsert updates the row of the user and its date, or creates the row, which the foreign key
  allows for a user that exists.
\<close>

definition upsertProfile :: "'x services \<Rightarrow> int \<Rightarrow> profile_row \<Rightarrow> (profile_row \<Rightarrow> profile_row) \<Rightarrow> ('x world, unit) op" where
  "upsertProfile E userId createData updateData =
     bindE (now E) (\<lambda>t.
     bindE (findProfileByUserId userId) (\<lambda>existing. case existing of
         Some p \<Rightarrow> modify (\<lambda>w. w\<lparr>profiles := update_rows (\<lambda>p. prof_userId p = userId)
                              (\<lambda>p. (updateData p)\<lparr>prof_updatedAt := t\<rparr>) (profiles w)\<rparr>)
       | None \<Rightarrow>
           bindE (gets (\<lambda>w. exists_row (\<lambda>u. usr_id u = prof_userId createData) (users w))) (\<lambda>u.
           bindE (ensure u foreign_key_violation) (\<lambda>_.
           modify (\<lambda>w. w\<lparr>profiles := insert_row (createData\<lparr>prof_updatedAt := t\<rparr>) (profiles w)\<rparr>)))))"

definition upsertAuthState :: "'x services \<Rightarrow> int \<Rightarrow> auth_state_row \<Rightarrow> (auth_state_row \<Rightarrow> auth_state_row) \<Rightarrow> ('x world, unit) op" where
  "upsertAuthState E userId createData updateData =
     bindE (now E) (\<lambda>t.
     bindE (gets (\<lambda>w. find_row (\<lambda>a. aus_userId a = userId) (authStates w))) (\<lambda>existing. case existing of
         Some a \<Rightarrow> modify (\<lambda>w. w\<lparr>authStates := update_rows (\<lambda>a. aus_userId a = userId)
                              (\<lambda>a. (updateData a)\<lparr>aus_updatedAt := t\<rparr>) (authStates w)\<rparr>)
       | None \<Rightarrow>
           bindE (gets (\<lambda>w. exists_row (\<lambda>u. usr_id u = aus_userId createData) (users w))) (\<lambda>u.
           bindE (ensure u foreign_key_violation) (\<lambda>_.
           modify (\<lambda>w. w\<lparr>authStates := insert_row (createData\<lparr>aus_updatedAt := t\<rparr>) (authStates w)\<rparr>)))))"

definition updateAuthState :: "'x services \<Rightarrow> int \<Rightarrow> (auth_state_row \<Rightarrow> auth_state_row) \<Rightarrow> ('x world, unit) op" where
  "updateAuthState E userId data =
     bindE (now E) (\<lambda>t.
     bindE (gets (\<lambda>w. find_row (\<lambda>a. aus_userId a = userId) (authStates w))) (\<lambda>a.
     bindE (require a record_not_found) (\<lambda>_.
     modify (\<lambda>w. w\<lparr>authStates := update_rows (\<lambda>a. aus_userId a = userId)
              (\<lambda>a. (data a)\<lparr>aus_updatedAt := t\<rparr>) (authStates w)\<rparr>))))"

definition updateProfile :: "'x services \<Rightarrow> int \<Rightarrow> (profile_row \<Rightarrow> profile_row) \<Rightarrow> ('x world, unit) op" where
  "updateProfile E userId data =
     bindE (now E) (\<lambda>t.
     bindE (findProfileByUserId userId) (\<lambda>p.
     bindE (require p record_not_found) (\<lambda>_.
     modify (\<lambda>w. w\<lparr>profiles := update_rows (\<lambda>p. prof_userId p = userId)
              (\<lambda>p. (data p)\<lparr>prof_updatedAt := t\<rparr>) (profiles w)\<rparr>))))"

end
