(* ===== verification/Cards.thy ===== *)
theory Cards
  imports Accounts
begin

text \<open>
  Debit cards: \<^verbatim>\<open>utils/card.utils.ts\<close>, \<^verbatim>\<open>repositories/card.repository.ts\<close>,
  \<^verbatim>\<open>repositories/bulkBatch.repository.ts\<close>, \<^verbatim>\<open>repositories/cardPickup.repository.ts\<close>,
  \<^verbatim>\<open>services/card.backoffice.service.ts\<close>, \<^verbatim>\<open>services/card.service.ts\<close>, the batch notification of
  \<^verbatim>\<open>services/webhooks.service.ts\<close> and the middlewares that guard the card routes. The row of a
  card mirrors a card the backoffice keeps; each operation calls the backoffice first and then
  writes the row.
\<close>

section \<open>Card numbers and identifiers\<close>

definition formatMaskedNumber :: "string \<Rightarrow> bool \<Rightarrow> string" where
  "formatMaskedNumber cardNumber withSpaces =
     (let digits = digits_only cardNumber in
      if length digits < 4 then (if withSpaces then ''**** **** **** ****'' else ''****************'')
      else (if withSpaces then ''**** **** **** '' else ''************'') @ slice_last 4 digits)"

definition generateVirtualCardIdentifier :: "'x services \<Rightarrow> int \<Rightarrow> ('x world, string) op" where
  "generateVirtualCardIdentifier E userId =
     bindE (now E) (\<lambda>timestamp.
     bindE (service (random_unit E)) (\<lambda>r.
     ok (''VIRTUAL_'' @ string_of_int timestamp @ ''_'' @ string_of_int userId @ ''_''
         @ toUpperCase (slice 2 8 (base36_fraction E r)))))"

definition base32_alphabet :: string where
  "base32_alphabet = ''ABCDEFGHIJKLMNOPQRSTUVWXYZ234567''"

definition randomBase32 :: "'x services \<Rightarrow> nat \<Rightarrow> ('x world, string) op" where
  "randomBase32 E len =
     bindE (service (random_bytes E len)) (\<lambda>bytes.
     ok (map (\<lambda>b. base32_alphabet ! (b mod length base32_alphabet)) bytes))"

definition generatePhysicalCardIdentifier :: "'x services \<Rightarrow> ('x world, string) op" where
  "generatePhysicalCardIdentifier E =
     bindE (now E) (\<lambda>ts. bindE (randomBase32 E 6) (\<lambda>suffix.
     ok (''PHYSICAL_'' @ string_of_int ts @ ''_'' @ suffix)))"

section \<open>Repositories\<close>

text \<open>The columns \<^verbatim>\<open>getUserCards\<close> selects.\<close>

record user_card =
  uca_id :: int
  uca_cardIdentifier :: string
  uca_status :: Cards_status
  uca_maskedNumber :: "string option"
  uca_cardType :: Cards_cardType
  uca_prosperaCardId :: "string option"

definition user_card_of :: "card_row \<Rightarrow> user_card" where
  "user_card_of c =
     \<lparr>uca_id = card_id c, uca_cardIdentifier = card_cardIdentifier c, uca_status = card_status c,
      uca_maskedNumber = card_maskedNumber c, uca_cardType = card_cardType c,
      uca_prosperaCardId = card_prosperaCardId c\<rparr>"

definition CardRepository_getUserCards :: "int \<Rightarrow> ('x world, user_card list) op" where
  "CardRepository_getUserCards userId =
     gets (\<lambda>w. map user_card_of (find_rows (\<lambda>c. card_userId c = Some userId) (cards w)))"

definition getCardById :: "int \<Rightarrow> ('x world, (card_row \<times> bulk_batch_row option) option) op" where
  "getCardById i =
     gets (\<lambda>w. map_option (\<lambda>c. (c, case card_bulkBatchId c of None \<Rightarrow> None
                                    | Some b \<Rightarrow> find_row (\<lambda>q. bb_id q = b) (bulkBatches w)))
                (find_row (\<lambda>c. card_id c = i) (cards w)))"

definition getCardByIdentifier :: "string \<Rightarrow> ('x world, card_row option) op" where
  "getCardByIdentifier ident = gets (\<lambda>w. find_row (\<lambda>c. card_cardIdentifier c = ident) (cards w))"

text \<open>The unique keys and the foreign keys of a card.\<close>

definition card_keys_free :: "card_row \<Rightarrow> card_row table \<Rightarrow> bool" where
  "card_keys_free c t \<longleftrightarrow>
     \<not> exists_row (\<lambda>q. card_id q \<noteq> card_id c \<and>
         (card_cardIdentifier q = card_cardIdentifier c
          \<or> card_prosperaCardId c \<noteq> None \<and> card_prosperaCardId q = card_prosperaCardId c)) t"

definition card_refs_ok :: "card_row \<Rightarrow> 'x world \<Rightarrow> bool" where
  "card_refs_ok c w \<longleftrightarrow>
     (case card_userId c of None \<Rightarrow> True | Some u \<Rightarrow> exists_row (\<lambda>q. usr_id q = u) (users w)) \<and>
     (case card_bulkBatchId c of None \<Rightarrow> True | Some b \<Rightarrow> exists_row (\<lambda>q. bb_id q = b) (bulkBatches w))"

definition check_card :: "card_row \<Rightarrow> ('x world, unit) op" where
  "check_card c =
     bindE (gets (\<lambda>w. card_refs_ok c w)) (\<lambda>r.
     bindE (ensure r foreign_key_violation) (\<lambda>_.
     bindE (gets (\<lambda>w. card_keys_free c (cards w))) (\<lambda>free.
     ensure free unique_violation)))"

definition updateCard :: "int \<Rightarrow> (card_row \<Rightarrow> card_row) \<Rightarrow> ('x world, unit) op" where
  "updateCard i data =
     bindE (gets (\<lambda>w. find_row (\<lambda>c. card_id c = i) (cards w))) (\<lambda>c.
     bindE (require c record_not_found) (\<lambda>c.
     bindE (check_card (data c)) (\<lambda>_.
     modify (\<lambda>w. w\<lparr>cards := update_rows (\<lambda>c. card_id c = i) data (cards w)\<rparr>))))"

definition createCard :: "'x services \<Rightarrow> (int \<Rightarrow> int \<Rightarrow> int \<Rightarrow> card_row) \<Rightarrow> ('x world, card_row) op" where
  "createCard E mk =
     bindE (now E) (\<lambda>updatedAt.
     bindE (now E) (\<lambda>createdAt.
     bindE (gets (\<lambda>w. mk (next_id (cards w)) createdAt updatedAt)) (\<lambda>c.
     bindE (check_card c) (\<lambda>_.
     bindE (modify (\<lambda>w. w\<lparr>cards := insert_row c (cards w)\<rparr>)) (\<lambda>_. ok c)))))"

text \<open>
  \<^verbatim>\<open>updateMany\<close> by the identifier, which is unique: no row is no error.
\<close>

definition updateCardByIdentifier :: "'x services \<Rightarrow> string \<Rightarrow> (card_row \<Rightarrow> card_row) \<Rightarrow> ('x world, unit) op" where
  "updateCardByIdentifier E ident data =
     bindE (now E) (\<lambda>t.
     bindE (getCardByIdentifier ident) (\<lambda>c. case c of
         None \<Rightarrow> ok ()
       | Some c \<Rightarrow>
           bindE (check_card ((data c)\<lparr>card_updatedAt := t\<rparr>)) (\<lambda>_.
           modify (\<lambda>w. w\<lparr>cards := update_rows (\<lambda>c. card_cardIdentifier c = ident)
                          (\<lambda>c. (data c)\<lparr>card_updatedAt := t\<rparr>) (cards w)\<rparr>))))"

definition CardRepository_unlinkCard :: "'x services \<Rightarrow> int \<Rightarrow> ('x world, unit) op" where
  "CardRepository_unlinkCard E i =
     bindE (now E) (\<lambda>t.
     updateCard i (\<lambda>c. c\<lparr>card_userId := None, card_status := CARD_INACTIVE, card_updatedAt := t\<rparr>))"

definition findExistingPhysicalCard :: "int \<Rightarrow> ('x world, card_row option) op" where
  "findExistingPhysicalCard userId =
     gets (\<lambda>w. find_row (\<lambda>c. card_userId c = Some userId \<and> card_cardType c = PHYSICAL
                          \<and> card_status c \<in> {CARD_ACTIVE, CARD_INACTIVE}) (cards w))"

definition findAvailablePhysicalCards :: "('x world, card_row list) op" where
  "findAvailablePhysicalCards =
     gets (\<lambda>w. find_rows (\<lambda>c. card_userId c = None \<and> card_cardType c = PHYSICAL
                           \<and> card_status c \<in> {CARD_PENDING, CARD_INACTIVE}) (cards w))"

subsection \<open>The status summary\<close>

definition no_counts :: status_counts where
  "no_counts = \<lparr>sc_active = 0, sc_inactive = 0, sc_blocked = 0, sc_expired = 0, sc_total = 0\<rparr>"

definition fiveDaysInMs :: int where
  "fiveDaysInMs = 5 * 24 * 60 * 60 * 1000"

text \<open>
  The body of the loop over the cards: the counter object the card belongs to is incremented,
  and the status shown to the user computed. The clock is read for a pending card only.
\<close>

definition count_card :: "'x services \<Rightarrow> card_row \<Rightarrow> status_counts \<Rightarrow> ('x world, CardUserStatus \<times> status_counts) op" where
  "count_card E c target0 =
     (let target = target0\<lparr>sc_total := Suc (sc_total target0)\<rparr> in
      case card_status c of
        CARD_ACTIVE \<Rightarrow> ok (US_ACTIVE, target\<lparr>sc_active := Suc (sc_active target)\<rparr>)
      | CARD_INACTIVE \<Rightarrow>
          ok (if truthy_str (card_prosperaCardId c) then US_INACTIVE else US_PENDING,
              target\<lparr>sc_inactive := Suc (sc_inactive target)\<rparr>)
      | CARD_PENDING \<Rightarrow>
          bindE (now E) (\<lambda>t.
          ok (if t - card_createdAt c > fiveDaysInMs then US_INACTIVE else US_PENDING,
              target\<lparr>sc_inactive := Suc (sc_inactive target)\<rparr>))
      | CARD_BLOCKED \<Rightarrow> ok (US_BLOCKED, target\<lparr>sc_blocked := Suc (sc_blocked target)\<rparr>)
      | CARD_EXPIRED \<Rightarrow> ok (US_EXPIRED, target\<lparr>sc_expired := Suc (sc_expired target)\<rparr>))"

definition card_detail :: "card_row \<Rightarrow> CardUserStatus \<Rightarrow> card_status_detail" where
  "card_detail c userStatus =
     \<lparr>csd_id = card_id c, csd_cardType = card_cardType c, csd_status = userStatus,
      csd_maskedNumber = (if truthy_str (card_maskedNumber c) then card_maskedNumber c else None),
      csd_cardIdentifier = card_cardIdentifier c, csd_createdAt = card_createdAt c\<rparr>"

fun status_loop :: "'x services \<Rightarrow> card_row list \<Rightarrow> status_counts \<Rightarrow> status_counts \<Rightarrow>
    ('x world, status_counts \<times> status_counts \<times> card_status_detail list) op" where
  "status_loop E [] physical virtual = ok (physical, virtual, [])"
| "status_loop E (c # rest) physical virtual =
     bindE (count_card E c (if card_cardType c = PHYSICAL then physical else virtual)) (\<lambda>(userStatus, target).
     bindE (if card_cardType c = PHYSICAL then status_loop E rest target virtual
            else status_loop E rest physical target) (\<lambda>(p, v, ds).
     ok (p, v, card_detail c userStatus # ds)))"

definition getCardStatusByUser :: "'x services \<Rightarrow> int \<Rightarrow> ('x world, card_status_response) op" where
  "getCardStatusByUser E userId =
     bindE (gets (\<lambda>w. sort_key (\<lambda>c. - card_createdAt c)
              (find_rows (\<lambda>c. card_userId c = Some userId) (cards w)))) (\<lambda>cs.
     bindE (status_loop E cs no_counts no_counts) (\<lambda>(physical, virtual, cardDetails).
     ok \<lparr>csr_hasCards = (cs \<noteq> []),
         csr_hasActiveCards = (0 < sc_active physical \<or> 0 < sc_active virtual),
         csr_hasRequestedCards = (0 < sc_inactive physical \<or> 0 < sc_inactive virtual),
         csr_physical = physical, csr_virtual = virtual, csr_cards = cardDetails\<rparr>))"

subsection \<open>Batches and pickups\<close>

definition insert_batch :: "(int \<Rightarrow> bulk_batch_row) \<Rightarrow> ('x world, bulk_batch_row) op" where
  "insert_batch mk =
     bindE (gets (\<lambda>w. mk (next_id (bulkBatches w)))) (\<lambda>b.
     bindE (gets (\<lambda>w. \<not> exists_row (\<lambda>q. bb_referenceBatch q = bb_referenceBatch b) (bulkBatches w))) (\<lambda>free.
     bindE (ensure free unique_violation) (\<lambda>_.
     bindE (modify (\<lambda>w. w\<lparr>bulkBatches := insert_row b (bulkBatches w)\<rparr>)) (\<lambda>_. ok b))))"

definition createBulkBatch :: "'x services \<Rightarrow> bulk_order_notification \<Rightarrow> ('x world, unit) op" where
  "createBulkBatch E data =
     bindE (now E) (\<lambda>t.
     bindE (insert_batch (\<lambda>i. \<lparr>bb_id = i, bb_referenceBatch = bon_referenceBatch data,
       bb_status = Some (bon_status data), bb_numCreated = Some (bon_numCreated data),
       bb_numFailed = Some (bon_numFailed data), bb_requestedAt = t\<rparr>)) (\<lambda>_. ok ()))"

definition BulkBatchRepository_create :: "string \<Rightarrow> int \<Rightarrow> int \<Rightarrow> int \<Rightarrow> int \<Rightarrow> ('x world, bulk_batch_row) op" where
  "BulkBatchRepository_create reference status numCreated numFailed requestedAt =
     insert_batch (\<lambda>i. \<lparr>bb_id = i, bb_referenceBatch = reference, bb_status = Some status,
       bb_numCreated = Some numCreated, bb_numFailed = Some numFailed, bb_requestedAt = requestedAt\<rparr>)"

definition CardPickupRepository_create :: "(int \<Rightarrow> card_pickup_row) \<Rightarrow> ('x world, unit) op" where
  "CardPickupRepository_create mk =
     bindE (gets (\<lambda>w. mk (next_id (cardPickups w)))) (\<lambda>p.
     bindE (gets (\<lambda>w. exists_row (\<lambda>c. card_id c = cp_cardId p) (cards w) \<and>
              (case cp_userId p of None \<Rightarrow> True | Some u \<Rightarrow> exists_row (\<lambda>q. usr_id q = u) (users w)))) (\<lambda>refs.
     bindE (ensure refs foreign_key_violation) (\<lambda>_.
     modify (\<lambda>w. w\<lparr>cardPickups := insert_row p (cardPickups w)\<rparr>))))"

section \<open>Calls to the backoffice\<close>

definition CardBackofficeService_activateCard :: "'x services \<Rightarrow> activate_card_params \<Rightarrow> string \<Rightarrow> ('x world, activate_card_payload api_response) op" where
  "CardBackofficeService_activateCard E params customerToken =
     remote (CallActivate params) (api_activate E params customerToken) backoffice_error"

definition CardBackofficeService_getCardInfo :: "'x services \<Rightarrow> int \<Rightarrow> string \<Rightarrow> jsnum \<Rightarrow> ('x world, card_info list option api_response) op" where
  "CardBackofficeService_getCardInfo E customerId customerToken cardId =
     remote (CallCardInfo customerId cardId) (api_card_info E customerId customerToken cardId) backoffice_error"

definition viewPinForCustomer :: "'x services \<Rightarrow> jsnum \<Rightarrow> string \<Rightarrow> ('x world, string option api_response) op" where
  "viewPinForCustomer E cardBackofficeId customerToken =
     remote (CallViewPin cardBackofficeId) (api_view_pin E cardBackofficeId customerToken) backoffice_error"

definition CardBackofficeService_stopCard :: "'x services \<Rightarrow> stop_card_params \<Rightarrow> string \<Rightarrow> ('x world, card_status_payload api_response) op" where
  "CardBackofficeService_stopCard E params customerToken =
     remote (CallStop params) (api_stop E params customerToken) backoffice_error"

definition CardBackofficeService_unstopCard :: "'x services \<Rightarrow> unstop_card_params \<Rightarrow> string \<Rightarrow> ('x world, card_status_payload api_response) op" where
  "CardBackofficeService_unstopCard E params customerToken =
     remote (CallUnstop params) (api_unstop E params customerToken) backoffice_error"

definition retireCard :: "'x services \<Rightarrow> jsnum \<Rightarrow> int \<Rightarrow> string \<Rightarrow> ('x world, int api_response) op" where
  "retireCard E cardId customerId customerToken =
     remote (CallRetire cardId customerId) (api_retire E cardId customerId customerToken) backoffice_error"

text \<open>A card id that is not given, zero or not a number is left out of the query.\<close>

definition getCardFullInfo :: "'x services \<Rightarrow> int \<Rightarrow> string \<Rightarrow> jsnum option \<Rightarrow> ('x world, card_full_info list option api_response) op" where
  "getCardFullInfo E customerId customerToken cardId =
     (let c = (case cardId of Some n \<Rightarrow> if js_num_truthy n then Some n else None | None \<Rightarrow> None) in
      remote (CallFullInfo customerId c) (api_full_info E customerId customerToken c) backoffice_error)"

definition createLinkedCard :: "'x services \<Rightarrow> string option \<Rightarrow> int \<Rightarrow> string \<Rightarrow> ('x world, linked_card_payload api_response) op" where
  "createLinkedCard E campaignId balanceId customerToken =
     (let campaign = or_str campaignId [] in
      remote (CallLinkedCard campaign balanceId) (api_linked_card E campaign balanceId customerToken) backoffice_error)"

definition CardBackofficeService_updateCardCVV :: "'x services \<Rightarrow> jsnum \<Rightarrow> string \<Rightarrow> ('x world, update_cvv_payload api_response) op" where
  "CardBackofficeService_updateCardCVV E cardId customerToken =
     remote (CallUpdateCvv cardId) (api_update_cvv E cardId customerToken) backoffice_error"

section \<open>Card service\<close>

definition getUserCards :: "int \<Rightarrow> ('x world, user_card list) op" where
  "getUserCards userId =
     bindE (CardRepository_getUserCards userId) (\<lambda>cs.
     ok (map (\<lambda>c. c\<lparr>uca_maskedNumber := Some (formatMaskedNumber (or_str (uca_maskedNumber c) []) True)\<rparr>) cs))"

definition nth_opt :: "'a list \<Rightarrow> nat \<Rightarrow> 'a option" where
  "nth_opt xs n = (if n < length xs then Some (xs ! n) else None)"

definition activateCard :: "'x services \<Rightarrow> int \<Rightarrow> string \<Rightarrow> string \<Rightarrow> int \<Rightarrow> ('x world, activate_card_payload api_response) op" where
  "activateCard E cardId pin customerToken customerId =
     bindE (getCardById cardId) (\<lambda>found.
     bindE (require found (mk_error Error ''Card not found'')) (\<lambda>(c, batch).
     bindE (case card_userId c of None \<Rightarrow> throw prisma_validation | Some u \<Rightarrow> findProfileByUserId u) (\<lambda>profile.
     bindE (require (case profile of None \<Rightarrow> None | Some p \<Rightarrow>
                       (if truthy_int (prof_ewallet_id p) then prof_ewallet_id p else None))
              (mk_error Error ''User ewallet not found'')) (\<lambda>ewalletId.
     bindE (deref batch) (\<lambda>b.
     bindE (CardBackofficeService_activateCard E
              \<lparr>ac_card_identifier = card_cardIdentifier c, ac_reference_batch = bb_referenceBatch b, ac_pin = pin,
               ac_customer_id = string_of_int customerId, ac_balance_id = ewalletId\<rparr> customerToken) (\<lambda>activated.
     bindE (deref (ar_payload activated)) (\<lambda>payload.
     bindE (CardBackofficeService_getCardInfo E customerId customerToken (js_int (acp_card_id payload))) (\<lambda>info.
     bindE (deref (ar_payload info)) (\<lambda>infoCards.
     bindE (deref infoCards) (\<lambda>infoCards.
     bindE (deref (nth_opt infoCards 0)) (\<lambda>first.
     bindE (updateCard cardId (\<lambda>c. c\<lparr>card_prosperaCardId := Some (string_of_int (acp_card_id payload)),
              card_status := CARD_ACTIVE,
              card_maskedNumber := Some (formatMaskedNumber (or_str (ci_card_number first) []) False)\<rparr>)) (\<lambda>_.
     ok activated))))))))))))"

definition getCardInfo :: "int \<Rightarrow> ('x world, card_row \<times> bulk_batch_row option) op" where
  "getCardInfo cardId =
     bindE (getCardById cardId) (\<lambda>found. require found (mk_error Error ''Card not found''))"

text \<open>
  \<^verbatim>\<open>if (!card?.prosperaCardId) throw\<close>: the number the backoffice knows the card by.
\<close>

definition prospera_id :: "(card_row \<times> bulk_batch_row option) option \<Rightarrow> string option" where
  "prospera_id found = (case found of None \<Rightarrow> None | Some (c, _) \<Rightarrow>
     (if truthy_str (card_prosperaCardId c) then card_prosperaCardId c else None))"

definition missing_card :: error where
  "missing_card = mk_error Error ''Card not found or missing prosperaCardId''"

definition getCardDetailsById :: "'x services \<Rightarrow> int \<Rightarrow> string \<Rightarrow> int \<Rightarrow> ('x world, card_info) op" where
  "getCardDetailsById E cardId customerToken customerId =
     bindE (getCardById cardId) (\<lambda>found.
     bindE (require (prospera_id found) (mk_error Error ''Card not found or invalid prosperaCardId'')) (\<lambda>pid.
     bindE (CardBackofficeService_getCardInfo E customerId customerToken (number_of_string pid)) (\<lambda>info.
     bindE (require (ar_payload info) (mk_error Error ''Invalid response from card service: missing payload'')) (\<lambda>infoCards.
     require (case infoCards of Some (first # _) \<Rightarrow> Some first | _ \<Rightarrow> None)
       (mk_error Error ''No card information found in response'')))))"

definition stopCard :: "'x services \<Rightarrow> int \<Rightarrow> string \<Rightarrow> int \<Rightarrow> string \<Rightarrow> ('x world, card_status_payload option) op" where
  "stopCard E cardId customerToken customerId note =
     bindE (getCardById cardId) (\<lambda>found.
     bindE (require (prospera_id found) missing_card) (\<lambda>pid.
     bindE (CardBackofficeService_stopCard E \<lparr>sc_card_id = number_of_string pid, sc_customer_id = customerId,
              sc_new_card_status = 3, sc_note = note\<rparr> customerToken) (\<lambda>stopResponse.
     bindE (updateCard cardId (\<lambda>c. c\<lparr>card_status := CARD_BLOCKED\<rparr>)) (\<lambda>_.
     ok (ar_payload stopResponse)))))"

definition unstopCard :: "'x services \<Rightarrow> int \<Rightarrow> string \<Rightarrow> int \<Rightarrow> string \<Rightarrow> ('x world, int \<times> int) op" where
  "unstopCard E cardId customerToken customerId note =
     bindE (getCardById cardId) (\<lambda>found.
     bindE (require (prospera_id found) missing_card) (\<lambda>pid.
     bindE (CardBackofficeService_unstopCard E \<lparr>uc_card_id = number_of_string pid, uc_customer_id = customerId,
              uc_note = note\<rparr> customerToken) (\<lambda>unstopResponse.
     bindE (updateCard cardId (\<lambda>c. c\<lparr>card_status := CARD_ACTIVE\<rparr>)) (\<lambda>_.
     bindE (deref (ar_payload unstopResponse)) (\<lambda>p. ok (csp_card_id p, csp_status p))))))"

text \<open>
  The debit information of a user with an active card: the limit and the line are decimal
  strings, and the cutoff date is the billing day of the current month, in local time.
\<close>

definition cutoff_date :: "'x services \<Rightarrow> int \<Rightarrow> int \<Rightarrow> string" where
  "cutoff_date E t billingDay =
     (case civil_of_day (day_of (t + local_offset E t)) of (y, m, d) \<Rightarrow>
        iso_date (utc_of_local E (make_day y m billingDay * msPerDay)))"

definition getUserCardDebitInfo :: "'x services \<Rightarrow> int \<Rightarrow> string \<Rightarrow> int \<Rightarrow> jsnum option \<Rightarrow> ('x world, user_card_info) op" where
  "getUserCardDebitInfo E userId customerToken customerId cardPrimaryId =
     bindE (CardRepository_getUserCards userId) (\<lambda>userCards.
     (let activeCard = List.find (\<lambda>c. uca_status c = CARD_ACTIVE) userCards in
      bindE (ensure (case activeCard of None \<Rightarrow> False | Some c \<Rightarrow> truthy_str (uca_prosperaCardId c))
               (mk_error Error ''No active card found'')) (\<lambda>_.
      bindE (case cardPrimaryId of
               Some n \<Rightarrow> if js_num_truthy n then bindE (from_sum (prisma_int n)) getCardById else ok None
             | None \<Rightarrow> ok None) (\<lambda>found.
      bindE (getCardFullInfo E customerId customerToken (map_option number_of_string (prospera_id found))) (\<lambda>response.
      bindE (deref (ar_payload response)) (\<lambda>infoCards.
      bindE (require (case infoCards of Some (first # _) \<Rightarrow> Some first | _ \<Rightarrow> None)
               (mk_error Error ''Card information not found'')) (\<lambda>info.
      (let totalLimit = parseFloat (cfi_credit_limit info);
           currentBalance = js_sub (parseFloat (cfi_credit_limit info)) (parseFloat (cfi_credit_line info))
       in bindE (now E) (\<lambda>t.
          ok \<lparr>uci_totalLimit = totalLimit, uci_usedLimit = js_sub totalLimit currentBalance,
              uci_availableBalance = currentBalance,
              uci_cutoffDate = cutoff_date E t (cfi_original_billing_day info),
              uci_paymentDueDate = cfi_duedate info\<rparr>)))))))))"

definition createVirtualCard :: "'x services \<Rightarrow> int \<Rightarrow> string \<Rightarrow> int \<Rightarrow> string option \<Rightarrow> ('x world, linked_card_payload) op" where
  "createVirtualCard E userId customerToken customerId campaignId =
     bindE (findProfileByUserId userId) (\<lambda>profile.
     bindE (require (case profile of None \<Rightarrow> None | Some p \<Rightarrow>
                       (if truthy_int (prof_ewallet_id p) then prof_ewallet_id p else None))
              (mk_error Error ''User ewallet not found'')) (\<lambda>ewalletId.
     bindE (createLinkedCard E campaignId ewalletId customerToken) (\<lambda>response.
     bindE (generateVirtualCardIdentifier E userId) (\<lambda>cardIdentifier.
     bindE (deref (ar_payload response)) (\<lambda>payload.
     bindE (createCard E (\<lambda>i createdAt updatedAt.
       \<lparr>card_id = i, card_userId = Some userId, card_bulkBatchId = None,
        card_prosperaCardId = Some (string_of_int (lcp_card_id payload)), card_cardType = VIRTUAL,
        card_cardIdentifier = cardIdentifier, card_status = CARD_ACTIVE, card_encryptedPin = None,
        card_maskedNumber = Some (formatMaskedNumber (lcp_card_number payload) True),
        card_expiryDate = Some (lcp_valid_date payload), card_cvv = None,
        card_createdAt = createdAt, card_updatedAt = updatedAt\<rparr>)) (\<lambda>_.
     ok payload))))))"

definition updateCardCVV :: "'x services \<Rightarrow> int \<Rightarrow> string \<Rightarrow> int \<Rightarrow> ('x world, update_cvv_payload option) op" where
  "updateCardCVV E cardId customerToken customerId =
     bindE (getCardById cardId) (\<lambda>found.
     bindE (require (prospera_id found) missing_card) (\<lambda>pid.
     bindE (CardBackofficeService_updateCardCVV E (number_of_string pid) customerToken) (\<lambda>response.
     ok (ar_payload response))))"

text \<open>A physical card shows its printed code, a virtual one a fresh code.\<close>

definition showCardCvv :: "'x services \<Rightarrow> int \<Rightarrow> string \<Rightarrow> int \<Rightarrow> ('x world, show_cvv_payload) op" where
  "showCardCvv E cardId customerToken customerId =
     bindE (getCardById cardId) (\<lambda>found.
     bindE (require found (mk_error Error ''Card not found'')) (\<lambda>(c, _).
     case card_cardType c of
       PHYSICAL \<Rightarrow>
         bindE (getCardDetailsById E cardId customerToken customerId) (\<lambda>details.
         ok \<lparr>scp_cvv = ci_cvv details, scp_expiration_time_in_minutes = None\<rparr>)
     | VIRTUAL \<Rightarrow>
         bindE (updateCardCVV E cardId customerToken customerId) (\<lambda>payload.
         bindE (deref payload) (\<lambda>p.
         ok \<lparr>scp_cvv = ucp_cvv2 p, scp_expiration_time_in_minutes = Some (ucp_expiration_time_in_minutes p)\<rparr>))))"

definition getCardStatus :: "'x services \<Rightarrow> int \<Rightarrow> ('x world, card_status_response) op" where
  "getCardStatus E userId = getCardStatusByUser E userId"

definition assignCard :: "'x services \<Rightarrow> int \<Rightarrow> string \<Rightarrow> ('x world, unit) op" where
  "assignCard E userId cardIdentifier =
     bindE (getCardByIdentifier cardIdentifier) (\<lambda>found.
     bindE (require found (mk_error BadRequestError ''Card not found'')) (\<lambda>c.
     bindE (ensure (\<not> truthy_int (card_userId c)) (mk_error BadRequestError ''Card already assigned'')) (\<lambda>_.
     updateCardByIdentifier E cardIdentifier (\<lambda>c. c\<lparr>card_userId := Some userId\<rparr>))))"

definition unlinkCard :: "'x services \<Rightarrow> int \<Rightarrow> int \<Rightarrow> string \<Rightarrow> ('x world, unit) op" where
  "unlinkCard E cardId customerId customerToken =
     bindE (getCardById cardId) (\<lambda>found.
     bindE (require found (mk_error BadRequestError ''Card not found'')) (\<lambda>(c, b).
     bindE (ensure (truthy_int (card_userId c)) (mk_error BadRequestError ''Card is already unlinked'')) (\<lambda>_.
     bindE (require (prospera_id (Some (c, b)))
              (mk_error BadRequestError ''Card not found or missing prosperaCardId'')) (\<lambda>pid.
     bindE (retireCard E (number_of_string pid) customerId customerToken) (\<lambda>_.
     CardRepository_unlinkCard E cardId)))))"

section \<open>Requesting a physical card\<close>

datatype delivery_type = Home | Slan

definition slan_location :: "user_row \<Rightarrow> physical_card_request \<Rightarrow> delivery_location" where
  "slan_location user requestData =
     \<lparr>dl_first_names = or_str (usr_firstName user) ''Cliente'',
      dl_last_names = or_str (usr_lastName user) ''Prospera'',
      dl_street = ''Alcatraz M61 L1, jardines del sur 5'', dl_exterior_number = ''5'', dl_interior_number = ''21'',
      dl_neighborhood = ''Jardines del sur 5'', dl_city = ''Canc'' @ [CHR 0xFA] @ ''n'',
      dl_state = ''Quintana Roo'', dl_postal_code = ''77536'',
      dl_mobile = (if truthy_str (usr_phone user) then number_of_string (the (usr_phone user)) else Fin 9983940931),
      dl_additional_notes = (if truthy_str (pcq_pickupLocation requestData)
        then ''Pickup location: '' @ the (pcq_pickupLocation requestData) else ''Delivery to Slan point'')\<rparr>"

definition home_location :: "physical_card_request \<Rightarrow> ('s, delivery_location) op" where
  "home_location requestData =
     bindE (require (pcq_billingAddress requestData)
              (mk_error Error ''Billing address is required for home delivery'')) (\<lambda>a.
     ok \<lparr>dl_first_names = ba_firstName a, dl_last_names = ba_lastName a, dl_street = ba_street a,
         dl_exterior_number = ba_exteriorNumber a, dl_interior_number = or_str (ba_interiorNumber a) ''1'',
         dl_neighborhood = ba_neighborhood a, dl_city = ba_city a, dl_state = ba_state a,
         dl_postal_code = ba_postalCode a, dl_mobile = number_of_string (ba_phone a),
         dl_additional_notes = or_str (ba_additionalNotes a)
           (if truthy_str (pcq_pickupLocation requestData)
            then ''Pickup location: '' @ the (pcq_pickupLocation requestData)
            else ''Physical card requested via mobile app'')\<rparr>)"

definition delivery_location_for :: "user_row \<Rightarrow> delivery_type \<Rightarrow> physical_card_request \<Rightarrow> ('s, delivery_location) op" where
  "delivery_location_for user deliveryType requestData =
     (case deliveryType of Slan \<Rightarrow> ok (slan_location user requestData) | Home \<Rightarrow> home_location requestData)"

definition pickup_row :: "int \<Rightarrow> int \<Rightarrow> delivery_type \<Rightarrow> delivery_location \<Rightarrow> int \<Rightarrow> card_pickup_row" where
  "pickup_row userId cardId deliveryType l i =
     \<lparr>cp_id = i, cp_userId = Some userId, cp_cardId = cardId, cp_isSlanPoint = (deliveryType = Slan),
      cp_mobile = js_num_str (dl_mobile l), cp_street = dl_street l, cp_exteriorNumber = dl_exterior_number l,
      cp_interiorNumber = dl_interior_number l, cp_neighborhood = dl_neighborhood l, cp_city = dl_city l,
      cp_state = dl_state l, cp_postalCode = dl_postal_code l,
      cp_additionalNotes = (if deliveryType = Slan then ''Universidad An'' @ [CHR 0xE1] @ ''huac''
                            else dl_additional_notes l)\<rparr>"

definition physical_response :: "'x services \<Rightarrow> int \<Rightarrow> int \<Rightarrow> string \<Rightarrow> physical_card_request \<Rightarrow> ('x world, physical_card_response) op" where
  "physical_response E userId cardId ident requestData =
     bindE (getCardStatus E userId) (\<lambda>s.
     ok \<lparr>pcp_success = True, pcp_message = ''Physical card requested successfully'', pcp_cardId = cardId,
         pcp_cardIdentifier = ident, pcp_status = US_PENDING, pcp_pickupLocation = pcq_pickupLocation requestData,
         pcp_cardStatus = \<lparr>css_hasActiveCards = csr_hasActiveCards s,
           css_hasRequestedCards = csr_hasRequestedCards s, css_physical = csr_physical s,
           css_virtual = csr_virtual s, css_cards = csr_cards s\<rparr>\<rparr>)"

text \<open>\<^verbatim>\<open>Math.floor(Math.random() * n)\<close>.\<close>

definition random_index :: "rat \<Rightarrow> nat \<Rightarrow> nat" where
  "random_index r n = (case js_mul (Fin r) (Fin (of_nat n)) of Fin x \<Rightarrow> nat \<lfloor>x\<rfloor> | _ \<Rightarrow> n)"

text \<open>
  A card of the inventory is given to the user before the delivery address is looked at.
\<close>

definition assign_from_inventory :: "'x services \<Rightarrow> user_row \<Rightarrow> delivery_type \<Rightarrow> physical_card_request \<Rightarrow> card_row list \<Rightarrow> ('x world, physical_card_response) op" where
  "assign_from_inventory E user deliveryType requestData available =
     bindE (service (random_unit E)) (\<lambda>r.
     bindE (deref (nth_opt available (random_index r (length available)))) (\<lambda>selected.
     bindE (updateCard (card_id selected) (\<lambda>c. c\<lparr>card_userId := Some (usr_id user)\<rparr>)) (\<lambda>_.
     bindE (delivery_location_for user deliveryType requestData) (\<lambda>location.
     bindE (CardPickupRepository_create (pickup_row (usr_id user) (card_id selected) deliveryType location)) (\<lambda>_.
     physical_response E (usr_id user) (card_id selected) (card_cardIdentifier selected) requestData)))))"

definition first_truthy :: "string option list \<Rightarrow> string option" where
  "first_truthy xs = (case filter truthy_str xs of [] \<Rightarrow> None | x # _ \<Rightarrow> x)"

definition order_new_card :: "'x services \<Rightarrow> user_row \<Rightarrow> delivery_type \<Rightarrow> physical_card_request \<Rightarrow> ('x world, physical_card_response) op" where
  "order_new_card E user deliveryType requestData =
     bindE (generatePhysicalCardIdentifier E) (\<lambda>cardIdentifier.
     (let pin = or_str (usr_pin user) ''1234'' in
      bindE (delivery_location_for user deliveryType requestData) (\<lambda>location.
      (let order = \<lparr>bo_delivery_location = location, bo_card_identifier = cardIdentifier,
                    bo_campaign_id = cfg_programCode (cfg E), bo_pin = pin\<rparr> in
       bindE (remote (CallBulkOrder order) (api_bulk_order E order) backoffice_error) (\<lambda>payload.
       bindE (require (case payload of None \<Rightarrow> None | Some p \<Rightarrow>
                         first_truthy [bop_reference_batch p, bop_reference p, bop_referenceBatch p])
                (mk_error Error ''Failed to get reference batch from backoffice'')) (\<lambda>referenceBatch.
       bindE (deref payload) (\<lambda>p.
       bindE (now E) (\<lambda>t.
       bindE (BulkBatchRepository_create referenceBatch (if bop_status p = 0 then 1 else bop_status p) 0 0 t) (\<lambda>bulkBatch.
       bindE (createCard E (\<lambda>i createdAt updatedAt.
         \<lparr>card_id = i, card_userId = Some (usr_id user), card_bulkBatchId = Some (bb_id bulkBatch),
          card_prosperaCardId = None, card_cardType = PHYSICAL, card_cardIdentifier = cardIdentifier,
          card_status = CARD_PENDING, card_encryptedPin = Some pin, card_maskedNumber = None,
          card_expiryDate = None, card_cvv = None, card_createdAt = createdAt, card_updatedAt = updatedAt\<rparr>)) (\<lambda>c.
       bindE (CardPickupRepository_create (pickup_row (usr_id user) (card_id c) deliveryType location)) (\<lambda>_.
       physical_response E (usr_id user) (card_id c) (card_cardIdentifier c) requestData)))))))))))"

definition requestPhysicalCard :: "'x services \<Rightarrow> int \<Rightarrow> delivery_type \<Rightarrow> physical_card_request \<Rightarrow> ('x world, physical_card_response) op" where
  "requestPhysicalCard E userId deliveryType requestData =
     bindE (findById userId) (\<lambda>found.
     bindE (require found (mk_error Error ''User not found'')) (\<lambda>user.
     bindE (findExistingPhysicalCard userId) (\<lambda>existing.
     bindE (ensure (existing = None)
              (mk_error Error ''You already have a physical card requested or active'')) (\<lambda>_.
     bindE findAvailablePhysicalCards (\<lambda>available.
     if available \<noteq> [] then assign_from_inventory E user deliveryType requestData available
     else order_new_card E user deliveryType requestData)))))"

section \<open>Batch notifications\<close>

definition handleBulkOrderCardNotification :: "'x services \<Rightarrow> bulk_order_notification \<Rightarrow> ('x world, unit) op" where
  "handleBulkOrderCardNotification E data =
     bindE (createBulkBatch E data) (\<lambda>_.
     for_each (\<lambda>cardData.
       if truthy_int (bcd_card_id cardData)
       then updateCardByIdentifier E (bcd_card_identifier cardData)
              (\<lambda>c. c\<lparr>card_prosperaCardId := Some (string_of_int (the (bcd_card_id cardData)))\<rparr>)
       else ok ()) (case bon_cards data of None \<Rightarrow> [] | Some cs \<Rightarrow> cs))"

section \<open>Guards of the card routes\<close>

definition invalid_card :: error where
  "invalid_card = mk_error NotFoundError (''Card inv'' @ [CHR 0xE1] @ ''lida'')"

definition validateCardOwnership :: "string \<Rightarrow> int \<Rightarrow> ('x world, unit) op" where
  "validateCardOwnership cardIdParam userId =
     bindE (from_sum (prisma_int (number_of_string cardIdParam))) (\<lambda>cardId.
     bindE (getCardById cardId) (\<lambda>found.
     bindE (require found invalid_card) (\<lambda>(c, _).
     ensure (card_userId c = Some userId) (mk_error ForbiddenError ''Unauthorized access to card''))))"

text \<open>The code of a physical card is asked from the backoffice and compared as a string.\<close>

definition check_pin :: "'x services \<Rightarrow> string \<Rightarrow> string \<Rightarrow> string option \<Rightarrow> ('x world, unit) op" where
  "check_pin E pid customerToken pinQuery =
     bindE (viewPinForCustomer E (number_of_string pid) customerToken) (\<lambda>pinResp.
     bindE (require (case ar_payload pinResp of None \<Rightarrow> None | Some p \<Rightarrow> if truthy_str p then p else None)
              (mk_error InternalServerError ''Unable to retrieve pin for card'')) (\<lambda>remotePin.
     ensure (remotePin = (case pinQuery of None \<Rightarrow> ''undefined'' | Some p \<Rightarrow> p))
       (mk_error UnauthorizedError ''Invalid PIN'')))"

definition validateCardPin :: "'x services \<Rightarrow> string \<Rightarrow> string \<Rightarrow> string option \<Rightarrow> ('x world, unit) op" where
  "validateCardPin E cardIdParam customerToken pinQuery =
     bindE (from_sum (prisma_int (number_of_string cardIdParam))) (\<lambda>cardId.
     bindE (getCardById cardId) (\<lambda>found.
     bindE (require (prospera_id found) invalid_card) (\<lambda>pid.
     case found of
       Some (c, _) \<Rightarrow> if card_cardType c \<noteq> PHYSICAL then ok () else check_pin E pid customerToken pinQuery
     | None \<Rightarrow> ok ())))"

definition validateTransferCardPin :: "'x services \<Rightarrow> int \<Rightarrow> string \<Rightarrow> string option \<Rightarrow> ('x world, unit) op" where
  "validateTransferCardPin E userId customerToken pinQuery =
     bindE (CardRepository_getUserCards userId) (\<lambda>cs.
     (let physicalCards = filter (\<lambda>c. uca_cardType c = PHYSICAL) cs in
      if cs = [] \<or> physicalCards = [] then ok ()
      else
        bindE (ensure (truthy_str pinQuery) (mk_error BadRequestError ''PIN requerido'')) (\<lambda>_.
        (let targetCard = (case List.find (\<lambda>c. truthy_str (uca_prosperaCardId c)) physicalCards of
                             Some c \<Rightarrow> c | None \<Rightarrow> hd physicalCards) in
         bindE (require (if truthy_str (uca_prosperaCardId targetCard) then uca_prosperaCardId targetCard else None)
                  invalid_card) (\<lambda>pid.
         check_pin E pid customerToken pinQuery)))))"

end
