(* ===== verification/Auth.thy ===== *)
theory Auth
  imports Accounts
begin

text \<open>
  Authentication: \<^verbatim>\<open>utils/jwt.utils.ts\<close>, \<^verbatim>\<open>utils/jwk.ts\<close>, the repositories of device credentials
  and login challenges, \<^verbatim>\<open>services/auth.biometric.service.ts\<close>, the account calls of
  \<^verbatim>\<open>services/customer.backoffice.service.ts\<close>, \<^verbatim>\<open>services/campaign.backoffice.service.ts\<close>,
  \<^verbatim>\<open>services/auth.service.ts\<close> and \<^verbatim>\<open>middlewares/authenticateToken.ts\<close>. A user logs in with a
  password or with a signed challenge and receives a token, which the middleware checks on every
  later request.
\<close>

section \<open>Tokens\<close>

definition generateToken :: "'x services \<Rightarrow> jwt_payload \<Rightarrow> ('x world, string) op" where
  "generateToken E payload =
     bindE (service (jwt_sign E payload (cfg_jwtSecret (cfg E)) ''24h'')) (\<lambda>r. case r of
         Inl _ \<Rightarrow> throw (mk_error Error ''Error generando token JWT'')
       | Inr token \<Rightarrow> ok token)"

definition token_expired :: error where
  "token_expired = mk_error Error ''Token expirado''"

definition token_invalid_text :: string where
  "token_invalid_text = ''Token inv'' @ [CHR 0xE1] @ ''lido''"

definition verifyToken :: "'x services \<Rightarrow> string \<Rightarrow> ('x world, jwt_payload) op" where
  "verifyToken E token =
     bindE (service (jwt_verify E token (cfg_jwtSecret (cfg E)))) (\<lambda>r. case r of
         Inr payload \<Rightarrow> ok payload
       | Inl TokenExpired \<Rightarrow> throw token_expired
       | Inl TokenInvalid \<Rightarrow> throw (mk_error Error token_invalid_text)
       | Inl TokenMalformed \<Rightarrow> throw (mk_error Error ''Error verificando token JWT''))"

text \<open>
  The middleware answers 401 or 403 itself, or lets the request pass with the user and the
  backoffice session of the token.
\<close>

definition authenticateToken :: "'x services \<Rightarrow> string option \<Rightarrow> ('x world, (int \<times> string) + jwt_payload) op" where
  "authenticateToken E authHeader =
     (let token = (case authHeader of None \<Rightarrow> None | Some h \<Rightarrow>
                     if h = [] then None
                     else case split_on CHR '' '' h of _ # t # _ \<Rightarrow> Some t | _ \<Rightarrow> None) in
      if \<not> truthy_str token then ok (Inl (401, ''No token provided''))
      else try_catch (bindE (verifyToken E (the token)) (\<lambda>decoded. ok (Inr decoded))) (\<lambda>e.
        if err_message e = ''Token expirado'' then ok (Inl (401, ''Token expirado''))
        else ok (Inl (403, token_invalid_text))))"

section \<open>Signatures\<close>

definition isNodeJwk :: "json \<Rightarrow> bool" where
  "isNodeJwk v = (case v of JObj kvs \<Rightarrow> (case map_of kvs ''kty'' of Some (JStr _) \<Rightarrow> True | _ \<Rightarrow> False) | _ \<Rightarrow> False)"

definition prismaJsonToNodeJwk :: "json \<Rightarrow> ('s, json) op" where
  "prismaJsonToNodeJwk v = bindE (ensure (isNodeJwk v) (mk_error Error ''Invalid JWK format'')) (\<lambda>_. ok v)"

definition verifyEs256JwkSignature :: "'x services \<Rightarrow> json \<Rightarrow> string \<Rightarrow> string \<Rightarrow> ('s, bool) op" where
  "verifyEs256JwkSignature E publicKeyJwk message signature =
     bindE (prismaJsonToNodeJwk publicKeyJwk) (\<lambda>jwk. case es256_verify E jwk message signature of
         Inl m \<Rightarrow> throw (mk_error Error m)
       | Inr b \<Rightarrow> ok b)"

section \<open>Device credentials and login challenges\<close>

definition upsertCredential :: "int \<Rightarrow> string \<Rightarrow> json \<Rightarrow> string \<Rightarrow> ('x world, unit) op" where
  "upsertCredential userId deviceId publicKeyJson algorithm =
     bindE (gets (\<lambda>w. exists_row (\<lambda>u. usr_id u = userId) (users w))) (\<lambda>u.
     bindE (ensure u foreign_key_violation) (\<lambda>_.
     modify (\<lambda>w. w\<lparr>deviceCredentials :=
       (if exists_row (\<lambda>d. dc_device_id d = deviceId) (deviceCredentials w)
        then update_rows (\<lambda>d. dc_device_id d = deviceId)
               (\<lambda>d. d\<lparr>dc_user_id := userId, dc_public_key_json := publicKeyJson, dc_algorithm := algorithm, dc_revoked_at := None\<rparr>)
               (deviceCredentials w)
        else insert_row \<lparr>dc_user_id = userId, dc_device_id = deviceId, dc_public_key_json = publicKeyJson,
               dc_algorithm = algorithm, dc_revoked_at = None, dc_last_used_at = None\<rparr> (deviceCredentials w))\<rparr>)))"

definition findActiveByDeviceId :: "string \<Rightarrow> ('x world, device_credential_row option) op" where
  "findActiveByDeviceId deviceId =
     gets (\<lambda>w. find_row (\<lambda>d. dc_device_id d = deviceId \<and> dc_revoked_at d = None) (deviceCredentials w))"

definition touchLastUsed :: "'x services \<Rightarrow> string \<Rightarrow> ('x world, unit) op" where
  "touchLastUsed E deviceId =
     bindE (now E) (\<lambda>t.
     bindE (gets (\<lambda>w. exists_row (\<lambda>d. dc_device_id d = deviceId) (deviceCredentials w))) (\<lambda>b.
     bindE (ensure b record_not_found) (\<lambda>_.
     modify (\<lambda>w. w\<lparr>deviceCredentials := update_rows (\<lambda>d. dc_device_id d = deviceId)
              (\<lambda>d. d\<lparr>dc_last_used_at := Some (to_seconds t)\<rparr>) (deviceCredentials w)\<rparr>))))"

definition LoginChallengesRepository_createChallenge :: "string \<Rightarrow> string \<Rightarrow> string \<Rightarrow> int \<Rightarrow> ('x world, unit) op" where
  "LoginChallengesRepository_createChallenge i deviceId challenge expiresAt =
     bindE (gets (\<lambda>w. exists_row (\<lambda>d. dc_device_id d = deviceId) (deviceCredentials w))) (\<lambda>d.
     bindE (ensure d foreign_key_violation) (\<lambda>_.
     bindE (gets (\<lambda>w. \<not> exists_row (\<lambda>c. lc_id c = i) (loginChallenges w))) (\<lambda>free.
     bindE (ensure free unique_violation) (\<lambda>_.
     modify (\<lambda>w. w\<lparr>loginChallenges := insert_row
       \<lparr>lc_id = i, lc_device_id = deviceId, lc_challenge = challenge, lc_expires_at = to_seconds expiresAt,
        lc_used_at = None\<rparr> (loginChallenges w)\<rparr>)))))"

definition LoginChallengesRepository_findById :: "string \<Rightarrow> ('x world, login_challenge_row option) op" where
  "LoginChallengesRepository_findById i = gets (\<lambda>w. find_row (\<lambda>c. lc_id c = i) (loginChallenges w))"

definition markUsed :: "'x services \<Rightarrow> string \<Rightarrow> ('x world, unit) op" where
  "markUsed E i =
     bindE (now E) (\<lambda>t.
     bindE (gets (\<lambda>w. exists_row (\<lambda>c. lc_id c = i) (loginChallenges w))) (\<lambda>b.
     bindE (ensure b record_not_found) (\<lambda>_.
     modify (\<lambda>w. w\<lparr>loginChallenges := update_rows (\<lambda>c. lc_id c = i)
              (\<lambda>c. c\<lparr>lc_used_at := Some (to_seconds t)\<rparr>) (loginChallenges w)\<rparr>))))"

section \<open>Biometric login\<close>

definition enroll :: "int \<Rightarrow> biometric_enroll_request \<Rightarrow> ('x world, bool) op" where
  "enroll userId dto =
     bindE (upsertCredential userId (be_deviceId dto) (be_publicKey dto)
              (case be_algorithm dto of Some a \<Rightarrow> a | None \<Rightarrow> ''ES256'')) (\<lambda>_. ok True)"

definition createChallenge :: "'x services \<Rightarrow> string \<Rightarrow> ('x world, biometric_challenge_response) op" where
  "createChallenge E deviceId =
     bindE (findActiveByDeviceId deviceId) (\<lambda>cred.
     bindE (require cred (mk_error NotFoundError ''Device not enrolled'')) (\<lambda>cred.
     bindE (service (new_ulid E)) (\<lambda>challengeId.
     bindE (service (random_base64url E 32)) (\<lambda>challenge.
     bindE (now E) (\<lambda>t.
     bindE (LoginChallengesRepository_createChallenge challengeId deviceId challenge (t + 90000)) (\<lambda>_.
     ok \<lparr>bc_challengeId = challengeId, bc_challenge = challenge, bc_expiresIn = 90,
         bc_algorithm = dc_algorithm cred\<rparr>))))))"

definition verifyChallenge :: "'x services \<Rightarrow> biometric_verify_request \<Rightarrow> ('x world, int) op" where
  "verifyChallenge E dto =
     bindE (LoginChallengesRepository_findById (bv_challengeId dto)) (\<lambda>found.
     bindE (require (case found of None \<Rightarrow> None | Some c \<Rightarrow> if lc_device_id c = bv_deviceId dto then Some c else None)
              (mk_error UnauthorizedError ''Invalid challenge'')) (\<lambda>ch.
     bindE (ensure (lc_used_at ch = None) (mk_error UnauthorizedError ''Challenge already used'')) (\<lambda>_.
     bindE (now E) (\<lambda>t.
     bindE (ensure (t \<le> lc_expires_at ch) (mk_error UnauthorizedError ''Challenge expired'')) (\<lambda>_.
     bindE (findActiveByDeviceId (bv_deviceId dto)) (\<lambda>cred.
     bindE (require cred (mk_error UnauthorizedError ''Device not enrolled'')) (\<lambda>cred.
     bindE (verifyEs256JwkSignature E (dc_public_key_json cred) (lc_challenge ch) (bv_signature dto)) (\<lambda>valid.
     bindE (ensure valid (mk_error UnauthorizedError ''Invalid signature'')) (\<lambda>_.
     bindE (markUsed E (bv_challengeId dto)) (\<lambda>_.
     bindE (touchLastUsed E (bv_deviceId dto)) (\<lambda>_.
     ok (dc_user_id cred))))))))))))"

end
