(* ===== verification/CardRoutes.thy ===== *)
theory CardRoutes
  imports Cards Auth
begin

text \<open>
  The HTTP surface of the cards: \<^verbatim>\<open>controllers/card.controller.ts\<close> behind the chains of
  \<^verbatim>\<open>routes/card.routes.ts\<close>, each the token check, the guards of the route and the controller.
  The input validators of the routes, which only refuse requests, are not part of the model.
\<close>

datatype card_request =
    GetUserCards
  | GetCardStatus
  | GetCardDebitInfo "string option"
  | AssignCards string
  | CreateVirtualCard "string option"
  | RequestPhysicalCard delivery_type physical_card_request
  | ActivateCard string string
  | GetCardDetails string "string option"
  | StopCard string "string option" "string option"
  | UnstopCard string "string option" "string option"
  | ShowCardCvv string
  | UnlinkCard string

datatype card_result =
    CardList "user_card list"
  | CardStatusResult card_status_response
  | DebitInfo user_card_info
  | VirtualCard linked_card_payload
  | PhysicalCard physical_card_response
  | Activated "activate_card_payload api_response"
  | Details card_info
  | Stopped "card_status_payload option"
  | Unstopped "int \<times> int"
  | Cvv show_cvv_payload
  | Done

text \<open>\<^verbatim>\<open>Number(cardId)\<close> of the path, as the argument of a query on the id.\<close>

definition card_param :: "string \<Rightarrow> ('s, int) op" where
  "card_param p = from_sum (prisma_int (number_of_string p))"

definition debit_param :: "string option \<Rightarrow> jsnum option" where
  "debit_param q = (if truthy_str q then Some (number_of_string (the q)) else None)"

text \<open>
  The controllers, with the user of the token (\<^verbatim>\<open>req.user\<close>) and the backoffice session
  (\<^verbatim>\<open>req.backoffice\<close>).
\<close>

definition CardController :: "'x services \<Rightarrow> jwt_payload \<Rightarrow> card_request \<Rightarrow> ('x world, card_result) op" where
  "CardController E auth req =
     (let userId = ju_userId (jp_user auth);
          customerToken = bj_customer_oauth_token (jp_backoffice auth);
          customerId = bj_customerId (jp_backoffice auth) in
      case req of
        GetUserCards \<Rightarrow> bindE (getUserCards userId) (\<lambda>r. ok (CardList r))
      | GetCardStatus \<Rightarrow> bindE (getCardStatus E userId) (\<lambda>r. ok (CardStatusResult r))
      | GetCardDebitInfo q \<Rightarrow>
          bindE (getUserCardDebitInfo E userId customerToken customerId (debit_param q)) (\<lambda>r. ok (DebitInfo r))
      | AssignCards ident \<Rightarrow> bindE (assignCard E userId ident) (\<lambda>_. ok Done)
      | CreateVirtualCard campaign \<Rightarrow>
          bindE (createVirtualCard E userId customerToken customerId campaign) (\<lambda>r. ok (VirtualCard r))
      | RequestPhysicalCard d q \<Rightarrow> bindE (requestPhysicalCard E userId d q) (\<lambda>r. ok (PhysicalCard r))
      | ActivateCard p pin \<Rightarrow> bindE (card_param p) (\<lambda>i.
          bindE (activateCard E i pin customerToken customerId) (\<lambda>r. ok (Activated r)))
      | GetCardDetails p pin \<Rightarrow> bindE (card_param p) (\<lambda>i.
          bindE (getCardDetailsById E i customerToken customerId) (\<lambda>r. ok (Details r)))
      | StopCard p pin note \<Rightarrow> bindE (card_param p) (\<lambda>i.
          bindE (stopCard E i customerToken customerId (or_str note ''Card stopped by user request'')) (\<lambda>r. ok (Stopped r)))
      | UnstopCard p pin note \<Rightarrow> bindE (card_param p) (\<lambda>i.
          bindE (unstopCard E i customerToken customerId (or_str note ''Card unblocked by user request'')) (\<lambda>r. ok (Unstopped r)))
      | ShowCardCvv p \<Rightarrow> bindE (card_param p) (\<lambda>i.
          bindE (showCardCvv E i customerToken customerId) (\<lambda>r. ok (Cvv r)))
      | UnlinkCard p \<Rightarrow> bindE (card_param p) (\<lambda>i.
          bindE (unlinkCard E i customerId customerToken) (\<lambda>_. ok Done)))"

text \<open>The guards in front of each controller.\<close>

definition card_guards :: "'x services \<Rightarrow> jwt_payload \<Rightarrow> card_request \<Rightarrow> ('x world, unit) op" where
  "card_guards E auth req =
     (let userId = ju_userId (jp_user auth);
          customerToken = bj_customer_oauth_token (jp_backoffice auth) in
      case req of
        ActivateCard p pin \<Rightarrow> validateCardOwnership p userId
      | GetCardDetails p pin \<Rightarrow> bindE (validateCardOwnership p userId) (\<lambda>_. validateCardPin E p customerToken pin)
      | StopCard p pin note \<Rightarrow> bindE (validateCardOwnership p userId) (\<lambda>_. validateCardPin E p customerToken pin)
      | UnstopCard p pin note \<Rightarrow> bindE (validateCardOwnership p userId) (\<lambda>_. validateCardPin E p customerToken pin)
      | ShowCardCvv p \<Rightarrow> validateCardOwnership p userId
      | UnlinkCard p \<Rightarrow> validateCardOwnership p userId
      | _ \<Rightarrow> ok ())"

definition card_route :: "'x services \<Rightarrow> jwt_payload \<Rightarrow> card_request \<Rightarrow> ('x world, card_result) op" where
  "card_route E auth req = bindE (card_guards E auth req) (\<lambda>_. CardController E auth req)"

text \<open>A request to a route behind the token check, and the answer it gets.\<close>

definition authenticated :: "'x services \<Rightarrow> string option \<Rightarrow> (jwt_payload \<Rightarrow> ('x world, 'a) op) \<Rightarrow> 'x world \<Rightarrow> 'a answer \<times> 'x world" where
  "authenticated E header handler w = (case authenticateToken E header w of
       (Inr (Inr payload), w') \<Rightarrow> catchErrors (handler payload) w'
     | (Inr (Inl (status, message)), w') \<Rightarrow>
         (ErrorAnswer \<lparr>eb_statusCode = status, eb_message = message, eb_error = []\<rparr>, w')
     | (Inl e, w') \<Rightarrow> (ErrorAnswer (error_answer e), w'))"

definition card_http :: "'x services \<Rightarrow> string option \<Rightarrow> card_request \<Rightarrow> 'x world \<Rightarrow> card_result answer \<times> 'x world" where
  "card_http E header req = authenticated E header (\<lambda>auth. card_route E auth req)"

end
