(* ===== verification/Tables.thy ===== *)
theory Tables
  imports Prelude
begin

text \<open>
  Tables with an auto-increment key and unique constraints: what a well-formed table is, that an
  update and an insertion checked against the constraints keep it so, and that a row is found by
  its key. A constraint is given by the relation of two rows that may not both be stored.
\<close>

definition table_ok :: "('r \<Rightarrow> int) \<Rightarrow> ('r \<Rightarrow> 'r \<Rightarrow> bool) \<Rightarrow> 'r table \<Rightarrow> bool" where
  "table_ok key clash t \<longleftrightarrow> distinct (map key (rows t)) \<and> (\<forall>r \<in> set (rows t). key r < next_id t)
     \<and> (\<forall>r \<in> set (rows t). \<forall>q \<in> set (rows t). key q \<noteq> key r \<longrightarrow> \<not> clash q r)"

locale keyed_table =
  fixes key :: "'r \<Rightarrow> int"
    and clash :: "'r \<Rightarrow> 'r \<Rightarrow> bool"
  assumes clash_sym: "clash q r \<Longrightarrow> clash r q"
begin

lemma key_inj: "table_ok key clash t \<Longrightarrow> r \<in> set (rows t) \<Longrightarrow> q \<in> set (rows t) \<Longrightarrow> key r = key q \<Longrightarrow> r = q"
  by (auto simp: table_ok_def distinct_map inj_on_def)

lemma no_clash: "table_ok key clash t \<Longrightarrow> r \<in> set (rows t) \<Longrightarrow> q \<in> set (rows t) \<Longrightarrow> clash q r \<Longrightarrow> q = r"
  using key_inj [of t q r] unfolding table_ok_def by blast

lemma find_key: "table_ok key clash t \<Longrightarrow> find_row (\<lambda>r. key r = i) t = Some r \<longleftrightarrow> r \<in> set (rows t) \<and> key r = i"
  using find_distinct_key [of key "rows t"] by (auto simp: table_ok_def find_row_def dest: find_Some_mem)

lemma mem_update:
  assumes "table_ok key clash t" and "r \<in> set (rows t)" and "key r = i"
  shows "q \<in> set (rows (update_rows (\<lambda>q. key q = i) f t)) \<longleftrightarrow> q = f r \<or> q \<in> set (rows t) \<and> key q \<noteq> i"
proof -
  have "x = r" if "x \<in> set (rows t)" "key x = i" for x
    using key_inj [OF assms(1) that(1) assms(2)] that(2) assms(3) by simp
  then have "(\<lambda>x. if key x = i then f x else x) ` set (rows t)
      = (\<lambda>x. if key x = i then f r else x) ` set (rows t)" by (intro image_cong) auto
  also have "\<dots> = insert (f r) {q \<in> set (rows t). key q \<noteq> i}" using assms(2,3) by auto
  finally show ?thesis by (simp add: rows_update_rows)
qed

lemma update_ok:
  assumes t: "table_ok key clash t" and r: "r \<in> set (rows t)" "key r = i" and f: "key (f r) = i"
    and free: "\<And>q. q \<in> set (rows t) \<Longrightarrow> key q \<noteq> i \<Longrightarrow> \<not> clash q (f r)"
  shows "table_ok key clash (update_rows (\<lambda>q. key q = i) f t)"
proof -
  have only: "x = r" if "x \<in> set (rows t)" "key x = i" for x
    using key_inj [OF t that(1) r(1)] that(2) r(2) by simp
  have "map key (rows (update_rows (\<lambda>q. key q = i) f t)) = map key (rows t)"
    using only f by (auto simp: rows_update_rows)
  moreover have "next_id (update_rows (\<lambda>q. key q = i) f t) = next_id t" by (simp add: update_rows_def)
  moreover have "distinct (map key (rows t))" using t by (simp add: table_ok_def)
  moreover have "key q < next_id t" if "q \<in> set (rows (update_rows (\<lambda>q. key q = i) f t))" for q
    using that t r f unfolding mem_update [OF t r] table_ok_def by fastforce
  moreover have "\<not> clash q x" if q: "q \<in> set (rows (update_rows (\<lambda>q. key q = i) f t))"
      and x: "x \<in> set (rows (update_rows (\<lambda>q. key q = i) f t))" and neq: "key q \<noteq> key x" for q x
  proof -
    have old: "\<not> clash q x" if "q \<in> set (rows t)" "x \<in> set (rows t)"
      using t that neq unfolding table_ok_def by blast
    show ?thesis
      using q x neq f old free [of q] free [of x] clash_sym [of q x] unfolding mem_update [OF t r] by blast
  qed
  ultimately show ?thesis by (simp add: table_ok_def)
qed

lemma insert_ok:
  assumes t: "table_ok key clash t" and "key r = next_id t"
    and free: "\<And>q. q \<in> set (rows t) \<Longrightarrow> \<not> clash q r"
  shows "table_ok key clash (insert_row r t)"
proof -
  have less: "key q < next_id t" if "q \<in> set (rows t)" for q using t that by (auto simp: table_ok_def)
  have n: "next_id (insert_row r t) = next_id t + 1" by (simp add: insert_row_def)
  have "key q \<noteq> next_id t" if "q \<in> set (rows t)" for q using less [OF that] by simp
  then have "distinct (map key (rows (insert_row r t)))"
    using t assms(2) by (auto simp: table_ok_def rows_insert_row)
  moreover have "key q < next_id (insert_row r t)" if "q \<in> set (rows (insert_row r t))" for q
    using that assms(2) less [of q] by (auto simp: rows_insert_row n)
  moreover have "\<not> clash q x" if q: "q \<in> set (rows (insert_row r t))"
      and x: "x \<in> set (rows (insert_row r t))" and neq: "key q \<noteq> key x" for q x
  proof -
    have old: "\<not> clash q x" if "q \<in> set (rows t)" "x \<in> set (rows t)"
      using t that neq unfolding table_ok_def by blast
    show ?thesis
      using q x neq old free [of q] free [of x] clash_sym [of q x] by (auto simp: rows_insert_row)
  qed
  ultimately show ?thesis by (simp add: table_ok_def)
qed

end

end
