(* ===== verification/CardProofs.thy ===== *)
theory CardProofs
  imports CardRoutes Tables
begin

text \<open>
  Lemmas on the cards: the well-formedness of the table, the rows an operation leaves alone, and
  what a guard that passed says about the card.
\<close>

section \<open>Well-formed cards\<close>

definition card_clash :: "card_row \<Rightarrow> card_row \<Rightarrow> bool" where
  "card_clash q c \<longleftrightarrow> card_cardIdentifier q = card_cardIdentifier c
     \<or> card_prosperaCardId c \<noteq> None \<and> card_prosperaCardId q = card_prosperaCardId c"

interpretation card_table: keyed_table card_id card_clash
  by unfold_locales (auto simp: card_clash_def)

definition cards_wf :: "'x world \<Rightarrow> bool" where
  "cards_wf w \<longleftrightarrow> table_ok card_id card_clash (cards w) \<and> (\<forall>c \<in> set (rows (cards w)). card_refs_ok c w)"

lemma card_keys_free_iff:
  "card_keys_free c t \<longleftrightarrow> (\<forall>q \<in> set (rows t). card_id q \<noteq> card_id c \<longrightarrow> \<not> card_clash q c)"
  by (auto simp: card_keys_free_def exists_row_def list_ex_iff card_clash_def)

text \<open>
  The state with a well-formed table that still has the rows of a set \<^verbatim>\<open>S\<close>. With the empty set
  this is well-formedness.
\<close>

definition holds_rows :: "card_row set \<Rightarrow> 'x world \<Rightarrow> bool" where
  "holds_rows S w \<longleftrightarrow> cards_wf w \<and> S \<subseteq> set (rows (cards w))"

lemma card_refs_ok_cong:
  "users w' = users w \<Longrightarrow> bulkBatches w' = bulkBatches w \<Longrightarrow> card_refs_ok c w' = card_refs_ok c w"
  by (simp add: card_refs_ok_def split: option.split)

lemma card_refs_ok_cards [simp]: "card_refs_ok c (w\<lparr>cards := t\<rparr>) = card_refs_ok c w"
  by (rule card_refs_ok_cong) simp_all

lemma holds_rows_cong:
  "users w' = users w \<Longrightarrow> cards w' = cards w \<Longrightarrow> bulkBatches w' = bulkBatches w \<Longrightarrow> holds_rows S w' = holds_rows S w"
  by (simp add: holds_rows_def cards_wf_def card_refs_ok_cong [of w' w])

lemma holds_rows_env [simp]:
  "holds_rows S (w\<lparr>ext := x\<rparr>) = holds_rows S w"
  "holds_rows S (w\<lparr>ext := x, trace := tr\<rparr>) = holds_rows S w"
  by (rule holds_rows_cong; simp)+

lemma holds_service [keeps_intros]: "keeps (holds_rows S) (service f)"
  by (rule keeps_service) simp

lemma holds_now [keeps_intros]: "keeps (holds_rows S) (now E)"
  by (rule keeps_now) simp

lemma holds_remote [keeps_intros]: "keeps (holds_rows S) (remote c f g)"
  by (rule keeps_remote) simp

lemma check_card_run:
  "check_card c w = (if \<not> card_refs_ok c w then Inl foreign_key_violation
                     else if card_keys_free c (cards w) then Inr () else Inl unique_violation, w)"
  by (simp add: check_card_def bindE_def ensure_run)

lemma cards_wf_replace:
  assumes wf: "cards_wf w" and c: "c \<in> set (rows (cards w))" "card_id c = i"
    and f: "card_id (f c) = i" "card_refs_ok (f c) w" "card_keys_free (f c) (cards w)"
  shows "cards_wf (w\<lparr>cards := update_rows (\<lambda>c. card_id c = i) f (cards w)\<rparr>)"
proof -
  from wf have t: "table_ok card_id card_clash (cards w)" by (simp add: cards_wf_def)
  have "table_ok card_id card_clash (update_rows (\<lambda>c. card_id c = i) f (cards w))"
    using card_table.update_ok [OF t c, of f] f by (auto simp: card_keys_free_iff)
  moreover have "card_refs_ok q w" if "q \<in> set (rows (update_rows (\<lambda>c. card_id c = i) f (cards w)))" for q
    using that wf f unfolding card_table.mem_update [OF t c] by (auto simp: cards_wf_def)
  ultimately show ?thesis by (simp add: cards_wf_def)
qed

lemma holds_updateCard:
  assumes f: "\<And>c. card_id (f c) = card_id c" and S: "\<And>s. s \<in> S \<Longrightarrow> card_id s \<noteq> i"
  shows "keeps (holds_rows S) (updateCard i f)"
proof (rule keepsI)
  fix w :: "'a world" assume P: "holds_rows S w"
  then have t: "table_ok card_id card_clash (cards w)" by (simp add: holds_rows_def cards_wf_def)
  show "holds_rows S (snd (updateCard i f w))"
  proof (cases "find_row (\<lambda>c. card_id c = i) (cards w)")
    case None
    then show ?thesis using P by (simp add: updateCard_def bindE_def require_run)
  next
    case (Some c)
    then have c: "c \<in> set (rows (cards w))" "card_id c = i" by (auto dest: find_row_mem)
    show ?thesis
    proof (cases "card_refs_ok (f c) w \<and> card_keys_free (f c) (cards w)")
      case True
      have "S \<subseteq> set (rows (update_rows (\<lambda>c. card_id c = i) f (cards w)))"
        using P S card_table.mem_update [OF t c] by (auto simp: holds_rows_def)
      then show ?thesis
        using True Some cards_wf_replace [of w c i f] P c f
        by (simp add: updateCard_def bindE_def require_run check_card_run holds_rows_def)
    next
      case False
      then show ?thesis using P Some by (auto simp: updateCard_def bindE_def require_run check_card_run)
    qed
  qed
qed

lemma holds_createCard:
  assumes mk: "\<And>k a b. card_id (mk k a b) = k"
  shows "keeps (holds_rows S) (createCard E mk)"
proof -
  have insert: "holds_rows S (w\<lparr>cards := insert_row c (cards w)\<rparr>)"
    if P: "holds_rows S w" and "card_id c = next_id (cards w)" "card_refs_ok c w" "card_keys_free c (cards w)" for w c
  proof -
    from P have t: "table_ok card_id card_clash (cards w)" by (simp add: holds_rows_def cards_wf_def)
    have "\<not> card_clash q c" if "q \<in> set (rows (cards w))" for q
      using that \<open>card_keys_free c (cards w)\<close> t \<open>card_id c = next_id (cards w)\<close>
      by (auto simp: card_keys_free_iff table_ok_def)
    then have "table_ok card_id card_clash (insert_row c (cards w))"
      using card_table.insert_ok [OF t] that(2) by blast
    then show ?thesis using P that by (auto simp: holds_rows_def cards_wf_def rows_insert_row)
  qed
  show ?thesis
    unfolding createCard_def
    by (rule keeps_bindE [OF holds_now], rule keeps_bindE [OF holds_now], rule keepsI)
       (auto simp: bindE_def check_card_run mk intro!: insert)
qed

text \<open>With unique identifiers, the rows with an identifier are the rows with the id of the one that has it.\<close>

lemma update_by_identifier:
  assumes t: "table_ok card_id card_clash (cards w)" and c: "c \<in> set (rows (cards w))" "card_cardIdentifier c = ident"
  shows "update_rows (\<lambda>q. card_cardIdentifier q = ident) f (cards w) = update_rows (\<lambda>q. card_id q = card_id c) f (cards w)"
proof -
  have "card_cardIdentifier q = ident \<longleftrightarrow> card_id q = card_id c" if "q \<in> set (rows (cards w))" for q
    using card_table.no_clash [OF t c(1) that] card_table.key_inj [OF t that c(1)] c(2) by (auto simp: card_clash_def)
  then show ?thesis by (simp add: update_rows_def)
qed

lemma holds_updateCardByIdentifier:
  assumes f: "\<And>c. card_id (f c) = card_id c" and S: "\<And>s. s \<in> S \<Longrightarrow> card_cardIdentifier s \<noteq> ident"
  shows "keeps (holds_rows S) (updateCardByIdentifier E ident f)"
proof -
  have "holds_rows S (snd (updateCardByIdentifier E ident f w))" if P: "holds_rows S w" for w
  proof -
    define t where "t = fst (clock E (ext w))"
    define w1 where "w1 = w\<lparr>ext := snd (clock E (ext w))\<rparr>"
    let ?g = "\<lambda>c. (f c)\<lparr>card_updatedAt := t\<rparr>"
    have P1: "holds_rows S w1" using P by (simp add: w1_def)
    then have tok: "table_ok card_id card_clash (cards w1)" by (simp add: holds_rows_def cards_wf_def)
    have run: "updateCardByIdentifier E ident f w =
        (case find_row (\<lambda>c. card_cardIdentifier c = ident) (cards w1) of None \<Rightarrow> (Inr (), w1)
         | Some c \<Rightarrow> bindE (check_card (?g c)) (\<lambda>_. modify (\<lambda>w. w\<lparr>cards := update_rows (\<lambda>c. card_cardIdentifier c = ident) ?g (cards w)\<rparr>)) w1)"
      by (simp add: updateCardByIdentifier_def getCardByIdentifier_def bindE_def now_run t_def w1_def split: option.split)
    show ?thesis
    proof (cases "find_row (\<lambda>c. card_cardIdentifier c = ident) (cards w1)")
      case None
      with run P1 show ?thesis by simp
    next
      case (Some c)
      then have c: "c \<in> set (rows (cards w1))" "card_cardIdentifier c = ident" by (auto dest: find_row_mem)
      note upd = update_by_identifier [OF tok c, of ?g]
      show ?thesis
      proof (cases "card_refs_ok (?g c) w1 \<and> card_keys_free (?g c) (cards w1)")
        case True
        have mem: "S \<subseteq> set (rows (update_rows (\<lambda>q. card_id q = card_id c) ?g (cards w1)))"
        proof
          fix s assume s: "s \<in> S"
          then have "s \<in> set (rows (cards w1))" "card_cardIdentifier s \<noteq> ident" using P1 S by (auto simp: holds_rows_def)
          then have "card_id s \<noteq> card_id c" using card_table.key_inj [OF tok _ c(1), of s] c(2) by auto
          with \<open>s \<in> set (rows (cards w1))\<close> show "s \<in> set (rows (update_rows (\<lambda>q. card_id q = card_id c) ?g (cards w1)))"
            by (simp add: card_table.mem_update [OF tok c(1) refl])
        qed
        have "cards_wf (w1\<lparr>cards := update_rows (\<lambda>q. card_id q = card_id c) ?g (cards w1)\<rparr>)"
          using True P1 f c(1) by (intro cards_wf_replace [of w1 c]) (auto simp: holds_rows_def)
        with True run Some mem show ?thesis by (simp add: bindE_def check_card_run holds_rows_def upd)
      next
        case False
        with run Some P1 show ?thesis by (auto simp: bindE_def check_card_run)
      qed
    qed
  qed
  then show ?thesis by (rule keepsI)
qed

lemma holds_insert_batch [keeps_intros]: "keeps (holds_rows S) (insert_batch mk)"
proof (rule keepsI)
  fix w :: "'a world" assume P: "holds_rows S w"
  have "card_refs_ok c (w\<lparr>bulkBatches := insert_row b (bulkBatches w)\<rparr>)" if "card_refs_ok c w" for c b
    using that by (auto simp: card_refs_ok_def exists_row_insert split: option.splits)
  then show "holds_rows S (snd (insert_batch mk w))"
    using P by (auto simp: insert_batch_def bindE_def ensure_run holds_rows_def cards_wf_def)
qed

lemma holds_pickup [keeps_intros]: "keeps (holds_rows S) (CardPickupRepository_create mk)"
proof -
  have "holds_rows S (w\<lparr>cardPickups := t\<rparr>) = holds_rows S w" for w :: "'a world" and t
    by (rule holds_rows_cong) simp_all
  then show ?thesis
    unfolding CardPickupRepository_create_def by (intro keeps_intros keeps_modify) simp
qed

lemma holds_count_card [keeps_intros]: "keeps (holds_rows S) (count_card E c t)"
  by (cases "card_status c") (simp_all add: count_card_def Let_def keeps_intros)

lemma holds_status_loop [keeps_intros]: "keeps (holds_rows S) (status_loop E cs p v)"
  by (induction E cs p v rule: status_loop.induct) (auto intro!: keeps_intros)

lemmas card_reads = getCardById_def getCardByIdentifier_def CardRepository_getUserCards_def
  findProfileByUserId_def findById_def findExistingPhysicalCard_def findAvailablePhysicalCards_def

section \<open>What the operations keep\<close>

lemma holds_getCardStatus [keeps_intros]: "keeps (holds_rows S) (getCardStatus E u)"
  unfolding getCardStatus_def getCardStatusByUser_def by (intro keeps_intros)

lemma holds_getUserCards [keeps_intros]: "keeps (holds_rows S) (getUserCards u)"
  unfolding getUserCards_def card_reads by (intro keeps_intros)

lemma holds_details [keeps_intros]: "keeps (holds_rows S) (getCardDetailsById E i t c)"
  unfolding getCardDetailsById_def card_reads CardBackofficeService_getCardInfo_def by (intro keeps_intros)

lemma holds_debit [keeps_intros]: "keeps (holds_rows S) (getUserCardDebitInfo E u t c q)"
  unfolding getUserCardDebitInfo_def card_reads getCardFullInfo_def Let_def by (intro keeps_intros)

lemma holds_updateCardCVV [keeps_intros]: "keeps (holds_rows S) (updateCardCVV E i t c)"
  unfolding updateCardCVV_def card_reads CardBackofficeService_updateCardCVV_def by (intro keeps_intros)

lemma keeps_cardType [keeps_intros]:
  "keeps P m \<Longrightarrow> keeps P m' \<Longrightarrow> keeps P (case t of PHYSICAL \<Rightarrow> m | VIRTUAL \<Rightarrow> m')"
  by (cases t) auto

lemma holds_showCardCvv [keeps_intros]: "keeps (holds_rows S) (showCardCvv E i t c)"
  unfolding showCardCvv_def card_reads by (intro keeps_intros)

lemma holds_createVirtualCard [keeps_intros]: "keeps (holds_rows S) (createVirtualCard E u t c q)"
  unfolding createVirtualCard_def card_reads createLinkedCard_def generateVirtualCardIdentifier_def Let_def
  by (intro keeps_intros holds_createCard) simp

lemma holds_activateCard: "(\<And>s. s \<in> S \<Longrightarrow> card_id s \<noteq> i) \<Longrightarrow> keeps (holds_rows S) (activateCard E i pin t c)"
  unfolding activateCard_def card_reads CardBackofficeService_activateCard_def CardBackofficeService_getCardInfo_def
  by (intro keeps_intros holds_updateCard) simp_all

lemma holds_stopCard: "(\<And>s. s \<in> S \<Longrightarrow> card_id s \<noteq> i) \<Longrightarrow> keeps (holds_rows S) (stopCard E i t c n)"
  unfolding stopCard_def card_reads CardBackofficeService_stopCard_def
  by (intro keeps_intros holds_updateCard) simp_all

lemma holds_unstopCard: "(\<And>s. s \<in> S \<Longrightarrow> card_id s \<noteq> i) \<Longrightarrow> keeps (holds_rows S) (unstopCard E i t c n)"
  unfolding unstopCard_def card_reads CardBackofficeService_unstopCard_def
  by (intro keeps_intros holds_updateCard) simp_all

lemma holds_unlinkCard: "(\<And>s. s \<in> S \<Longrightarrow> card_id s \<noteq> i) \<Longrightarrow> keeps (holds_rows S) (unlinkCard E i c t)"
  unfolding unlinkCard_def card_reads retireCard_def CardRepository_unlinkCard_def
  by (intro keeps_intros holds_updateCard) simp_all

lemma keeps_delivery [keeps_intros]: "keeps P (delivery_location_for u d q)"
  by (cases d) (simp_all add: delivery_location_for_def home_location_def keeps_ok keeps_bindE keeps_require)

lemma holds_physical_response [keeps_intros]: "keeps (holds_rows S) (physical_response E u i ident q)"
  unfolding physical_response_def by (intro keeps_intros)

lemma holds_order_new_card [keeps_intros]: "keeps (holds_rows S) (order_new_card E u d q)"
  unfolding order_new_card_def generatePhysicalCardIdentifier_def randomBase32_def BulkBatchRepository_create_def Let_def
  by (intro keeps_intros holds_createCard) simp

text \<open>A set of rows that belong to users other than \<^verbatim>\<open>u\<close>.\<close>

definition foreign_rows :: "int \<Rightarrow> card_row set \<Rightarrow> bool" where
  "foreign_rows u S \<longleftrightarrow> (\<forall>s \<in> S. truthy_int (card_userId s) \<and> card_userId s \<noteq> Some u)"

lemma foreign_rows_empty [simp]: "foreign_rows u {}"
  by (simp add: foreign_rows_def)

lemma holds_rows_other:
  assumes "holds_rows S w" and "c \<in> set (rows (cards w))" and "s \<in> S"
    and "card_id s = card_id c \<or> card_cardIdentifier s = card_cardIdentifier c"
  shows "s = c"
proof -
  from assms have t: "table_ok card_id card_clash (cards w)" and s: "s \<in> set (rows (cards w))"
    by (auto simp: holds_rows_def cards_wf_def)
  from assms(4) card_table.key_inj [OF t s assms(2)] card_table.no_clash [OF t assms(2) s]
  show ?thesis by (auto simp: card_clash_def)
qed

lemma holds_assignCard:
  assumes "foreign_rows u S"
  shows "keeps (holds_rows S) (assignCard E u ident)"
proof (rule keepsI)
  fix w :: "'a world" assume P: "holds_rows S w"
  show "holds_rows S (snd (assignCard E u ident w))"
  proof (cases "find_row (\<lambda>c. card_cardIdentifier c = ident) (cards w)")
    case None
    with P show ?thesis by (simp add: assignCard_def getCardByIdentifier_def bindE_def require_run)
  next
    case (Some c)
    then have c: "c \<in> set (rows (cards w))" "card_cardIdentifier c = ident" by (auto dest: find_row_mem)
    show ?thesis
    proof (cases "truthy_int (card_userId c)")
      case True
      with P Some show ?thesis by (simp add: assignCard_def getCardByIdentifier_def bindE_def require_run ensure_run)
    next
      case False
      then have "card_cardIdentifier s \<noteq> ident" if "s \<in> S" for s
        using holds_rows_other [OF P c(1) that] c(2) assms that by (auto simp: foreign_rows_def)
      then have "keeps (holds_rows S) (updateCardByIdentifier E ident (\<lambda>c. c\<lparr>card_userId := Some u\<rparr>))"
        by (intro holds_updateCardByIdentifier) simp_all
      from keepsD [OF this P] Some False show ?thesis
        by (simp add: assignCard_def getCardByIdentifier_def bindE_def require_run ensure_run)
    qed
  qed
qed

lemma holds_inventory:
  assumes "foreign_rows u S" and "\<And>c. c \<in> set available \<Longrightarrow> c \<in> set (rows (cards w)) \<and> card_userId c = None"
    and P: "holds_rows S w"
  shows "holds_rows S (snd (assign_from_inventory E user d q available w))"
proof -
  have ids: "card_id s \<noteq> card_id c" if "c \<in> set available" "s \<in> S" for c s
    using holds_rows_other [OF P _ that(2), of c] assms(2) [OF that(1)] assms(1) that(2)
    by (auto simp: foreign_rows_def truthy_int_def)
  have "keeps (holds_rows S) (assign_from_inventory E user d q available)"
  proof -
    have select: "keeps (holds_rows S) (bindE (deref (nth_opt available k)) (\<lambda>c. bindE (updateCard (card_id c) f) (g c)))"
      if "\<And>c. card_id (f c) = card_id c" and "\<And>c x. keeps (holds_rows S) (g c x)" for k f and g :: "card_row \<Rightarrow> unit \<Rightarrow> ('a world, 'c) op"
    proof (cases "k < length available")
      case True
      then have "available ! k \<in> set available" by simp
      then have "keeps (holds_rows S) (updateCard (card_id (available ! k)) f)"
        using that(1) ids by (intro holds_updateCard) auto
      then have "keeps (holds_rows S) (bindE (updateCard (card_id (available ! k)) f) (g (available ! k)))"
        using that(2) by (intro keeps_intros)
      with True show ?thesis by (simp add: nth_opt_def keeps_def bindE_def deref_run)
    next
      case False
      then show ?thesis by (simp add: nth_opt_def keeps_def bindE_def deref_run)
    qed
    show ?thesis
      unfolding assign_from_inventory_def
      by (rule keeps_bindE [OF holds_service], rule select) (simp, intro keeps_intros)
  qed
  from keepsD [OF this P] show ?thesis .
qed

lemma holds_requestPhysicalCard:
  assumes "foreign_rows u S"
  shows "keeps (holds_rows S) (requestPhysicalCard E u d q)"
proof (rule keepsI)
  fix w :: "'a world" assume P: "holds_rows S w"
  let ?a = "find_rows (\<lambda>c. card_userId c = None \<and> card_cardType c = PHYSICAL
                       \<and> card_status c \<in> {CARD_PENDING, CARD_INACTIVE}) (cards w)"
  have "holds_rows S (snd (assign_from_inventory E user d q ?a w))" for user
    using assms P by (intro holds_inventory) (auto simp: find_rows_def)
  then show "holds_rows S (snd (requestPhysicalCard E u d q w))"
    using P keepsD [OF holds_order_new_card P]
    by (auto simp: requestPhysicalCard_def card_reads bindE_def require_run ensure_run split: option.split)
qed

text \<open>A card that passed the ownership check is not one of another user.\<close>

definition off_limits :: "string \<Rightarrow> card_row set \<Rightarrow> bool" where
  "off_limits p S \<longleftrightarrow> (\<forall>i. prisma_int (number_of_string p) = Inr i \<longrightarrow> (\<forall>s \<in> S. card_id s \<noteq> i))"

lemma ownership_spec:
  assumes "foreign_rows u S"
  shows "spec (holds_rows S) (validateCardOwnership p u) (\<lambda>_ w. holds_rows S w \<and> off_limits p S) (\<lambda>_. holds_rows S)"
proof (rule specI)
  fix w :: "'a world" assume P: "holds_rows S w"
  show "case validateCardOwnership p u w of (Inr a, w') \<Rightarrow> holds_rows S w' \<and> off_limits p S | (Inl e, w') \<Rightarrow> holds_rows S w'"
  proof (cases "prisma_int (number_of_string p)")
    case (Inl e)
    with P show ?thesis by (simp add: validateCardOwnership_def from_sum_def bindE_def)
  next
    case (Inr i)
    show ?thesis
    proof (cases "find_row (\<lambda>c. card_id c = i) (cards w)")
      case None
      with P Inr show ?thesis by (simp add: validateCardOwnership_def from_sum_def bindE_def getCardById_def require_run)
    next
      case (Some c)
      then have c: "c \<in> set (rows (cards w))" "card_id c = i" by (auto dest: find_row_mem)
      have "off_limits p S" if "card_userId c = Some u"
        using holds_rows_other [OF P c(1)] c(2) that assms Inr by (auto simp: off_limits_def foreign_rows_def)
      with P Inr Some show ?thesis
        by (auto simp: validateCardOwnership_def from_sum_def bindE_def getCardById_def require_run ensure_run)
    qed
  qed
qed

lemma keeps_check_pin:
  "(\<And>c f. keeps P (remote c f backoffice_error :: ('x world, string option api_response) op)) \<Longrightarrow>
   keeps P (check_pin E pid t q :: ('x world, unit) op)"
  unfolding check_pin_def viewPinForCustomer_def by (intro keeps_intros)

lemma keeps_validateCardPin:
  assumes "\<And>c f. keeps P (remote c f backoffice_error :: ('x world, string option api_response) op)"
  shows "keeps P (validateCardPin E p t q :: ('x world, unit) op)"
  unfolding validateCardPin_def getCardById_def
  by (intro keeps_intros keeps_from_sum keeps_check_pin assms)

text \<open>After the ownership check a route works on a card outside \<^verbatim>\<open>S\<close>.\<close>

lemma after_ownership:
  assumes "foreign_rows u S" and "off_limits p S \<Longrightarrow> keeps (holds_rows S) m"
  shows "keeps (holds_rows S) (bindE (validateCardOwnership p u) (\<lambda>_. m))"
  by (rule keeps_spec, rule spec_bindE [OF ownership_spec [OF assms(1)]], rule spec_fact, rule spec_keeps)
     (rule assms(2))

lemma on_card:
  "off_limits p S \<Longrightarrow> (\<And>i. (\<And>s. s \<in> S \<Longrightarrow> card_id s \<noteq> i) \<Longrightarrow> keeps (holds_rows S) (m i)) \<Longrightarrow>
   keeps (holds_rows S) (bindE (card_param p) m)"
  by (cases "prisma_int (number_of_string p)")
     (auto simp: card_param_def from_sum_def keeps_def bindE_def off_limits_def)

declare bindE_ok_left [simp]

lemma holds_card_route:
  assumes S: "foreign_rows (ju_userId (jp_user auth)) S"
  shows "keeps (holds_rows S) (card_route E auth req)"
proof (cases req)
  case (ActivateCard p pin)
  then show ?thesis
    by (simp add: card_route_def card_guards_def CardController_def Let_def)
       (intro after_ownership [OF S] on_card keeps_intros holds_activateCard)
next
  case (GetCardDetails p pin)
  then show ?thesis
    by (simp add: card_route_def card_guards_def CardController_def Let_def bindE_assoc)
       (intro after_ownership [OF S] keeps_bindE keeps_validateCardPin on_card keeps_intros)
next
  case (StopCard p pin nt)
  then show ?thesis
    by (simp add: card_route_def card_guards_def CardController_def Let_def bindE_assoc)
       (intro after_ownership [OF S] keeps_bindE [OF keeps_validateCardPin] on_card keeps_intros holds_stopCard)
next
  case (UnstopCard p pin nt)
  then show ?thesis
    by (simp add: card_route_def card_guards_def CardController_def Let_def bindE_assoc)
       (intro after_ownership [OF S] keeps_bindE [OF keeps_validateCardPin] on_card keeps_intros holds_unstopCard)
next
  case (ShowCardCvv p)
  then show ?thesis
    by (simp add: card_route_def card_guards_def CardController_def Let_def)
       (intro after_ownership [OF S] on_card keeps_intros)
next
  case (UnlinkCard p)
  then show ?thesis
    by (simp add: card_route_def card_guards_def CardController_def Let_def)
       (intro after_ownership [OF S] on_card keeps_intros holds_unlinkCard)
qed (simp_all add: card_route_def card_guards_def CardController_def Let_def keeps_intros
       holds_assignCard [OF S] holds_requestPhysicalCard [OF S])

lemma keeps_authenticateToken:
  "(\<And>f. keeps P (service f :: ('x world, jwt_failure + jwt_payload) op)) \<Longrightarrow> keeps P (authenticateToken E h :: ('x world, (int \<times> string) + jwt_payload) op)"
  unfolding authenticateToken_def verifyToken_def Let_def
  by (intro keeps_intros) (auto split: jwt_failure.split intro: keeps_throw)

lemma holds_notification: "keeps (holds_rows {}) (handleBulkOrderCardNotification E n)"
  unfolding handleBulkOrderCardNotification_def createBulkBatch_def
  by (intro keeps_intros holds_updateCardByIdentifier) simp_all

end
