(* ===== verification/JsText.thy ===== *)
theory JsText
  imports JsParse
begin

text \<open>
  Facts about the text of numbers: \<^verbatim>\<open>Number(String(n))\<close> is \<^verbatim>\<open>n\<close> for the natural numbers a double
  holds exactly.
\<close>

lemma digit_char_val:
  assumes "0 \<le> d" and "d < 10"
  shows "is_digit (digit_char d)" and "digit_val (digit_char d) = d"
  using assms by (simp_all add: digit_char_def digit_val_def is_digit_def)

lemma int_of_digits_snoc: "int_of_digits (s @ [c]) = 10 * int_of_digits s + digit_val c"
  by (simp add: int_of_digits_def)

lemma digits_text: "0 \<le> n \<Longrightarrow> digits n \<noteq> [] \<and> list_all is_digit (digits n) \<and> int_of_digits (digits n) = n"
proof (induction n rule: digits.induct)
  case (1 n)
  show ?case
  proof (cases "n < 10")
    case True
    with 1(2) show ?thesis by (subst (1 2 3) digits.simps) (simp add: digit_char_val int_of_digits_def)
  next
    case False
    with 1 have IH: "list_all is_digit (digits (n div 10))" "int_of_digits (digits (n div 10)) = n div 10" by simp_all
    show ?thesis using False IH by (subst (1 2 3) digits.simps) (simp add: digit_char_val int_of_digits_snoc)
  qed
qed

lemma digit_plain:
  assumes "is_digit c"
  shows "\<not> is_space c" "c \<noteq> CHR ''-''" "c \<noteq> CHR ''+''" "c \<noteq> CHR ''I''"
    "c \<noteq> CHR ''x''" "c \<noteq> CHR ''X''" "c \<noteq> CHR ''o''" "c \<noteq> CHR ''O''" "c \<noteq> CHR ''b''" "c \<noteq> CHR ''B''"
  using assms by (auto simp: is_digit_def is_space_def)

lemma dropWhile_none: "(\<And>x. x \<in> set xs \<Longrightarrow> \<not> p x) \<Longrightarrow> dropWhile p xs = xs"
  by (cases xs) auto

lemma trim_digits: "list_all is_digit s \<Longrightarrow> trim s = s"
  using dropWhile_none [of s is_space] dropWhile_none [of "rev s" is_space] digit_plain(1)
  by (auto simp: trim_def list_all_iff)

lemma parse_digits:
  assumes "list_all is_digit s" and "s \<noteq> []"
  shows "parse_decimal s = Some (of_int (int_of_digits s))"
proof -
  have t: "takeWhile is_digit s = s" "dropWhile is_digit s = []" using assms by (simp_all add: list_all_iff)
  show ?thesis unfolding parse_decimal_def t Let_def using assms(2) by simp
qed

lemma number_of_digits:
  assumes "list_all is_digit s" and "s \<noteq> []"
  shows "number_of_string s = to_double (of_int (int_of_digits s))"
proof -
  obtain c t where s: "s = c # t" using assms(2) by (cases s) auto
  have "unsigned_number s = to_double (of_int (int_of_digits s))"
    using parse_digits [OF assms] digit_plain(4) [of c] assms(1) s by (auto simp: unsigned_number_def)
  moreover have "hd t \<notin> {CHR ''x'', CHR ''X'', CHR ''o'', CHR ''O'', CHR ''b'', CHR ''B''}" if "t \<noteq> []"
    using assms(1) that s digit_plain [of "hd t"] by (cases t) auto
  moreover have "c \<noteq> CHR ''-''" "c \<noteq> CHR ''+''" using assms(1) s digit_plain(2,3) [of c] by auto
  moreover have "trim (c # t) = c # t" using trim_digits [OF assms(1)] s by simp
  ultimately show ?thesis
    unfolding number_of_string_def s by (cases "t = []") simp_all
qed

lemma number_of_string_of_int:
  assumes "0 \<le> n" and "n < 2 ^ 53"
  shows "number_of_string (string_of_int n) = js_int n"
proof -
  have "(of_int n :: rat) \<le> of_int (2 ^ 53)" using assms by (simp only: of_int_le_iff)
  then have "\<bar>of_int n :: rat\<bar> \<le> 2 ^ 53" using assms by simp
  also have "(2 :: rat) ^ 53 \<le> 2 ^ 1000" by (rule power_increasing) simp_all
  finally have "to_double (of_int n) = js_int n"
    using assms by (subst to_double_small) (simp_all add: power_int_def fl_int js_int_def)
  with digits_text [OF assms(1)] show ?thesis
    using assms(1) by (simp add: string_of_int_def number_of_digits)
qed

lemma string_of_int_inj:
  assumes "string_of_int a = string_of_int b"
  shows "a = b"
proof -
  have minus: "digits n \<noteq> CHR ''-'' # s" if "0 \<le> n" for n s
  proof
    assume "digits n = CHR ''-'' # s"
    moreover have "list_all is_digit (digits n)" using digits_text [OF that] by blast
    ultimately have "is_digit CHR ''-''" by simp
    then show False by (simp add: is_digit_def)
  qed
  have inj: "m = n" if "0 \<le> m" "0 \<le> n" "digits m = digits n" for m n
    using digits_text [OF that(1)] digits_text [OF that(2)] that(3) by metis
  show ?thesis
  proof (cases "a < 0"; cases "b < 0")
    assume "a < 0" "b < 0"
    with assms inj [of "- a" "- b"] show ?thesis by (simp add: string_of_int_def)
  next
    assume "a < 0" "\<not> b < 0"
    with assms minus [of b "digits (- a)"] show ?thesis by (simp add: string_of_int_def)
  next
    assume "\<not> a < 0" "b < 0"
    with assms minus [of a "digits (- b)"] show ?thesis by (simp add: string_of_int_def)
  next
    assume "\<not> a < 0" "\<not> b < 0"
    with assms inj [of a b] show ?thesis by (simp add: string_of_int_def)
  qed
qed

lemma string_of_int_plain: "0 \<le> n \<Longrightarrow> CHR ''_'' \<notin> set (string_of_int n)"
proof
  assume n: "0 \<le> n" and "CHR ''_'' \<in> set (string_of_int n)"
  then have "CHR ''_'' \<in> set (digits n)" by (simp add: string_of_int_def)
  moreover have "list_all is_digit (digits n)" using digits_text [OF n] by blast
  ultimately have "is_digit CHR ''_''" by (auto simp only: list_all_iff)
  then show False by (simp add: is_digit_def)
qed

lemma separated_eq: "c \<notin> set a \<Longrightarrow> c \<notin> set b \<Longrightarrow> a @ c # s = b @ c # t \<Longrightarrow> a = b"
proof (induction a arbitrary: b)
  case Nil
  then show ?case by (cases b) auto
next
  case (Cons x a)
  then show ?case by (cases b) auto
qed

end
