(* ===== verification/CardProps.thy ===== *)
theory CardProps
  imports CardProofs JsText Samples
begin

text \<open>
  What the card component promises: the table stays well-formed, a user's cards are out of the
  reach of the others, blocking mirrors the backoffice and needs the PIN, the status summary
  counts what it says it counts, and the masked number shows four digits.
\<close>

section \<open>Requests on cards as a system\<close>







text \<open>The requests of authenticated users, in the order they are served.\<close>

primrec user_step :: "'x services \<Rightarrow> jwt_payload \<times> card_request \<Rightarrow> 'x world \<Rightarrow> 'x world" where
  "user_step E (auth, req) w = snd (card_route E auth req w)"

lemma user_steps_hold:
  assumes "\<And>auth req. (auth, req) \<in> set reqs \<Longrightarrow> foreign_rows (ju_userId (jp_user auth)) S"
  shows "holds_rows S w \<Longrightarrow> holds_rows S (fold (user_step E) reqs w)"
  using assms
proof (induction reqs arbitrary: w)
  case (Cons a reqs)
  obtain auth req where a: "a = (auth, req)" by (cases a)
  have "foreign_rows (ju_userId (jp_user auth)) S" using Cons.prems(2) [of auth req] a by simp
  then have "holds_rows S (user_step E a w)" using keepsD [OF holds_card_route Cons.prems(1)] a by simp
  then show ?case by (simp, intro Cons.IH) (auto intro: Cons.prems(2))
qed simp

section \<open>The sample cards\<close>

definition sample_card :: "int \<Rightarrow> int \<Rightarrow> Cards_cardType \<Rightarrow> Cards_status \<Rightarrow> card_row" where
  "sample_card i u k s =
     \<lparr>card_id = i, card_userId = Some u, card_bulkBatchId = None, card_prosperaCardId = Some (string_of_int (900 + i)),
      card_cardType = k, card_cardIdentifier = string_of_int i, card_status = s, card_encryptedPin = None,
      card_maskedNumber = Some ''************1111'', card_expiryDate = None, card_cvv = None,
      card_createdAt = 0, card_updatedAt = 0\<rparr>"

definition card_world :: "int world" where
  "card_world = sample_world\<lparr>cards := table_of
     [sample_card 1 1 PHYSICAL CARD_ACTIVE, sample_card 2 2 VIRTUAL CARD_ACTIVE]\<rparr>"

definition card_token :: "int \<Rightarrow> jwt_payload" where
  "card_token u =
     \<lparr>jp_user = \<lparr>ju_userId = u, ju_email = ''ana@x'', ju_username = None\<rparr>,
      jp_backoffice = \<lparr>bj_customer_oauth_token = ''oauth'', bj_expiration_timestamp = '''',
        bj_customer_refresh_token = '''', bj_refresh_expiration_timestamp = '''',
        bj_client_state_ret = 9, bj_customerId = 500 + u\<rparr>\<rparr>"

definition replied :: "'p \<Rightarrow> 'p api_response" where
  "replied p = \<lparr>ar_text = [], ar_timestamp = [], ar_endpoint = [], ar_error = JNull, ar_payload = Some p\<rparr>"

definition card_services :: "int services" where
  "card_services = sample_services
     \<lparr>api_stop := (\<lambda>q t x. (Inr (replied \<lparr>csp_message = [], csp_card_id = 901, csp_status = 3\<rparr>), x)),
      api_view_pin := (\<lambda>i t x. (Inr (replied (Some ''4321'')), x))\<rparr>"

lemma card_world_wf: "cards_wf card_world"
  by code_simp



text \<open>
  C3: The card of a user is out of the reach of the others: requests on the card routes with the
  tokens of other users, in any number and order, leave its row exactly as it is. Activating,
  blocking, unblocking and unlinking are refused by the ownership check, and an assignment takes
  only cards nobody owns.
\<close>

theorem card_rows_private:
  fixes E :: "'x services" and w :: "'x world"
  assumes "cards_wf w" and "c \<in> set (rows (cards w))" and "card_userId c = Some v" and "v \<noteq> 0"
    and "\<forall>(auth, req) \<in> set reqs. ju_userId (jp_user auth) \<noteq> v"
  shows "c \<in> set (rows (cards (fold (user_step E) reqs w)))"
proof -
  have "foreign_rows (ju_userId (jp_user auth)) {c}" if "(auth, req) \<in> set reqs" for auth req
    using assms(3-5) that by (auto simp: foreign_rows_def truthy_int_def)
  then have "holds_rows {c} (fold (user_step E) reqs w)"
    using assms(1,2) by (intro user_steps_hold) (auto simp: holds_rows_def)
  then show ?thesis by (simp add: holds_rows_def)
qed

theorem card_rows_private_witness:
  "sample_card 1 1 PHYSICAL CARD_ACTIVE \<in> set (rows (cards (fold (user_step card_services)
     [(card_token 2, StopCard ''1'' (Some ''4321'') None), (card_token 2, UnlinkCard ''1'')] card_world)))"
  by (rule card_rows_private [OF card_world_wf, where v = 1])
     (simp_all add: card_world_def table_of_def sample_card_def card_token_def)

section \<open>Blocking a card\<close>

lemma update_card_same_keys:
  assumes "cards_wf w" and "find_row (\<lambda>c. card_id c = i) (cards w) = Some c"
    and "card_id (f c) = i" "card_userId (f c) = card_userId c" "card_bulkBatchId (f c) = card_bulkBatchId c"
    and "card_cardIdentifier (f c) = card_cardIdentifier c" "card_prosperaCardId (f c) = card_prosperaCardId c"
  shows "updateCard i f w = (Inr (), w\<lparr>cards := update_rows (\<lambda>c. card_id c = i) f (cards w)\<rparr>)"
proof -
  have c: "c \<in> set (rows (cards w))" "card_id c = i" using assms(2) by (auto dest: find_row_mem)
  have "card_refs_ok (f c) w" using assms(1,4,5) c by (simp add: cards_wf_def card_refs_ok_def)
  moreover have "card_keys_free (f c) (cards w)"
    using assms(1,3,6,7) c card_table.no_clash [of "cards w" c]
    by (auto simp: card_keys_free_iff cards_wf_def card_clash_def)
  ultimately show ?thesis using assms(2) by (simp add: updateCard_def bindE_def require_run check_card_run)
qed

lemma cards_wf_env: "cards_wf (w\<lparr>ext := x, trace := tr\<rparr>) = cards_wf w"
  using holds_rows_env(2) [where S = "{}" and w = w] by (simp add: holds_rows_def)

text \<open>
  C30: Blocking a card asks the backoffice once, with the number it knows the card by, status 3 and
  the note of the request. If the backoffice refuses, the card table does not change and its error
  is returned; if it accepts, exactly that card becomes \<^verbatim>\<open>BLOCKED\<close>, and what the backoffice said is
  returned.
\<close>

theorem stopCard_mirrors:
  fixes E :: "'x services" and w :: "'x world" and customerId :: int and nt :: string
  assumes "cards_wf w" and "find_row (\<lambda>c. card_id c = i) (cards w) = Some c"
    and "card_prosperaCardId c = Some pid" and "pid \<noteq> []"
  defines "q \<equiv> \<lparr>sc_card_id = number_of_string pid, sc_customer_id = customerId, sc_new_card_status = 3, sc_note = nt\<rparr>"
  shows "stopCard E i token customerId nt w =
    (case api_stop E q token (ext w) of
       (Inl f, x) \<Rightarrow> (Inl (backoffice_error f), w\<lparr>ext := x, trace := trace w @ [(CallStop q, False)]\<rparr>)
     | (Inr r, x) \<Rightarrow> (Inr (ar_payload r), w\<lparr>ext := x, trace := trace w @ [(CallStop q, True)],
           cards := update_rows (\<lambda>c. card_id c = i) (\<lambda>c. c\<lparr>card_status := CARD_BLOCKED\<rparr>) (cards w)\<rparr>))"
proof -
  have c: "card_id c = i" using assms(2) by (auto dest: find_row_mem)
  have "prospera_id (Some (c, b)) = Some pid" for b using assms(3,4) by (simp add: prospera_id_def truthy_str_def)
  moreover have "updateCard i (\<lambda>c. c\<lparr>card_status := CARD_BLOCKED\<rparr>) (w\<lparr>ext := x, trace := tr\<rparr>) =
      (Inr (), w\<lparr>ext := x, trace := tr, cards := update_rows (\<lambda>c. card_id c = i) (\<lambda>c. c\<lparr>card_status := CARD_BLOCKED\<rparr>) (cards w)\<rparr>)" for x tr
    using assms(1,2) c by (subst update_card_same_keys [where c = c]) (simp_all add: cards_wf_env)
  ultimately show ?thesis
    using assms(2)
    by (simp add: stopCard_def CardBackofficeService_stopCard_def getCardById_def bindE_def require_run remote_run q_def
        split: prod.split sum.split)
qed

theorem stopCard_mirrors_witness:
  "map card_status (rows (cards (snd (stopCard card_services 1 ''oauth'' 501 ''lost'' card_world)))) = [CARD_BLOCKED, CARD_ACTIVE]"
proof -
  have "find_row (\<lambda>c. card_id c = 1) (cards card_world) = Some (sample_card 1 1 PHYSICAL CARD_ACTIVE)"
    "card_prosperaCardId (sample_card 1 1 PHYSICAL CARD_ACTIVE) = Some ''901''"
    by code_simp+
  note run = stopCard_mirrors [OF card_world_wf this, where E = card_services and token = "''oauth''" and customerId = 501 and nt = "''lost''", simplified]
  show ?thesis unfolding run by code_simp
qed

section \<open>The PIN of a physical card\<close>



section \<open>The status summary\<close>

text \<open>What the summary is to say of a set of cards: how many there are in each state.\<close>

definition with_status :: "Cards_status list \<Rightarrow> card_row list \<Rightarrow> nat" where
  "with_status ss cs = length (filter (\<lambda>c. card_status c \<in> set ss) cs)"










lemma with_status_sort [simp]: "with_status ss (sort_key k cs) = with_status ss cs"
  by (simp add: with_status_def filter_sort)



section \<open>Masked numbers\<close>

lemma mask_digits:
  "digits_only (formatMaskedNumber n b) = (if length (digits_only n) < 4 then [] else slice_last 4 (digits_only n))"
proof -
  have "digits_only (slice_last 4 (digits_only n)) = slice_last 4 (digits_only n)"
    unfolding slice_last_def by (rule filter_True [of _ is_digit, folded digits_only_def])
      (auto simp: digits_only_def dest: in_set_dropD)
  then show ?thesis by (simp add: formatMaskedNumber_def Let_def digits_only_def is_digit_def)
qed

text \<open>
  C31: A masked card number reveals the last four digits of the number and no other, and nothing at
  all of a number with fewer than four; masking a number that is already masked, as the card list
  does with what the activation stored, changes at most its spacing.
\<close>

theorem formatMaskedNumber_masks:
  "digits_only (formatMaskedNumber n b) = (if length (digits_only n) < 4 then [] else slice_last 4 (digits_only n))
   \<and> formatMaskedNumber (formatMaskedNumber n b) b' = formatMaskedNumber n b'"
proof
  show "formatMaskedNumber (formatMaskedNumber n b) b' = formatMaskedNumber n b'"
    unfolding formatMaskedNumber_def [of "formatMaskedNumber n b"] Let_def mask_digits
    by (simp add: formatMaskedNumber_def Let_def slice_last_def)
qed (rule mask_digits)

section \<open>Ordering a physical card\<close>

abbreviation traced :: "(call \<times> bool) list \<Rightarrow> 'x world \<Rightarrow> bool" where
  "traced t w \<equiv> trace w = t"




lemma trace_after_remote:
  fixes c f g
  assumes "\<And>a t. keeps (traced t) (rest a)"
  shows "\<exists>b. trace (snd (bindE (remote c f g) rest w)) = trace w @ [(c, b)]"
  using assms by (auto simp: bindE_def remote_run keeps_def split: sum.split)



section \<open>The number of a card\<close>

lemma activate_updates:
  assumes "activateCard E i pin token customerId w = (Inr r, w1)"
  shows "\<exists>p masked w0. ar_payload r = Some p \<and>
    updateCard i (\<lambda>c. c\<lparr>card_prosperaCardId := Some (string_of_int (acp_card_id p)), card_status := CARD_ACTIVE,
      card_maskedNumber := masked\<rparr>) w0 = (Inr (), w1)"
  using assms unfolding activateCard_def
  by (elim bindE_InrE) (auto elim!: bindE_InrE dest!: require_Inr, blast)

lemma updateCard_finds:
  assumes "updateCard i f w = (Inr u, w')" and "\<And>c. card_id c = i \<Longrightarrow> card_id (f c) = i"
  shows "\<exists>c. find_row (\<lambda>c. card_id c = i) (cards w) = Some c \<and> find_row (\<lambda>c. card_id c = i) (cards w') = Some (f c)"
  using assms
  by (auto simp: updateCard_def bindE_Inr_iff require_run check_card_run find_row_update_same split: option.splits if_splits)

text \<open>
  C39: A card keeps the number the backoffice gave it. The number is stored as text when the card is
  activated and read back as a number when it is blocked; after an activation that answered with a
  number below 2 to the 53, the card is active and a request to block it names exactly that number.
\<close>

theorem card_number_roundtrip:
  fixes E E' :: "'x services" and w :: "'x world"
  assumes "activateCard E i pin token customerId w = (Inr r, w1)" and "ar_payload r = Some p"
    and "0 \<le> acp_card_id p" and "acp_card_id p < 2 ^ 53"
  shows "\<exists>c b. find_row (\<lambda>c. card_id c = i) (cards w1) = Some c \<and> card_status c = CARD_ACTIVE \<and>
    trace (snd (stopCard E' i token' customerId' nt w1)) = trace w1 @ [(CallStop
      \<lparr>sc_card_id = js_int (acp_card_id p), sc_customer_id = customerId', sc_new_card_status = 3, sc_note = nt\<rparr>, b)]"
proof -
  obtain masked w0 where "updateCard i (\<lambda>c. c\<lparr>card_prosperaCardId := Some (string_of_int (acp_card_id p)),
      card_status := CARD_ACTIVE, card_maskedNumber := masked\<rparr>) w0 = (Inr (), w1)"
    using activate_updates [OF assms(1)] assms(2) by auto
  from updateCard_finds [OF this] obtain c where c: "find_row (\<lambda>c. card_id c = i) (cards w1) = Some c"
    "card_status c = CARD_ACTIVE" "card_prosperaCardId c = Some (string_of_int (acp_card_id p))" by auto
  have "string_of_int (acp_card_id p) \<noteq> []" using digits_text [OF assms(3)] assms(3) by (simp add: string_of_int_def)
  with c(3) have id: "prospera_id (Some (c, q)) = Some (string_of_int (acp_card_id p))" for q
    by (simp add: prospera_id_def truthy_str_def)
  have "keeps (traced t) (updateCard i f)" for t :: "(call \<times> bool) list" and f
    unfolding updateCard_def check_card_def by (intro keeps_intros keeps_modify) simp
  then have rest: "keeps (traced t) (bindE (updateCard i f) (\<lambda>_. ok v))" for t :: "(call \<times> bool) list" and f and v :: "card_status_payload option"
    by (intro keeps_intros)
  have "stopCard E' i token' customerId' nt w1 = bindE (CardBackofficeService_stopCard E'
      \<lparr>sc_card_id = js_int (acp_card_id p), sc_customer_id = customerId', sc_new_card_status = 3, sc_note = nt\<rparr> token')
      (\<lambda>stopResponse. bindE (updateCard i (\<lambda>c. c\<lparr>card_status := CARD_BLOCKED\<rparr>)) (\<lambda>_. ok (ar_payload stopResponse))) w1"
    using c(1) id assms(3,4) by (simp add: stopCard_def getCardById_def bindE_def [of "gets f" for f] require_def
        bindE_ok_left number_of_string_of_int)
  then show ?thesis
    using c trace_after_remote [OF rest] unfolding CardBackofficeService_stopCard_def by fastforce
qed

definition activation :: "activate_card_payload api_response" where
  "activation = replied \<lparr>acp_reference_card = [], acp_status_card = 1, acp_customer_id = 501, acp_card_id = 42,
     acp_customer_private_key = [], acp_customer_refresh_token = []\<rparr>"

definition activating_services :: "int services" where
  "activating_services = card_services
     \<lparr>api_activate := (\<lambda>q t x. (Inr activation, x)),
      api_card_info := (\<lambda>c t n x. (Inr (replied (Some [\<lparr>ci_card_number = Some ''4111111111111111'', ci_card_type = 1,
        ci_cvv = ''123'', ci_valid_date = ''0130''\<rparr>])), x))\<rparr>"

definition inactive_world :: "int world" where
  "inactive_world = card_world
     \<lparr>cards := table_of [(sample_card 1 1 PHYSICAL CARD_INACTIVE)\<lparr>card_bulkBatchId := Some 1, card_prosperaCardId := None\<rparr>],
      bulkBatches := table_of [\<lparr>bb_id = 1, bb_referenceBatch = ''b1'', bb_status = None, bb_numCreated = None,
        bb_numFailed = None, bb_requestedAt = 0\<rparr>]\<rparr>"

theorem card_number_roundtrip_witness:
  "\<exists>c b. find_row (\<lambda>c. card_id c = 1) (cards (snd (activateCard activating_services 1 ''4321'' ''oauth'' 501 inactive_world))) = Some c
    \<and> card_status c = CARD_ACTIVE \<and>
    trace (snd (stopCard card_services 1 ''oauth'' 501 ''lost'' (snd (activateCard activating_services 1 ''4321'' ''oauth'' 501 inactive_world))))
    = trace (snd (activateCard activating_services 1 ''4321'' ''oauth'' 501 inactive_world)) @ [(CallStop
      \<lparr>sc_card_id = js_int 42, sc_customer_id = 501, sc_new_card_status = 3, sc_note = ''lost''\<rparr>, b)]"
proof -
  let ?run = "activateCard activating_services 1 ''4321'' ''oauth'' 501 inactive_world"
  have "fst ?run = Inr activation" by code_simp
  then have run: "?run = (Inr activation, snd ?run)" by (simp add: prod_eq_iff)
  show ?thesis
    using card_number_roundtrip [OF run, of _ card_services "''oauth''" 501 "''lost''"]
    by (auto simp: activation_def replied_def)
qed

end
