(* ===== verification/Login.thy ===== *)
theory Login
  imports Auth
begin

text \<open>
  Login and registration: \<^verbatim>\<open>services/auth.service.ts\<close> over the account calls of
  \<^verbatim>\<open>services/customer.backoffice.service.ts\<close> and \<^verbatim>\<open>services/campaign.backoffice.service.ts\<close>. A login
  refreshes the backoffice session of the user and signs a token that carries it; a registration
  creates the account in the backoffice and stores its profile and session.
\<close>

section \<open>Calls to the backoffice\<close>

text \<open>This call does not go through the shared instance: every failure ends in the same error.\<close>

definition getCustomerConnectionToken :: "'x services \<Rightarrow> connection_request \<Rightarrow> ('x world, backoffice_jwt_data option) op" where
  "getCustomerConnectionToken E loginData =
     remote (CallConnection loginData) (api_connection E loginData)
       (\<lambda>_. mk_error Error ''Error connecting to backoffice system'')"

definition refreshCustomerToken :: "'x services \<Rightarrow> refresh_request \<Rightarrow> ('x world, refresh_response option) op" where
  "refreshCustomerToken E refreshData =
     remote (CallRefresh refreshData) (api_refresh E refreshData) backoffice_error"

definition getSpeiClabe :: "'x services \<Rightarrow> string \<Rightarrow> ('x world, string) op" where
  "getSpeiClabe E customerToken = bindE (remote CallClabe (api_clabe E customerToken) backoffice_error) deref"

definition getUserInfo :: "'x services \<Rightarrow> int \<Rightarrow> ('x world, name_parts option) op" where
  "getUserInfo E customerId = remote (CallUserInfo customerId) (api_user_info E customerId) backoffice_error"

definition assignCustomersToProgram :: "'x services \<Rightarrow> string \<Rightarrow> int list \<Rightarrow> ('x world, assign_customers_payload api_response) op" where
  "assignCustomersToProgram E programCode customerIds =
     remote (CallAssign programCode customerIds) (api_assign E programCode customerIds) backoffice_error"

record create_account_data =
  cad_device_id :: string
  cad_email :: string
  cad_password :: string
  cad_phone :: "string option"
  cad_firstName :: "string option"
  cad_middleName :: "string option"
  cad_lastName :: "string option"
  cad_secondLastName :: "string option"
  cad_gender :: gender
  cad_rfc :: "string option"
  cad_postalCode :: "string option"
  cad_countryCode :: "string option"

primrec gender_str :: "gender \<Rightarrow> string" where
  "gender_str MASCULINO = ''MASCULINO''"
| "gender_str FEMENINO = ''FEMENINO''"

definition gender_value :: "gender \<Rightarrow> string" where
  "gender_value g =
     (if includes_str ''FEM'' (toUpperCase (gender_str g)) then ''1''
      else if includes_str ''MASC'' (toUpperCase (gender_str g)) then ''2'' else ''3'')"

text \<open>The multipart form, as the list of its parts in the order they are appended.\<close>

definition append_if :: "string \<Rightarrow> string option \<Rightarrow> (string \<times> string) list" where
  "append_if name v = (if truthy_str v then [(name, the v)] else [])"

definition account_form :: "config \<Rightarrow> create_account_data \<Rightarrow> (string \<times> string) list" where
  "account_form c d =
     [(''device_id'', cad_device_id d), (''email'', cad_email d), (''password'', cad_password d)]
     @ append_if ''first_name'' (cad_firstName d) @ append_if ''middle_name'' (cad_middleName d)
     @ append_if ''last_name'' (cad_lastName d) @ append_if ''second_last_name'' (cad_secondLastName d)
     @ [(''kyc_level'', ''1''), (''gender'', gender_value (cad_gender d))]
     @ append_if ''mobile'' (cad_phone d) @ append_if ''mobile_country_code'' (cad_countryCode d)
     @ append_if ''rfc'' (cad_rfc d) @ append_if ''zipcode'' (cad_postalCode d)
     @ [(''campaign_id'', cfg_campaignId c), (''credit_line'', cfg_creditLine c)]"

definition createAccountIn123 :: "'x services \<Rightarrow> create_account_data \<Rightarrow> ('x world, account_response) op" where
  "createAccountIn123 E userData =
     (let form = account_form (cfg E) userData in
      remote (CallCreateAccount form) (api_create_account E form) backoffice_error)"

section \<open>Login\<close>

definition extra_login_data :: string where
  "extra_login_data = ''{'' @ [CHR 0x22] @ ''idAuth'' @ [CHR 0x22] @ '':1,'' @ [CHR 0x22] @ ''detail'' @ [CHR 0x22]
     @ '':'' @ [CHR 0x22] @ ''detail of login'' @ [CHR 0x22] @ ''}''"

definition getBackofficeJwtData :: "'x services \<Rightarrow> user_row \<Rightarrow> auth_state_row \<Rightarrow> ('x world, backoffice_jwt_data) op" where
  "getBackofficeJwtData E user authState =
     bindE (ensure (aus_refreshToken authState \<noteq> [] \<and> aus_deviceId authState \<noteq> [])
              (mk_error NotFoundError ''Backoffice authentication state is incomplete'')) (\<lambda>_.
     bindE (refreshCustomerToken E
              \<lparr>rq_customer_refresh_token = aus_refreshToken authState, rq_device_id = aus_deviceId authState,
               rq_ecommerce_token = cfg_ecommerceToken (cfg E), rq_extra_login_data = extra_login_data\<rparr>) (\<lambda>response.
     bindE (deref response) (\<lambda>r.
     bindE (promise_all2
              (updateAuthState E (usr_id user) (\<lambda>a. a\<lparr>aus_lastCustomerOauthToken := Some (rr_oauth_token r),
                 aus_oauthExpirationTimestamp := Some (rr_expiration_timestamp r)\<rparr>))
              (try_catch (updateProfile E (usr_id user) (\<lambda>p. p\<lparr>prof_oauth_token := Some (rr_oauth_token r)\<rparr>))
                 (\<lambda>_. ok ()))) (\<lambda>_.
     ok \<lparr>bj_customer_oauth_token = rr_oauth_token r, bj_expiration_timestamp = rr_expiration_timestamp r,
         bj_customer_refresh_token = aus_refreshToken authState, bj_refresh_expiration_timestamp = [],
         bj_client_state_ret = 9,
         bj_customerId = (case aus_externalCustomerId authState of Some i \<Rightarrow> i | None \<Rightarrow> 0)\<rparr>))))"

definition buildJwtToken :: "'x services \<Rightarrow> string \<Rightarrow> int \<Rightarrow> ('x world, string) op" where
  "buildJwtToken E userEmail userId =
     bindE (findByEmailWithAuthState userEmail) (\<lambda>found.
     bindE (require found (mk_error NotFoundError ''User not found'')) (\<lambda>(user, auth).
     bindE (require auth (mk_error NotFoundError ''Authentication configuration not found'')) (\<lambda>authState.
     bindE (getBackofficeJwtData E user authState) (\<lambda>backofficeData.
     generateToken E \<lparr>jp_user = \<lparr>ju_userId = usr_id user, ju_email = usr_email user, ju_username = usr_completeName user\<rparr>,
                      jp_backoffice = backofficeData\<rparr>))))"

definition buildSuccessfulLoginResponse :: "'x services \<Rightarrow> string \<Rightarrow> int \<Rightarrow> ('x world, string) op" where
  "buildSuccessfulLoginResponse E userEmail userId =
     bindE (buildJwtToken E userEmail userId) (\<lambda>token.
     bindE (now E) (\<lambda>t.
     bindE (updateLastLogin userId t) (\<lambda>_. ok token)))"

definition loginByEmailPassword :: "'x services \<Rightarrow> string \<Rightarrow> string \<Rightarrow> ('x world, string) op" where
  "loginByEmailPassword E email password =
     bindE (findByEmail email) (\<lambda>found.
     bindE (require found (mk_error UnauthorizedError ''Invalid credentials'')) (\<lambda>user.
     bindE (ensure (password = usr_password user) (mk_error UnauthorizedError ''Invalid credentials'')) (\<lambda>_.
     buildSuccessfulLoginResponse E (usr_email user) (usr_id user))))"

definition loginByBiometric :: "'x services \<Rightarrow> biometric_verify_request \<Rightarrow> ('x world, string) op" where
  "loginByBiometric E biometricData =
     bindE (verifyChallenge E biometricData) (\<lambda>userId.
     bindE (findById userId) (\<lambda>found.
     bindE (require found (mk_error NotFoundError ''User not found'')) (\<lambda>user.
     buildSuccessfulLoginResponse E (usr_email user) (usr_id user))))"

definition login :: "'x services \<Rightarrow> login_request \<Rightarrow> ('x world, string) op" where
  "login E loginData = (case loginData of
       ByBiometric q \<Rightarrow> loginByBiometric E q
     | ByPassword email password \<Rightarrow> loginByEmailPassword E email password)"

definition initializeCustomerConnectionToken :: "'x services \<Rightarrow> user_row \<Rightarrow> auth_state_row \<Rightarrow> int \<Rightarrow> ('x world, backoffice_jwt_data) op" where
  "initializeCustomerConnectionToken E user authState fallbackUserId =
     bindE (getCustomerConnectionToken E
       \<lparr>cr_client_state = 9,
        cr_customer_id = (case aus_externalCustomerId authState of Some i \<Rightarrow> i | None \<Rightarrow> fallbackUserId),
        cr_customer_private_key = aus_privateKey authState, cr_customer_refresh_token = aus_refreshToken authState,
        cr_device_id = aus_deviceId authState, cr_ecommerce_token = cfg_ecommerceToken (cfg E),
        cr_extra_login_data = extra_login_data\<rparr>) (\<lambda>response.
     bindE (deref response) (\<lambda>r.
     bindE (updateAuthState E (usr_id user) (\<lambda>a. a\<lparr>aus_refreshToken := bj_customer_refresh_token r,
              aus_lastCustomerOauthToken := Some (bj_customer_oauth_token r),
              aus_oauthExpirationTimestamp := Some (bj_expiration_timestamp r),
              aus_refreshExpirationTimestamp := Some (bj_refresh_expiration_timestamp r)\<rparr>)) (\<lambda>_.
     bindE (try_catch (updateProfile E (usr_id user) (\<lambda>p. p\<lparr>prof_oauth_token := Some (bj_customer_oauth_token r),
              prof_refresh_token := Some (bj_customer_refresh_token r)\<rparr>)) (\<lambda>_. ok ())) (\<lambda>_.
     ok (r\<lparr>bj_customerId := (case aus_externalCustomerId authState of Some i \<Rightarrow> i | None \<Rightarrow> 0)\<rparr>)))))"

section \<open>Registration\<close>

definition generateDeviceId :: "'x services \<Rightarrow> ('x world, string) op" where
  "generateDeviceId E =
     bindE (now E) (\<lambda>t. bindE (service (random_unit E)) (\<lambda>r.
     ok (''device_'' @ string_of_int t @ ''_'' @ take 9 (drop 2 (base36_fraction E r)))))"

definition account_data_for :: "user_row \<Rightarrow> string \<Rightarrow> string \<Rightarrow> create_account_data" where
  "account_data_for user deviceId password =
     \<lparr>cad_device_id = deviceId, cad_email = usr_email user, cad_password = password, cad_phone = usr_phone user,
      cad_firstName = usr_firstName user, cad_middleName = None, cad_lastName = usr_lastName user,
      cad_secondLastName = usr_secondLastName user, cad_gender = usr_gender user, cad_rfc = usr_rfc user,
      cad_postalCode = usr_postalCode user, cad_countryCode = usr_countryCode user\<rparr>"

text \<open>The columns of the profile that are copied from the answer, each with the property it is copied from.\<close>

definition profile_columns :: "(string \<times> string) list" where
  "profile_columns =
     [(''first_name'', ''first_name''), (''last_name'', ''last_name''), (''second_last_name'', ''second_last_name''),
      (''gender'', ''gender''), (''gender_string'', ''gender_string''), (''rfc'', ''rfc''), (''zipcode'', ''zipcode''),
      (''ewallet_status'', ''ewallet_status''), (''account_level'', ''account_level''),
      (''account_status'', ''account_status''), (''account_status_string'', ''account_status_string''),
      (''address'', ''address''), (''address_document_back'', ''address_document_back''),
      (''address_document_back_url'', ''address_document_back_url''),
      (''address_document_front'', ''address_document_front''),
      (''address_document_front_url'', ''address_document_front_url''),
      (''address_document_type'', ''address_document_type''),
      (''are_account_resources_of_user'', ''are_account_resources_of_user''),
      (''business_name'', ''business_name''), (''business_purpose'', ''business_purpose''), (''ciabe'', ''clabe''),
      (''city'', ''city''), (''colony'', ''colony''), (''constitution_date'', ''constitution_date''),
      (''correspondence_address'', ''correspondence_address''), (''country_of_birth'', ''country_of_birth''),
      (''date_of_birth'', ''date_of_birth''), (''ecommerce_id'', ''ecommerce_id''), (''exterior'', ''exterior''),
      (''identification_document_back'', ''identification_document_back''),
      (''identification_document_back_url'', ''identification_document_back_url''),
      (''identification_document_front'', ''identification_document_front''),
      (''identification_document_front_url'', ''identification_document_front_url''),
      (''identification_document_type'', ''identification_document_type''), (''interior'', ''interior''),
      (''is_business'', ''is_business''), (''mobile_country_code'', ''mobile_country_code''),
      (''nationality_id'', ''nationality_id''), (''occupation_id'', ''occupation_id''),
      (''person_type'', ''person_type''), (''risk_level'', ''risk_level''), (''society_type'', ''society_type''),
      (''selfie'', ''selfie''), (''selfie_url'', ''selfie_url''), (''state_id'', ''state_id''), (''street'', ''street''),
      (''telephone'', ''telephone'')]"

definition profile_details :: "account_response \<Rightarrow> (string \<times> json option) list" where
  "profile_details a = map (\<lambda>(column, property). (column, acr_property a property)) profile_columns"

text \<open>In an update a column whose value is \<^verbatim>\<open>undefined\<close> keeps what it has.\<close>

definition merge_details :: "(string \<times> json option) list \<Rightarrow> (string \<times> json option) list \<Rightarrow> (string \<times> json option) list" where
  "merge_details old new = map (\<lambda>(column, v). (column, case v of Some j \<Rightarrow> Some j | None \<Rightarrow>
     (case map_of old column of Some u \<Rightarrow> u | None \<Rightarrow> None))) new"

definition orElse :: "'a option \<Rightarrow> 'a option \<Rightarrow> 'a option" where
  "orElse x y = (case x of Some a \<Rightarrow> Some a | None \<Rightarrow> y)"

definition store_profile :: "'x services \<Rightarrow> int \<Rightarrow> int \<Rightarrow> int \<Rightarrow> account_response \<Rightarrow> ('x world, unit) op" where
  "store_profile E userId customerId ewalletId a =
     upsertProfile E userId
       \<lparr>prof_userId = userId, prof_external_customer_id = Some customerId, prof_ewallet_id = Some ewalletId,
        prof_oauth_token = acr_oauth_token a, prof_refresh_token = acr_refresh_token a,
        prof_private_key = acr_private_key a, prof_email = acr_email a,
        prof_mobile = Some (js_string_opt (acr_mobile a)), prof_details = profile_details a, prof_updatedAt = 0\<rparr>
       (\<lambda>p. p\<lparr>prof_external_customer_id := Some customerId, prof_ewallet_id := Some ewalletId,
          prof_oauth_token := orElse (acr_oauth_token a) (prof_oauth_token p),
          prof_refresh_token := orElse (acr_refresh_token a) (prof_refresh_token p),
          prof_private_key := orElse (acr_private_key a) (prof_private_key p),
          prof_email := orElse (acr_email a) (prof_email p),
          prof_mobile := Some (js_string_opt (acr_mobile a)),
          prof_details := merge_details (prof_details p) (profile_details a)\<rparr>)"

definition session_text :: "account_response \<Rightarrow> string" where
  "session_text a = stringify_props
     [(''email'', map_option Some (acr_email a)), (''mobile'', Some (Some (js_string_opt (acr_mobile a))))]"

text \<open>
  The private key and the refresh token are required columns: an answer without them is refused
  by the database client.
\<close>

definition store_session :: "'x services \<Rightarrow> int \<Rightarrow> int \<Rightarrow> int \<Rightarrow> string \<Rightarrow> account_response \<Rightarrow> ('x world, unit) op" where
  "store_session E userId customerId ewalletId deviceId a =
     bindE (require (acr_private_key a) prisma_validation) (\<lambda>privateKey.
     bindE (require (acr_refresh_token a) prisma_validation) (\<lambda>refreshTok.
     upsertAuthState E userId
       \<lparr>aus_userId = userId, aus_clientState = 9, aus_deviceId = deviceId, aus_privateKey = privateKey,
        aus_refreshToken = refreshTok, aus_extraLoginData = Some (session_text a),
        aus_lastCustomerOauthToken = acr_oauth_token a, aus_oauthExpirationTimestamp = None,
        aus_refreshExpirationTimestamp = None, aus_externalCustomerId = Some customerId,
        aus_ewalletId = Some ewalletId, aus_updatedAt = 0\<rparr>
       (\<lambda>s. s\<lparr>aus_clientState := 9, aus_deviceId := deviceId, aus_privateKey := privateKey,
          aus_refreshToken := refreshTok, aus_extraLoginData := Some (session_text a),
          aus_lastCustomerOauthToken := orElse (acr_oauth_token a) (aus_lastCustomerOauthToken s),
          aus_externalCustomerId := Some customerId, aus_ewalletId := Some ewalletId\<rparr>)))"

definition registerByEmail :: "'x services \<Rightarrow> string \<Rightarrow> ('x world, string \<times> bool) op" where
  "registerByEmail E email =
     bindE (findByEmailWithAuthState email) (\<lambda>found.
     bindE (require found (mk_error NotFoundError ''User not found. Complete registration first.'')) (\<lambda>(user, auth).
     if auth \<noteq> None then ok (usr_email user, False)
     else
       bindE (service (hash_password E (usr_password user))) (\<lambda>hashed.
       bindE (generateDeviceId E) (\<lambda>deviceId.
       bindE (createAccountIn123 E (account_data_for user deviceId hashed)) (\<lambda>account.
       bindE (from_sum (prisma_int (parseInt (js_string_opt (acr_id account))))) (\<lambda>customerId.
       bindE (from_sum (prisma_int (parseInt (js_string_opt (acr_ewallet_id account))))) (\<lambda>ewalletId.
       bindE (store_profile E (usr_id user) customerId ewalletId account) (\<lambda>_.
       bindE (store_session E (usr_id user) customerId ewalletId deviceId account) (\<lambda>_.
       bindE (assignCustomersToProgram E (cfg_programCode (cfg E)) [customerId]) (\<lambda>_.
       ok (usr_email user, True)))))))))))"

end
