(* ===== verification/AuthProps.thy ===== *)
theory AuthProps
  imports Login Samples
begin

text \<open>
  What authentication promises: a challenge opens one session at most, a token names the user who
  proved who they are, the middleware reads back what the login signed, and what becomes of a
  registration that fails half way.
\<close>

section \<open>Challenges are used once\<close>

text \<open>The requests that reach the challenges.\<close>

datatype auth_event =
    Enroll int biometric_enroll_request
  | Challenge string
  | Login login_request
  | Register string

primrec auth_step :: "'x services \<Rightarrow> auth_event \<Rightarrow> 'x world \<Rightarrow> 'x world" where
  "auth_step E (Enroll u dto) w = snd (enroll u dto w)"
| "auth_step E (Challenge d) w = snd (createChallenge E d w)"
| "auth_step E (Login q) w = snd (login E q w)"
| "auth_step E (Register email) w = snd (registerByEmail E email w)"

definition spent :: "string \<Rightarrow> 'x world \<Rightarrow> bool" where
  "spent k w \<longleftrightarrow> (case find_row (\<lambda>c. lc_id c = k) (loginChallenges w) of None \<Rightarrow> False | Some c \<Rightarrow> lc_used_at c \<noteq> None)"

lemma spent_cong: "loginChallenges w' = loginChallenges w \<Longrightarrow> spent k w' = spent k w"
  by (simp add: spent_def)

lemma spent_frame [simp]:
  "spent k (w\<lparr>ext := x\<rparr>) = spent k w" "spent k (w\<lparr>ext := x, trace := t\<rparr>) = spent k w"
  "spent k (w\<lparr>users := us\<rparr>) = spent k w" "spent k (w\<lparr>profiles := ps\<rparr>) = spent k w"
  "spent k (w\<lparr>authStates := as\<rparr>) = spent k w" "spent k (w\<lparr>deviceCredentials := ds\<rparr>) = spent k w"
  by (rule spent_cong; simp)+

lemma spent_service: "keeps (spent k) (service f)" "keeps (spent k) (now E)" "keeps (spent k) (remote c g h)"
  by (intro keeps_service keeps_now keeps_remote; simp)+

lemmas spent_intros = keeps_intros keeps_modify spent_service

lemma spent_insert:
  "spent k w \<Longrightarrow> spent k (w\<lparr>loginChallenges := insert_row c (loginChallenges w)\<rparr>)"
  by (simp add: spent_def find_row_insert split: option.splits)

lemma spent_mark:
  "spent k w \<or> i = k \<and> exists_row (\<lambda>c. lc_id c = k) (loginChallenges w) \<Longrightarrow>
   spent k (w\<lparr>loginChallenges := update_rows (\<lambda>c. lc_id c = i) (\<lambda>c. c\<lparr>lc_used_at := Some t\<rparr>) (loginChallenges w)\<rparr>)"
  using find_row_update_other [of "\<lambda>c. lc_id c = i" "\<lambda>c. lc_id c = k" "\<lambda>c. c\<lparr>lc_used_at := Some t\<rparr>" "loginChallenges w"]
    find_row_update_same [of "\<lambda>c. lc_id c = k" "\<lambda>c. c\<lparr>lc_used_at := Some t\<rparr>" "loginChallenges w"]
  by (cases "i = k") (auto simp: spent_def exists_row_iff split: option.splits)

lemma spent_enroll: "keeps (spent k) (enroll u dto)"
  unfolding enroll_def upsertCredential_def by (intro spent_intros) simp

lemma spent_createChallenge: "keeps (spent k) (createChallenge E d)"
  unfolding createChallenge_def findActiveByDeviceId_def LoginChallengesRepository_createChallenge_def
  by (intro spent_intros spent_insert)

lemma spent_markUsed: "keeps (spent k) (markUsed E i)"
  unfolding markUsed_def by (intro spent_intros spent_mark) simp

lemma spent_touch: "keeps (spent k) (touchLastUsed E d)"
  unfolding touchLastUsed_def by (intro spent_intros) simp

lemma spent_verify: "keeps (spent k) (verifyChallenge E q)"
  unfolding verifyChallenge_def LoginChallengesRepository_findById_def findActiveByDeviceId_def
    verifyEs256JwkSignature_def prismaJsonToNodeJwk_def
  by (intro spent_intros spent_markUsed spent_touch)

lemma spent_success: "keeps (spent k) (buildSuccessfulLoginResponse E email u)"
  unfolding buildSuccessfulLoginResponse_def buildJwtToken_def findByEmailWithAuthState_def getBackofficeJwtData_def
    refreshCustomerToken_def updateAuthState_def updateProfile_def findProfileByUserId_def generateToken_def
    updateLastLogin_def updateUser_row_def
  by (intro spent_intros) simp_all

lemma spent_login: "keeps (spent k) (login E q)"
  unfolding login_def loginByBiometric_def loginByEmailPassword_def findById_def findByEmail_def
  by (cases q) (simp, intro spent_intros spent_success spent_verify)+

lemma spent_register: "keeps (spent k) (registerByEmail E email)"
  unfolding registerByEmail_def findByEmailWithAuthState_def generateDeviceId_def createAccountIn123_def store_profile_def
    store_session_def upsertProfile_def upsertAuthState_def findProfileByUserId_def assignCustomersToProgram_def Let_def
  by (intro spent_intros) simp_all

text \<open>A verification that passes spends the challenge, and one of a spent challenge fails.\<close>

lemma verify_spends: "spec (\<lambda>_. True) (verifyChallenge E q) (\<lambda>_. spent (bv_challengeId q)) (\<lambda>_ _. True)"
proof -
  have mark: "spec (\<lambda>_. True) (markUsed E i) (\<lambda>_. spent i) (\<lambda>_ _. True)" for i
    by (rule specI) (auto simp: markUsed_def bindE_def now_run ensure_run intro: spent_mark [of _ "w\<lparr>ext := x\<rparr>" for w x, simplified])
  have rest: "spec (spent i) (bindE (touchLastUsed E d) (\<lambda>_. ok u)) (\<lambda>_. spent i) (\<lambda>_ _. True)" for i d u
    by (rule spec_bindE [where Q' = "\<lambda>_. spent i"], rule spec_post, rule spec_keeps [OF spent_touch]) (auto intro: spec_ok)
  have skip: "(\<And>a. spec (\<lambda>_. True) (f a) Q (\<lambda>_ _. True)) \<Longrightarrow> spec (\<lambda>_. True) (bindE m f) Q (\<lambda>_ _. True)"
    for m :: "('a world, 'b) op" and f and Q :: "int \<Rightarrow> 'a world \<Rightarrow> bool"
    by (rule spec_bindE [where Q' = "\<lambda>_ _. True"]) (simp_all add: spec_def split: prod.split sum.split)
  show ?thesis
    unfolding verifyChallenge_def by (rule spec_bindE [OF mark rest] | rule skip)+
qed

lemma spent_refused: "spent (bv_challengeId q) w \<Longrightarrow> isl (fst (verifyChallenge E q w))"
  by (auto simp: verifyChallenge_def LoginChallengesRepository_findById_def spent_def bindE_def require_run ensure_run
      split: option.splits)

text \<open>The run of the requests together with the number of sessions the challenge opened.\<close>

definition opens :: "'x services \<Rightarrow> string \<Rightarrow> auth_event \<Rightarrow> 'x world \<Rightarrow> bool" where
  "opens E k ev w = (case ev of
       Login q \<Rightarrow> (case q of ByBiometric b \<Rightarrow> bv_challengeId b = k \<and> \<not> isl (fst (login E q w)) | _ \<Rightarrow> False)
     | _ \<Rightarrow> False)"

definition counted_step :: "'x services \<Rightarrow> string \<Rightarrow> auth_event \<Rightarrow> 'x world \<times> nat \<Rightarrow> 'x world \<times> nat" where
  "counted_step E k ev = (\<lambda>(w, n). (auth_step E ev w, if opens E k ev w then Suc n else n))"

lemma spent_step: "spent k w \<Longrightarrow> spent k (auth_step E ev w)"
  by (cases ev) (simp_all add: spent_enroll spent_createChallenge spent_login spent_register keepsD)

lemma spent_opens: "spent k w \<Longrightarrow> \<not> opens E k ev w"
  using spent_refused [of _ w E]
  by (auto simp: opens_def login_def loginByBiometric_def bindE_def split: auth_event.split login_request.split prod.splits sum.splits)
     (metis fst_conv isl_def sum.distinct(1))

lemma opens_spends:
  assumes "opens E k ev w"
  shows "spent k (auth_step E ev w)"
proof -
  from assms obtain b where ev: "ev = Login (ByBiometric b)" "bv_challengeId b = k"
    and s: "\<not> isl (fst (loginByBiometric E b w))"
    by (auto simp: opens_def login_def split: auth_event.splits login_request.splits)
  from s obtain u w' where v: "verifyChallenge E b w = (Inr u, w')"
    by (auto simp: loginByBiometric_def bindE_def split: prod.splits sum.splits)
  with specD [OF verify_spends [of E b], of w] ev(2) have "spent k w'" by simp
  moreover have "keeps (spent k) (bindE (findById u) (\<lambda>found.
     bindE (require found (mk_error NotFoundError ''User not found'')) (\<lambda>user.
     buildSuccessfulLoginResponse E (usr_email user) (usr_id user))))"
    unfolding findById_def by (intro spent_intros spent_success)
  ultimately show ?thesis
    using v ev(1) by (simp add: login_def loginByBiometric_def bindE_ok keepsD)
qed

interpretation challenge_once: at_most_once "counted_step E k" "\<lambda>_. True" "\<lambda>s. spent k (fst s)" snd
  for E :: "'x services" and k
  by unfold_locales (auto simp: counted_step_def spent_step spent_opens opens_spends split: if_splits)

text \<open>
  C4: A login challenge opens at most one session. Whatever enrolments, new challenges, logins and
  registrations are made, in any order and however often the same signed challenge is replayed, at
  most one biometric login with a given challenge is answered with a token.
\<close>

theorem biometric_single_use:
  fixes E :: "'x services" and w :: "'x world"
  shows "snd (fold (counted_step E k) evs (w, 0)) \<le> 1"
  using challenge_once.count_run [where s = "(w, 0)" and E = E and k = k] by simp

section \<open>A token names who logged in\<close>

text \<open>What a login request has to show to be taken for the user with an id.\<close>

fun proves :: "'x services \<Rightarrow> login_request \<Rightarrow> int \<Rightarrow> 'x world \<Rightarrow> bool" where
  "proves E (ByPassword email password) u w =
     (case find_row (\<lambda>r. usr_email r = email) (users w) of None \<Rightarrow> False
      | Some r \<Rightarrow> usr_password r = password \<and> usr_id r = u)"
| "proves E (ByBiometric b) u w =
     (case find_row (\<lambda>c. lc_id c = bv_challengeId b) (loginChallenges w) of None \<Rightarrow> False
      | Some c \<Rightarrow> lc_device_id c = bv_deviceId b \<and> lc_used_at c = None \<and> fst (clock E (ext w)) \<le> lc_expires_at c \<and>
          (case find_row (\<lambda>d. dc_device_id d = bv_deviceId b \<and> dc_revoked_at d = None) (deviceCredentials w) of None \<Rightarrow> False
           | Some d \<Rightarrow> es256_verify E (dc_public_key_json d) (lc_challenge c) (bv_signature b) = Inr True \<and> dc_user_id d = u))"

definition signed_for :: "'x services \<Rightarrow> int \<Rightarrow> string \<Rightarrow> bool" where
  "signed_for E u token \<longleftrightarrow>
     (\<exists>p x. ju_userId (jp_user p) = u \<and> fst (jwt_sign E p (cfg_jwtSecret (cfg E)) ''24h'' x) = Inr token)"

lemma signed_forI:
  "fst (jwt_sign E p (cfg_jwtSecret (cfg E)) ''24h'' x) = Inr token \<Longrightarrow> signed_for E (ju_userId (jp_user p)) token"
  by (auto simp: signed_for_def)

lemma generateToken_signs:
  "generateToken E p w = (Inr token, w') \<Longrightarrow> fst (jwt_sign E p (cfg_jwtSecret (cfg E)) ''24h'' (ext w)) = Inr token"
  by (cases "fst (jwt_sign E p (cfg_jwtSecret (cfg E)) ''24h'' (ext w))")
     (auto simp: generateToken_def bindE_Inr_iff service_run)

lemma success_token:
  assumes "buildSuccessfulLoginResponse E email i w = (Inr token, w')"
  shows "\<exists>r. find_row (\<lambda>r. usr_email r = email) (users w) = Some r \<and> signed_for E (usr_id r) token"
  using assms
  by (auto simp: buildSuccessfulLoginResponse_def buildJwtToken_def findByEmailWithAuthState_def
      bindE_Inr_iff require_run dest!: generateToken_signs [THEN signed_forI] split: option.splits)

abbreviation users_are :: "user_row table \<Rightarrow> 'x world \<Rightarrow> bool" where
  "users_are t w \<equiv> users w = t"

lemma users_verify: "keeps (users_are t) (verifyChallenge E q)"
  unfolding verifyChallenge_def LoginChallengesRepository_findById_def findActiveByDeviceId_def
    verifyEs256JwkSignature_def prismaJsonToNodeJwk_def markUsed_def touchLastUsed_def
  by (intro keeps_intros keeps_modify keeps_now; simp)

lemma verify_proves:
  assumes "verifyChallenge E b w = (Inr u, w')"
  shows "proves E (ByBiometric b) u w"
  using assms
  by (auto simp: verifyChallenge_def LoginChallengesRepository_findById_def findActiveByDeviceId_def
      verifyEs256JwkSignature_def prismaJsonToNodeJwk_def bindE_Inr_iff require_run ensure_run now_run
      split: option.splits sum.splits if_splits)

lemma login_proves:
  assumes "distinct (map usr_email (rows (users w)))" and "login E q w = (Inr token, w')"
  shows "\<exists>u. proves E q u w \<and> signed_for E u token"
proof (cases q)
  case (ByPassword email password)
  with assms(2) obtain r where r: "find_row (\<lambda>r. usr_email r = email) (users w) = Some r" "usr_password r = password"
    and s: "buildSuccessfulLoginResponse E (usr_email r) (usr_id r) w = (Inr token, w')"
    by (auto simp: login_def loginByEmailPassword_def findByEmail_def bindE_Inr_iff require_run ensure_run
        split: option.splits if_splits)
  have "usr_email r = email" using find_row_mem [OF r(1)] by simp
  with success_token [OF s] r ByPassword show ?thesis by auto
next
  case (ByBiometric b)
  with assms(2) obtain u w1 r where v: "verifyChallenge E b w = (Inr u, w1)"
    and r: "find_row (\<lambda>r. usr_id r = u) (users w1) = Some r"
    and s: "buildSuccessfulLoginResponse E (usr_email r) (usr_id r) w1 = (Inr token, w')"
    by (auto simp: login_def loginByBiometric_def findById_def bindE_Inr_iff require_run split: option.splits)
  have us: "users w1 = users w" using keepsD_run [OF users_verify _ v] by simp
  from r have r': "r \<in> set (rows (users w))" "usr_id r = u" using us by (auto dest: find_row_mem)
  obtain r2 where r2: "find_row (\<lambda>q. usr_email q = usr_email r) (users w) = Some r2" "signed_for E (usr_id r2) token"
    using success_token [OF s] us by auto
  have "r2 = r" using find_row_mem [OF r2(1)] r'(1) assms(1) by (auto simp: distinct_map inj_on_def)
  with r2(2) r'(2) verify_proves [OF v] ByBiometric show ?thesis by auto
qed

text \<open>The sample: a backoffice that refreshes the session, and a signer that knows one payload.\<close>

definition ana_payload :: jwt_payload where
  "ana_payload =
     \<lparr>jp_user = \<lparr>ju_userId = 1, ju_email = ''ana@x'', ju_username = Some ''Ana Paz''\<rparr>,
      jp_backoffice = \<lparr>bj_customer_oauth_token = ''oauth'', bj_expiration_timestamp = ''later'',
        bj_customer_refresh_token = ''refresh'', bj_refresh_expiration_timestamp = [],
        bj_client_state_ret = 9, bj_customerId = 501\<rparr>\<rparr>"

definition auth_services :: "int services" where
  "auth_services = sample_services
     \<lparr>api_refresh := (\<lambda>q x. (Inr (Some \<lparr>rr_oauth_token = ''oauth'', rr_expiration_timestamp = ''later''\<rparr>), x)),
      jwt_sign := (\<lambda>p s e x. (if p = ana_payload then Inr ''a.b.c'' else Inl (), x)),
      jwt_verify := (\<lambda>t s x. (if t = ''a.b.c'' then Inr ana_payload else Inl TokenInvalid, x))\<rparr>"

definition auth_world :: "int world" where
  "auth_world = sample_world
     \<lparr>deviceCredentials := table_of [\<lparr>dc_user_id = 1, dc_device_id = ''phone'', dc_public_key_json = JObj [(''kty'', JStr ''EC'')],
        dc_algorithm = ''ES256'', dc_revoked_at = None, dc_last_used_at = None\<rparr>],
      loginChallenges := table_of [\<lparr>lc_id = ''c1'', lc_device_id = ''phone'', lc_challenge = ''xyz'', lc_expires_at = 90000, lc_used_at = None\<rparr>]\<rparr>"

definition ana_login :: login_request where
  "ana_login = ByBiometric \<lparr>bv_deviceId = ''phone'', bv_challengeId = ''c1'', bv_signature = ''sig:xyz''\<rparr>"

lemma ana_login_run: "login auth_services ana_login auth_world = (Inr ''a.b.c'', snd (login auth_services ana_login auth_world))"
  by (rule prod_eqI) (simp_all, code_simp)

text \<open>
  C6: A login that answers with a token has checked the user, and the token names that user: with
  a password, the user with the email and exactly that password; with a signed challenge, the user
  who enrolled the device, provided the challenge was issued to the device, was unused and not
  expired, and the signature verifies under the device's active key.
\<close>

theorem login_identifies:
  fixes E :: "'x services" and w :: "'x world"
  assumes "distinct (map usr_email (rows (users w)))" and "login E q w = (Inr token, w')"
  shows "\<exists>u. proves E q u w \<and> signed_for E u token"
  using assms by (rule login_proves)

theorem login_identifies_witness: "\<exists>u. proves auth_services ana_login u auth_world \<and> signed_for auth_services u ''a.b.c''"
  by (rule login_identifies [OF _ ana_login_run]) code_simp

section \<open>The token on later requests\<close>

text \<open>
  What the token library documents: a token is a non-empty text without blanks, and verifying it
  under the secret it was signed with yields its payload, or that it has expired.
\<close>

definition jwt_law :: "'x services \<Rightarrow> bool" where
  "jwt_law E \<longleftrightarrow> (\<forall>p x t. fst (jwt_sign E p (cfg_jwtSecret (cfg E)) ''24h'' x) = Inr t \<longrightarrow>
     t \<noteq> [] \<and> CHR '' '' \<notin> set t \<and>
     (\<forall>y. fst (jwt_verify E t (cfg_jwtSecret (cfg E)) y) \<in> {Inr p, Inl TokenExpired}))"

lemma split_plain: "c \<notin> set t \<Longrightarrow> split_on c t = [t]"
  by (induction t) auto

lemma split_bearer: "CHR '' '' \<notin> set t \<Longrightarrow> split_on CHR '' '' (''Bearer '' @ t) = [''Bearer'', t]"
  by (simp add: split_plain)

text \<open>
  C12: The middleware reads back what the login signed. The token of a successful login, sent in a
  \<^verbatim>\<open>Bearer\<close> header with any later request, makes the middleware act for exactly the user who
  proved who they are, or answer 401 once the token has expired; it is never refused otherwise and
  never taken for another user.
\<close>

theorem token_roundtrip:
  fixes E :: "'x services" and w w2 :: "'x world"
  assumes "jwt_law E" and "distinct (map usr_email (rows (users w)))" and "login E q w = (Inr token, w')"
  shows "\<exists>p. proves E q (ju_userId (jp_user p)) w \<and>
    fst (authenticateToken E (Some (''Bearer '' @ token)) w2) \<in> {Inr (Inr p), Inr (Inl (401, ''Token expirado''))}"
proof -
  from login_proves [OF assms(2,3)] obtain p x where p: "proves E q (ju_userId (jp_user p)) w"
    and "fst (jwt_sign E p (cfg_jwtSecret (cfg E)) ''24h'' x) = Inr token"
    by (auto simp: signed_for_def)
  with assms(1) have t: "token \<noteq> []" "CHR '' '' \<notin> set token"
    "fst (jwt_verify E token (cfg_jwtSecret (cfg E)) y) \<in> {Inr p, Inl TokenExpired}" for y
    unfolding jwt_law_def by blast+
  have "fst (authenticateToken E (Some (''Bearer '' @ token)) w2) \<in> {Inr (Inr p), Inr (Inl (401, ''Token expirado''))}"
    unfolding authenticateToken_def option.case split_bearer [OF t(2)]
    using t(1) t(3) [of "ext w2"]
    by (auto simp: verifyToken_def truthy_str_def try_catch_def bindE_def service_run token_expired_def)
  with p show ?thesis by blast
qed

theorem token_roundtrip_witness:
  "\<exists>p. proves auth_services ana_login (ju_userId (jp_user p)) auth_world \<and>
    fst (authenticateToken auth_services (Some ''Bearer a.b.c'') auth_world) \<in> {Inr (Inr p), Inr (Inl (401, ''Token expirado''))}"
proof -
  have "jwt_law auth_services" by (auto simp: jwt_law_def auth_services_def)
  moreover have "distinct (map usr_email (rows (users auth_world)))" by code_simp
  ultimately show ?thesis using token_roundtrip [OF _ _ ana_login_run, of auth_world] by simp
qed

section \<open>A registration that fails half way\<close>

text \<open>No call to the program has been made.\<close>

definition unassigned :: "'x world \<Rightarrow> bool" where
  "unassigned w \<longleftrightarrow> (\<forall>p cs b. (CallAssign p cs, b) \<notin> set (trace w))"

text \<open>The session of a user is stored.\<close>

definition enrolled :: "user_row table \<Rightarrow> int \<Rightarrow> 'x world \<Rightarrow> bool" where
  "enrolled us u w \<longleftrightarrow> users w = us \<and> exists_row (\<lambda>a. aus_userId a = u) (authStates w)"

definition before_session :: "user_row table \<Rightarrow> 'x world \<Rightarrow> bool" where
  "before_session us w \<longleftrightarrow> users w = us \<and> unassigned w"

lemma before_frame [simp]:
  "before_session us (w\<lparr>ext := x\<rparr>) = before_session us w" "before_session us (w\<lparr>profiles := ps\<rparr>) = before_session us w"
  by (simp_all add: before_session_def unassigned_def)

lemma before_env: "keeps (before_session us) (service f)" "keeps (before_session us) (now E)"
  by (intro keeps_service keeps_now; simp)+

lemma before_device: "keeps (before_session us) (generateDeviceId E)"
  unfolding generateDeviceId_def by (intro keeps_intros before_env)

lemma before_account: "keeps (before_session us) (createAccountIn123 E d)"
  unfolding createAccountIn123_def Let_def by (rule keeps_remote) (auto simp: before_session_def unassigned_def)

lemma before_profile: "keeps (before_session us) (store_profile E u c i a)"
  unfolding store_profile_def upsertProfile_def findProfileByUserId_def
  by (intro keeps_intros keeps_modify before_env) simp_all

lemma before_store: "spec (before_session us) (store_session E u c i d a) (\<lambda>_. enrolled us u) (\<lambda>_. before_session us)"
  by (rule specI)
     (auto simp: store_session_def upsertAuthState_def bindE_def require_run ensure_run now_run before_session_def unassigned_def
        enrolled_def exists_row_iff find_row_insert find_row_update_same split: option.splits)

lemma enrolled_assign: "keeps (enrolled us u) (assignCustomersToProgram E p cs)"
  unfolding assignCustomersToProgram_def by (rule keeps_remote) (simp add: enrolled_def)

lemma register_stores:
  assumes "find_row (\<lambda>r. usr_email r = email) us = Some r"
  shows "spec (\<lambda>w. before_session us w \<and> find_row (\<lambda>a. aus_userId a = usr_id r) (authStates w) = None)
    (registerByEmail E email) (\<lambda>_. enrolled us (usr_id r)) (\<lambda>_ w. before_session us w \<or> enrolled us (usr_id r) w)"
    (is "spec ?P _ ?Q ?R")
proof -
  have step: "keeps (before_session us) m \<Longrightarrow> (\<And>a. spec (before_session us) (f a) ?Q ?R) \<Longrightarrow>
      spec (before_session us) (bindE m f) ?Q ?R" for m :: "('a world, 'b) op" and f
    by (rule spec_step [OF spec_keeps]) auto
  have last: "spec (enrolled us (usr_id r)) (bindE (assignCustomersToProgram E p cs) (\<lambda>_. ok v)) ?Q ?R" for p cs v
    by (rule spec_step [OF spec_keeps [OF enrolled_assign]]) (auto intro: spec_ok)
  have stored: "spec (before_session us) (bindE (store_session E (usr_id r) c i d a) (\<lambda>_.
      bindE (assignCustomersToProgram E p cs) (\<lambda>_. ok v))) ?Q ?R" for c i d a p cs v
    by (rule spec_step [OF before_store]) (auto intro: last)
  let ?rest = "bindE (service (hash_password E (usr_password r))) (\<lambda>hashed.
       bindE (generateDeviceId E) (\<lambda>deviceId.
       bindE (createAccountIn123 E (account_data_for r deviceId hashed)) (\<lambda>account.
       bindE (from_sum (prisma_int (parseInt (js_string_opt (acr_id account))))) (\<lambda>customerId.
       bindE (from_sum (prisma_int (parseInt (js_string_opt (acr_ewallet_id account))))) (\<lambda>ewalletId.
       bindE (store_profile E (usr_id r) customerId ewalletId account) (\<lambda>_.
       bindE (store_session E (usr_id r) customerId ewalletId deviceId account) (\<lambda>_.
       bindE (assignCustomersToProgram E (cfg_programCode (cfg E)) [customerId]) (\<lambda>_.
       ok (usr_email r, True)))))))))"
  have "spec (before_session us) ?rest ?Q ?R"
    by (rule stored step before_env before_device before_account before_profile keeps_from_sum)+
  moreover have "registerByEmail E email w = ?rest w" if "?P w" for w
    using that assms by (simp add: registerByEmail_def findByEmailWithAuthState_def bindE_def require_run before_session_def)
  ultimately show ?thesis by (simp add: spec_def)
qed

text \<open>
  C33: A registration whose last step fails is never completed. When the backoffice refuses to
  assign the new customer to the program, the registration fails, but the session is already
  stored; every later attempt then answers that the user is registered, without creating anything
  and without asking for the assignment again.
\<close>

theorem register_assign_lost:
  fixes E E' :: "'x services" and w :: "'x world"
  assumes "registerByEmail E email w = (Inl e, w')" and "unassigned w" and "(CallAssign p cs, b) \<in> set (trace w')"
    and "find_row (\<lambda>r. usr_email r = email) (users w) = Some r"
    and "find_row (\<lambda>a. aus_userId a = usr_id r) (authStates w) = None"
  shows "registerByEmail E' email w' = (Inr (email, False), w')"
proof -
  have "before_session (users w) w' \<or> enrolled (users w) (usr_id r) w'"
    using specD [OF register_stores [OF assms(4)], of w E] assms(1,2,5) by (simp add: before_session_def)
  with assms(3) have "enrolled (users w) (usr_id r) w'" by (auto simp: before_session_def unassigned_def)
  moreover have "usr_email r = email" using find_row_mem [OF assms(4)] by simp
  ultimately show ?thesis using assms(4)
    by (auto simp: registerByEmail_def findByEmailWithAuthState_def bindE_def require_run enrolled_def exists_row_iff)
qed

definition register_services :: "int services" where
  "register_services = sample_services
     \<lparr>api_create_account := (\<lambda>q x. (Inr \<lparr>acr_id = Some (JNum (Fin 600)), acr_ewallet_id = Some (JNum (Fin 70)), acr_oauth_token = Some ''o'',
        acr_private_key = Some ''k'', acr_refresh_token = Some ''r'', acr_email = Some ''ana@x'', acr_mobile = None,
        acr_property = (\<lambda>_. None)\<rparr>, x))\<rparr>"

definition register_world :: "int world" where
  "register_world = sample_world\<lparr>authStates := empty_table, profiles := empty_table\<rparr>"

theorem register_assign_lost_witness:
  "registerByEmail auth_services ''ana@x'' (snd (registerByEmail register_services ''ana@x'' register_world))
   = (Inr (''ana@x'', False), snd (registerByEmail register_services ''ana@x'' register_world))"
proof -
  have run: "registerByEmail register_services ''ana@x'' register_world
      = (Inl (backoffice_error unavailable), snd (registerByEmail register_services ''ana@x'' register_world))"
    by (rule prod_eqI) (simp_all, code_simp)
  have "find_row (\<lambda>r. usr_email r = ''ana@x'') (users register_world) = Some (sample_user 1 ''ana@x'')"
    "find_row (\<lambda>a. aus_userId a = usr_id (sample_user 1 ''ana@x'')) (authStates register_world) = None"
    "(CallAssign ''PROG'' [600], False) \<in> set (trace (snd (registerByEmail register_services ''ana@x'' register_world)))"
    by code_simp+
  moreover have "unassigned register_world"
    by (simp add: unassigned_def register_world_def sample_world_def empty_world_def)
  ultimately show ?thesis using register_assign_lost [OF run] by blast
qed

end
