(* ===== verification/Transfers.thy ===== *)
theory Transfers
  imports Cards Login
begin

text \<open>
  Transfers between users and withdrawals to a bank account: \<^verbatim>\<open>utils/buildFullName.ts\<close>,
  \<^verbatim>\<open>utils/transfer-receipt.utils.ts\<close>, \<^verbatim>\<open>repositories/transferReceipt.repository.ts\<close>,
  \<^verbatim>\<open>services/transfer.backoffice.service.ts\<close>, \<^verbatim>\<open>services/transfer-receipt.service.ts\<close> and
  \<^verbatim>\<open>services/transfer.service.ts\<close>. The backoffice moves the money; the receipt and the
  notifications follow.
\<close>

section \<open>Names and account numbers\<close>

definition has_text :: "string option \<Rightarrow> bool" where
  "has_text part \<longleftrightarrow> truthy_str part \<and> trim (the part) \<noteq> []"

definition buildFullName :: "name_parts \<Rightarrow> string" where
  "buildFullName n = join '' '' (map (\<lambda>part. trim (the part))
     (filter has_text [nm_first n, nm_middle n, nm_last n, nm_second_last n]))"

definition local_name :: "user_row \<Rightarrow> string" where
  "local_name u = buildFullName \<lparr>nm_first = usr_firstName u, nm_middle = None, nm_last = usr_lastName u,
                                 nm_second_last = usr_secondLastName u\<rparr>"

definition maskClabe :: "string \<Rightarrow> string" where
  "maskClabe clabe = (let digits = digits_only clabe in
     if length digits < 4 then ''***'' else ''***'' @ slice_last 4 digits)"

section \<open>Calls to the backoffice\<close>

definition TransferBackofficeService_transfer :: "'x services \<Rightarrow> transfer_backoffice_request \<Rightarrow> string \<Rightarrow> ('x world, string api_response) op" where
  "TransferBackofficeService_transfer E params customerToken =
     remote (CallTransfer params) (api_transfer E params customerToken) backoffice_error"

definition TransferBackofficeService_speiCashout :: "'x services \<Rightarrow> spei_backoffice_request \<Rightarrow> string \<Rightarrow> ('x world, string api_response) op" where
  "TransferBackofficeService_speiCashout E params customerToken =
     remote (CallSpei params) (api_spei E params customerToken) backoffice_error"

section \<open>Receipts\<close>

primrec receipt_type_str :: "TransferReceiptType \<Rightarrow> string" where
  "receipt_type_str INTERNAL_TRANSFER = ''internal_transfer''"
| "receipt_type_str SPEI_CASHOUT = ''spei_cashout''"

definition receipt_json :: "transfer_receipt \<Rightarrow> json" where
  "receipt_json r = jobj
     [(''receiptType'', Some (JStr (receipt_type_str (trc_receiptType r)))), (''title'', Some (JStr (trc_title r))),
      (''dateTime'', Some (JStr (toISOString (trc_dateTime r)))), (''timezone'', Some (JStr (trc_timezone r))),
      (''amount'', Some (JNum (trc_amount r))), (''senderName'', Some (JStr (trc_senderName r))),
      (''receiverName'', Some (JStr (trc_receiverName r))), (''entityName'', jstr (trc_entityName r)),
      (''receiverClabeMasked'', jstr (trc_receiverClabeMasked r))]"

definition TransferReceiptRepository_create :: "'x services \<Rightarrow> int \<Rightarrow> TransferReceiptType \<Rightarrow> json \<Rightarrow> ('x world, unit) op" where
  "TransferReceiptRepository_create E userId type transferData =
     bindE (now E) (\<lambda>t.
     bindE (gets (\<lambda>w. exists_row (\<lambda>u. usr_id u = userId) (users w))) (\<lambda>u.
     bindE (ensure u foreign_key_violation) (\<lambda>_.
     modify (\<lambda>w. w\<lparr>transferReceipts := insert_row
       \<lparr>rec_id = next_id (transferReceipts w), rec_userId = userId, rec_type = type,
        rec_transferData = transferData, rec_generatedAt = t\<rparr> (transferReceipts w)\<rparr>))))"

definition persistReceipt :: "'x services \<Rightarrow> int \<Rightarrow> TransferReceiptType \<Rightarrow> transfer_receipt \<Rightarrow> ('x world, unit) op" where
  "persistReceipt E userId type receipt = TransferReceiptRepository_create E userId type (receipt_json receipt)"

definition no_receipt :: error where
  "no_receipt = mk_error InternalServerError ''Unable to generate transfer receipt''"

text \<open>
  The name the backoffice knows, or the local one when the call fails, the answer has no body or
  the name is blank.
\<close>

definition local_display_name :: "int \<Rightarrow> ('x world, string) op" where
  "local_display_name userId =
     bindE (findById userId) (\<lambda>found.
     bindE (require found no_receipt) (\<lambda>u.
     (let name = or_str (usr_completeName u)
                   (join '' '' (map the (filter has_text [usr_firstName u, usr_lastName u, usr_secondLastName u]))) in
      bindE (ensure (name \<noteq> []) no_receipt) (\<lambda>_. ok name))))"

definition resolveUserDisplayName :: "'x services \<Rightarrow> int \<Rightarrow> int \<Rightarrow> ('x world, string) op" where
  "resolveUserDisplayName E customerId userId =
     bindE (try_catch
              (bindE (getUserInfo E customerId) (\<lambda>rs.
               bindE (deref rs) (\<lambda>n. ok (if buildFullName n \<noteq> [] then Some (buildFullName n) else None))))
              (\<lambda>_. ok None)) (\<lambda>fullName. case fullName of
         Some n \<Rightarrow> ok n
       | None \<Rightarrow> local_display_name userId)"

definition createInternalTransferReceipt :: "'x services \<Rightarrow> int \<Rightarrow> int \<Rightarrow> int \<Rightarrow> int \<Rightarrow> jsnum \<Rightarrow> ('x world, transfer_receipt) op" where
  "createInternalTransferReceipt E userId senderCustomerId recipientUserId recipientCustomerId amount =
     bindE (now E) (\<lambda>generatedAt.
     bindE (promise_all2 (resolveUserDisplayName E senderCustomerId userId)
                         (resolveUserDisplayName E recipientCustomerId recipientUserId)) (\<lambda>(senderName, receiverName).
     (let receipt = \<lparr>trc_receiptType = INTERNAL_TRANSFER, trc_title = ''Comprobante de transferencia interna'',
                     trc_dateTime = generatedAt, trc_timezone = ''hora de CDMX'', trc_amount = amount,
                     trc_senderName = senderName, trc_receiverName = receiverName, trc_entityName = None,
                     trc_receiverClabeMasked = None\<rparr> in
      bindE (persistReceipt E userId INTERNAL_TRANSFER receipt) (\<lambda>_. ok receipt))))"

definition createSpeiCashoutReceipt :: "'x services \<Rightarrow> int \<Rightarrow> int \<Rightarrow> string \<Rightarrow> string \<Rightarrow> string \<Rightarrow> jsnum \<Rightarrow> ('x world, transfer_receipt) op" where
  "createSpeiCashoutReceipt E userId senderCustomerId receiverName entityName clabe amount =
     bindE (now E) (\<lambda>generatedAt.
     bindE (resolveUserDisplayName E senderCustomerId userId) (\<lambda>senderName.
     (let receipt = \<lparr>trc_receiptType = SPEI_CASHOUT, trc_title = ''Comprobante de transferencia externa'',
                     trc_dateTime = generatedAt, trc_timezone = ''hora de CDMX'', trc_amount = amount,
                     trc_senderName = senderName, trc_receiverName = receiverName, trc_entityName = Some entityName,
                     trc_receiverClabeMasked = Some (maskClabe clabe)\<rparr> in
      bindE (persistReceipt E userId SPEI_CASHOUT receipt) (\<lambda>_. ok receipt))))"

section \<open>Transfer service\<close>

datatype query_type = ByEmail | ByAlias

definition find_recipient :: "query_type \<Rightarrow> string \<Rightarrow> ('x world, user_row option) op" where
  "find_recipient q target = (case q of ByEmail \<Rightarrow> findByEmail target | ByAlias \<Rightarrow> findByAlias target)"

definition transfer_notice :: "string \<Rightarrow> string \<Rightarrow> string \<Rightarrow> notification_payload" where
  "transfer_notice title body transactionId =
     \<lparr>np_title = title, np_body = body,
      np_data = Some [(''type'', ''transfer''), (''transactionId'', transactionId)]\<rparr>"

definition transfer :: "'x services \<Rightarrow> int \<Rightarrow> transfer_request \<Rightarrow> string \<Rightarrow> int \<Rightarrow> query_type \<Rightarrow> ('x world, transfer_result) op" where
  "transfer E userId transferData customerToken customerId queryType =
     bindE (find_recipient queryType (tq_target transferData)) (\<lambda>found.
     bindE (require found (mk_error BadRequestError ''Recipient not found'')) (\<lambda>recipientUser.
     bindE (ensure (usr_id recipientUser \<noteq> userId) (mk_error BadRequestError ''Cannot transfer to yourself'')) (\<lambda>_.
     bindE (findProfileByUserId (usr_id recipientUser)) (\<lambda>profile.
     bindE (require (case profile of None \<Rightarrow> None | Some p \<Rightarrow>
                       if truthy_int (prof_external_customer_id p) then prof_external_customer_id p else None)
              (mk_error BadRequestError ''Recipient wallet not found'')) (\<lambda>targetID.
     bindE (TransferBackofficeService_transfer E
              \<lparr>tbr_amount = tq_amount transferData, tbr_sourceCustomerID = customerId, tbr_targetID = targetID,
               tbr_description = tq_description transferData\<rparr> customerToken) (\<lambda>response.
     bindE (createInternalTransferReceipt E userId customerId (usr_id recipientUser) targetID (tq_amount transferData)) (\<lambda>receipt.
     bindE (findById userId) (\<lambda>sender.
     bindE (deref sender) (\<lambda>senderUser.
     (let formattedAmount = toFixed 2 (tq_amount transferData) in
      bindE (deref (ar_payload response)) (\<lambda>transactionId.
      bindE (sendToUser E (usr_id recipientUser) (transfer_notice ''Transferencia recibida''
               (''Recibiste $'' @ formattedAmount @ '' MXN de '' @ local_name senderUser) transactionId)) (\<lambda>_.
      bindE (sendToUser E userId (transfer_notice ''Transferencia enviada''
               (''Enviaste $'' @ formattedAmount @ '' MXN a '' @ local_name recipientUser) transactionId)) (\<lambda>_.
      ok \<lparr>tre_transactionId = transactionId, tre_receipt = receipt\<rparr>)))))))))))))"

record user_qr =
  uq_id :: int
  uq_email :: string
  uq_alias :: "string option"
  uq_qrCode :: string

definition getUserQR :: "'x services \<Rightarrow> int \<Rightarrow> ('x world, user_qr) op" where
  "getUserQR E userId =
     bindE (findById userId) (\<lambda>found.
     bindE (require found (mk_error BadRequestError ''User not found'')) (\<lambda>user.
     bindE (now E) (\<lambda>t.
     ok \<lparr>uq_id = userId, uq_email = usr_email user,
         uq_alias = (if truthy_str (usr_alias user) then usr_alias user else None),
         uq_qrCode = base64_encode E (stringify_props [(''email'', Some (Some (usr_email user))),
           (''alias'', Some (usr_alias user)), (''timestamp'', Some (Some (toISOString t)))])\<rparr>)))"

definition getMyAccountInfo :: "'x services \<Rightarrow> int \<Rightarrow> string \<Rightarrow> ('x world, account_info) op" where
  "getMyAccountInfo E customerId customerToken =
     bindE (getSpeiClabe E customerToken) (\<lambda>speiClabe.
     bindE (getUserInfo E customerId) (\<lambda>rs.
     bindE (deref rs) (\<lambda>n.
     ok \<lparr>ai_clabe = speiClabe, ai_bankReceptor = ''Finco pay'', ai_beneficiaryName = buildFullName n\<rparr>)))"

text \<open>The transaction number the backoffice answers is read after the receipt is stored.\<close>

definition speiCashout :: "'x services \<Rightarrow> int \<Rightarrow> spei_cashout_request \<Rightarrow> string \<Rightarrow> int \<Rightarrow> ('x world, transfer_result) op" where
  "speiCashout E userId cashoutData customerToken customerId =
     bindE (TransferBackofficeService_speiCashout E
              \<lparr>sbr_clabe = spr_clabe cashoutData, sbr_amount = spr_amount cashoutData,
               sbr_description = spr_description cashoutData\<rparr> customerToken) (\<lambda>response.
     bindE (createSpeiCashoutReceipt E userId customerId (spr_receiverName cashoutData) (spr_entityName cashoutData)
              (spr_clabe cashoutData) (spr_amount cashoutData)) (\<lambda>receipt.
     bindE (deref (ar_payload response)) (\<lambda>transactionId.
     ok \<lparr>tre_transactionId = transactionId, tre_receipt = receipt\<rparr>)))"

definition getSpeiCashoutFee :: "'x services \<Rightarrow> jsnum" where
  "getSpeiCashoutFee E = cfg_speiCashoutFee (cfg E)"

end
