(* ===== verification/TransferRoutes.thy ===== *)
theory TransferRoutes
  imports Transfers CardRoutes
begin

text \<open>
  The HTTP surface of the transfers: \<^verbatim>\<open>controllers/transfer.controller.ts\<close> behind the chains of
  \<^verbatim>\<open>routes/transfer.routes.ts\<close>. The two routes that move money ask a user with a physical card for
  its PIN.
\<close>

text \<open>A PIN is the query parameter \<^verbatim>\<open>pin\<close>; the transfer type defaults to the email.\<close>

datatype transfer_call =
    PostTransfer "string option" transfer_request "query_type option"
  | PostSpeiCashout "string option" spei_cashout_request
  | GetUserQR
  | GetMyAccountInfo
  | GetSpeiCashoutFee

datatype transfer_outcome =
    Transferred transfer_result
  | CashedOut transfer_result
  | QrCode user_qr
  | AccountInfo account_info
  | CashoutFee jsnum

definition TransferController :: "'x services \<Rightarrow> jwt_payload \<Rightarrow> transfer_call \<Rightarrow> ('x world, transfer_outcome) op" where
  "TransferController E auth req =
     (let userId = ju_userId (jp_user auth);
          customerToken = bj_customer_oauth_token (jp_backoffice auth);
          customerId = bj_customerId (jp_backoffice auth) in
      case req of
        PostTransfer pin d t \<Rightarrow>
          bindE (transfer E userId d customerToken customerId (case t of None \<Rightarrow> ByEmail | Some q \<Rightarrow> q)) (\<lambda>r. ok (Transferred r))
      | PostSpeiCashout pin d \<Rightarrow> bindE (speiCashout E userId d customerToken customerId) (\<lambda>r. ok (CashedOut r))
      | GetUserQR \<Rightarrow> bindE (getUserQR E userId) (\<lambda>r. ok (QrCode r))
      | GetMyAccountInfo \<Rightarrow> bindE (getMyAccountInfo E customerId customerToken) (\<lambda>r. ok (AccountInfo r))
      | GetSpeiCashoutFee \<Rightarrow> ok (CashoutFee (getSpeiCashoutFee E)))"

definition transfer_guards :: "'x services \<Rightarrow> jwt_payload \<Rightarrow> transfer_call \<Rightarrow> ('x world, unit) op" where
  "transfer_guards E auth req =
     (let userId = ju_userId (jp_user auth);
          customerToken = bj_customer_oauth_token (jp_backoffice auth) in
      case req of
        PostTransfer pin d t \<Rightarrow> validateTransferCardPin E userId customerToken pin
      | PostSpeiCashout pin d \<Rightarrow> validateTransferCardPin E userId customerToken pin
      | _ \<Rightarrow> ok ())"

definition transfer_route :: "'x services \<Rightarrow> jwt_payload \<Rightarrow> transfer_call \<Rightarrow> ('x world, transfer_outcome) op" where
  "transfer_route E auth req = bindE (transfer_guards E auth req) (\<lambda>_. TransferController E auth req)"

definition transfer_http :: "'x services \<Rightarrow> string option \<Rightarrow> transfer_call \<Rightarrow> 'x world \<Rightarrow> transfer_outcome answer \<times> 'x world" where
  "transfer_http E header req = authenticated E header (\<lambda>auth. transfer_route E auth req)"

end
