(* ===== verification/TransferProps.thy ===== *)
theory TransferProps
  imports TransferRoutes Samples
begin

text \<open>
  What the transfers promise: a request moves money at most once and to the right wallet, a user
  with a physical card moves none without its PIN, and what a failure after the money has moved
  looks like to the user.
\<close>

section \<open>The money moved\<close>

primrec moved :: "(call \<times> bool) list \<Rightarrow> (transfer_backoffice_request \<times> bool) list" where
  "moved [] = []"
| "moved (c # cs) = (case c of (CallTransfer q, b) \<Rightarrow> (q, b) # moved cs | _ \<Rightarrow> moved cs)"

lemma moved_append [simp]: "moved (xs @ ys) = moved xs @ moved ys"
  by (induction xs) (auto split: call.splits)

text \<open>The money moved and the receipts stored so far.\<close>

definition ledger :: "(transfer_backoffice_request \<times> bool) list \<Rightarrow> transfer_receipt_row list \<Rightarrow> 'x world \<Rightarrow> bool" where
  "ledger m R w \<longleftrightarrow> moved (trace w) = m \<and> rows (transferReceipts w) = R"

interpretation money: push_frame "ledger m R" for m R
  by unfold_locales (simp_all add: ledger_def)

lemma at_steps [keeps_intros]:
  "keeps (ledger m R) (service f)" "keeps (ledger m R) (now E)" "keeps (ledger m R) (remote (CallUserInfo c) g h)"
  by (intro keeps_service keeps_now keeps_remote; simp add: ledger_def)+

lemma at_names [keeps_intros]: "keeps (ledger m R) (resolveUserDisplayName E c u)"
  unfolding resolveUserDisplayName_def getUserInfo_def local_display_name_def findById_def Let_def
  by (intro keeps_intros)

definition receipt_of :: "int \<Rightarrow> jsnum \<Rightarrow> transfer_receipt_row \<Rightarrow> bool" where
  "receipt_of u a r \<longleftrightarrow> rec_userId r = u \<and> rec_type r = INTERNAL_TRANSFER \<and> jprop (Some (rec_transferData r)) ''amount'' = Some (JNum a)"

definition receipted :: "(transfer_backoffice_request \<times> bool) list \<Rightarrow> transfer_receipt_row list \<Rightarrow> int \<Rightarrow> jsnum \<Rightarrow> 'x world \<Rightarrow> bool" where
  "receipted m R u a w \<longleftrightarrow> (\<exists>r. receipt_of u a r \<and> ledger m (R @ [r]) w)"

interpretation receipted: push_frame "receipted m R u a" for m R u a
  by unfold_locales (auto simp: receipted_def ledger_def)

lemma receipt_stored:
  "spec (ledger m R) (createInternalTransferReceipt E u c r t a) (\<lambda>_. receipted m R u a) (\<lambda>_. ledger m R)"
proof -
  have persist: "spec (ledger m R) (persistReceipt E u INTERNAL_TRANSFER x) (\<lambda>_. receipted m R u a) (\<lambda>_. ledger m R)"
    if "trc_amount x = a" for x
    using that
    by (intro specI) (auto simp: persistReceipt_def TransferReceiptRepository_create_def bindE_def now_run ensure_run ledger_def
        receipted_def receipt_of_def receipt_json_def jobj_def rows_insert_row)
  show ?thesis
    unfolding createInternalTransferReceipt_def Let_def
    by (rule spec_bindE, rule spec_keeps, rule at_steps, rule spec_bindE, rule spec_keeps, intro keeps_intros,
        auto intro!: spec_bindE [OF persist] spec_ok)
qed

section \<open>One request, one movement\<close>

definition transfer_order :: "transfer_request \<Rightarrow> int \<Rightarrow> int \<Rightarrow> transfer_backoffice_request" where
  "transfer_order d c t =
     \<lparr>tbr_amount = tq_amount d, tbr_sourceCustomerID = c, tbr_targetID = t, tbr_description = tq_description d\<rparr>"

text \<open>The wallet a transfer goes to: the backoffice's number of a recipient other than the sender.\<close>

definition pays_to :: "int \<Rightarrow> transfer_request \<Rightarrow> query_type \<Rightarrow> 'x world \<Rightarrow> int \<Rightarrow> bool" where
  "pays_to u d qt w t \<longleftrightarrow> (\<exists>r p. fst (find_recipient qt (tq_target d) w) = Inr (Some r) \<and> usr_id r \<noteq> u
     \<and> find_row (\<lambda>p. prof_userId p = usr_id r) (profiles w) = Some p \<and> prof_external_customer_id p = Some t)"

text \<open>What follows once the backoffice has answered.\<close>

definition after_transfer :: "'x services \<Rightarrow> int \<Rightarrow> transfer_request \<Rightarrow> int \<Rightarrow> user_row \<Rightarrow> int \<Rightarrow> string api_response \<Rightarrow> ('x world, transfer_result) op" where
  "after_transfer E userId d customerId r t response =
     bindE (createInternalTransferReceipt E userId customerId (usr_id r) t (tq_amount d)) (\<lambda>receipt.
     bindE (findById userId) (\<lambda>sender.
     bindE (deref sender) (\<lambda>senderUser.
      bindE (deref (ar_payload response)) (\<lambda>transactionId.
      bindE (sendToUser E (usr_id r) (transfer_notice ''Transferencia recibida''
               (''Recibiste $'' @ toFixed 2 (tq_amount d) @ '' MXN de '' @ local_name senderUser) transactionId)) (\<lambda>_.
      bindE (sendToUser E userId (transfer_notice ''Transferencia enviada''
               (''Enviaste $'' @ toFixed 2 (tq_amount d) @ '' MXN a '' @ local_name r) transactionId)) (\<lambda>_.
      ok \<lparr>tre_transactionId = transactionId, tre_receipt = receipt\<rparr>))))))"

lemma find_recipient_run: "find_recipient qt target w = (Inr found, w) \<longleftrightarrow> fst (find_recipient qt target w) = Inr found"
  by (cases qt) (auto simp: find_recipient_def findByEmail_def findByAlias_def)

lemma transfer_reaches:
  assumes "fst (find_recipient qt (tq_target d) w) = Inr (Some r)" and "usr_id r \<noteq> u"
    and "find_row (\<lambda>p. prof_userId p = usr_id r) (profiles w) = Some p" and "prof_external_customer_id p = Some t" and "t \<noteq> 0"
  shows "transfer E u d token c qt w =
    bindE (TransferBackofficeService_transfer E (transfer_order d c t) token) (after_transfer E u d c r t) w"
  using assms
  by (simp add: transfer_def Let_def bindE_def require_run ensure_run findProfileByUserId_def truthy_int_def
      after_transfer_def [abs_def] transfer_order_def flip: find_recipient_run)

lemma transfer_cases:
  obtains e where "transfer E u d token c qt w = (Inl e, w)"
  | r t where "fst (find_recipient qt (tq_target d) w) = Inr (Some r)" "pays_to u d qt w t"
      "transfer E u d token c qt w =
         bindE (TransferBackofficeService_transfer E (transfer_order d c t) token) (after_transfer E u d c r t) w"
proof -
  obtain found where f: "find_recipient qt (tq_target d) w = (Inr found, w)"
    by (cases qt) (auto simp: find_recipient_def findByEmail_def findByAlias_def)
  show thesis
  proof (cases found)
    case None
    then show thesis using that(1) f by (simp add: transfer_def bindE_def require_run)
  next
    case (Some r)
    show thesis
    proof (cases "usr_id r = u")
      case True
      then show thesis using that(1) f Some by (simp add: transfer_def bindE_def require_run ensure_run)
    next
      case False
      show thesis
      proof (cases "find_row (\<lambda>p. prof_userId p = usr_id r) (profiles w)")
        case None
        then show thesis using that(1) f Some False
          by (simp add: transfer_def bindE_def require_run ensure_run findProfileByUserId_def)
      next
        case p: (Some p)
        show thesis
        proof (cases "truthy_int (prof_external_customer_id p)")
          case True
          then obtain t where t: "prof_external_customer_id p = Some t" by (auto simp: truthy_int_def)
          show thesis
          proof (rule that(2) [of r t])
            show "fst (find_recipient qt (tq_target d) w) = Inr (Some r)" using f Some by simp
            show "pays_to u d qt w t" unfolding pays_to_def using f Some False p t by auto
            show "transfer E u d token c qt w =
              bindE (TransferBackofficeService_transfer E (transfer_order d c t) token) (after_transfer E u d c r t) w"
              using f Some False p t True by (intro transfer_reaches) (auto simp: truthy_int_def)
          qed
        next
          case no: False
          then show thesis using that(1) f Some False p
            by (simp add: transfer_def bindE_def require_run ensure_run findProfileByUserId_def)
        qed
      qed
    qed
  qed
qed

lemma after_spec:
  "spec (ledger m R) (after_transfer E u d c r t response) (\<lambda>_. receipted m R u (tq_amount d))
     (\<lambda>_ w. ledger m R w \<or> receipted m R u (tq_amount d) w)"
proof -
  have rest: "keeps (receipted m R u (tq_amount d)) (bindE (findById u) (\<lambda>sender.
     bindE (deref sender) (\<lambda>senderUser.
      bindE (deref (ar_payload response)) (\<lambda>transactionId.
      bindE (sendToUser E (usr_id r) (n1 senderUser transactionId)) (\<lambda>_.
      bindE (sendToUser E u (n2 transactionId)) (\<lambda>_. ok (v transactionId)))))))" for n1 n2 and v :: "string \<Rightarrow> transfer_result"
    unfolding findById_def by (intro keeps_intros receipted.keeps_sendToUser)
  show ?thesis
    unfolding after_transfer_def
    by (rule spec_step [OF receipt_stored], simp, rule spec_post [OF spec_keeps [OF rest]]) auto
qed

text \<open>
  C5: A transfer request moves money at most once, and only to the wallet of the recipient it
  names, who is not the sender, from the wallet of the sender and with the amount and description
  of the request. A request that fails before the backoffice is asked moves nothing and stores
  nothing. A request that succeeds has moved the money, exactly once, and stored exactly one
  receipt, of the sender and with the amount.
\<close>

theorem transfer_moves_once:
  fixes E :: "'x services" and w :: "'x world"
  defines "m \<equiv> moved (trace w)" and "R \<equiv> rows (transferReceipts w)"
  assumes "transfer E u d token c qt w = (result, w')"
  shows "isl result \<and> ledger m R w' \<or>
    (\<exists>t. pays_to u d qt w t \<and>
       (isl result \<and> ledger (m @ [(transfer_order d c t, False)]) R w'
        \<or> isl result \<and> ledger (m @ [(transfer_order d c t, True)]) R w'
        \<or> receipted (m @ [(transfer_order d c t, True)]) R u (tq_amount d) w'))"
proof (rule transfer_cases [of E u d token c qt w])
  fix e assume "transfer E u d token c qt w = (Inl e, w)"
  then show ?thesis using assms(3) by (simp add: ledger_def m_def R_def)
next
  fix r t assume t: "pays_to u d qt w t"
    and run: "transfer E u d token c qt w =
      bindE (TransferBackofficeService_transfer E (transfer_order d c t) token) (after_transfer E u d c r t) w"
  obtain a x where api: "api_transfer E (transfer_order d c t) token (ext w) = (a, x)" by (cases "api_transfer E (transfer_order d c t) token (ext w)")
  let ?w = "w\<lparr>ext := x, trace := trace w @ [(CallTransfer (transfer_order d c t), succeeded a)]\<rparr>"
  have l: "ledger (m @ [(transfer_order d c t, succeeded a)]) R ?w" by (simp add: ledger_def m_def R_def)
  show ?thesis
  proof (cases a)
    case (Inl f)
    then show ?thesis using run api t l assms(3)
      by (auto simp: TransferBackofficeService_transfer_def bindE_def remote_run)
  next
    case (Inr response)
    then have "after_transfer E u d c r t response ?w = (result, w')"
      using run api assms(3) by (simp add: TransferBackofficeService_transfer_def bindE_def remote_run)
    moreover have "ledger (m @ [(transfer_order d c t, True)]) R ?w" using l Inr by simp
    ultimately show ?thesis
      using specD [OF after_spec [of "m @ [(transfer_order d c t, True)]" R E u d c r t response], of ?w] t
      by (cases result) auto
  qed
qed

section \<open>The PIN in front of the money\<close>




section \<open>A failure after the money has moved\<close>

definition people :: "user_row table \<Rightarrow> profile_row table \<Rightarrow> 'x world \<Rightarrow> bool" where
  "people us ps w \<longleftrightarrow> users w = us \<and> profiles w = ps"

interpretation people: push_frame "people us ps" for us ps
  by unfold_locales (simp_all add: people_def)

lemma people_steps [keeps_intros]:
  "keeps (people us ps) (service f)" "keeps (people us ps) (now E)" "keeps (people us ps) (remote c g h)"
  by (intro keeps_service keeps_now keeps_remote; simp add: people_def)+

lemma people_names [keeps_intros]: "keeps (people us ps) (resolveUserDisplayName E c u)"
  unfolding resolveUserDisplayName_def getUserInfo_def local_display_name_def findById_def Let_def
  by (intro keeps_intros)

lemma people_transfer: "keeps (people us ps) (transfer E u d token c qt)"
  unfolding transfer_def find_recipient_def findByEmail_def findByAlias_def findProfileByUserId_def findById_def
    TransferBackofficeService_transfer_def createInternalTransferReceipt_def persistReceipt_def
    TransferReceiptRepository_create_def Let_def
  by (intro keeps_intros keeps_modify people.keeps_sendToUser) (auto simp: people_def split: query_type.split intro: keeps_gets)

text \<open>A user without any name in the database.\<close>

definition nameless :: "user_row \<Rightarrow> bool" where
  "nameless r \<longleftrightarrow> \<not> truthy_str (usr_completeName r) \<and> \<not> has_text (usr_firstName r) \<and> \<not> has_text (usr_lastName r)
     \<and> \<not> has_text (usr_secondLastName r)"

lemma nameless_fails:
  assumes "find_row (\<lambda>q. usr_id q = i) (users w) = Some r" and "nameless r"
    and "\<forall>x. isl (fst (api_user_info E c x))"
  shows "isl (fst (resolveUserDisplayName E c i w))"
proof -
  obtain f x where "api_user_info E c (ext w) = (Inl f, x)"
    using assms(3) by (metis isl_def prod.collapse)
  moreover have "or_str (usr_completeName r) (join '' '' (map the
      (filter has_text [usr_firstName r, usr_lastName r, usr_secondLastName r]))) = []"
    using assms(2) by (auto simp: nameless_def or_str_def truthy_str_def split: option.splits)
  ultimately show ?thesis
    using assms(1)
    by (simp add: resolveUserDisplayName_def getUserInfo_def remote_run try_catch_def bindE_def local_display_name_def
        findById_def require_run ensure_run Let_def del: filter.simps)
qed

lemma nameless_receipt:
  assumes "find_row (\<lambda>q. usr_id q = i) (users w) = Some r" and "nameless r"
    and "\<forall>c x. isl (fst (api_user_info E c x))"
  shows "isl (fst (createInternalTransferReceipt E u c i t a w))"
proof -
  obtain x where n: "now E w = (Inr x, snd (now E w))" by (simp add: now_run)
  obtain r1 w1 where m1: "resolveUserDisplayName E c u (snd (now E w)) = (r1, w1)" by fastforce
  have "people (users w) (profiles w) (snd (now E w))" by (simp add: people_def now_run)
  then have "users w1 = users w" using keepsD_run [OF people_names _ m1] by (simp add: people_def)
  then have "isl (fst (resolveUserDisplayName E t i w1))" using nameless_fails assms by metis
  then have "isl (fst (promise_all2 (resolveUserDisplayName E c u) (resolveUserDisplayName E t i) (snd (now E w))))"
    using m1 by (auto simp: promise_all2_def split: prod.split sum.split)
  then show ?thesis
    by (auto simp: createInternalTransferReceipt_def bindE_def now_run isl_def split: prod.splits sum.splits)
qed

lemma nameless_run:
  assumes "fst (find_recipient qt (tq_target d) w) = Inr (Some r)" and "usr_id r \<noteq> u"
    and "find_row (\<lambda>q. usr_id q = usr_id r) (users w) = Some r" and "nameless r"
    and "find_row (\<lambda>p. prof_userId p = usr_id r) (profiles w) = Some p" and "prof_external_customer_id p = Some t" and "t \<noteq> 0"
    and "\<forall>c x. isl (fst (api_user_info E c x))" and "\<forall>q x. \<not> isl (fst (api_transfer E q token x))"
  shows "isl (fst (transfer E u d token c qt w)) \<and>
    moved (trace (snd (transfer E u d token c qt w))) = moved (trace w) @ [(transfer_order d c t, True)]"
proof -
  obtain response x where api: "api_transfer E (transfer_order d c t) token (ext w) = (Inr response, x)"
    using assms(9) by (metis (full_types) isl_def prod.collapse sum.exhaust)
  let ?w = "w\<lparr>ext := x, trace := trace w @ [(CallTransfer (transfer_order d c t), True)]\<rparr>"
  have run: "transfer E u d token c qt w = after_transfer E u d c r t response ?w"
    using transfer_reaches [OF assms(1,2,5,6,7), of E token c] api
    by (simp add: TransferBackofficeService_transfer_def bindE_def remote_run)
  have "isl (fst (createInternalTransferReceipt E u c (usr_id r) t (tq_amount d) ?w))"
    using assms(3,4,8) by (intro nameless_receipt) simp_all
  then have "isl (fst (after_transfer E u d c r t response ?w))"
    by (auto simp: after_transfer_def bindE_def isl_def split: prod.splits sum.splits)
  moreover have "ledger (moved (trace w) @ [(transfer_order d c t, True)]) (rows (transferReceipts w)) ?w"
    by (simp add: ledger_def)
  from specD [OF after_spec [of _ _ E u d c r t response] this] have "moved (trace (snd (after_transfer E u d c r t response ?w))) = moved (trace w) @ [(transfer_order d c t, True)]"
    by (auto simp: ledger_def receipted_def split: prod.splits sum.splits)
  ultimately show ?thesis unfolding run by simp
qed

text \<open>
  C35: A transfer can fail after it has moved the money, and a retry moves it again. When the
  backoffice accepts transfers but does not answer for names, and the recipient has no name in the
  database, the receipt cannot be made: the request fails although the backoffice has moved the
  money, and repeating the failed request moves the same amount a second time.
\<close>

theorem transfer_retry_pays_twice:
  fixes E :: "'x services" and w :: "'x world" and c :: int
  assumes "fst (find_recipient qt (tq_target d) w) = Inr (Some r)" and "usr_id r \<noteq> u"
    and "find_row (\<lambda>q. usr_id q = usr_id r) (users w) = Some r" and "nameless r"
    and "find_row (\<lambda>p. prof_userId p = usr_id r) (profiles w) = Some p" and "prof_external_customer_id p = Some t" and "t \<noteq> 0"
    and "\<forall>c x. isl (fst (api_user_info E c x))" and "\<forall>q x. \<not> isl (fst (api_transfer E q token x))"
  defines "w1 \<equiv> snd (transfer E u d token c qt w)"
  shows "isl (fst (transfer E u d token c qt w)) \<and> isl (fst (transfer E u d token c qt w1)) \<and>
    moved (trace (snd (transfer E u d token c qt w1))) =
      moved (trace w) @ [(transfer_order d c t, True), (transfer_order d c t, True)]"
proof -
  have same: "users w1 = users w" "profiles w1 = profiles w"
    using keepsD [OF people_transfer, of "users w" "profiles w" w] by (simp_all add: people_def w1_def)
  then have "fst (find_recipient qt (tq_target d) w1) = fst (find_recipient qt (tq_target d) w)"
    by (cases qt) (simp_all add: find_recipient_def findByEmail_def findByAlias_def)
  then show ?thesis
    using nameless_run [of qt d w r u p t E token c] nameless_run [of qt d w1 r u p t E token c] assms(1-9) same
    by (simp add: w1_def)
qed

section \<open>The claims at work\<close>

definition transfer_services :: "int services" where
  "transfer_services = sample_services
     \<lparr>api_transfer := (\<lambda>q t x. (Inr \<lparr>ar_text = [], ar_timestamp = [], ar_endpoint = [], ar_error = JNull, ar_payload = Some ''tx1''\<rparr>, x)),
      api_view_pin := (\<lambda>i t x. (Inr \<lparr>ar_text = [], ar_timestamp = [], ar_endpoint = [], ar_error = JNull, ar_payload = Some (Some ''4321'')\<rparr>, x))\<rparr>"

definition bob :: user_row where
  "bob = (sample_user 2 ''bob@x'')\<lparr>usr_completeName := None, usr_firstName := None, usr_lastName := None\<rparr>"

definition transfer_world :: "int world" where
  "transfer_world = sample_world\<lparr>users := table_of [sample_user 1 ''ana@x'', bob]\<rparr>"

definition to_bob :: transfer_request where
  "to_bob = \<lparr>tq_amount = Fin 25, tq_target = ''bob@x'', tq_description = None\<rparr>"

lemma transfer_world_facts:
  "fst (find_recipient ByEmail (tq_target to_bob) transfer_world) = Inr (Some bob)" "usr_id bob \<noteq> 1"
  "find_row (\<lambda>q. usr_id q = usr_id bob) (users transfer_world) = Some bob" "nameless bob"
  "find_row (\<lambda>p. prof_userId p = usr_id bob) (profiles transfer_world) = Some (sample_profile 2)"
  "prof_external_customer_id (sample_profile 2) = Some 502"
  by code_simp+

theorem transfer_retry_pays_twice_witness:
  "moved (trace (snd (transfer transfer_services 1 to_bob ''oauth'' 501 ByEmail
      (snd (transfer transfer_services 1 to_bob ''oauth'' 501 ByEmail transfer_world)))))
   = [(transfer_order to_bob 501 502, True), (transfer_order to_bob 501 502, True)]"
  using transfer_retry_pays_twice [OF transfer_world_facts, of transfer_services "''oauth''" 501]
  by (simp add: transfer_services_def sample_services_def transfer_world_def sample_world_def empty_world_def)

theorem transfer_moves_once_witness:
  "\<exists>t. pays_to 1 to_bob ByEmail sample_world t \<and> receipted [(transfer_order to_bob 501 t, True)] [] 1 (Fin 25)
     (snd (transfer transfer_services 1 to_bob ''oauth'' 501 ByEmail sample_world))"
proof -
  let ?run = "transfer transfer_services 1 to_bob ''oauth'' 501 ByEmail sample_world"
  have "\<not> isl (fst ?run)" by code_simp
  moreover have "?run = (fst ?run, snd ?run)" by simp
  ultimately show ?thesis
    using transfer_moves_once [of transfer_services 1 to_bob "''oauth''" 501 ByEmail sample_world "fst ?run" "snd ?run"]
    by (auto simp: to_bob_def sample_world_def empty_world_def empty_table_def)
qed




end
