(* ===== verification/Transactions.thy ===== *)
theory Transactions
  imports Accounts
begin

text \<open>
  The history of a wallet and its charts: \<^verbatim>\<open>utils/transaction.utils.ts\<close>,
  \<^verbatim>\<open>services/transactions.backoffice.service.ts\<close> and \<^verbatim>\<open>services/transactions.service.ts\<close>. The
  transactions of a period are fetched from the backoffice, added up by day or by month, and
  shown with the change against the point before.
\<close>

section \<open>Simplified transactions\<close>

text \<open>\<^verbatim>\<open>replace(/^"|"$/g, '')\<close>: a quote at the start and one at the end are removed.\<close>

definition strip_quotes :: "string \<Rightarrow> string" where
  "strip_quotes s =
     (let t = (case s of c # r \<Rightarrow> if c = CHR 0x22 then r else s | [] \<Rightarrow> [])
      in if t \<noteq> [] \<and> last t = CHR 0x22 then butlast t else t)"

definition formatTransactionTitle :: "transaction_details \<Rightarrow> string" where
  "formatTransactionTitle d =
     or_str (case td_merchantCategoryCode d of None \<Rightarrow> None | Some m \<Rightarrow> mc_description m)
       (strip_quotes (td_description d))"

definition formatTransactionAmount :: "string \<Rightarrow> int \<Rightarrow> jsnum" where
  "formatTransactionAmount amount category =
     (let numericAmount = number_of_string amount in if category = 1 then js_neg numericAmount else numericAmount)"

definition formatTransactionCategory :: "merchant_category option \<Rightarrow> string" where
  "formatTransactionCategory m = trim (or_str (case m of None \<Rightarrow> None | Some c \<Rightarrow> mc_category c) [])"

definition simplifyTransaction :: "transaction_details \<Rightarrow> simplified_transaction" where
  "simplifyTransaction d =
     \<lparr>stx_id = td_transactionId d, stx_date = td_timestamp d, stx_title = formatTransactionTitle d,
      stx_category = formatTransactionCategory (td_merchantCategoryCode d),
      stx_amount = formatTransactionAmount (td_amount d) (td_category d)\<rparr>"

text \<open>The answer is logged before it is returned, which reads its payload.\<close>

definition getCustomerTransactions :: "'x services \<Rightarrow> get_transactions_params \<Rightarrow> string \<Rightarrow> ('x world, transactions_payload api_response) op" where
  "getCustomerTransactions E params customerToken =
     bindE (remote (CallTransactions params) (api_transactions E params customerToken) backoffice_error) (\<lambda>r.
     bindE (deref (ar_payload r)) (\<lambda>_. ok r))"

definition getUserTransactions :: "'x services \<Rightarrow> get_transactions_params \<Rightarrow> string \<Rightarrow> ('x world, simplified_transaction list \<times> int) op" where
  "getUserTransactions E params customerToken =
     bindE (getCustomerTransactions E params customerToken) (\<lambda>r.
     bindE (deref (ar_payload r)) (\<lambda>p.
     ok (map simplifyTransaction (gtp_transactions p), gtp_totalCount p)))"

section \<open>Amounts by day and by month\<close>

definition or_zero :: "jsnum option \<Rightarrow> jsnum" where
  "or_zero v = (case v of Some n \<Rightarrow> if js_num_truthy n then n else Fin 0 | None \<Rightarrow> Fin 0)"

text \<open>The \<^verbatim>\<open>Map\<close> both charts fill, for the key a transaction falls under.\<close>

definition add_amount :: "(simplified_transaction \<Rightarrow> string) \<Rightarrow> simplified_transaction \<Rightarrow> (string \<rightharpoonup> jsnum) \<Rightarrow> (string \<rightharpoonup> jsnum)" where
  "add_amount key tx m = m(key tx \<mapsto> js_add (or_zero (m (key tx))) (stx_amount tx))"

definition amountsMap :: "(simplified_transaction \<Rightarrow> string) \<Rightarrow> simplified_transaction list \<Rightarrow> (string \<rightharpoonup> jsnum)" where
  "amountsMap key txs = fold (add_amount key) txs Map.empty"

definition day_key :: "simplified_transaction \<Rightarrow> string" where
  "day_key tx = takeWhile (\<lambda>c. c \<noteq> CHR ''T'') (stx_date tx)"

definition month_key :: "simplified_transaction \<Rightarrow> string" where
  "month_key tx = slice 0 7 (stx_date tx)"

text \<open>The change against the point before: 100 when something follows nothing.\<close>

definition increment_percentage :: "chart_point list \<Rightarrow> jsnum \<Rightarrow> jsnum" where
  "increment_percentage result amount =
     (if result = [] then Fin 0
      else let prevAmount = chp_amount (last result) in
        if js_less (Fin 0) prevAmount
        then math_round (js_mul (js_div (js_sub amount prevAmount) prevAmount) (Fin 100))
        else if js_less (Fin 0) amount then Fin 100 else Fin 0)"

section \<open>The weekly chart\<close>

text \<open>\<^verbatim>\<open>setDate(getDate() + k)\<close> and \<^verbatim>\<open>setHours(0, 0, 0, 0)\<close>, in the time zone of the process.\<close>

definition local_time :: "'x services \<Rightarrow> int \<Rightarrow> int" where
  "local_time E t = t + local_offset E t"

definition shift_date :: "'x services \<Rightarrow> int \<Rightarrow> int \<Rightarrow> int" where
  "shift_date E t k =
     utc_of_local E ((day_of (local_time E t) + k) * msPerDay + time_within_day (local_time E t))"

definition set_midnight :: "'x services \<Rightarrow> int \<Rightarrow> int" where
  "set_midnight E t = utc_of_local E (day_of (local_time E t) * msPerDay)"

definition getDay :: "'x services \<Rightarrow> int \<Rightarrow> int" where
  "getDay E t = week_day (day_of (local_time E t))"

definition distanceToMonday :: "'x services \<Rightarrow> int \<Rightarrow> int" where
  "distanceToMonday E t = (getDay E t + 6) mod 7"

definition dayLabels :: "string list" where
  "dayLabels = [''D'', ''L'', ''M'', ''M'', ''J'', ''V'', ''S'']"

text \<open>
  One turn of the loop. The date object \<^verbatim>\<open>now\<close> is set to midnight by the comparison, so it is
  part of the state of the loop.
\<close>

definition daily_step :: "'x services \<Rightarrow> (string \<rightharpoonup> jsnum) \<Rightarrow> string \<Rightarrow> int \<Rightarrow> int \<Rightarrow> int \<times> chart_point list \<Rightarrow> int \<times> chart_point list" where
  "daily_step E amounts todayStr monday i s = (case s of (nw, result) \<Rightarrow>
     let currentDay = shift_date E monday i;
         dateStr = iso_date currentDay;
         day0 = set_midnight E currentDay;
         now0 = set_midnight E nw;
         amount = (if now0 < day0 then Fin 0 else or_zero (amounts dateStr))
     in (now0, result @ [\<lparr>chp_label = dayLabels ! nat (getDay E day0), chp_date = dateStr, chp_amount = amount,
                          chp_percentage = increment_percentage result amount,
                          chp_isCurrent = (dateStr = todayStr)\<rparr>]))"

definition buildDailyData :: "'x services \<Rightarrow> simplified_transaction list \<Rightarrow> int \<Rightarrow> chart_point list" where
  "buildDailyData E txs nw =
     snd (fold (daily_step E (amountsMap day_key txs) (iso_date nw) (shift_date E nw (- distanceToMonday E nw)))
            [0, 1, 2, 3, 4, 5, 6] (nw, []))"

section \<open>The monthly chart\<close>

definition monthNames :: "string list" where
  "monthNames = [''Ene'', ''Feb'', ''Mar'', ''Abr'', ''May'', ''Jun'', ''Jul'', ''Ago'', ''Sep'', ''Oct'', ''Nov'', ''Dic'']"

definition local_civil :: "'x services \<Rightarrow> int \<Rightarrow> int \<times> int \<times> int" where
  "local_civil E t = civil_of_day (day_of (local_time E t))"

definition local_month_key :: "'x services \<Rightarrow> int \<Rightarrow> string" where
  "local_month_key E t = (case local_civil E t of (y, m, d) \<Rightarrow> string_of_int y @ ''-'' @ pad2 (m + 1))"

text \<open>\<^verbatim>\<open>new Date(now.getFullYear(), now.getMonth() + k, d)\<close>.\<close>

definition month_date :: "'x services \<Rightarrow> int \<Rightarrow> int \<Rightarrow> int \<Rightarrow> int" where
  "month_date E nw k d = (case local_civil E nw of (y, m, _) \<Rightarrow> utc_of_local E (make_day y (m + k) d * msPerDay))"

definition monthly_step :: "'x services \<Rightarrow> (string \<rightharpoonup> jsnum) \<Rightarrow> int \<Rightarrow> int \<Rightarrow> chart_point list \<Rightarrow> chart_point list" where
  "monthly_step E amounts nw i result =
     (let d = month_date E nw (- i) 1;
          key = local_month_key E d;
          amount = or_zero (amounts key)
      in result @ [\<lparr>chp_label = monthNames ! nat (fst (snd (local_civil E d))), chp_date = key, chp_amount = amount,
                    chp_percentage = increment_percentage result amount,
                    chp_isCurrent = (key = local_month_key E nw)\<rparr>])"

definition buildMonthlyData :: "'x services \<Rightarrow> simplified_transaction list \<Rightarrow> int \<Rightarrow> chart_point list" where
  "buildMonthlyData E txs nw = fold (monthly_step E (amountsMap month_key txs) nw) [4, 3, 2, 1, 0] []"

section \<open>Chart data\<close>

definition chart_range :: "'x services \<Rightarrow> int \<Rightarrow> range_type option \<Rightarrow> get_transactions_params \<Rightarrow> get_transactions_params" where
  "chart_range E nw rangeType params = (case rangeType of
       Some DAILY \<Rightarrow>
         (let monday = shift_date E nw (- distanceToMonday E nw); sunday = shift_date E monday 6
          in params\<lparr>gt_from := Some (iso_date monday), gt_to := Some (iso_date sunday)\<rparr>)
     | Some MONTHLY \<Rightarrow>
         params\<lparr>gt_from := Some (iso_date (month_date E nw (- 4) 1)), gt_to := Some (iso_date (month_date E nw 1 0))\<rparr>
     | None \<Rightarrow> params)"

definition getTransactionsByMonthDate :: "'x services \<Rightarrow> get_transactions_params \<Rightarrow> string \<Rightarrow> range_type option \<Rightarrow> ('x world, chart_response) op" where
  "getTransactionsByMonthDate E params customerToken rangeType =
     bindE (now E) (\<lambda>nw.
     bindE (getUserTransactions E (chart_range E nw rangeType params) customerToken) (\<lambda>(transactions, _).
     (let chartData = (case rangeType of Some DAILY \<Rightarrow> buildDailyData E transactions nw
                                   | Some MONTHLY \<Rightarrow> buildMonthlyData E transactions nw | None \<Rightarrow> [])
      in ok \<lparr>chr_type = (case rangeType of Some r \<Rightarrow> r | None \<Rightarrow> DAILY),
             chr_totalBalance = foldl (\<lambda>acc p. js_add acc (chp_amount p)) (Fin 0) chartData,
             chr_chartData = chartData\<rparr>)))"

end
