(* ===== verification/ChartProps.thy ===== *)
theory ChartProps
  imports Transactions Samples
begin

text \<open>
  What the charts of the transactions show: the amount of each key is the sum of its transactions,
  and the weekly chart has the days of the current week, from Monday to Sunday.
\<close>

section \<open>The amounts of a key\<close>

lemma or_zero_sum:
  assumes "v \<noteq> Some NaN"
  shows "or_zero v = (case v of Some n \<Rightarrow> n | None \<Rightarrow> Fin 0)"
  using assms by (auto simp: or_zero_def js_num_truthy_def split: option.split)

lemma add_fin_not_nan: "n \<noteq> NaN \<Longrightarrow> js_add n (Fin r) \<noteq> NaN"
  by (cases n) (simp_all add: to_double_def Let_def)

text \<open>
  The same sum as a reference: the amounts of the transactions with the key, added in order.
\<close>

definition key_sum :: "(simplified_transaction \<Rightarrow> string) \<Rightarrow> simplified_transaction list \<Rightarrow> string \<Rightarrow> jsnum option" where
  "key_sum key txs k = (case map stx_amount (filter (\<lambda>tx. key tx = k) txs) of
     [] \<Rightarrow> None | a # as \<Rightarrow> Some (foldl js_add (Fin 0) (a # as)))"

lemma key_sum_snoc:
  "key_sum key (txs @ [tx]) k =
    (if key tx = k then Some (js_add (case key_sum key txs k of Some n \<Rightarrow> n | None \<Rightarrow> Fin 0) (stx_amount tx)) else key_sum key txs k)"
  by (auto simp: key_sum_def split: list.split)

lemma key_sum_not_nan:
  "(\<And>tx. tx \<in> set txs \<Longrightarrow> js_finite (stx_amount tx)) \<Longrightarrow> key_sum key txs k \<noteq> Some NaN"
proof (induction txs rule: rev_induct)
  case Nil
  then show ?case by (simp add: key_sum_def)
next
  case (snoc tx txs)
  then have "key_sum key txs k \<noteq> Some NaN" by simp
  moreover obtain r where "stx_amount tx = Fin r" using snoc.prems [of tx] by (cases "stx_amount tx") auto
  ultimately show ?case
    using add_fin_not_nan [of "case key_sum key txs k of Some n \<Rightarrow> n | None \<Rightarrow> Fin 0" r]
    by (auto simp: key_sum_snoc split: option.splits)
qed

text \<open>
  C36: The map both charts are drawn from holds, for every key, the sum of the amounts of the
  transactions under that key, added in the order of the list, and nothing for a key without
  transactions: resetting a missing or zero entry with \<^verbatim>\<open>|| 0\<close> on every step loses nothing, as
  long as every amount is a finite number.
\<close>

theorem amountsMap_sums:
  assumes "\<forall>tx \<in> set txs. js_finite (stx_amount tx)"
  shows "amountsMap key txs = key_sum key txs"
  using assms
proof (induction txs rule: rev_induct)
  case Nil
  then show ?case by (simp add: amountsMap_def key_sum_def fun_eq_iff)
next
  case (snoc tx txs)
  then have IH: "amountsMap key txs = key_sum key txs" by simp
  show ?case
  proof
    fix k
    have "key_sum key txs k' \<noteq> Some NaN" for k' using snoc.prems by (intro key_sum_not_nan) simp
    then show "amountsMap key (txs @ [tx]) k = key_sum key (txs @ [tx]) k"
      using IH by (simp add: amountsMap_def add_amount_def key_sum_snoc or_zero_sum)
  qed
qed

definition chart_txs :: "simplified_transaction list" where
  "chart_txs = map (\<lambda>(d, a). \<lparr>stx_id = 1, stx_date = d, stx_title = [], stx_category = [], stx_amount = Fin a\<rparr>)
     [(''2025-01-06T10:00'', 5), (''2025-01-07T10:00'', 2), (''2025-01-06T12:00'', 3)]"

theorem amountsMap_sums_witness: "amountsMap day_key chart_txs ''2025-01-06'' = Some (js_int 8)"
proof -
  have "amountsMap day_key chart_txs = key_sum day_key chart_txs"
    by (rule amountsMap_sums) (simp add: chart_txs_def)
  moreover have "key_sum day_key chart_txs ''2025-01-06'' = Some (js_int 8)" by code_simp
  ultimately show ?thesis by simp
qed

section \<open>The week\<close>

text \<open>A time zone with a constant offset from UTC.\<close>

definition fixed_zone :: "'x services \<Rightarrow> int \<Rightarrow> bool" where
  "fixed_zone E z \<longleftrightarrow> (\<forall>t. local_offset E t = z \<and> utc_of_local E t = t - z)"

lemma day_split: "day_of x * msPerDay + time_within_day x = x"
  by (simp add: day_of_def time_within_day_def)

lemma day_shift: "day_of (x + k * msPerDay) = day_of x + k"
  by (simp add: day_of_def msPerDay_def)

lemma shift_fixed: "fixed_zone E z \<Longrightarrow> shift_date E t k = t + k * msPerDay"
  using day_split [of "t + z"] by (simp add: shift_date_def fixed_zone_def local_time_def distrib_right)

lemma midnight_fixed: "fixed_zone E z \<Longrightarrow> set_midnight E t = day_of (t + z) * msPerDay - z"
  by (simp add: set_midnight_def fixed_zone_def local_time_def)

lemma day_midnight: "day_of (d * msPerDay) = d"
  by (simp add: day_of_def msPerDay_def)

lemma getDay_midnight: "fixed_zone E z \<Longrightarrow> getDay E (d * msPerDay - z) = week_day d"
  by (simp add: getDay_def fixed_zone_def local_time_def day_midnight)

text \<open>The point of a day of the week, by its distance from Monday.\<close>

definition week_point :: "'x services \<Rightarrow> simplified_transaction list \<Rightarrow> int \<Rightarrow> int \<Rightarrow> chart_point \<Rightarrow> bool" where
  "week_point E txs nw i p \<longleftrightarrow>
     (let d = distanceToMonday E nw; date = iso_date (nw + (i - d) * msPerDay) in
      chp_label p = [''L'', ''M'', ''M'', ''J'', ''V'', ''S'', ''D''] ! nat i \<and> chp_date p = date \<and>
      chp_amount p = (if d < i then Fin 0 else or_zero (amountsMap day_key txs date)) \<and>
      chp_isCurrent p = (date = iso_date nw))"

lemma daily_step_point:
  assumes z: "fixed_zone E z" and i: "0 \<le> i" "i < 7" and m: "set_midnight E nw' = set_midnight E nw"
  shows "\<exists>p. daily_step E (amountsMap day_key txs) (iso_date nw) (shift_date E nw (- distanceToMonday E nw)) i (nw', res)
    = (set_midnight E nw, res @ [p]) \<and> week_point E txs nw i p"
proof -
  let ?d = "distanceToMonday E nw" and ?D = "day_of (nw + z)"
  have cur: "shift_date E (shift_date E nw (- ?d)) i = nw + (i - ?d) * msPerDay"
    using z by (simp add: shift_fixed algebra_simps)
  have "day_of (nw + (i - ?d) * msPerDay + z) = ?D + (i - ?d)"
    using day_shift [of "nw + z" "i - ?d"] by (simp add: algebra_simps)
  then have day0: "set_midnight E (nw + (i - ?d) * msPerDay) = (?D + (i - ?d)) * msPerDay - z"
    using z by (simp add: midnight_fixed)
  have later: "set_midnight E nw < (?D + (i - ?d)) * msPerDay - z \<longleftrightarrow> ?d < i"
    using z by (auto simp: midnight_fixed msPerDay_def)
  have "?d = (week_day ?D + 6) mod 7" using z by (simp add: distanceToMonday_def getDay_def local_time_def fixed_zone_def)
  then have "getDay E ((?D + (i - ?d)) * msPerDay - z) = (i + 1) mod 7"
    using week_day_shift [OF i, of ?D] z by (simp add: getDay_midnight add_diff_eq diff_add_eq)
  moreover have "dayLabels ! nat ((i + 1) mod 7) = [''L'', ''M'', ''M'', ''J'', ''V'', ''S'', ''D''] ! nat i"
  proof -
    have "i \<in> {0, 1, 2, 3, 4, 5, 6}" using i by auto
    then show ?thesis by (auto simp: dayLabels_def)
  qed
  ultimately show ?thesis
    by (simp add: daily_step_def Let_def cur day0 later m week_point_def)
qed

text \<open>
  C37: In a time zone with a constant offset the weekly chart has seven points, labelled Monday to
  Sunday, for the days of the week of the current date; the points up to today carry the sum of
  the transactions of their date and the days still to come carry zero. The date of a point is the
  date in UTC of the current time of day, so that it is the labelled day exactly when the local and
  the UTC date agree.
\<close>

theorem daily_chart_week:
  assumes "fixed_zone E z"
  shows "list_all2 (week_point E txs nw) [0, 1, 2, 3, 4, 5, 6] (buildDailyData E txs nw)"
proof -
  let ?f = "daily_step E (amountsMap day_key txs) (iso_date nw) (shift_date E nw (- distanceToMonday E nw))"
  have mid: "set_midnight E (set_midnight E nw) = set_midnight E nw"
    using assms by (simp add: midnight_fixed day_midnight)
  have fold: "\<exists>ps. fold ?f js (nw', res) = (if js = [] then nw' else set_midnight E nw, res @ ps) \<and> list_all2 (week_point E txs nw) js ps"
    if "set_midnight E nw' = set_midnight E nw" "\<And>i. i \<in> set js \<Longrightarrow> 0 \<le> i \<and> i < 7" for js nw' res
    using that
  proof (induction js arbitrary: nw' res)
    case (Cons i js)
    obtain p where p: "?f i (nw', res) = (set_midnight E nw, res @ [p])" "week_point E txs nw i p"
      using daily_step_point [OF assms, of i nw' nw txs res] Cons.prems by auto
    obtain ps where "fold ?f js (set_midnight E nw, res @ [p]) = (if js = [] then set_midnight E nw else set_midnight E nw, (res @ [p]) @ ps)"
      "list_all2 (week_point E txs nw) js ps"
      using Cons.IH [of "set_midnight E nw" "res @ [p]"] mid Cons.prems(2) by auto
    with p show ?case by (intro exI [of _ "p # ps"]) simp
  qed simp
  have "\<And>i. i \<in> set [0, 1, 2, 3, 4, 5, 6 :: int] \<Longrightarrow> 0 \<le> i \<and> i < 7" by auto
  from fold [where js = "[0, 1, 2, 3, 4, 5, 6]" and res = "[]", OF refl this] obtain ps where
    ps: "fold ?f [0, 1, 2, 3, 4, 5, 6] (nw, []) = (if [0, 1, 2, 3, 4, 5, 6 :: int] = [] then nw else set_midnight E nw, [] @ ps)"
      "list_all2 (week_point E txs nw) [0, 1, 2, 3, 4, 5, 6] ps" by blast
  show ?thesis unfolding buildDailyData_def ps(1) using ps(2) by simp
qed

text \<open>The sample lives at six hours behind UTC; the time is Monday, 2025-01-06, at 19:00 local time.\<close>

definition west_services :: "int services" where
  "west_services = sample_services\<lparr>local_offset := (\<lambda>t. - 21600000), utc_of_local := (\<lambda>t. t + 21600000)\<rparr>"

theorem daily_chart_week_witness:
  "list_all2 (week_point west_services chart_txs 1736211600000) [0, 1, 2, 3, 4, 5, 6] (buildDailyData west_services chart_txs 1736211600000)
   \<and> chp_label (hd (buildDailyData west_services chart_txs 1736211600000)) = ''L''
   \<and> chp_date (hd (buildDailyData west_services chart_txs 1736211600000)) = ''2025-01-07''"
proof -
  have "fixed_zone west_services (- 21600000)" by (simp add: fixed_zone_def west_services_def)
  from daily_chart_week [OF this, of chart_txs 1736211600000]
  have w: "list_all2 (week_point west_services chart_txs 1736211600000) [0, 1, 2, 3, 4, 5, 6] (buildDailyData west_services chart_txs 1736211600000)" .
  then obtain p ps where p: "buildDailyData west_services chart_txs 1736211600000 = p # ps" "week_point west_services chart_txs 1736211600000 0 p"
    by (auto simp: list_all2_Cons1)
  have "distanceToMonday west_services 1736211600000 = 0" "iso_date 1736211600000 = ''2025-01-07''" by code_simp+
  with p(2) have "chp_label p = ''L''" "chp_date p = ''2025-01-07''" by (simp_all add: week_point_def Let_def)
  with w p(1) show ?thesis by simp
qed

end
