(* ===== verification/Exchange.thy ===== *)
theory Exchange
  imports Accounts
begin

text \<open>
  Exchange rates: \<^verbatim>\<open>utils/exchangeRate.utils.ts\<close>, the error maps of \<^verbatim>\<open>api/banxico.instance.ts\<close> and
  \<^verbatim>\<open>api/criptoya.instance.ts\<close>, and \<^verbatim>\<open>services/exchangeRate.service.ts\<close>.
\<close>

section \<open>Errors of the two sources\<close>

definition banxico_errorMap :: "(int \<times> error) list" where
  "banxico_errorMap =
     [(400, mk_error BadRequestError ''Banxico: Invalid request parameters.''),
      (401, mk_error UnauthorizedError ''Banxico: Invalid or missing token.''),
      (403, mk_error ForbiddenError ''Banxico: Forbidden (token disabled or limit exceeded).''),
      (404, mk_error NotFoundError ''Banxico: Resource not found.''),
      (500, mk_error InternalServerError ''Banxico: Unexpected server failure.'')]"

definition banxico_error :: "http_failure \<Rightarrow> error" where
  "banxico_error h = (case mapped_error banxico_errorMap h of
       Some e \<Rightarrow> e | None \<Rightarrow> mk_error Error (or_default (hf_message h) ''Banxico: Unknown error occurred.''))"

definition criptoya_errorMap :: "(int \<times> error) list" where
  "criptoya_errorMap =
     [(400, mk_error BadRequestError ''CriptoYa: invalid request parameters.''),
      (401, mk_error UnauthorizedError ''CriptoYa: unauthorized.''),
      (403, mk_error UnauthorizedError ''CriptoYa: access denied.''),
      (429, mk_error BadRequestError ''CriptoYa: rate limit exceeded.''),
      (500, mk_error InternalServerError ''CriptoYa: internal server error.'')]"

definition criptoya_error :: "http_failure \<Rightarrow> error" where
  "criptoya_error h = (case mapped_error criptoya_errorMap h of
       Some e \<Rightarrow> e | None \<Rightarrow> mk_error InternalServerError (hf_message h))"

section \<open>Rates\<close>

definition formatDate :: "'x services \<Rightarrow> int \<Rightarrow> string" where
  "formatDate E t = (case civil_of_day (day_of (t + local_offset E t)) of (yyyy, mm, dd) \<Rightarrow>
     pad2 dd @ ''/'' @ pad2 (mm + 1) @ ''/'' @ string_of_int yyyy)"

definition applyFee :: "jsnum \<Rightarrow> jsnum \<Rightarrow> jsnum" where
  "applyFee rate feeRate = js_mul rate (js_sub (Fin 1) feeRate)"

definition buildBobMxnRate :: "jsnum \<Rightarrow> jsnum \<Rightarrow> jsnum \<Rightarrow> jsnum \<Rightarrow> jsnum" where
  "buildBobMxnRate bobUsdt usdtMxn bobUsdtFee usdtMxnFee =
     js_mul (js_div (Fin 1) (applyFee bobUsdt bobUsdtFee)) (applyFee usdtMxn usdtMxnFee)"

text \<open>\<^verbatim>\<open>s.replace(',', '')\<close> removes the first comma only.\<close>

definition remove_comma :: "string \<Rightarrow> string" where
  "remove_comma s = remove1 CHR '','' s"

definition series_item :: "banxico_serie list option \<Rightarrow> (string option \<times> string option) option" where
  "series_item series = (case series of
       Some (s # _) \<Rightarrow> (case bs_datos s of Some (d # _) \<Rightarrow> Some d | _ \<Rightarrow> None)
     | _ \<Rightarrow> None)"

definition getUsdMxnFixToday :: "'x services \<Rightarrow> ('x world, exchange_rate_response) op" where
  "getUsdMxnFixToday E =
     bindE (remote CallBanxico (api_banxico E) banxico_error) (\<lambda>series.
     bindE (require (case series_item series of
                       Some (Some fecha, Some dato) \<Rightarrow> if fecha \<noteq> [] \<and> dato \<noteq> [] then Some (fecha, dato) else None
                     | _ \<Rightarrow> None)
              (mk_error BadRequestError ''Banxico response missing date or rate.'')) (\<lambda>(fecha, datoRaw).
     (let rate = number_of_string (remove_comma datoRaw) in
      bindE (ensure (js_finite rate) (mk_error BadRequestError (''Invalid Banxico rate value: '' @ datoRaw))) (\<lambda>_.
      ok \<lparr>er_provider = ''BANXICO'', er_seriesId = ''SF43718'', er_date = fecha,
          er_rate = applyFee rate (cfg_usdMxnFeeRate (cfg E)),
          er_title = (case series of Some (s # _) \<Rightarrow> bs_titulo s | _ \<Rightarrow> None)\<rparr>))))"

definition quote_value :: "jsnum option \<Rightarrow> jsnum" where
  "quote_value v = (case v of Some n \<Rightarrow> n | None \<Rightarrow> NaN)"

definition quote_text :: "jsnum option \<Rightarrow> string" where
  "quote_text v = (case v of Some n \<Rightarrow> js_num_str n | None \<Rightarrow> ''undefined'')"

definition usable_quote :: "jsnum \<Rightarrow> bool" where
  "usable_quote n \<longleftrightarrow> js_finite n \<and> \<not> js_less_eq n (Fin 0)"

definition criptoya_path :: "string \<Rightarrow> string" where
  "criptoya_path fiat = ''/api/binancep2p/USDT/'' @ fiat @ ''/1''"



definition getBobMxnToday :: "'x services \<Rightarrow> ('x world, exchange_rate_response) op" where
  "getBobMxnToday E =
     bindE (promise_all2
              (remote (CallCriptoya (criptoya_path ''BOB'')) (api_criptoya E (criptoya_path ''BOB'')) criptoya_error)
              (remote (CallCriptoya (criptoya_path ''MXN'')) (api_criptoya E (criptoya_path ''MXN'')) criptoya_error))
       (\<lambda>(bobQuote, mxnQuote).
     (let ask = (case bobQuote of None \<Rightarrow> None | Some q \<Rightarrow> cy_ask q);
          bid = (case mxnQuote of None \<Rightarrow> None | Some q \<Rightarrow> cy_bid q) in
      bindE (ensure (usable_quote (quote_value ask))
               (mk_error BadRequestError (''Invalid CriptoYa ask value: '' @ quote_text ask))) (\<lambda>_.
      bindE (ensure (usable_quote (quote_value bid))
               (mk_error BadRequestError (''Invalid CriptoYa bid value: '' @ quote_text bid))) (\<lambda>_.
      bindE (now E) (\<lambda>t.
      ok \<lparr>er_provider = ''CRIPTOYA'', er_seriesId = ''binancep2p:USDT/BOB,binancep2p:USDT/MXN'',
          er_date = formatDate E t,
          er_rate = buildBobMxnRate (quote_value ask) (quote_value bid)
                      (cfg_bobUsdtFeeRate (cfg E)) (cfg_usdtMxnFeeRate (cfg E)),
          er_title = Some ''CriptoYa BOB/USDT (ask) + USDT/MXN (bid) (fee applied)''\<rparr>)))))"

end
