(* ===== verification/ExchangeProps.thy ===== *)
theory ExchangeProps
  imports Exchange Samples
begin













end
