(* ===== verification/Wallets.thy ===== *)
theory Wallets
  imports SipPayments Accounts
begin

text \<open>
  The blockchain wallets of the users and the orders around them:
  \<^verbatim>\<open>services/crossmintWallet.client.ts\<close> with the error map of \<^verbatim>\<open>api/crossmint.instance.ts\<close>,
  \<^verbatim>\<open>repositories/userWallet.repository.ts\<close>, \<^verbatim>\<open>services/userWallet.service.ts\<close>,
  \<^verbatim>\<open>repositories/rampOrder.repository.ts\<close>, \<^verbatim>\<open>services/rampOrder.service.ts\<close>,
  \<^verbatim>\<open>repositories/investmentOperation.repository.ts\<close> and \<^verbatim>\<open>services/investmentOperation.service.ts\<close>.
\<close>

section \<open>The wallet provider\<close>

definition crossmint_errorMap :: "(int \<times> error) list" where
  "crossmint_errorMap =
     [(400, mk_error BadRequestError ''Crossmint: invalid request parameters.''),
      (401, mk_error UnauthorizedError ''Crossmint: invalid or missing API key.''),
      (403, mk_error UnauthorizedError ''Crossmint: access denied.''),
      (409, mk_error BadRequestError ''Crossmint: wallet already exists.''),
      (429, mk_error BadRequestError ''Crossmint: rate limit exceeded.''),
      (500, mk_error InternalServerError ''Crossmint: internal server error.'')]"

definition crossmint_error :: "http_failure \<Rightarrow> error" where
  "crossmint_error h = (case mapped_error crossmint_errorMap h of
       Some e \<Rightarrow> e | None \<Rightarrow> mk_error InternalServerError (hf_message h))"

definition CrossmintWalletClient_createWallet :: "'x services \<Rightarrow> int \<Rightarrow> ('x world, string \<times> string) op" where
  "CrossmintWalletClient_createWallet E userId =
     (let linkedUser = ''userId:'' @ string_of_int userId in
      remote (CallCreateWallet linkedUser) (api_create_wallet E linkedUser) crossmint_error)"

section \<open>Wallets\<close>

definition UserWalletRepository_findByUserId :: "int \<Rightarrow> ('x world, user_wallet_row option) op" where
  "UserWalletRepository_findByUserId userId = gets (\<lambda>w. find_row (\<lambda>r. uw_userId r = userId) (userWallets w))"

definition UserWalletRepository_findById :: "int \<Rightarrow> ('x world, user_wallet_row option) op" where
  "UserWalletRepository_findById i = gets (\<lambda>w. find_row (\<lambda>r. uw_id r = i) (userWallets w))"

definition wallet_keys_free :: "user_wallet_row \<Rightarrow> user_wallet_row table \<Rightarrow> bool" where
  "wallet_keys_free r t \<longleftrightarrow> \<not> exists_row (\<lambda>q. uw_id q \<noteq> uw_id r \<and>
     (uw_userId q = uw_userId r \<or> uw_providerWalletId q = uw_providerWalletId r)) t"

definition UserWalletRepository_create :: "'x services \<Rightarrow> (int \<Rightarrow> int \<Rightarrow> user_wallet_row) \<Rightarrow> ('x world, user_wallet_row) op" where
  "UserWalletRepository_create E mk =
     bindE (now E) (\<lambda>t.
     bindE (gets (\<lambda>w. mk (next_id (userWallets w)) t)) (\<lambda>r.
     bindE (gets (\<lambda>w. exists_row (\<lambda>u. usr_id u = uw_userId r) (users w))) (\<lambda>u.
     bindE (ensure u foreign_key_violation) (\<lambda>_.
     bindE (gets (\<lambda>w. wallet_keys_free r (userWallets w))) (\<lambda>free.
     bindE (ensure free unique_violation) (\<lambda>_.
     bindE (modify (\<lambda>w. w\<lparr>userWallets := insert_row r (userWallets w)\<rparr>)) (\<lambda>_. ok r)))))))"

record wallet_update =
  wu_provider :: "WalletProvider option"
  wu_providerWalletId :: "string option"
  wu_walletAddress :: "string option"
  wu_chain :: "WalletChain option"
  wu_custodyType :: "CustodyType option"
  wu_status :: "WalletStatus option"
  wu_metadata :: "json option option"

definition set_or :: "'a option \<Rightarrow> 'a \<Rightarrow> 'a" where
  "set_or v old = (case v of Some a \<Rightarrow> a | None \<Rightarrow> old)"

definition updateByUserId :: "'x services \<Rightarrow> int \<Rightarrow> wallet_update \<Rightarrow> ('x world, user_wallet_row) op" where
  "updateByUserId E userId d =
     bindE (now E) (\<lambda>t.
     bindE (UserWalletRepository_findByUserId userId) (\<lambda>found.
     bindE (require found record_not_found) (\<lambda>r.
     (let f = (\<lambda>r. r\<lparr>uw_provider := set_or (wu_provider d) (uw_provider r),
                 uw_providerWalletId := set_or (wu_providerWalletId d) (uw_providerWalletId r),
                 uw_walletAddress := set_or (wu_walletAddress d) (uw_walletAddress r),
                 uw_chain := set_or (wu_chain d) (uw_chain r),
                 uw_custodyType := set_or (wu_custodyType d) (uw_custodyType r),
                 uw_status := set_or (wu_status d) (uw_status r),
                 uw_metadata := set_or (wu_metadata d) (uw_metadata r), uw_updatedAt := t\<rparr>) in
      bindE (gets (\<lambda>w. wallet_keys_free (f r) (userWallets w))) (\<lambda>free.
      bindE (ensure free unique_violation) (\<lambda>_.
      bindE (modify (\<lambda>w. w\<lparr>userWallets := update_rows (\<lambda>r. uw_userId r = userId) f (userWallets w)\<rparr>)) (\<lambda>_.
      ok (f r))))))))"

definition toWalletResponse :: "user_wallet_row \<Rightarrow> wallet_response" where
  "toWalletResponse r =
     \<lparr>wr_id = uw_id r, wr_userId = uw_userId r, wr_crossmintWalletId = uw_providerWalletId r,
      wr_walletAddress = uw_walletAddress r, wr_chainType = uw_chain r, wr_status = uw_status r,
      wr_createdAt = uw_createdAt r\<rparr>"

definition createOrGetWallet :: "'x services \<Rightarrow> int \<Rightarrow> ('x world, wallet_response) op" where
  "createOrGetWallet E userId =
     bindE (UserWalletRepository_findByUserId userId) (\<lambda>existing. case existing of
         Some r \<Rightarrow> ok (toWalletResponse r)
       | None \<Rightarrow>
           bindE (CrossmintWalletClient_createWallet E userId) (\<lambda>(i, address).
           bindE (UserWalletRepository_create E (\<lambda>wid t.
             \<lparr>uw_id = wid, uw_userId = userId, uw_provider = WP_CROSSMINT, uw_providerWalletId = i,
              uw_walletAddress = address, uw_chain = STELLAR, uw_custodyType = NON_CUSTODIAL,
              uw_status = WS_ACTIVE, uw_metadata = None, uw_createdAt = t, uw_updatedAt = t\<rparr>)) (\<lambda>wallet.
           ok (toWalletResponse wallet))))"

definition getWalletByUser :: "int \<Rightarrow> ('x world, wallet_response) op" where
  "getWalletByUser userId =
     bindE (UserWalletRepository_findByUserId userId) (\<lambda>found.
     bindE (require found (mk_error NotFoundError ''Wallet not found for this user.'')) (\<lambda>r.
     ok (toWalletResponse r)))"

section \<open>Ramp orders\<close>

text \<open>Amounts arrive as decimal text, are rounded to the column, and go out as decimal text.\<close>

definition parse_signed :: "string \<Rightarrow> rat option" where
  "parse_signed s = (case s of c # t \<Rightarrow>
       if c = CHR ''-'' then map_option uminus (parse_decimal t)
       else if c = CHR ''+'' then parse_decimal t else parse_decimal s
     | [] \<Rightarrow> None)"

definition store_decimal_text :: "nat \<Rightarrow> nat \<Rightarrow> string \<Rightarrow> error + rat" where
  "store_decimal_text p s v = (case parse_signed v of None \<Rightarrow> Inl column_error | Some x \<Rightarrow> fit_decimal p s (half_up s x))"

definition store_optional :: "nat \<Rightarrow> nat \<Rightarrow> string option \<Rightarrow> error + rat option" where
  "store_optional p s v = (case v of None \<Rightarrow> Inr None | Some t \<Rightarrow>
     (case store_decimal_text p s t of Inl e \<Rightarrow> Inl e | Inr x \<Rightarrow> Inr (Some x)))"

fun drop_zeros :: "string \<Rightarrow> string" where
  "drop_zeros s = rev (dropWhile (\<lambda>c. c = CHR ''0'') (rev s))"

definition decimal_text :: "nat \<Rightarrow> rat \<Rightarrow> string" where
  "decimal_text s d =
     (let n = \<lfloor>\<bar>d\<bar> * of_int (10 ^ s)\<rfloor>; q = 10 ^ s;
          frac = drop_zeros (padStart s CHR ''0'' (string_of_int (n mod q)))
      in (if d < 0 then ''-'' else []) @ string_of_int (n div q) @ (if frac = [] then [] else ''.'' @ frac))"

definition RampOrderRepository_findById :: "int \<Rightarrow> ('x world, ramp_order_row option) op" where
  "RampOrderRepository_findById i = gets (\<lambda>w. find_row (\<lambda>r. ro_id r = i) (rampOrders w))"

definition RampOrderRepository_findByIdempotencyKey :: "string \<Rightarrow> ('x world, ramp_order_row option) op" where
  "RampOrderRepository_findByIdempotencyKey k = gets (\<lambda>w. find_row (\<lambda>r. ro_idempotencyKey r = k) (rampOrders w))"

definition findByProviderOrderId :: "string \<Rightarrow> ('x world, ramp_order_row option) op" where
  "findByProviderOrderId i = gets (\<lambda>w. find_row (\<lambda>r. ro_providerOrderId r = Some i) (rampOrders w))"

definition RampOrderRepository_findByUserId :: "int \<Rightarrow> ('x world, ramp_order_row list) op" where
  "RampOrderRepository_findByUserId userId =
     gets (\<lambda>w. sort_key (\<lambda>r. - ro_createdAt r) (find_rows (\<lambda>r. ro_userId r = userId) (rampOrders w)))"

record ramp_order_create =
  rc_userId :: int
  rc_walletId :: "int option"
  rc_provider :: RampProvider
  rc_type :: RampOrderType
  rc_providerOrderId :: "string option"
  rc_idempotencyKey :: string
  rc_fiatAmount :: "string option"
  rc_fiatCurrency :: "string option"
  rc_cryptoAmount :: "string option"
  rc_cryptoAsset :: "string option"
  rc_chain :: "WalletChain option"
  rc_paymentMethod :: "string option"
  rc_bankName :: "string option"
  rc_accountSuffix :: "string option"
  rc_status :: "payments_status option"
  rc_failureReason :: "string option"
  rc_requestPayload :: "json option"
  rc_responsePayload :: "json option"

definition ramp_keys_free :: "ramp_order_row \<Rightarrow> ramp_order_row table \<Rightarrow> bool" where
  "ramp_keys_free r t \<longleftrightarrow> \<not> exists_row (\<lambda>q. ro_id q \<noteq> ro_id r \<and>
     (ro_idempotencyKey q = ro_idempotencyKey r
      \<or> ro_providerOrderId r \<noteq> None \<and> ro_providerOrderId q = ro_providerOrderId r)) t"

definition RampOrderRepository_create :: "'x services \<Rightarrow> ramp_order_create \<Rightarrow> ('x world, ramp_order_row) op" where
  "RampOrderRepository_create E d =
     bindE (now E) (\<lambda>t.
     bindE (from_sum (store_optional 14 2 (rc_fiatAmount d))) (\<lambda>fiatAmount.
     bindE (from_sum (store_optional 18 6 (rc_cryptoAmount d))) (\<lambda>cryptoAmount.
     bindE (gets (\<lambda>w. \<lparr>ro_id = next_id (rampOrders w), ro_userId = rc_userId d, ro_walletId = rc_walletId d,
              ro_provider = rc_provider d, ro_type = rc_type d, ro_providerOrderId = rc_providerOrderId d,
              ro_idempotencyKey = rc_idempotencyKey d, ro_fiatAmount = fiatAmount,
              ro_fiatCurrency = set_or (rc_fiatCurrency d) ''MXN'', ro_cryptoAmount = cryptoAmount,
              ro_cryptoAsset = rc_cryptoAsset d, ro_chain = rc_chain d, ro_paymentMethod = rc_paymentMethod d,
              ro_bankName = rc_bankName d, ro_accountSuffix = rc_accountSuffix d,
              ro_status = set_or (rc_status d) PENDING, ro_failureReason = rc_failureReason d,
              ro_requestPayload = rc_requestPayload d, ro_responsePayload = rc_responsePayload d,
              ro_createdAt = t, ro_updatedAt = t\<rparr>)) (\<lambda>r.
     bindE (gets (\<lambda>w. exists_row (\<lambda>u. usr_id u = ro_userId r) (users w) \<and>
              (case ro_walletId r of None \<Rightarrow> True | Some i \<Rightarrow> exists_row (\<lambda>q. uw_id q = i) (userWallets w)))) (\<lambda>refs.
     bindE (ensure refs foreign_key_violation) (\<lambda>_.
     bindE (gets (\<lambda>w. ramp_keys_free r (rampOrders w))) (\<lambda>free.
     bindE (ensure free unique_violation) (\<lambda>_.
     bindE (modify (\<lambda>w. w\<lparr>rampOrders := insert_row r (rampOrders w)\<rparr>)) (\<lambda>_. ok r)))))))))"

definition update_ramp :: "'x services \<Rightarrow> int \<Rightarrow> (ramp_order_row \<Rightarrow> ramp_order_row) \<Rightarrow> ('x world, ramp_order_row) op" where
  "update_ramp E i f =
     bindE (now E) (\<lambda>t.
     bindE (RampOrderRepository_findById i) (\<lambda>found.
     bindE (require found record_not_found) (\<lambda>r.
     bindE (gets (\<lambda>w. ramp_keys_free (f r) (rampOrders w))) (\<lambda>free.
     bindE (ensure free unique_violation) (\<lambda>_.
     bindE (modify (\<lambda>w. w\<lparr>rampOrders := update_rows (\<lambda>r. ro_id r = i) (\<lambda>r. (f r)\<lparr>ro_updatedAt := t\<rparr>) (rampOrders w)\<rparr>)) (\<lambda>_.
     ok ((f r)\<lparr>ro_updatedAt := t\<rparr>)))))))"

definition RampOrderRepository_updateStatus :: "'x services \<Rightarrow> int \<Rightarrow> payments_status \<Rightarrow> string option \<Rightarrow> ('x world, ramp_order_row) op" where
  "RampOrderRepository_updateStatus E i status failureReason =
     update_ramp E i (\<lambda>r. r\<lparr>ro_status := status, ro_failureReason := failureReason\<rparr>)"

record ramp_update =
  ru_providerOrderId :: "string option"
  ru_cryptoAmount :: "string option"
  ru_cryptoAsset :: "string option"
  ru_chain :: "WalletChain option"
  ru_paymentMethod :: "string option"
  ru_status :: "payments_status option"
  ru_failureReason :: "string option option"
  ru_responsePayload :: "json option option"

definition RampOrderRepository_update :: "'x services \<Rightarrow> int \<Rightarrow> ramp_update \<Rightarrow> ('x world, ramp_order_row) op" where
  "RampOrderRepository_update E i d =
     bindE (from_sum (store_optional 18 6 (ru_cryptoAmount d))) (\<lambda>cryptoAmount.
     update_ramp E i (\<lambda>r. r\<lparr>
       ro_providerOrderId := (if ru_providerOrderId d \<noteq> None then ru_providerOrderId d else ro_providerOrderId r),
       ro_cryptoAmount := (if ru_cryptoAmount d \<noteq> None then cryptoAmount else ro_cryptoAmount r),
       ro_cryptoAsset := (if ru_cryptoAsset d \<noteq> None then ru_cryptoAsset d else ro_cryptoAsset r),
       ro_chain := (if ru_chain d \<noteq> None then ru_chain d else ro_chain r),
       ro_paymentMethod := (if ru_paymentMethod d \<noteq> None then ru_paymentMethod d else ro_paymentMethod r),
       ro_status := set_or (ru_status d) (ro_status r),
       ro_failureReason := set_or (ru_failureReason d) (ro_failureReason r),
       ro_responsePayload := set_or (ru_responsePayload d) (ro_responsePayload r)\<rparr>))"

text \<open>The order as it is shown: the row with its two amounts as text.\<close>

record ramp_order_response =
  ror_order :: ramp_order_row
  ror_fiatAmount :: "string option"
  ror_cryptoAmount :: "string option"

definition ramp_response :: "ramp_order_row \<Rightarrow> ramp_order_response" where
  "ramp_response r = \<lparr>ror_order = r, ror_fiatAmount = map_option (decimal_text 2) (ro_fiatAmount r),
                      ror_cryptoAmount = map_option (decimal_text 6) (ro_cryptoAmount r)\<rparr>"

definition RampOrderService_findById :: "int \<Rightarrow> ('x world, ramp_order_response) op" where
  "RampOrderService_findById i =
     bindE (RampOrderRepository_findById i) (\<lambda>found.
     bindE (require found (mk_error NotFoundError ''Ramp order not found.'')) (\<lambda>r. ok (ramp_response r)))"

definition RampOrderService_findByIdempotencyKey :: "string \<Rightarrow> ('x world, ramp_order_response option) op" where
  "RampOrderService_findByIdempotencyKey k =
     bindE (RampOrderRepository_findByIdempotencyKey k) (\<lambda>found. ok (map_option ramp_response found))"

definition RampOrderService_findByUserId :: "int \<Rightarrow> ('x world, ramp_order_response list) op" where
  "RampOrderService_findByUserId userId =
     bindE (RampOrderRepository_findByUserId userId) (\<lambda>rs. ok (map ramp_response rs))"

section \<open>Investment operations\<close>

definition InvestmentOperationRepository_findById :: "int \<Rightarrow> ('x world, investment_row option) op" where
  "InvestmentOperationRepository_findById i = gets (\<lambda>w. find_row (\<lambda>r. io_id r = i) (investmentOperations w))"

definition InvestmentOperationRepository_findByUserId :: "int \<Rightarrow> ('x world, investment_row list) op" where
  "InvestmentOperationRepository_findByUserId userId =
     gets (\<lambda>w. sort_key (\<lambda>r. - io_createdAt r) (find_rows (\<lambda>r. io_userId r = userId) (investmentOperations w)))"

definition findByTxHash :: "string \<Rightarrow> ('x world, investment_row option) op" where
  "findByTxHash h = gets (\<lambda>w. find_row (\<lambda>r. io_txHash r = Some h) (investmentOperations w))"

record investment_create =
  ic_userId :: int
  ic_walletId :: int
  ic_provider :: InvestmentProvider
  ic_type :: InvestmentOperationType
  ic_externalProductId :: "string option"
  ic_externalOperationId :: "string option"
  ic_asset :: string
  ic_amount :: string
  ic_chain :: WalletChain
  ic_status :: "InvestmentOperationStatus option"
  ic_txHash :: "string option"
  ic_providerTxId :: "string option"
  ic_requestPayload :: "json option"
  ic_responsePayload :: "json option"

definition InvestmentOperationRepository_create :: "'x services \<Rightarrow> investment_create \<Rightarrow> ('x world, investment_row) op" where
  "InvestmentOperationRepository_create E d =
     bindE (now E) (\<lambda>t.
     bindE (from_sum (store_decimal_text 18 6 (ic_amount d))) (\<lambda>amount.
     bindE (gets (\<lambda>w. \<lparr>io_id = next_id (investmentOperations w), io_userId = ic_userId d, io_walletId = ic_walletId d,
              io_provider = ic_provider d, io_type = ic_type d, io_externalProductId = ic_externalProductId d,
              io_externalOperationId = ic_externalOperationId d, io_asset = ic_asset d, io_amount = amount,
              io_chain = ic_chain d, io_status = set_or (ic_status d) IO_PENDING, io_txHash = ic_txHash d,
              io_providerTxId = ic_providerTxId d, io_requestPayload = ic_requestPayload d,
              io_responsePayload = ic_responsePayload d, io_failureReason = None,
              io_createdAt = t, io_updatedAt = t\<rparr>)) (\<lambda>r.
     bindE (gets (\<lambda>w. exists_row (\<lambda>u. usr_id u = io_userId r) (users w)
                     \<and> exists_row (\<lambda>q. uw_id q = io_walletId r) (userWallets w))) (\<lambda>refs.
     bindE (ensure refs foreign_key_violation) (\<lambda>_.
     bindE (modify (\<lambda>w. w\<lparr>investmentOperations := insert_row r (investmentOperations w)\<rparr>)) (\<lambda>_. ok r))))))"

definition update_investment :: "'x services \<Rightarrow> int \<Rightarrow> (investment_row \<Rightarrow> investment_row) \<Rightarrow> ('x world, investment_row) op" where
  "update_investment E i f =
     bindE (now E) (\<lambda>t.
     bindE (InvestmentOperationRepository_findById i) (\<lambda>found.
     bindE (require found record_not_found) (\<lambda>r.
     bindE (modify (\<lambda>w. w\<lparr>investmentOperations :=
              update_rows (\<lambda>r. io_id r = i) (\<lambda>r. (f r)\<lparr>io_updatedAt := t\<rparr>) (investmentOperations w)\<rparr>)) (\<lambda>_.
     ok ((f r)\<lparr>io_updatedAt := t\<rparr>)))))"

definition InvestmentOperationRepository_updateStatus :: "'x services \<Rightarrow> int \<Rightarrow> InvestmentOperationStatus \<Rightarrow> string option \<Rightarrow> ('x world, investment_row) op" where
  "InvestmentOperationRepository_updateStatus E i status failureReason =
     update_investment E i (\<lambda>r. r\<lparr>io_status := status, io_failureReason := failureReason\<rparr>)"

definition attachTransactionResult :: "'x services \<Rightarrow> int \<Rightarrow> string \<Rightarrow> string option \<Rightarrow> InvestmentOperationStatus \<Rightarrow> json option \<Rightarrow> ('x world, investment_row) op" where
  "attachTransactionResult E i txHash providerTxId status responsePayload =
     update_investment E i (\<lambda>r. r\<lparr>io_txHash := Some txHash, io_providerTxId := providerTxId, io_status := status,
       io_responsePayload := (if responsePayload \<noteq> None then responsePayload else io_responsePayload r)\<rparr>)"

definition investment_response :: "investment_row \<Rightarrow> investment_row \<times> string" where
  "investment_response r = (r, decimal_text 6 (io_amount r))"

definition InvestmentOperationService_findById :: "int \<Rightarrow> ('x world, investment_row \<times> string) op" where
  "InvestmentOperationService_findById i =
     bindE (InvestmentOperationRepository_findById i) (\<lambda>found.
     bindE (require found (mk_error NotFoundError ''Investment operation not found.'')) (\<lambda>r. ok (investment_response r)))"

definition InvestmentOperationService_findByUserId :: "int \<Rightarrow> ('x world, (investment_row \<times> string) list) op" where
  "InvestmentOperationService_findByUserId userId =
     bindE (InvestmentOperationRepository_findByUserId userId) (\<lambda>rs. ok (map investment_response rs))"

end
