(* ===== verification/WalletProps.thy ===== *)
theory WalletProps
  imports Wallets Samples
begin

text \<open>What the wallets promise: a user has one, whoever asks and however often.\<close>

section \<open>One wallet per user\<close>

definition wallet_is :: "user_wallet_row \<Rightarrow> 'x world \<Rightarrow> bool" where
  "wallet_is r w \<longleftrightarrow> find_row (\<lambda>q. uw_userId q = uw_userId r) (userWallets w) = Some r"

lemma wallet_env:
  "keeps (wallet_is r) (now E)" "keeps (wallet_is r) (remote c g h)"
  by (intro keeps_now keeps_remote; simp add: wallet_is_def)+

lemma wallet_insert: "wallet_is r w \<Longrightarrow> wallet_is r (w\<lparr>userWallets := insert_row q (userWallets w)\<rparr>)"
  by (simp add: wallet_is_def find_row_insert)

lemma wallet_kept: "keeps (wallet_is r) (createOrGetWallet E v)"
  unfolding createOrGetWallet_def UserWalletRepository_findByUserId_def CrossmintWalletClient_createWallet_def
    UserWalletRepository_create_def Let_def
  by (intro keeps_intros keeps_modify wallet_env wallet_insert)

text \<open>The requests of any users for their wallets.\<close>

definition wallet_step :: "'x services \<Rightarrow> int \<Rightarrow> 'x world \<Rightarrow> 'x world" where
  "wallet_step E v w = snd (createOrGetWallet E v w)"

interpretation wallet_system: invariant_system "wallet_step E" "wallet_is r" for E :: "'x services" and r
  by unfold_locales (simp add: wallet_step_def keepsD [OF wallet_kept])

lemma create_finds:
  assumes "UserWalletRepository_create E mk w = (Inr r, w')" and "\<And>k t. uw_userId (mk k t) = u"
  shows "uw_userId r = u \<and> (find_row (\<lambda>q. uw_userId q = u) (userWallets w) = None \<longrightarrow> wallet_is r w')"
  using assms
  by (auto simp: UserWalletRepository_create_def wallet_is_def bindE_Inr_iff now_run ensure_run find_row_insert split: if_splits)

lemma wallet_found:
  assumes "createOrGetWallet E u w = (Inr a, w')"
  shows "\<exists>r. wallet_is r w' \<and> uw_userId r = u \<and> a = toWalletResponse r"
proof (cases "find_row (\<lambda>q. uw_userId q = u) (userWallets w)")
  case (Some r)
  then have "uw_userId r = u" by (auto dest: find_row_mem)
  with Some assms show ?thesis
    by (auto simp: createOrGetWallet_def UserWalletRepository_findByUserId_def bindE_def wallet_is_def)
next
  case None
  then obtain i address w1 mk r where call: "CrossmintWalletClient_createWallet E u w = (Inr (i, address), w1)"
    and new: "UserWalletRepository_create E mk w1 = (Inr r, w')" "a = toWalletResponse r" "\<And>k t. uw_userId (mk k t) = u"
    using assms by (auto simp: createOrGetWallet_def UserWalletRepository_findByUserId_def bindE_Inr_iff)
  have "userWallets w1 = userWallets w"
    using call by (auto simp: CrossmintWalletClient_createWallet_def remote_run Let_def split: sum.splits)
  with create_finds [OF new(1,3)] None new(2) show ?thesis by auto
qed

text \<open>
  C40: A user has one wallet. Once a request has been answered with a wallet, any further requests,
  of this and of other users in any order and whatever the wallet provider does, leave it in place:
  asking again answers with the same wallet, changes nothing and does not call the provider.
\<close>

theorem wallet_idempotent:
  fixes E E' :: "'x services" and w :: "'x world"
  assumes "createOrGetWallet E u w = (Inr a, w')"
  shows "createOrGetWallet E' u (fold (wallet_step E) vs w') = (Inr a, fold (wallet_step E) vs w')"
proof -
  obtain r where r: "wallet_is r w'" "uw_userId r = u" "a = toWalletResponse r" using wallet_found [OF assms] by blast
  have "wallet_is r (fold (wallet_step E) vs w')" using r(1) by (rule wallet_system.inv_run)
  with r(2,3) show ?thesis
    by (simp add: createOrGetWallet_def UserWalletRepository_findByUserId_def bindE_def wallet_is_def)
qed

definition wallet_services :: "int services" where
  "wallet_services = sample_services\<lparr>api_create_wallet := (\<lambda>u x. (Inr (''wallet-'' @ u, ''GADDR''), x))\<rparr>"

theorem wallet_idempotent_witness:
  "createOrGetWallet sample_services 1 (fold (wallet_step wallet_services) [2, 1, 2] (snd (createOrGetWallet wallet_services 1 sample_world)))
   = (Inr (projr (fst (createOrGetWallet wallet_services 1 sample_world))),
      fold (wallet_step wallet_services) [2, 1, 2] (snd (createOrGetWallet wallet_services 1 sample_world)))"
proof (rule wallet_idempotent)
  have "\<not> isl (fst (createOrGetWallet wallet_services 1 sample_world))" by code_simp
  then show "createOrGetWallet wallet_services 1 sample_world =
      (Inr (projr (fst (createOrGetWallet wallet_services 1 sample_world))), snd (createOrGetWallet wallet_services 1 sample_world))"
    by (simp add: prod_eq_iff)
qed

end
