(* ===== verification/Users.thy ===== *)
theory Users
  imports Login
begin

text \<open>
  The user's own data, \<^verbatim>\<open>services/user.service.ts\<close>, and the assignment of users to a program,
  \<^verbatim>\<open>services/campaign.service.ts\<close>.
\<close>

section \<open>Profile page\<close>

record get_user_response =
  gur_id :: int
  gur_email :: string
  gur_completeName :: string
  gur_phone :: string
  gur_gender :: gender
  gur_birthDate :: int
  gur_birthCountry :: string
  gur_curp :: string
  gur_postalCode :: string
  gur_state :: string
  gur_country :: string
  gur_municipality :: string
  gur_street :: string
  gur_colony :: string
  gur_externalNumber :: string
  gur_internalNumber :: string
  gur_occupation :: string
  gur_sector :: string
  gur_mainActivity :: string
  gur_monthlyIncome :: jsnum
  gur_monthlyOutcome :: jsnum
  gur_hasOtherCreditCards :: bool
  gur_universityRegistration :: int
  gur_creditLimit :: jsnum
  gur_interestRate :: jsnum
  gur_paymentDates :: string
  gur_initialDeposit :: jsnum
  gur_rfc :: string
  gur_createdAt :: int

definition nullish :: "'a option \<Rightarrow> 'a \<Rightarrow> 'a" where
  "nullish x d = (case x of Some a \<Rightarrow> a | None \<Rightarrow> d)"

text \<open>A first name that is \<^verbatim>\<open>null\<close> prints as \<^verbatim>\<open>null\<close> in the template string.\<close>

definition complete_name :: "user_row \<Rightarrow> string" where
  "complete_name u = trim (nullish (usr_firstName u) ''null'' @ '' '' @ or_str (usr_lastName u) []
                           @ '' '' @ or_str (usr_secondLastName u) [])"

definition user_view :: "user_row \<Rightarrow> get_user_response" where
  "user_view u = (let q = usr_questionnaire u in
     \<lparr>gur_id = usr_id u, gur_email = usr_email u, gur_completeName = complete_name u,
      gur_phone = nullish (usr_phone u) ''unknown'', gur_gender = usr_gender u, gur_birthDate = usr_birthDate u,
      gur_birthCountry = nullish (usr_birthCountry u) ''unknown'', gur_curp = usr_curp u,
      gur_postalCode = nullish (usr_postalCode u) ''unknown'', gur_state = usr_state u,
      gur_country = nullish (usr_country u) ''unknown'', gur_municipality = usr_municipality u,
      gur_street = usr_street u, gur_colony = usr_colony u, gur_externalNumber = usr_externalNumber u,
      gur_internalNumber = usr_internalNumber u, gur_occupation = nullish (qu_occupation q) ''unknown'',
      gur_sector = nullish (qu_sector q) ''unknown'', gur_mainActivity = nullish (qu_mainActivity q) ''unknown'',
      gur_monthlyIncome = nullish (qu_monthlyIncome q) (Fin 0),
      gur_monthlyOutcome = nullish (qu_monthlyOutcome q) (Fin 0),
      gur_hasOtherCreditCards = nullish (qu_hasOtherCreditCards q) False,
      gur_universityRegistration = nullish (qu_universityRegistration q) 0,
      gur_creditLimit = nullish (qu_creditLimit q) (Fin 0), gur_interestRate = nullish (qu_interestRate q) (Fin 0),
      gur_paymentDates = nullish (qu_paymentDates q) ''unknown'',
      gur_initialDeposit = nullish (qu_initialDeposit q) (Fin 0), gur_rfc = nullish (usr_rfc u) ''unknown'',
      gur_createdAt = usr_createdAt u\<rparr>)"

definition user_not_found :: error where
  "user_not_found = mk_error Error ''User not found''"

definition getUserById :: "int \<Rightarrow> ('x world, get_user_response) op" where
  "getUserById userId =
     bindE (findById userId) (\<lambda>found.
     bindE (require found user_not_found) (\<lambda>u. ok (user_view u)))"

record shipping_address =
  sa_postalCode :: "string option"
  sa_state :: string
  sa_country :: "string option"
  sa_municipality :: string
  sa_street :: string
  sa_colony :: string
  sa_externalNumber :: string
  sa_internalNumber :: string

definition getShippingAddress :: "int \<Rightarrow> ('x world, shipping_address) op" where
  "getShippingAddress userId =
     bindE (findById userId) (\<lambda>found.
     bindE (require found user_not_found) (\<lambda>u.
     ok \<lparr>sa_postalCode = usr_postalCode u, sa_state = usr_state u, sa_country = usr_country u,
         sa_municipality = usr_municipality u, sa_street = usr_street u, sa_colony = usr_colony u,
         sa_externalNumber = usr_externalNumber u, sa_internalNumber = usr_internalNumber u\<rparr>))"

section \<open>Changes\<close>

text \<open>The data of an update is passed to the database as it is: any change of the row.\<close>

definition updateUser :: "int \<Rightarrow> (user_row \<Rightarrow> user_row) \<Rightarrow> ('x world, int \<times> string) op" where
  "updateUser userId updateData =
     bindE (updateUser_row userId updateData) (\<lambda>_. ok (userId, ''User updated successfully''))"

definition changePassword :: "int \<Rightarrow> string \<Rightarrow> string \<Rightarrow> ('x world, int \<times> string) op" where
  "changePassword userId currentPassword newPassword =
     bindE (findById userId) (\<lambda>found.
     bindE (require found user_not_found) (\<lambda>user.
     bindE (ensure (currentPassword = usr_password user) (mk_error Error ''Current password is incorrect'')) (\<lambda>_.
     bindE (ensure (currentPassword \<noteq> newPassword)
              (mk_error Error ''New password must be different from current password'')) (\<lambda>_.
     bindE (updateUser_row userId (\<lambda>u. u\<lparr>usr_password := newPassword\<rparr>)) (\<lambda>_.
     ok (userId, ''Password changed successfully''))))))"

definition addAlias :: "int \<Rightarrow> string \<Rightarrow> ('x world, int \<times> string) op" where
  "addAlias userId alias =
     bindE (findByAlias alias) (\<lambda>existing.
     bindE (ensure (existing = None) (mk_error BadRequestError ''This alias is already in use'')) (\<lambda>_.
     bindE (updateUser_row userId (\<lambda>u. u\<lparr>usr_alias := Some alias\<rparr>)) (\<lambda>updatedUser.
     ok (userId, or_str (usr_alias updatedUser) []))))"

section \<open>Programs\<close>

record assign_result =
  asr_program_id :: int
  asr_assigned :: "int list"
  asr_new :: "int list"
  asr_updated :: "int list"

text \<open>One user, fixed in the code, may assign customers to a program.\<close>

definition assignUsersToProgram :: "'x services \<Rightarrow> int \<Rightarrow> string \<Rightarrow> int list \<Rightarrow> ('x world, assign_result) op" where
  "assignUsersToProgram E userId programCode customerIds =
     bindE (ensure (userId = 9) (mk_error ForbiddenError ''Unauthorized user'')) (\<lambda>_.
     bindE (assignCustomersToProgram E programCode customerIds) (\<lambda>response.
     bindE (deref (ar_payload response)) (\<lambda>p.
     ok \<lparr>asr_program_id = asg_program_id p, asr_assigned = customerIds, asr_new = asg_new p, asr_updated = asg_updated p\<rparr>)))"

end
