(* ===== verification/Routes.thy ===== *)
theory Routes
  imports CardRoutes TransferRoutes Users Transactions Exchange Wallets SipPayments Login Notifications
begin

text \<open>
  The whole HTTP surface under \<^verbatim>\<open>routes/index.ts\<close>: every route with its access check, the input
  validation and the controller, in the order the routers chain them. The validation rules are a
  parameter, a test on the request; a refused request is answered with status 400. The answer of a
  failure has the status and message of the program, the rest of its body is fixed text.
\<close>

section \<open>Requests and results\<close>

text \<open>The query of the list of transactions, each parameter a string or missing.\<close>

record transactions_query =
  tqy_limit :: "string option"
  tqy_offset :: "string option"
  tqy_from :: "string option"
  tqy_to :: "string option"
  tqy_desc :: "string option"
  tqy_transaction_id :: "string option"
  tqy_only_installment_charges :: "string option"

datatype api_request =
    PostLogin login_request
  | PostRegister string
  | PostEnroll biometric_enroll_request
  | PostChallenge string
  | PostPayment payment_create_request
  | PostProcess string process_payment_request
  | GetVerify string
  | GetPayment string
  | PostSipQr create_sip_qr_request
  | PostSipCallback sip_callback
  | GetUser
  | GetShippingAddress
  | PutUser "user_row \<Rightarrow> user_row"
  | PutPassword string string
  | PutAlias string
  | PostAssign string "int list"
  | PostDevice string push_platform "string option"
  | GetTransactions transactions_query
  | GetChart "string option" "range_type option"
  | PostWallet
  | GetMyWallet
  | GetUsdMxn
  | GetBobMxn
  | PostBulkOrderCard bulk_order_notification
  | PostClipPayment payload
  | CardCall card_request
  | TransferCall transfer_call

datatype api_result =
    Token string
  | Registration "string \<times> bool"
  | Enrolled bool
  | Challenge biometric_challenge_response
  | PaymentCreated payment_create_response
  | PaymentState payment_client_response
  | SipQr create_sip_qr_response
  | SipAck sip_ack
  | UserData get_user_response
  | Address shipping_address
  | Changed "int \<times> string"
  | Assigned assign_result
  | DeviceRegistered bool
  | TransactionList "simplified_transaction list \<times> int"
  | Chart chart_response
  | Wallet wallet_response
  | Rate exchange_rate_response
  | BatchNoted
  | ClipDone clip_webhook_response
  | CardOutcome card_result
  | TransferOutcome transfer_outcome

section \<open>Access\<close>

datatype access = Open | Basic | Bearer

fun access_of :: "api_request \<Rightarrow> access" where
  "access_of (PostLogin _) = Open"
| "access_of (PostRegister _) = Open"
| "access_of (PostChallenge _) = Open"
| "access_of (PostProcess _ _) = Open"
| "access_of (GetVerify _) = Open"
| "access_of GetUsdMxn = Open"
| "access_of GetBobMxn = Open"
| "access_of (PostBulkOrderCard _) = Open"
| "access_of (PostClipPayment _) = Open"
| "access_of (PostSipCallback _) = Basic"
| "access_of _ = Bearer"

section \<open>Controllers\<close>

definition as_result :: "('a \<Rightarrow> 'b) \<Rightarrow> ('s, 'a) op \<Rightarrow> ('s, 'b) op" where
  "as_result f m = bindE m (\<lambda>r. ok (f r))"

definition AuthController_login :: "'x services \<Rightarrow> login_request \<Rightarrow> ('x world, api_result) op" where
  "AuthController_login E d =
     as_result Token (login E d)"

definition AuthController_registerByEmail :: "'x services \<Rightarrow> string \<Rightarrow> ('x world, api_result) op" where
  "AuthController_registerByEmail E email =
     as_result Registration (registerByEmail E email)"

definition BiometricAuthController_enroll :: "jwt_payload \<Rightarrow> biometric_enroll_request \<Rightarrow> ('x world, api_result) op" where
  "BiometricAuthController_enroll auth d =
     as_result Enrolled (enroll (ju_userId (jp_user auth)) d)"

definition BiometricAuthController_challenge :: "'x services \<Rightarrow> string \<Rightarrow> ('x world, api_result) op" where
  "BiometricAuthController_challenge E deviceId =
     as_result Challenge (createChallenge E deviceId)"

definition PaymentController_createPayment :: "'x services \<Rightarrow> jwt_payload \<Rightarrow> payment_create_request \<Rightarrow> ('x world, api_result) op" where
  "PaymentController_createPayment E auth d =
     as_result PaymentCreated (createPayment E (ju_userId (jp_user auth)) d)"

definition PaymentController_processPayment :: "'x services \<Rightarrow> string \<Rightarrow> process_payment_request \<Rightarrow> ('x world, api_result) op" where
  "PaymentController_processPayment E paymentId q =
     bindE (from_sum (prisma_int (number_of_string paymentId))) (\<lambda>i. as_result PaymentState (processPayment E i q))"

definition PaymentController_getPaymentDetails :: "'x services \<Rightarrow> string \<Rightarrow> ('x world, api_result) op" where
  "PaymentController_getPaymentDetails E paymentId =
     as_result PaymentState (getPaymentDetails E paymentId)"

definition PaymentController_verifyPaymentStatus :: "'x services \<Rightarrow> string \<Rightarrow> ('x world, api_result) op" where
  "PaymentController_verifyPaymentStatus E paymentId =
     bindE (from_sum (prisma_int (number_of_string paymentId))) (\<lambda>i. as_result PaymentState (verifyPaymentStatus E i))"

definition BmscPaymentController_createSipQr :: "'x services \<Rightarrow> jwt_payload \<Rightarrow> create_sip_qr_request \<Rightarrow> ('x world, api_result) op" where
  "BmscPaymentController_createSipQr E auth d =
     as_result SipQr (createSipQr E (ju_userId (jp_user auth)) d)"

definition BmscPaymentController_sipCallback :: "'x services \<Rightarrow> sip_callback \<Rightarrow> ('x world, api_result) op" where
  "BmscPaymentController_sipCallback E d =
     as_result SipAck (handleSipCallback E d)"

definition UserController_getUser :: "jwt_payload \<Rightarrow> ('x world, api_result) op" where
  "UserController_getUser auth =
     as_result UserData (getUserById (ju_userId (jp_user auth)))"

definition UserController_updateUser :: "jwt_payload \<Rightarrow> (user_row \<Rightarrow> user_row) \<Rightarrow> ('x world, api_result) op" where
  "UserController_updateUser auth f =
     as_result Changed (updateUser (ju_userId (jp_user auth)) f)"

definition UserController_changePassword :: "jwt_payload \<Rightarrow> string \<Rightarrow> string \<Rightarrow> ('x world, api_result) op" where
  "UserController_changePassword auth old new =
     as_result Changed (changePassword (ju_userId (jp_user auth)) old new)"

definition UserController_addAlias :: "jwt_payload \<Rightarrow> string \<Rightarrow> ('x world, api_result) op" where
  "UserController_addAlias auth a =
     as_result Changed (addAlias (ju_userId (jp_user auth)) a)"

definition UserController_getShippingAddress :: "jwt_payload \<Rightarrow> ('x world, api_result) op" where
  "UserController_getShippingAddress auth =
     as_result Address (getShippingAddress (ju_userId (jp_user auth)))"

definition CampaignController_assignUserToProgram :: "'x services \<Rightarrow> jwt_payload \<Rightarrow> string \<Rightarrow> int list \<Rightarrow> ('x world, api_result) op" where
  "CampaignController_assignUserToProgram E auth code customers =
     as_result Assigned (assignUsersToProgram E (ju_userId (jp_user auth)) code customers)"

definition PushController_registerDevice :: "'x services \<Rightarrow> jwt_payload \<Rightarrow> string \<Rightarrow> push_platform \<Rightarrow> string option \<Rightarrow> ('x world, api_result) op" where
  "PushController_registerDevice E auth tok platform dev =
     as_result DeviceRegistered (registerDevice E (ju_userId (jp_user auth)) tok platform dev)"

definition DefindexWalletController_createWallet :: "'x services \<Rightarrow> jwt_payload \<Rightarrow> ('x world, api_result) op" where
  "DefindexWalletController_createWallet E auth =
     as_result Wallet (createOrGetWallet E (ju_userId (jp_user auth)))"

definition DefindexWalletController_getMyWallet :: "jwt_payload \<Rightarrow> ('x world, api_result) op" where
  "DefindexWalletController_getMyWallet auth =
     as_result Wallet (getWalletByUser (ju_userId (jp_user auth)))"

definition ExchangeRateController_getUsdMxnToday :: "'x services \<Rightarrow> ('x world, api_result) op" where
  "ExchangeRateController_getUsdMxnToday E =
     as_result Rate (getUsdMxnFixToday E)"

definition ExchangeRateController_getBobMxnToday :: "'x services \<Rightarrow> ('x world, api_result) op" where
  "ExchangeRateController_getBobMxnToday E =
     as_result Rate (getBobMxnToday E)"

definition WebhooksController_handleBulkOrderCardNotification :: "'x services \<Rightarrow> bulk_order_notification \<Rightarrow> ('x world, api_result) op" where
  "WebhooksController_handleBulkOrderCardNotification E n =
     as_result (\<lambda>_. BatchNoted) (handleBulkOrderCardNotification E n)"

definition WebhooksService_handleClipPaymentWebhook :: "'x services \<Rightarrow> payload \<Rightarrow> ('x world, clip_webhook_response) op" where
  "WebhooksService_handleClipPaymentWebhook E p =
     handleClipWebhook E p"

definition WebhooksController_handleClipPaymentWebhook :: "'x services \<Rightarrow> payload \<Rightarrow> ('x world, api_result) op" where
  "WebhooksController_handleClipPaymentWebhook E p =
     as_result ClipDone (WebhooksService_handleClipPaymentWebhook E p)"

text \<open>The defaults of the query parameters; an empty offset or transaction id counts as missing.\<close>

definition with_default :: "string option \<Rightarrow> string \<Rightarrow> string" where
  "with_default v d = (case v of None \<Rightarrow> d | Some s \<Rightarrow> s)"

definition number_if :: "string option \<Rightarrow> jsnum option" where
  "number_if v = (if truthy_str v then Some (number_of_string (the v)) else None)"

definition transactions_params :: "int \<Rightarrow> transactions_query \<Rightarrow> get_transactions_params" where
  "transactions_params customerId q =
     \<lparr>gt_customer_id = customerId, gt_limit = number_of_string (with_default (tqy_limit q) ''100''),
      gt_offset = number_if (Some (with_default (tqy_offset q) ''0'')), gt_from = tqy_from q, gt_to = tqy_to q,
      gt_desc = (with_default (tqy_desc q) ''true'' = ''true''), gt_transaction_id = number_if (tqy_transaction_id q),
      gt_only_installment_charges = (with_default (tqy_only_installment_charges q) ''false'' = ''true'')\<rparr>"

definition chart_params :: "int \<Rightarrow> string option \<Rightarrow> get_transactions_params" where
  "chart_params customerId onlyInstallmentCharges =
     \<lparr>gt_customer_id = customerId, gt_limit = Fin 1000, gt_offset = None, gt_from = None, gt_to = None, gt_desc = True,
      gt_transaction_id = None, gt_only_installment_charges = (onlyInstallmentCharges = Some ''true'')\<rparr>"

definition TransactionsController_getUserTransactions :: "'x services \<Rightarrow> jwt_payload \<Rightarrow> transactions_query \<Rightarrow> ('x world, api_result) op" where
  "TransactionsController_getUserTransactions E auth q =
     as_result TransactionList (getUserTransactions E (transactions_params (bj_customerId (jp_backoffice auth)) q)
       (bj_customer_oauth_token (jp_backoffice auth)))"

definition TransactionsController_getTransactionChartData :: "'x services \<Rightarrow> jwt_payload \<Rightarrow> string option \<Rightarrow> range_type option \<Rightarrow> ('x world, api_result) op" where
  "TransactionsController_getTransactionChartData E auth charges r =
     as_result Chart (getTransactionsByMonthDate E (chart_params (bj_customerId (jp_backoffice auth)) charges)
       (bj_customer_oauth_token (jp_backoffice auth)) r)"

lemmas controller_defs = AuthController_login_def AuthController_registerByEmail_def BiometricAuthController_enroll_def
  BiometricAuthController_challenge_def PaymentController_createPayment_def PaymentController_processPayment_def
  PaymentController_getPaymentDetails_def PaymentController_verifyPaymentStatus_def BmscPaymentController_createSipQr_def
  BmscPaymentController_sipCallback_def UserController_getUser_def UserController_updateUser_def UserController_changePassword_def
  UserController_addAlias_def UserController_getShippingAddress_def CampaignController_assignUserToProgram_def
  PushController_registerDevice_def DefindexWalletController_createWallet_def DefindexWalletController_getMyWallet_def
  ExchangeRateController_getUsdMxnToday_def ExchangeRateController_getBobMxnToday_def
  WebhooksController_handleBulkOrderCardNotification_def WebhooksService_handleClipPaymentWebhook_def
  WebhooksController_handleClipPaymentWebhook_def TransactionsController_getUserTransactions_def
  TransactionsController_getTransactionChartData_def

text \<open>The requests that carry no token.\<close>

fun open_controller :: "'x services \<Rightarrow> api_request \<Rightarrow> ('x world, api_result) op" where
  "open_controller E (PostLogin d) = AuthController_login E d"
| "open_controller E (PostRegister email) = AuthController_registerByEmail E email"
| "open_controller E (PostChallenge deviceId) = BiometricAuthController_challenge E deviceId"
| "open_controller E (PostProcess p q) = PaymentController_processPayment E p q"
| "open_controller E (GetVerify p) = PaymentController_verifyPaymentStatus E p"
| "open_controller E GetUsdMxn = ExchangeRateController_getUsdMxnToday E"
| "open_controller E GetBobMxn = ExchangeRateController_getBobMxnToday E"
| "open_controller E (PostBulkOrderCard n) = WebhooksController_handleBulkOrderCardNotification E n"
| "open_controller E (PostClipPayment p) = WebhooksController_handleClipPaymentWebhook E p"
| "open_controller E (PostSipCallback d) = BmscPaymentController_sipCallback E d"
| "open_controller E _ = throw type_error"

text \<open>The requests that act for the user of the token.\<close>

fun user_controller :: "'x services \<Rightarrow> jwt_payload \<Rightarrow> api_request \<Rightarrow> ('x world, api_result) op" where
  "user_controller E auth (PostEnroll d) = BiometricAuthController_enroll auth d"
| "user_controller E auth (PostPayment d) = PaymentController_createPayment E auth d"
| "user_controller E auth (GetPayment p) = PaymentController_getPaymentDetails E p"
| "user_controller E auth (PostSipQr d) = BmscPaymentController_createSipQr E auth d"
| "user_controller E auth GetUser = UserController_getUser auth"
| "user_controller E auth GetShippingAddress = UserController_getShippingAddress auth"
| "user_controller E auth (PutUser f) = UserController_updateUser auth f"
| "user_controller E auth (PutPassword old new) = UserController_changePassword auth old new"
| "user_controller E auth (PutAlias a) = UserController_addAlias auth a"
| "user_controller E auth (PostAssign code customers) = CampaignController_assignUserToProgram E auth code customers"
| "user_controller E auth (PostDevice tok platform dev) = PushController_registerDevice E auth tok platform dev"
| "user_controller E auth (GetTransactions q) = TransactionsController_getUserTransactions E auth q"
| "user_controller E auth (GetChart charges r) = TransactionsController_getTransactionChartData E auth charges r"
| "user_controller E auth PostWallet = DefindexWalletController_createWallet E auth"
| "user_controller E auth GetMyWallet = DefindexWalletController_getMyWallet auth"
| "user_controller E auth (CardCall c) = as_result CardOutcome (card_route E auth c)"
| "user_controller E auth (TransferCall c) = as_result TransferOutcome (transfer_route E auth c)"
| "user_controller E auth _ = throw type_error"

section \<open>The router\<close>

definition validateRequest :: "(api_request \<Rightarrow> bool) \<Rightarrow> api_request \<Rightarrow> ('s, unit) op" where
  "validateRequest valid req = ensure (valid req) (mk_error BadRequestError ''Invalid input data'')"

definition unauthorized :: "'a answer" where
  "unauthorized = ErrorAnswer \<lparr>eb_statusCode = 401, eb_message = ''Unauthorized'', eb_error = []\<rparr>"

definition router :: "'x services \<Rightarrow> (api_request \<Rightarrow> bool) \<Rightarrow> string option \<Rightarrow> api_request \<Rightarrow> 'x world \<Rightarrow> api_result answer \<times> 'x world" where
  "router E valid header req w = (case access_of req of
       Open \<Rightarrow> catchErrors (bindE (validateRequest valid req) (\<lambda>_. open_controller E req)) w
     | Basic \<Rightarrow>
         if sipBasicAuth E header then catchErrors (bindE (validateRequest valid req) (\<lambda>_. open_controller E req)) w
         else (unauthorized, w)
     | Bearer \<Rightarrow> authenticated E header (\<lambda>auth. bindE (validateRequest valid req) (\<lambda>_. user_controller E auth req)) w)"

end
