(* ===== verification/ApiProps.thy ===== *)
theory ApiProps
  imports Routes CardProofs Samples
begin

text \<open>
  Properties of the whole HTTP surface: what a request without a valid token can do, and which
  routes can make a call that moves money.
\<close>

section \<open>Calls that move money\<close>

text \<open>A top-up of a wallet, a charge to a card, a transfer between wallets and a withdrawal.\<close>

fun moves_money :: "call \<Rightarrow> bool" where
  "moves_money (CallTopUp _) = True"
| "moves_money (CallPay _) = True"
| "moves_money (CallTransfer _) = True"
| "moves_money (CallSpei _) = True"
| "moves_money _ = False"

definition money_calls :: "'x world \<Rightarrow> (call \<times> bool) list" where
  "money_calls w = filter (\<lambda>(c, _). moves_money c) (trace w)"

definition quiet :: "(call \<times> bool) list \<Rightarrow> 'x world \<Rightarrow> bool" where
  "quiet m w \<longleftrightarrow> money_calls w = m"

named_theorems quiet_rules \<open>operations that make no call that moves money\<close>

lemma quiet_service [quiet_rules]: "keeps (quiet m) (service f)" and quiet_now [quiet_rules]: "keeps (quiet m) (now E)"
  by (intro keeps_service keeps_now; simp add: quiet_def money_calls_def)+

lemma quiet_remote [quiet_rules]: "\<not> moves_money c \<Longrightarrow> keeps (quiet m) (remote c f g)"
  by (rule keeps_remote) (simp add: quiet_def money_calls_def)

lemma quiet_modify [quiet_rules]: "(\<And>w. trace (f w) = trace w) \<Longrightarrow> keeps (quiet m) (modify f)"
  by (rule keeps_modify) (simp add: quiet_def money_calls_def)

lemma quiet_as_result [quiet_rules]: "keeps (quiet m) op \<Longrightarrow> keeps (quiet m) (as_result f op)"
  unfolding as_result_def by (intro keeps_intros)

section \<open>Accounts, tokens and logins\<close>

lemma quiet_accounts [quiet_rules]:
  "keeps (quiet m) (findByEmail a)" "keeps (quiet m) (findById i)" "keeps (quiet m) (findByEmailWithAuthState a)"
  "keeps (quiet m) (findByAlias a)" "keeps (quiet m) (updateUser_row i f)" "keeps (quiet m) (findProfileByUserId i)"
  unfolding findByEmail_def findById_def findByEmailWithAuthState_def findByAlias_def updateUser_row_def findProfileByUserId_def
  by (intro keeps_intros quiet_rules; simp)+

lemma quiet_account_writes [quiet_rules]:
  "keeps (quiet m) (updateLastLogin i t)" "keeps (quiet m) (upsertProfile E i p f)" "keeps (quiet m) (upsertAuthState E i a g)"
  "keeps (quiet m) (updateAuthState E i g)" "keeps (quiet m) (updateProfile E i f)"
  unfolding updateLastLogin_def upsertProfile_def upsertAuthState_def updateAuthState_def updateProfile_def
  by (intro keeps_intros quiet_rules; simp)+

lemma quiet_signature [quiet_rules]: "keeps P (verifyEs256JwkSignature E k msg s)"
  unfolding verifyEs256JwkSignature_def prismaJsonToNodeJwk_def by (intro keeps_intros)

lemma quiet_tokens [quiet_rules]:
  "keeps (quiet m) (generateToken E p)" "keeps (quiet m) (verifyToken E t)" "keeps (quiet m) (authenticateToken E h)"
  unfolding generateToken_def verifyToken_def authenticateToken_def Let_def
  by (intro keeps_intros quiet_rules; simp split: jwt_failure.split add: keeps_throw)+

lemma quiet_challenges [quiet_rules]:
  "keeps (quiet m) (enroll i d)" "keeps (quiet m) (createChallenge E dev)" "keeps (quiet m) (verifyChallenge E q)"
  unfolding enroll_def createChallenge_def verifyChallenge_def upsertCredential_def findActiveByDeviceId_def touchLastUsed_def
    LoginChallengesRepository_createChallenge_def LoginChallengesRepository_findById_def markUsed_def Let_def
  by (intro keeps_intros quiet_rules; simp)+

lemma quiet_backoffice [quiet_rules]:
  "keeps (quiet m) (getCustomerConnectionToken E c)" "keeps (quiet m) (refreshCustomerToken E r)"
  "keeps (quiet m) (getSpeiClabe E t)" "keeps (quiet m) (getUserInfo E i)" "keeps (quiet m) (assignCustomersToProgram E p ids)"
  "keeps (quiet m) (createAccountIn123 E d)"
  unfolding getCustomerConnectionToken_def refreshCustomerToken_def getSpeiClabe_def getUserInfo_def assignCustomersToProgram_def
    createAccountIn123_def Let_def
  by (intro keeps_intros quiet_rules; simp)+

lemma quiet_login [quiet_rules]: "keeps (quiet m) (login E q)"
  unfolding login_def loginByBiometric_def loginByEmailPassword_def buildSuccessfulLoginResponse_def buildJwtToken_def
    getBackofficeJwtData_def initializeCustomerConnectionToken_def Let_def
  by (cases q) (simp, intro keeps_intros quiet_rules; simp)+

lemma quiet_register [quiet_rules]: "keeps (quiet m) (registerByEmail E email)"
  unfolding registerByEmail_def store_session_def store_profile_def generateDeviceId_def Let_def
  by (intro keeps_intros quiet_rules; simp)

section \<open>Users, transactions, rates and wallets\<close>

lemma quiet_users [quiet_rules]:
  "keeps (quiet m) (getUserById i)" "keeps (quiet m) (getShippingAddress i)" "keeps (quiet m) (updateUser i f)"
  "keeps (quiet m) (changePassword i old new)" "keeps (quiet m) (addAlias i a)" "keeps (quiet m) (assignUsersToProgram E i c ids)"
  unfolding getUserById_def getShippingAddress_def updateUser_def changePassword_def addAlias_def assignUsersToProgram_def
  by (intro keeps_intros quiet_rules; simp)+

lemma quiet_transactions [quiet_rules]:
  "keeps (quiet m) (getUserTransactions E q t)" "keeps (quiet m) (getTransactionsByMonthDate E q t r)"
  unfolding getTransactionsByMonthDate_def getUserTransactions_def getCustomerTransactions_def Let_def
  by (intro keeps_intros quiet_rules; simp)+

lemma quiet_rates [quiet_rules]: "keeps (quiet m) (getUsdMxnFixToday E)" "keeps (quiet m) (getBobMxnToday E)"
  unfolding getUsdMxnFixToday_def getBobMxnToday_def Let_def by (intro keeps_intros quiet_rules; simp)+

lemma quiet_wallets [quiet_rules]: "keeps (quiet m) (createOrGetWallet E i)" "keeps (quiet m) (getWalletByUser i)"
  unfolding createOrGetWallet_def getWalletByUser_def UserWalletRepository_create_def UserWalletRepository_findByUserId_def
    CrossmintWalletClient_createWallet_def Let_def
  by (intro keeps_intros quiet_rules; simp)+

lemma quiet_devices [quiet_rules]: "keeps (quiet m) (registerDevice E i tok p dev)"
  unfolding registerDevice_def upsertDeviceToken_def upsert_by_token_def update_token_def create_token_def Let_def
  by (intro keeps_intros quiet_rules; simp)

section \<open>Cards\<close>

lemma quiet_card_rows [quiet_rules]:
  "keeps (quiet m) (CardRepository_getUserCards i)" "keeps (quiet m) (getCardById i)" "keeps (quiet m) (getCardByIdentifier s)"
  "keeps (quiet m) (check_card c)" "keeps (quiet m) (updateCard i f)" "keeps (quiet m) (findExistingPhysicalCard i)"
  "keeps (quiet m) findAvailablePhysicalCards" "keeps (quiet m) (CardPickupRepository_create r)" "keeps (quiet m) (insert_batch b)"
  unfolding CardRepository_getUserCards_def getCardById_def getCardByIdentifier_def check_card_def updateCard_def
    findExistingPhysicalCard_def findAvailablePhysicalCards_def CardPickupRepository_create_def insert_batch_def Let_def
  by (intro keeps_intros quiet_rules; simp)+

lemma quiet_card_writes [quiet_rules]:
  "keeps (quiet m) (createCard E r)" "keeps (quiet m) (updateCardByIdentifier E s f)" "keeps (quiet m) (CardRepository_unlinkCard E i)"
  "keeps (quiet m) (createBulkBatch E n)" "keeps (quiet m) (BulkBatchRepository_create s a b c d)"
  unfolding createCard_def updateCardByIdentifier_def CardRepository_unlinkCard_def createBulkBatch_def BulkBatchRepository_create_def Let_def
  by (intro keeps_intros quiet_rules; simp)+

lemma quiet_card_identifiers [quiet_rules]:
  "keeps (quiet m) (generateVirtualCardIdentifier E i)" "keeps (quiet m) (generatePhysicalCardIdentifier E)"
  unfolding generateVirtualCardIdentifier_def generatePhysicalCardIdentifier_def randomBase32_def Let_def
  by (intro keeps_intros quiet_rules; simp)+

lemma quiet_card_calls [quiet_rules]:
  "keeps (quiet m) (CardBackofficeService_activateCard E q t)" "keeps (quiet m) (CardBackofficeService_getCardInfo E i t c)"
  "keeps (quiet m) (viewPinForCustomer E c t)" "keeps (quiet m) (CardBackofficeService_stopCard E s t)"
  "keeps (quiet m) (CardBackofficeService_unstopCard E u t)" "keeps (quiet m) (retireCard E c i t)"
  "keeps (quiet m) (getCardFullInfo E i t k)" "keeps (quiet m) (createLinkedCard E p i t)"
  "keeps (quiet m) (CardBackofficeService_updateCardCVV E c t)"
  unfolding CardBackofficeService_activateCard_def CardBackofficeService_getCardInfo_def viewPinForCustomer_def
    CardBackofficeService_stopCard_def CardBackofficeService_unstopCard_def retireCard_def getCardFullInfo_def createLinkedCard_def
    CardBackofficeService_updateCardCVV_def Let_def
  by (intro keeps_intros quiet_rules; simp)+

lemma quiet_count_card [quiet_rules]: "keeps (quiet m) (count_card E c n)"
  unfolding count_card_def Let_def by (cases "card_status c") (simp_all add: keeps_ok quiet_now keeps_bindE)

lemma quiet_delivery [quiet_rules]: "keeps P (delivery_location_for u d q)"
  unfolding delivery_location_for_def home_location_def Let_def by (cases d) (simp_all add: keeps_intros)

lemma quiet_show_cvv [quiet_rules]: "keeps (quiet m) (showCardCvv E i t c)"
  unfolding showCardCvv_def updateCardCVV_def getCardDetailsById_def Let_def by (intro keeps_intros quiet_rules; simp)

lemma quiet_status_loop [quiet_rules]: "keeps (quiet m) (status_loop E cs a b)"
  by (induction cs arbitrary: a b) (auto intro!: keeps_intros quiet_rules)

lemma quiet_card_reads [quiet_rules]:
  "keeps (quiet m) (getUserCards i)" "keeps (quiet m) (getCardStatus E i)" "keeps (quiet m) (getUserCardDebitInfo E i t c k)"
  "keeps (quiet m) (getCardDetailsById E i t c)"
  unfolding getUserCards_def getCardStatus_def getCardStatusByUser_def getUserCardDebitInfo_def getCardDetailsById_def Let_def
  by (intro keeps_intros quiet_rules; simp)+

lemma quiet_card_actions [quiet_rules]:
  "keeps (quiet m) (activateCard E i pin t c)" "keeps (quiet m) (stopCard E i t c nt)" "keeps (quiet m) (unstopCard E i t c nt)"
  "keeps (quiet m) (createVirtualCard E i t c k)" "keeps (quiet m) (assignCard E i s)" "keeps (quiet m) (unlinkCard E i c t)"
  unfolding activateCard_def stopCard_def unstopCard_def createVirtualCard_def assignCard_def unlinkCard_def Let_def
  by (intro keeps_intros quiet_rules; simp)+

lemma quiet_physical [quiet_rules]: "keeps (quiet m) (requestPhysicalCard E i d q)"
  unfolding requestPhysicalCard_def assign_from_inventory_def order_new_card_def physical_response_def Let_def
  by (intro keeps_intros quiet_rules; simp)

lemma quiet_pins [quiet_rules]:
  "keeps (quiet m) (validateCardOwnership p i)" "keeps (quiet m) (validateCardPin E p t pin)" "keeps (quiet m) (validateTransferCardPin E i t pin)"
  unfolding validateCardOwnership_def validateCardPin_def validateTransferCardPin_def check_pin_def Let_def
  by (intro keeps_intros quiet_rules; simp)+

lemma quiet_batches [quiet_rules]: "keeps (quiet m) (handleBulkOrderCardNotification E n)"
  unfolding handleBulkOrderCardNotification_def Let_def by (intro keeps_intros quiet_rules; simp)

lemma quiet_card_route [quiet_rules]: "keeps (quiet m) (card_route E auth c)"
  unfolding card_route_def card_guards_def CardController_def card_param_def Let_def
  by (cases c) (simp, intro keeps_intros quiet_rules; simp)+

section \<open>Payments and transfers that move nothing\<close>

lemma quiet_with_user [quiet_rules]: "keeps (quiet m) (with_user r)"
  unfolding with_user_def by (intro keeps_intros quiet_rules; simp)

lemma quiet_payment_rows [quiet_rules]:
  "keeps (quiet m) (insert_payment r)" "keeps (quiet m) (update_payment i f)" "keeps (quiet m) (getPaymentById i)"
  "keeps (quiet m) (updatePaymentStatus i s p d q)" "keeps (quiet m) (PaymentRepository_createPayment E i c fees k)"
  unfolding insert_payment_def update_payment_def getPaymentById_def updatePaymentStatus_def PaymentRepository_createPayment_def Let_def
  by (intro keeps_intros quiet_rules; simp)+

lemma quiet_payments [quiet_rules]:
  "keeps (quiet m) (createPayment E i d)" "keeps (quiet m) (getPaymentDetails E p)" "keeps (quiet m) (verifyPaymentStatus E i)"
  unfolding createPayment_def getPaymentDetails_def verifyPaymentStatus_def mapToClientResponse_def
    PaymentProviderService_getPaymentDetails_def Let_def
  by (intro keeps_intros quiet_rules; simp)+

lemma quiet_sip_token [quiet_rules]: "keeps (quiet m) (refreshToken E)" "keeps (quiet m) (getToken E)"
  unfolding getToken_def refreshToken_def Let_def by (intro keeps_intros quiet_rules; simp)+

lemma quiet_sip_qr [quiet_rules]: "keeps (quiet m) (generateQr E q)"
  unfolding generateQr_def withToken_def sip_post_qr_def Let_def by (intro keeps_intros quiet_rules; simp)

lemma quiet_sip [quiet_rules]: "keeps (quiet m) (createSipQr E i d)"
  unfolding createSipQr_def createSipPayment_def saveSipQrResponse_def findByIdempotencyKey_def generateSipQrIdempotencyKey_def
    buildExpirationDate_def Let_def
  by (intro keeps_intros quiet_rules; simp)

lemma quiet_transfer_reads [quiet_rules]:
  "keeps (quiet m) (getUserQR E i)" "keeps (quiet m) (getMyAccountInfo E c t)"
  unfolding getUserQR_def getMyAccountInfo_def Let_def by (intro keeps_intros quiet_rules; simp)+

section \<open>The routes that move money\<close>

fun money_route :: "api_request \<Rightarrow> bool" where
  "money_route (PostProcess _ _) = True"
| "money_route (PostClipPayment _) = True"
| "money_route (PostSipCallback _) = True"
| "money_route (TransferCall (PostTransfer _ _ _)) = True"
| "money_route (TransferCall (PostSpeiCashout _ _)) = True"
| "money_route _ = False"

lemma quiet_transfer_route: "\<not> money_route (TransferCall c) \<Longrightarrow> keeps (quiet m) (transfer_route E auth c)"
  unfolding transfer_route_def transfer_guards_def TransferController_def Let_def
  by (cases c) (simp_all, (intro keeps_intros quiet_rules; simp)+)

lemma quiet_controllers:
  assumes "\<not> money_route req"
  shows "keeps (quiet m) (open_controller E req)" and "keeps (quiet m) (user_controller E auth req)"
  using assms
  by (cases req; simp add: controller_defs; intro keeps_intros quiet_rules quiet_transfer_route; simp)+

lemma quiet_validate [quiet_rules]: "keeps P (validateRequest valid req)"
  unfolding validateRequest_def by (intro keeps_intros)

lemma quiet_catchErrors: "keeps (quiet m) op \<Longrightarrow> quiet m w \<Longrightarrow> quiet m (snd (catchErrors op w))"
  by (simp add: catchErrors_state keepsD)

lemma quiet_authenticated:
  assumes "\<And>auth. keeps (quiet m) (h auth)" and "quiet m w"
  shows "quiet m (snd (authenticated E header h w))"
proof -
  obtain r w' where r: "authenticateToken E header w = (r, w')" by (cases "authenticateToken E header w")
  then have "quiet m w'" using keepsD_run [OF quiet_tokens(3) assms(2)] by blast
  then show ?thesis using r quiet_catchErrors [OF assms(1)]
    by (auto simp: authenticated_def split: sum.split)
qed

text \<open>
  C0: Money moves only through the five routes made for it: processing a card payment, the Clip
  webhook, the SIP callback, the transfer and the withdrawal. A request on any other route, by
  anyone and with any body, makes no top-up, charge, transfer or withdrawal.
\<close>

theorem money_moves_on_money_routes:
  assumes "\<not> money_route req"
  shows "money_calls (snd (router E valid header req w)) = money_calls w"
proof -
  have w: "quiet (money_calls w) w" by (simp add: quiet_def)
  have k: "keeps (quiet (money_calls w)) (bindE (validateRequest valid req) (\<lambda>_. open_controller E req))"
    "keeps (quiet (money_calls w)) (bindE (validateRequest valid req) (\<lambda>_. user_controller E auth req))" for auth
    by (intro keeps_intros quiet_validate quiet_controllers [OF assms])+
  have "quiet (money_calls w) (snd (router E valid header req w))"
    unfolding router_def using quiet_catchErrors [OF k(1) w] quiet_authenticated [OF k(2) w] w
    by (simp split: access.split)
  then show ?thesis by (simp add: quiet_def)
qed

theorem money_moves_on_money_routes_witness:
  "money_calls (snd (router sample_services (\<lambda>_. True) None (GetVerify ''1'') sample_world)) = money_calls sample_world"
  by (rule money_moves_on_money_routes) simp

section \<open>Requests without a valid token\<close>

definition bearer_token :: "string option \<Rightarrow> string option" where
  "bearer_token header = (case header of None \<Rightarrow> None | Some h \<Rightarrow>
     if h = [] then None else case split_on CHR '' '' h of _ # t # _ \<Rightarrow> Some t | _ \<Rightarrow> None)"

lemma authenticateToken_refuses:
  assumes "\<And>t p. bearer_token header = Some t \<Longrightarrow> fst (jwt_verify E t (cfg_jwtSecret (cfg E)) (ext w)) \<noteq> Inr p"
  shows "\<exists>s msg x. authenticateToken E header w = (Inr (Inl (s, msg)), w\<lparr>ext := x\<rparr>) \<and> s \<in> {401, 403}"
proof (cases "truthy_str (bearer_token header)")
  case False
  then have "authenticateToken E header w = (Inr (Inl (401, ''No token provided'')), w\<lparr>ext := ext w\<rparr>)"
    by (simp add: authenticateToken_def bearer_token_def)
  then show ?thesis by blast
next
  case True
  then obtain t where t: "bearer_token header = Some t" by (cases "bearer_token header") (auto simp: truthy_str_def)
  obtain f where f: "fst (jwt_verify E t (cfg_jwtSecret (cfg E)) (ext w)) = Inl f"
    using assms [OF t] by (cases "fst (jwt_verify E t (cfg_jwtSecret (cfg E)) (ext w))") auto
  have "authenticateToken E header w =
      try_catch (bindE (verifyToken E t) (\<lambda>decoded. ok (Inr decoded))) (\<lambda>e.
        if err_message e = ''Token expirado'' then ok (Inl (401, ''Token expirado'')) else ok (Inl (403, token_invalid_text))) w"
    using True t by (simp add: authenticateToken_def bearer_token_def)
  then show ?thesis
    using f by (cases f) (auto simp: try_catch_def bindE_def verifyToken_def service_run)
qed

text \<open>
  C0: The access checks stand in front of everything. A request to a route that asks for a token,
  without a token that verifies, and a SIP callback without the configured credentials, are
  answered with status 401 or 403 and change nothing in the database and call no service.
\<close>

theorem access_refused:
  assumes "access_of req = Bearer \<and>
      (\<forall>t p. bearer_token header = Some t \<longrightarrow> fst (jwt_verify E t (cfg_jwtSecret (cfg E)) (ext w)) \<noteq> Inr p)
    \<or> access_of req = Basic \<and> \<not> sipBasicAuth E header"
  shows "case router E valid header req w of (a, w') \<Rightarrow> answer_status a \<in> {401, 403} \<and> (\<exists>x. w' = w\<lparr>ext := x\<rparr>)"
  using assms
proof
  assume b: "access_of req = Bearer \<and>
      (\<forall>t p. bearer_token header = Some t \<longrightarrow> fst (jwt_verify E t (cfg_jwtSecret (cfg E)) (ext w)) \<noteq> Inr p)"
  then obtain s msg x where "authenticateToken E header w = (Inr (Inl (s, msg)), w\<lparr>ext := x\<rparr>)" "s \<in> {401, 403}"
    using authenticateToken_refuses [of header E w] by blast
  with b show ?thesis by (auto simp: router_def authenticated_def)
next
  assume "access_of req = Basic \<and> \<not> sipBasicAuth E header"
  then have "router E valid header req w = (unauthorized, w\<lparr>ext := ext w\<rparr>)" by (simp add: router_def)
  then show ?thesis by (auto simp: unauthorized_def intro: exI [of _ "ext w"])
qed

theorem access_refused_witness:
  "case router sample_services (\<lambda>_. True) (Some ''Bearer forged'') GetUser sample_world of (a, w') \<Rightarrow>
     answer_status a \<in> {401, 403} \<and> (\<exists>x. w' = sample_world\<lparr>ext := x\<rparr>)"
  by (rule access_refused) (simp add: sample_services_def)

end
