(* ===== verification/Migration.thy ===== *)
theory Migration
  imports Login Cards JsText
begin

text \<open>
  The script \<^verbatim>\<open>scripts/migrate-users-to-backoffice.ts\<close>, which creates accounts in the backoffice for
  the users that have none, with its own services, repository and utilities under
  \<^verbatim>\<open>scripts/\<close>. The account call and the express-validator schema are parameters: the call is a
  function from the multipart form to an answer, the schema a test on the user.
\<close>

section \<open>Formatting\<close>

definition mapGender :: "gender \<Rightarrow> int" where
  "mapGender g = (if gender_str g = ''MASCULINO'' then 2 else 1)"

text \<open>\<^verbatim>\<open>split(/\s+/)\<close>: the pieces between runs of blanks.\<close>

function split_blanks :: "string \<Rightarrow> string list" where
  "split_blanks [] = [[]]"
| "split_blanks (c # s) =
     (if is_space c then [] # split_blanks (dropWhile is_space s)
      else (case split_blanks s of [] \<Rightarrow> [[c]] | w # ws \<Rightarrow> (c # w) # ws))"
  by pat_completeness auto
termination by (relation "measure length") (auto intro: le_imp_less_Suc length_dropWhile_le)

record parsed_name =
  pn_firstName :: string
  pn_lastName :: string
  pn_secondLastName :: string

definition parseCompleteName :: "string \<Rightarrow> parsed_name" where
  "parseCompleteName completeName =
     (let nameParts = split_blanks (trim completeName); n = length nameParts in
      if 3 \<le> n then
        \<lparr>pn_firstName = join '' '' (take (n - 2) nameParts), pn_lastName = nameParts ! (n - 2),
         pn_secondLastName = nameParts ! (n - 1)\<rparr>
      else if n = 2 then
        \<lparr>pn_firstName = nameParts ! 0, pn_lastName = nameParts ! 1, pn_secondLastName = ''''\<rparr>
      else
        \<lparr>pn_firstName = or_default (nameParts ! 0) completeName, pn_lastName = '''', pn_secondLastName = ''''\<rparr>)"

section \<open>Validation\<close>

definition sanitizePhoneNumber :: "string option \<Rightarrow> string" where
  "sanitizePhoneNumber phone =
     (if \<not> truthy_str phone then ''5551234568''
      else let cleaned = digits_only (the phone) in if 10 \<le> length cleaned then cleaned else ''5551234568'')"

text \<open>The classes of the pattern, and the pattern: three or four letters, six digits, three of either.\<close>

definition rfc_letter :: "char \<Rightarrow> bool" where
  "rfc_letter c \<longleftrightarrow> is_upper c \<or> c = CHR ''&'' \<or> char_code c = 209"

definition rfcRegex_test :: "string \<Rightarrow> bool" where
  "rfcRegex_test s =
     (let n = length s - 9 in
      (n = 3 \<or> n = 4) \<and> list_all rfc_letter (take n s) \<and> list_all is_digit (take 6 (drop n s))
      \<and> list_all (\<lambda>c. is_upper c \<or> is_digit c) (drop (n + 6) s))"

definition normalizeRFC :: "string option \<Rightarrow> string" where
  "normalizeRFC rfc =
     (if \<not> truthy_str rfc then ''XAXX010101000''
      else let cleaned = trim (toUpperCase (the rfc)) in if rfcRegex_test cleaned then cleaned else ''XAXX010101000'')"

definition part_or :: "(string \<Rightarrow> string) \<Rightarrow> string option \<Rightarrow> string \<Rightarrow> string" where
  "part_or f p d = (case p of None \<Rightarrow> d | Some s \<Rightarrow> or_default (f s) d)"

definition generateTestRFC :: "string \<Rightarrow> string" where
  "generateTestRFC name =
     (let nameParts = split_on CHR '' '' (toUpperCase name);
          firstNameInitials = part_or (take 2) (nth_opt nameParts 0) ''XX'';
          lastNameInitial = part_or (take 1) (nth_opt nameParts 1) ''X'';
          secondLastNameInitial = part_or (take 1) (nth_opt nameParts 2) ''X''
      in firstNameInitials @ lastNameInitial @ secondLastNameInitial @ ''900101'' @ ''H01'')"

record phone_validation =
  pv_isValid :: bool
  pv_cleanedPhone :: string
  pv_error :: "string option"

definition validateMobilePhone :: "string option \<Rightarrow> phone_validation" where
  "validateMobilePhone phone =
     (if \<not> truthy_str phone then
        \<lparr>pv_isValid = False, pv_cleanedPhone = ''5551234568'', pv_error = Some ''Phone number is required''\<rparr>
      else let cleaned = digits_only (the phone) in
        if length cleaned < 10 then
          \<lparr>pv_isValid = False, pv_cleanedPhone = ''5551234568'', pv_error = Some ''Phone number too short (minimum 10 digits)''\<rparr>
        else if 10 < length cleaned then
          \<lparr>pv_isValid = True, pv_cleanedPhone = slice_last 10 cleaned, pv_error = Some ''Phone number truncated to 10 digits''\<rparr>
        else \<lparr>pv_isValid = True, pv_cleanedPhone = cleaned, pv_error = None\<rparr>)"

text \<open>
  The pattern of an email: exactly one at sign with something before it, no blanks, and a dot
  after it that is neither the first nor the last character of the domain.
\<close>

definition emailRegex_test :: "string \<Rightarrow> bool" where
  "emailRegex_test s = (case split_on CHR ''@'' s of
       [a, d] \<Rightarrow> a \<noteq> [] \<and> list_all (\<lambda>c. \<not> is_space c) s \<and> list_ex (\<lambda>i. d ! i = CHR ''.'') [1..<length d - 1]
     | _ \<Rightarrow> False)"

record pre_validation =
  pre_isValid :: bool
  pre_correctedData :: user_row
  pre_warnings :: "string list"
  pre_errors :: "string list"

definition preValidateBackofficeData :: "user_row \<Rightarrow> ('s, pre_validation) op" where
  "preValidateBackofficeData user =
     bindE (if truthy_str (usr_rfc user) then ok (user, [])
            else bindE (deref (usr_completeName user)) (\<lambda>name.
              let generatedRFC = generateTestRFC name in
              ok (user\<lparr>usr_rfc := Some generatedRFC\<rparr>, [''Generated RFC: '' @ generatedRFC]))) (\<lambda>(corrected, warnings1).
     let phoneValidation = validateMobilePhone (usr_phone user);
         warnings2 = (if \<not> pv_isValid phoneValidation then
           (case pv_error phoneValidation of None \<Rightarrow> [] | Some e \<Rightarrow> [''Phone: '' @ e]) else []);
         correctedData = corrected\<lparr>usr_phone := Some (pv_cleanedPhone phoneValidation)\<rparr>;
         errors1 = (if \<not> emailRegex_test (usr_email user) then [''Invalid email format''] else []);
         errors2 = (if \<not> truthy_str (usr_completeName user) \<or> length (trim (the (usr_completeName user))) < 2
                    then [''Complete name is required and must be at least 2 characters''] else []);
         errors = errors1 @ errors2
     in ok \<lparr>pre_isValid = (errors = []), pre_correctedData = correctedData, pre_warnings = warnings1 @ warnings2,
            pre_errors = errors\<rparr>)"

section \<open>Credentials\<close>

definition hashPassword :: "'x services \<Rightarrow> string \<Rightarrow> string" where
  "hashPassword E password = sha256_hex E password"

definition script_generateDeviceId :: "'x services \<Rightarrow> int \<Rightarrow> ('x world, string) op" where
  "script_generateDeviceId E userId =
     bindE (now E) (\<lambda>t. ok (''device_'' @ string_of_int userId @ ''_'' @ string_of_int t))"

section \<open>The account in the backoffice\<close>

record create_account_response =
  car_ss :: "account_response option"
  car_rs :: "account_response option"
  car_err :: "string option"

type_synonym 'x post_account = "(string \<times> string) list \<Rightarrow> 'x \<Rightarrow> (http_failure + create_account_response) \<times> 'x"

definition blank :: "string option \<Rightarrow> bool" where
  "blank v \<longleftrightarrow> \<not> truthy_str v \<or> trim (the v) = []"

definition required_fields :: "user_row \<Rightarrow> string \<Rightarrow> parsed_name \<Rightarrow> (string \<times> string option) list" where
  "required_fields u deviceId name =
     [(''device_id'', Some deviceId), (''email'', Some (usr_email u)), (''first_name'', Some (pn_firstName name)),
      (''last_name'', Some (pn_lastName name)), (''gender'', Some (gender_str (usr_gender u))),
      (''mobile'', usr_phone u), (''password'', Some (usr_password u)), (''rfc'', usr_rfc u)]"

definition migration_form :: "'x services \<Rightarrow> user_row \<Rightarrow> string \<Rightarrow> parsed_name \<Rightarrow> (string \<times> string) list" where
  "migration_form E u deviceId name =
     [(''device_id'', deviceId), (''email'', usr_email u), (''first_name'', pn_firstName name),
      (''last_name'', pn_lastName name), (''second_last_name'', pn_secondLastName name),
      (''gender'', string_of_int (mapGender (usr_gender u))), (''kyc_level'', ''1''), (''mobile'', the (usr_phone u)),
      (''password'', hashPassword E (usr_password u)), (''rfc'', the (usr_rfc u)), (''campaign_id'', ''SOF250820595''),
      (''credit_line'', ''1000000'')]"

definition refused :: "string \<Rightarrow> create_account_response" where
  "refused e = \<lparr>car_ss = None, car_rs = None, car_err = Some e\<rparr>"

definition createCustomerAccount :: "'x services \<Rightarrow> 'x post_account \<Rightarrow> user_row \<Rightarrow> ('x world, create_account_response) op" where
  "createCustomerAccount E post userData =
     bindE (preValidateBackofficeData userData) (\<lambda>validation.
     if \<not> pre_isValid validation then ok (refused (''Validation failed: '' @ join '', '' (pre_errors validation)))
     else
       let corrected = pre_correctedData validation in
       bindE (script_generateDeviceId E (usr_id corrected)) (\<lambda>deviceId.
       bindE (deref (usr_completeName corrected)) (\<lambda>completeName.
       let name = parseCompleteName completeName;
           missingFields = map fst (filter (\<lambda>(_, v). blank v) (required_fields corrected deviceId name)) in
       if missingFields \<noteq> [] then ok (refused (''Missing required fields: '' @ join '', '' missingFields))
       else
         let form = migration_form E corrected deviceId name in
         bindE (remote (CallCreateAccount form) (post form) backoffice_error) (\<lambda>response.
         bindE (require (orElse (car_ss response) (car_rs response))
                  (mk_error Error ''Unexpected response format from backoffice'')) (\<lambda>payload.
         ok \<lparr>car_ss = Some payload, car_rs = None, car_err = car_err response\<rparr>)))))"

section \<open>Profile and session state\<close>

text \<open>The repository of the script has the same two upserts and the same lookup as the one of the service.\<close>

definition CustomerProfileRepository_upsertProfile :: "'x services \<Rightarrow> int \<Rightarrow> profile_row \<Rightarrow> (profile_row \<Rightarrow> profile_row) \<Rightarrow> ('x world, unit) op" where
  "CustomerProfileRepository_upsertProfile E userId createData updateData = upsertProfile E userId createData updateData"

definition CustomerProfileRepository_upsertAuthState :: "'x services \<Rightarrow> int \<Rightarrow> auth_state_row \<Rightarrow> (auth_state_row \<Rightarrow> auth_state_row) \<Rightarrow> ('x world, unit) op" where
  "CustomerProfileRepository_upsertAuthState E userId createData updateData = upsertAuthState E userId createData updateData"

definition CustomerProfileRepository_findProfileByUserId :: "int \<Rightarrow> ('x world, profile_row option) op" where
  "CustomerProfileRepository_findProfileByUserId userId = gets (\<lambda>w. find_row (\<lambda>p. prof_userId p = userId) (profiles w))"

definition findUserById :: "int \<Rightarrow> ('x world, user_row option) op" where
  "findUserById userId = gets (\<lambda>w. find_row (\<lambda>u. usr_id u = userId) (users w))"

definition findAllUsers :: "int option \<Rightarrow> ('x world, user_row list) op" where
  "findAllUsers userId = gets (\<lambda>w. if truthy_int userId then find_rows (\<lambda>u. Some (usr_id u) = userId) (users w) else rows (users w))"

text \<open>An optional integer column given by a property of the answer: a number, or nothing.\<close>

definition json_int :: "json option \<Rightarrow> error + int option" where
  "json_int v = (case v of
       None \<Rightarrow> Inr None
     | Some j \<Rightarrow> (case j of JNull \<Rightarrow> Inr None
         | JNum n \<Rightarrow> (case prisma_int n of Inl e \<Rightarrow> Inl e | Inr i \<Rightarrow> Inr (Some i))
         | _ \<Rightarrow> Inl prisma_validation))"

text \<open>In an update a property that is \<^verbatim>\<open>undefined\<close> leaves the column as it is.\<close>

definition given :: "json option \<Rightarrow> 'a \<Rightarrow> 'a \<Rightarrow> 'a" where
  "given v new old = (if v = None then old else new)"

definition truthy_json :: "json option \<Rightarrow> bool" where
  "truthy_json v = (case v of
       None \<Rightarrow> False
     | Some j \<Rightarrow> (case j of JNull \<Rightarrow> False | JBool b \<Rightarrow> b | JNum n \<Rightarrow> n \<noteq> NaN \<and> n \<noteq> Fin 0 | JStr s \<Rightarrow> s \<noteq> []
         | _ \<Rightarrow> True))"

text \<open>The columns that take the property of the same name.\<close>

definition migrated_columns :: "string list" where
  "migrated_columns = map (\<lambda>(column, _). column) profile_columns"

definition updated_columns :: "string list" where
  "updated_columns = [''account_level'', ''account_status'', ''account_status_string'', ''ewallet_status'']"

definition saveCustomerProfile :: "'x services \<Rightarrow> int \<Rightarrow> account_response \<Rightarrow> ('x world, unit) op" where
  "saveCustomerProfile E userId a =
     bindE (from_sum (json_int (acr_id a))) (\<lambda>customerId.
     bindE (from_sum (json_int (acr_ewallet_id a))) (\<lambda>ewalletId.
     CustomerProfileRepository_upsertProfile E userId
       \<lparr>prof_userId = userId, prof_external_customer_id = customerId, prof_ewallet_id = ewalletId,
        prof_oauth_token = acr_oauth_token a, prof_refresh_token = acr_refresh_token a,
        prof_private_key = acr_private_key a, prof_email = acr_email a,
        prof_mobile = (if truthy_json (acr_mobile a) then Some (js_string_opt (acr_mobile a)) else None),
        prof_details = map (\<lambda>column. (column, acr_property a column)) migrated_columns, prof_updatedAt = 0\<rparr>
       (\<lambda>p. p\<lparr>prof_external_customer_id := given (acr_id a) customerId (prof_external_customer_id p),
          prof_oauth_token := orElse (acr_oauth_token a) (prof_oauth_token p),
          prof_refresh_token := orElse (acr_refresh_token a) (prof_refresh_token p),
          prof_private_key := orElse (acr_private_key a) (prof_private_key p),
          prof_ewallet_id := given (acr_ewallet_id a) ewalletId (prof_ewallet_id p),
          prof_details := map (\<lambda>(column, v). (column,
            if column \<in> set updated_columns then orElse (acr_property a column) v else v)) (prof_details p)\<rparr>)))"

fun json_text :: "json \<Rightarrow> string" where
  "json_text JNull = ''null''"
| "json_text (JBool b) = (if b then ''true'' else ''false'')"
| "json_text (JNum n) = (case n of Fin x \<Rightarrow> js_num_str n | _ \<Rightarrow> ''null'')"
| "json_text (JStr s) = json_quote s"
| "json_text (JArr vs) = ''['' @ join '','' (map json_text vs) @ '']''"
| "json_text (JObj kvs) = ''{'' @ join '','' (map (\<lambda>(k, v). json_quote k @ '':'' @ json_text v) kvs) @ ''}''"

definition saveAuthenticationState :: "'x services \<Rightarrow> int \<Rightarrow> account_response \<Rightarrow> ('x world, unit) op" where
  "saveAuthenticationState E userId a =
     bindE (script_generateDeviceId E userId) (\<lambda>deviceId.
     bindE (from_sum (json_int (acr_id a))) (\<lambda>customerId.
     bindE (from_sum (json_int (acr_ewallet_id a))) (\<lambda>ewalletId.
     bindE (require (acr_private_key a) prisma_validation) (\<lambda>privateKey.
     bindE (require (acr_refresh_token a) prisma_validation) (\<lambda>refreshTok.
     CustomerProfileRepository_upsertAuthState E userId
       \<lparr>aus_userId = userId, aus_clientState = 9, aus_deviceId = deviceId, aus_privateKey = privateKey,
        aus_refreshToken = refreshTok,
        aus_extraLoginData = Some (json_text (jobj [(''email'', jstr (acr_email a)), (''mobile'', acr_mobile a)])),
        aus_lastCustomerOauthToken = acr_oauth_token a, aus_oauthExpirationTimestamp = None,
        aus_refreshExpirationTimestamp = None, aus_externalCustomerId = customerId, aus_ewalletId = ewalletId,
        aus_updatedAt = 0\<rparr>
       (\<lambda>s. s\<lparr>aus_privateKey := privateKey, aus_refreshToken := refreshTok,
          aus_lastCustomerOauthToken := orElse (acr_oauth_token a) (aus_lastCustomerOauthToken s),
          aus_externalCustomerId := given (acr_id a) customerId (aus_externalCustomerId s),
          aus_ewalletId := given (acr_ewallet_id a) ewalletId (aus_ewalletId s)\<rparr>))))))"

definition hasExistingCustomerProfile :: "int \<Rightarrow> ('x world, bool) op" where
  "hasExistingCustomerProfile userId =
     bindE (CustomerProfileRepository_findProfileByUserId userId) (\<lambda>existingProfile. ok (existingProfile \<noteq> None))"

fun without_profiles :: "user_row list \<Rightarrow> ('x world, user_row list) op" where
  "without_profiles [] = ok []"
| "without_profiles (user # us) =
     bindE (hasExistingCustomerProfile (usr_id user)) (\<lambda>hasProfile.
     bindE (without_profiles us) (\<lambda>rest. ok (if hasProfile then rest else user # rest)))"

definition getUsersForMigration :: "int option \<Rightarrow> ('x world, user_row list) op" where
  "getUsersForMigration userId = bindE (findAllUsers userId) without_profiles"

section \<open>The migration\<close>

record migration_result =
  mr_success :: bool
  mr_user :: string
  mr_reason :: "string option"
  mr_externalCustomerId :: "json option"

record migration_stats =
  ms_successCount :: nat
  ms_failureCount :: nat
  ms_skippedCount :: nat
  ms_results :: "migration_result list"

definition failed_result :: "user_row \<Rightarrow> string \<Rightarrow> migration_result" where
  "failed_result user reason = \<lparr>mr_success = False, mr_user = usr_email user, mr_reason = Some reason, mr_externalCustomerId = None\<rparr>"

definition processUser :: "'x services \<Rightarrow> 'x post_account \<Rightarrow> (user_row \<Rightarrow> bool) \<Rightarrow> user_row \<Rightarrow> ('x world, migration_result) op" where
  "processUser E post valid user = try_catch
     (if \<not> valid user then ok (failed_result user ''validation_failed'')
      else
        bindE (hasExistingCustomerProfile (usr_id user)) (\<lambda>profileExists.
        if profileExists then ok (failed_result user ''already_exists'')
        else
          bindE (createCustomerAccount E post user) (\<lambda>accountResponse.
          if truthy_str (car_err accountResponse) then ok (failed_result user (the (car_err accountResponse)))
          else
            bindE (require (orElse (car_ss accountResponse) (car_rs accountResponse))
                     (mk_error Error ''Backoffice response missing account data'')) (\<lambda>backofficeData.
            bindE (saveCustomerProfile E (usr_id user) backofficeData) (\<lambda>_.
            bindE (saveAuthenticationState E (usr_id user) backofficeData) (\<lambda>_.
            ok \<lparr>mr_success = True, mr_user = usr_email user, mr_reason = None,
                mr_externalCustomerId = acr_id backofficeData\<rparr>))))))
     (\<lambda>e. ok (failed_result user (err_message e)))"

definition add_result :: "migration_result \<Rightarrow> migration_stats \<Rightarrow> migration_stats" where
  "add_result r s =
     (let s' = s\<lparr>ms_results := ms_results s @ [r]\<rparr> in
      if mr_success r then s'\<lparr>ms_successCount := ms_successCount s + 1\<rparr>
      else if mr_reason r = Some ''already_exists'' then s'\<lparr>ms_skippedCount := ms_skippedCount s + 1\<rparr>
      else s'\<lparr>ms_failureCount := ms_failureCount s + 1\<rparr>)"

fun migrate_loop :: "'x services \<Rightarrow> 'x post_account \<Rightarrow> (user_row \<Rightarrow> bool) \<Rightarrow> user_row list \<Rightarrow> migration_stats \<Rightarrow> ('x world, migration_stats) op" where
  "migrate_loop E post valid [] stats = ok stats"
| "migrate_loop E post valid (user # us) stats =
     bindE (processUser E post valid user) (\<lambda>result. migrate_loop E post valid us (add_result result stats))"

text \<open>The script returns nothing; the value of the model is the statistics it logs.\<close>

definition migrateUsers :: "'x services \<Rightarrow> 'x post_account \<Rightarrow> (user_row \<Rightarrow> bool) \<Rightarrow> ('x world, migration_stats) op" where
  "migrateUsers E post valid =
     bindE (getUsersForMigration (Some 66)) (\<lambda>us.
     migrate_loop E post valid us \<lparr>ms_successCount = 0, ms_failureCount = 0, ms_skippedCount = 0, ms_results = []\<rparr>)"

section \<open>Errors of the backoffice\<close>

text \<open>What the handler says of an error, by the name of its class.\<close>

record error_handler_result =
  eh_canRetry :: bool
  eh_reason :: string
  eh_suggestions :: "string list"
  eh_errorType :: string

definition handleBackofficeError :: "error \<Rightarrow> error_handler_result" where
  "handleBackofficeError e = (case err_class e of
       UnprocessableEntityError \<Rightarrow>
         \<lparr>eh_canRetry = True, eh_reason = ''Validation error - check data format'',
          eh_suggestions = [''Check RFC format'', ''Verify email and mobile format''], eh_errorType = ''ValidationError''\<rparr>
     | BadRequestError \<Rightarrow>
         \<lparr>eh_canRetry = False, eh_reason = ''Bad request - likely duplicate data'',
          eh_suggestions = [''Check for duplicate mobile or email''], eh_errorType = ''DuplicateError''\<rparr>
     | ConflictError \<Rightarrow>
         \<lparr>eh_canRetry = False, eh_reason = ''Conflict error - resource already exists'', eh_suggestions = [],
          eh_errorType = ''ConflictError''\<rparr>
     | ForbiddenError \<Rightarrow>
         \<lparr>eh_canRetry = False, eh_reason = ''Forbidden - access denied'', eh_suggestions = [], eh_errorType = ''ForbiddenError''\<rparr>
     | NotFoundError \<Rightarrow>
         \<lparr>eh_canRetry = True, eh_reason = ''Resource not found'', eh_suggestions = [], eh_errorType = ''NotFoundError''\<rparr>
     | InternalServerError \<Rightarrow>
         \<lparr>eh_canRetry = True, eh_reason = ''Internal server error'', eh_suggestions = [], eh_errorType = ''InternalServerError''\<rparr>
     | _ \<Rightarrow>
         \<lparr>eh_canRetry = False, eh_reason = or_default (err_message e) ''Unknown error'', eh_suggestions = [],
          eh_errorType = ''UnknownError''\<rparr>)"

text \<open>The code and the response status an error may carry.\<close>

definition isRetryableError :: "string option \<Rightarrow> int option \<Rightarrow> bool" where
  "isRetryableError code status \<longleftrightarrow>
     code = Some ''ECONNRESET'' \<or> code = Some ''ETIMEDOUT''
     \<or> (\<exists>s \<in> set_option status. s \<noteq> 0 \<and> 500 \<le> s) \<or> status = Some 429"

end
