(* ===== verification/MigrationProps.thy ===== *)
theory MigrationProps
  imports Migration Samples
begin

text \<open>
  Properties of the migration script: names survive being taken apart, generated tax numbers and
  phone numbers have the form the backoffice asks for, and a user who has a profile is left alone
  however often the script runs.
\<close>

section \<open>Names\<close>

definition plain_word :: "string \<Rightarrow> bool" where
  "plain_word s \<longleftrightarrow> s \<noteq> [] \<and> list_all (\<lambda>c. \<not> is_space c) s"

lemma split_blanks_word: "list_all (\<lambda>c. \<not> is_space c) s \<Longrightarrow> split_blanks s = [s]"
  by (induction s) auto

lemma split_blanks_append:
  "list_all (\<lambda>c. \<not> is_space c) s \<Longrightarrow> is_space c \<Longrightarrow> split_blanks (s @ c # t) = s # split_blanks (dropWhile is_space t)"
  by (induction s) auto

lemma join_Cons: "ws \<noteq> [] \<Longrightarrow> join sep (w # ws) = w @ sep @ join sep ws"
  by (cases ws) auto

lemma join_append: "xs \<noteq> [] \<Longrightarrow> ys \<noteq> [] \<Longrightarrow> join sep (xs @ ys) = join sep xs @ sep @ join sep ys"
proof (induction xs)
  case (Cons x xs)
  then show ?case by (cases "xs = []") (simp_all add: join_Cons)
qed simp

lemma join_words_start:
  assumes "ws \<noteq> []" and "list_all plain_word ws"
  shows "join sep ws \<noteq> []" and "\<not> is_space (hd (join sep ws))"
proof -
  obtain v vs where v: "ws = v # vs" using assms(1) by (cases ws) auto
  have p: "v \<noteq> []" "\<not> is_space (hd v)" using assms(2) v by (cases v; auto simp: plain_word_def)+
  show "join sep ws \<noteq> []" "\<not> is_space (hd (join sep ws))" using p v by (cases vs; auto)+
qed

lemma dropWhile_hd: "s \<noteq> [] \<Longrightarrow> \<not> p (hd s) \<Longrightarrow> dropWhile p s = s"
  by (cases s) auto

lemma split_join_words:
  "ws \<noteq> [] \<Longrightarrow> list_all plain_word ws \<Longrightarrow> split_blanks (join '' '' ws) = ws"
proof (induction ws)
  case (Cons v vs)
  have v: "list_all (\<lambda>c. \<not> is_space c) v" using Cons.prems by (simp add: plain_word_def)
  show ?case
  proof (cases "vs = []")
    case True
    then show ?thesis using v by (simp add: split_blanks_word)
  next
    case False
    have vs: "list_all plain_word vs" using Cons.prems by simp
    have "dropWhile is_space (join '' '' vs) = join '' '' vs"
      using join_words_start [OF False vs] by (rule dropWhile_hd)
    moreover have "is_space CHR '' ''" by (simp add: is_space_def)
    ultimately show ?thesis using False v vs Cons.IH by (simp add: join_Cons split_blanks_append)
  qed
qed simp

lemma join_words_end:
  assumes "ws \<noteq> []" and "list_all plain_word ws"
  shows "\<not> is_space (last (join '' '' ws))"
  using assms
proof (induction ws)
  case (Cons v vs)
  show ?case
  proof (cases "vs = []")
    case True
    with Cons.prems show ?thesis by (auto simp: plain_word_def list_all_iff)
  next
    case False
    with Cons join_words_start(1) [of vs "'' ''"] show ?thesis by (simp add: join_Cons)
  qed
qed simp

lemma trim_join_words:
  assumes "ws \<noteq> []" and "list_all plain_word ws"
  shows "trim (join '' '' ws) = join '' '' ws"
proof -
  let ?s = "join '' '' ws"
  have s: "?s \<noteq> []" "\<not> is_space (hd ?s)" "\<not> is_space (last ?s)"
    using join_words_start [OF assms] join_words_end [OF assms] by auto
  then show ?thesis by (simp add: trim_def dropWhile_hd hd_rev)
qed

text \<open>The words of a name that is not blank are not empty and hold no blanks.\<close>

lemma split_blanks_plain:
  "s \<noteq> [] \<Longrightarrow> \<not> is_space (hd s) \<Longrightarrow> \<not> is_space (last s) \<Longrightarrow> list_all plain_word (split_blanks s)"
proof (induction "length s" arbitrary: s rule: less_induct)
  case less
  obtain a t where s: "s = a @ t" "list_all (\<lambda>c. \<not> is_space c) a" "t = [] \<or> is_space (hd t)"
  proof
    show "s = takeWhile (\<lambda>c. \<not> is_space c) s @ dropWhile (\<lambda>c. \<not> is_space c) s" by simp
    show "list_all (\<lambda>c. \<not> is_space c) (takeWhile (\<lambda>c. \<not> is_space c) s)" by (auto simp: list_all_iff dest: set_takeWhileD)
    show "dropWhile (\<lambda>c. \<not> is_space c) s = [] \<or> is_space (hd (dropWhile (\<lambda>c. \<not> is_space c) s))"
      using hd_dropWhile by blast
  qed
  have a: "a \<noteq> []" using less.prems(1,2) s by auto
  show ?case
  proof (cases t)
    case Nil
    with s a show ?thesis by (simp add: split_blanks_word plain_word_def)
  next
    case (Cons c u)
    let ?u = "dropWhile is_space u"
    have c: "is_space c" using s(3) Cons by simp
    have u: "u \<noteq> []" "last s = last u" using less.prems(3) s(1) Cons c by (auto split: if_splits)
    then have ne: "?u \<noteq> []" using less.prems(3) by (auto simp: dropWhile_eq_Nil_conv dest: last_in_set)
    have "last ?u = last u" using ne by (metis last_appendR takeWhile_dropWhile_id)
    moreover have "\<not> is_space (hd ?u)" using ne by (rule hd_dropWhile)
    moreover have "length ?u < length s" using s(1) Cons length_dropWhile_le [of is_space u] by simp
    ultimately have "list_all plain_word (split_blanks ?u)" using less.hyps ne less.prems(3) u(2) by simp
    then show ?thesis using s Cons c a by (simp add: split_blanks_append plain_word_def)
  qed
qed

lemma trim_ends:
  assumes "trim s \<noteq> []"
  shows "\<not> is_space (hd (trim s))" and "\<not> is_space (last (trim s))"
proof -
  let ?t = "dropWhile is_space s" and ?r = "dropWhile is_space (rev (dropWhile is_space s))"
  have r: "?r \<noteq> []" using assms by (simp add: trim_def)
  then show "\<not> is_space (last (trim s))" using hd_dropWhile [OF r] by (simp add: trim_def last_rev)
  have "?t \<noteq> []" using r by (metis dropWhile.simps(1) rev.simps(1))
  then have "\<not> is_space (hd ?t)" by (rule hd_dropWhile)
  moreover have "hd (rev ?r) = hd ?t"
    using r by (metis hd_append2 rev_append rev_is_Nil_conv rev_rev_ident takeWhile_dropWhile_id)
  ultimately show "\<not> is_space (hd (trim s))" by (simp add: trim_def)
qed

definition full_name :: "parsed_name \<Rightarrow> string" where
  "full_name n = join '' '' (filter (\<lambda>p. p \<noteq> []) [pn_firstName n, pn_lastName n, pn_secondLastName n])"

text \<open>
  C0: Taking a complete name apart loses nothing: the first, last and second last name, put
  together again, have exactly the words of the name in their order, however many blanks were
  between them.
\<close>

theorem parseCompleteName_roundtrip:
  assumes "trim s \<noteq> []"
  shows "split_blanks (trim (full_name (parseCompleteName s))) = split_blanks (trim s)"
proof -
  let ?ws = "split_blanks (trim s)" and ?n = "length (split_blanks (trim s))"
  have words: "list_all plain_word ?ws" using assms trim_ends [OF assms] by (rule split_blanks_plain)
  have ne: "?ws \<noteq> []" using assms by (cases "trim s") (auto split: list.split)
  have full: "full_name (parseCompleteName s) = join '' '' ?ws"
  proof (cases "3 \<le> ?n")
    case True
    obtain b z where b: "?ws = b @ [z]" using ne by (cases ?ws rule: rev_cases) auto
    moreover obtain a y where "b = a @ [y]" using True b by (cases b rule: rev_cases) auto
    ultimately have ws: "?ws = a @ [y, z]" by simp
    then have a: "a \<noteq> []" "list_all plain_word a" "y \<noteq> []" "z \<noteq> []" using True words by (auto simp: plain_word_def)
    then have "Suc 0 \<le> length a" by (simp add: Suc_leI)
    with a show ?thesis
      unfolding full_name_def parseCompleteName_def ws
      using join_words_start(1) [of a "'' ''"] by (simp add: Let_def nth_append join_append)
  next
    case False
    then consider v where "?ws = [v]" | v u where "?ws = [v, u]"
      using ne by (cases ?ws; cases "tl ?ws") (auto simp: numeral_3_eq_3 not_le less_Suc_eq)
    then show ?thesis
      using words by cases (auto simp: full_name_def parseCompleteName_def or_default_def plain_word_def)
  qed
  show ?thesis unfolding full trim_join_words [OF ne words] by (rule split_join_words [OF ne words])
qed

theorem parseCompleteName_roundtrip_witness:
  "split_blanks (trim (full_name (parseCompleteName ''  Ana Maria  Paz Luna ''))) = [''Ana'', ''Maria'', ''Paz'', ''Luna'']"
proof -
  have "trim ''  Ana Maria  Paz Luna '' \<noteq> []" by code_simp
  from parseCompleteName_roundtrip [OF this]
  show ?thesis by (rule trans) code_simp
qed

section \<open>Phone and tax numbers\<close>

lemma validateMobilePhone_ten:
  "length (pv_cleanedPhone (validateMobilePhone p)) = 10 \<and> list_all is_digit (pv_cleanedPhone (validateMobilePhone p))"
  unfolding validateMobilePhone_def Let_def digits_only_def slice_last_def
  by (auto simp: list_all_iff is_digit_def dest: in_set_dropD)

definition name_char :: "char \<Rightarrow> bool" where
  "name_char c \<longleftrightarrow> is_lower c \<or> is_upper c \<or> c = CHR '' ''"

lemma upper_name_char:
  assumes "name_char c"
  shows "is_upper (upper_char c) \<or> upper_char c = CHR '' ''"
proof (cases "is_lower c")
  case True
  then have "of_char (char_of (char_code c - 32) :: char) = char_code c - 32"
    by (simp add: is_lower_def)
  with True show ?thesis by (auto simp: upper_char_def is_lower_def is_upper_def)
next
  case False
  with assms show ?thesis by (auto simp: name_char_def upper_char_def is_upper_def is_lower_def)
qed

lemma split_on_parts:
  "(\<And>x. x \<in> set s \<Longrightarrow> p x \<or> x = c) \<Longrightarrow> v \<in> set (split_on c s) \<Longrightarrow> list_all p v"
proof (induction s arbitrary: v)
  case (Cons a s)
  have IH: "list_all p v" if "v \<in> set (split_on c s)" for v using Cons.IH [of v] Cons.prems(1) that by simp
  have "p a \<or> a = c" using Cons.prems(1) by simp
  with Cons.prems(2) IH show ?case by (auto split: if_splits list.splits)
qed simp

lemma part_or_letters:
  assumes "\<And>v. v \<in> set ws \<Longrightarrow> list_all is_upper v" and "list_all is_upper d"
  shows "list_all is_upper (part_or (take k) (nth_opt ws i) d)"
proof -
  have "list_all is_upper (take k (ws ! i))" if "i < length ws"
    using assms(1) [OF nth_mem [OF that]] by (auto simp: list_all_iff dest: in_set_takeD)
  then show ?thesis using assms(2) by (simp add: part_or_def nth_opt_def or_default_def)
qed

lemma part_or_length:
  assumes "d \<noteq> []" and "length d \<le> k" and "0 < k"
  shows "0 < length (part_or (take k) p d) \<and> length (part_or (take k) p d) \<le> k"
  using assms by (auto simp: part_or_def or_default_def split: option.split)

text \<open>
  For a name written with letters of the English alphabet the generated tax number passes the
  pattern it would be checked with.
\<close>

lemma generateTestRFC_valid:
  assumes "list_all name_char name"
  shows "rfcRegex_test (generateTestRFC name)" and "trim (toUpperCase (generateTestRFC name)) = generateTestRFC name"
proof -
  define ws where "ws = split_on CHR '' '' (toUpperCase name)"
  define a where "a = part_or (take 2) (nth_opt ws 0) ''XX''"
  define b where "b = part_or (take 1) (nth_opt ws 1) ''X''"
  define c where "c = part_or (take 1) (nth_opt ws 2) ''X''"
  have g: "generateTestRFC name = (a @ b @ c) @ ''900101'' @ ''H01''"
    by (simp add: generateTestRFC_def Let_def a_def b_def c_def ws_def)
  have "list_all is_upper v" if "v \<in> set ws" for v
    using that assms unfolding ws_def
    by (intro split_on_parts [of "toUpperCase name" is_upper "CHR '' ''"])
       (auto simp: toUpperCase_def list_all_iff dest!: upper_name_char bspec)
  then have u: "list_all is_upper (a @ b @ c)"
    by (simp add: a_def b_def c_def part_or_letters is_upper_def)
  have "0 < length a \<and> length a \<le> 2" unfolding a_def by (rule part_or_length) auto
  moreover have "0 < length b \<and> length b \<le> 1" "0 < length c \<and> length c \<le> 1"
    unfolding b_def c_def by (rule part_or_length; simp)+
  ultimately have n: "length (a @ b @ c) = 3 \<or> length (a @ b @ c) = 4" unfolding length_append by linarith
  have up: "upper_char x = x \<and> \<not> is_space x" if "is_upper x \<or> is_digit x" for x
    using that by (auto simp: upper_char_def is_upper_def is_digit_def is_lower_def is_space_def)
  have all: "is_upper x \<or> is_digit x" if "x \<in> set (generateTestRFC name)" for x
    using that u unfolding g by (auto simp: list_all_iff is_upper_def is_digit_def)
  show "rfcRegex_test (generateTestRFC name)"
    using n u unfolding g rfcRegex_test_def Let_def
    by (auto simp: rfc_letter_def is_digit_def is_upper_def list_all_iff)
  have "map upper_char (generateTestRFC name) = generateTestRFC name" using all up by (simp add: map_idI)
  moreover have "dropWhile is_space s = s" if "set s \<subseteq> set (generateTestRFC name)" for s
    using that all up by (cases s) auto
  ultimately show "trim (toUpperCase (generateTestRFC name)) = generateTestRFC name"
    by (simp add: trim_def toUpperCase_def)
qed

lemma generateTestRFC_normal:
  "list_all name_char name \<Longrightarrow> normalizeRFC (Some (generateTestRFC name)) = generateTestRFC name"
  using generateTestRFC_valid [of name] by (simp add: normalizeRFC_def truthy_str_def generateTestRFC_def Let_def)

section \<open>Users who are migrated\<close>

abbreviation profile_of :: "int \<Rightarrow> 'x world \<Rightarrow> profile_row option" where
  "profile_of i w \<equiv> find_row (\<lambda>p. prof_userId p = i) (profiles w)"

abbreviation session_of :: "int \<Rightarrow> 'x world \<Rightarrow> auth_state_row option" where
  "session_of i w \<equiv> find_row (\<lambda>a. aus_userId a = i) (authStates w)"

lemma hasExisting_run: "hasExistingCustomerProfile i w = (Inr (profile_of i w \<noteq> None), w)"
  by (simp add: hasExistingCustomerProfile_def CustomerProfileRepository_findProfileByUserId_def bindE_def)

lemma processUser_exists:
  "valid u \<Longrightarrow> profile_of (usr_id u) w \<noteq> None \<Longrightarrow> processUser E post valid u w = (Inr (failed_result u ''already_exists''), w)"
  by (simp add: processUser_def try_catch_def hasExisting_run bindE_ok)

lemma processUser_skips:
  assumes "profile_of (usr_id u) w \<noteq> None"
  shows "\<exists>r. processUser E post valid u w = (Inr r, w) \<and> \<not> mr_success r"
  using processUser_exists [of valid u w E post] assms
  by (cases "valid u") (auto simp: processUser_def try_catch_def failed_result_def)

lemma processUser_success:
  assumes "processUser E post valid u w = (Inr r, w')" and "mr_success r"
  obtains resp w1 a w2 where "valid u" and "profile_of (usr_id u) w = None"
    and "createCustomerAccount E post u w = (Inr resp, w1)" and "orElse (car_ss resp) (car_rs resp) = Some a"
    and "saveCustomerProfile E (usr_id u) a w1 = (Inr (), w2)"
    and "saveAuthenticationState E (usr_id u) a w2 = (Inr (), w')"
proof -
  let ?body = "\<lambda>resp. if truthy_str (car_err resp) then ok (failed_result u (the (car_err resp)))
    else bindE (require (orElse (car_ss resp) (car_rs resp)) (mk_error Error ''Backoffice response missing account data'')) (\<lambda>a.
      bindE (saveCustomerProfile E (usr_id u) a) (\<lambda>_.
      bindE (saveAuthenticationState E (usr_id u) a) (\<lambda>_.
      ok \<lparr>mr_success = True, mr_user = usr_email u, mr_reason = None, mr_externalCustomerId = acr_id a\<rparr>)))"
  have p: "profile_of (usr_id u) w = None" using assms processUser_skips [of u w E post valid] by fastforce
  have "valid u" using assms by (rule_tac ccontr) (auto simp: processUser_def try_catch_def failed_result_def)
  note v = this p
  have "bindE (createCustomerAccount E post u) ?body w = (Inr r, w')"
    using assms v
    by (auto simp: processUser_def try_catch_def hasExisting_run bindE_ok failed_result_def split: prod.splits sum.splits)
  then obtain resp w1 where c: "createCustomerAccount E post u w = (Inr resp, w1)" and "?body resp w1 = (Inr r, w')"
    by (rule bindE_InrE)
  then have "bindE (require (orElse (car_ss resp) (car_rs resp)) (mk_error Error ''Backoffice response missing account data'')) (\<lambda>a.
      bindE (saveCustomerProfile E (usr_id u) a) (\<lambda>_.
      bindE (saveAuthenticationState E (usr_id u) a) (\<lambda>_.
      ok \<lparr>mr_success = True, mr_user = usr_email u, mr_reason = None, mr_externalCustomerId = acr_id a\<rparr>))) w1 = (Inr r, w')"
    using assms(2) by (auto simp: failed_result_def split: if_splits)
  then show thesis
    using that [OF v c] by (auto elim!: bindE_InrE dest!: require_Inr)
qed

text \<open>A user with a profile keeps it and the session, whoever is processed.\<close>

definition left_alone :: "int \<Rightarrow> profile_row \<Rightarrow> auth_state_row option \<Rightarrow> 'x world \<Rightarrow> bool" where
  "left_alone i p a w \<longleftrightarrow> profile_of i w = Some p \<and> session_of i w = a"

lemma keeps_alone_now [keeps_intros]: "keeps (left_alone i p a) (now E)"
  by (rule keeps_now) (simp add: left_alone_def)

lemma keeps_alone_remote [keeps_intros]: "keeps (left_alone i p a) (remote c f g)"
  by (rule keeps_remote) (simp add: left_alone_def)

lemma keeps_alone_deviceId [keeps_intros]: "keeps (left_alone i p a) (script_generateDeviceId E j)"
  unfolding script_generateDeviceId_def by (intro keeps_intros)

lemma keeps_alone_prevalidate [keeps_intros]: "keeps (left_alone i p a) (preValidateBackofficeData u)"
  unfolding preValidateBackofficeData_def Let_def by (intro keeps_intros)

lemma keeps_alone_create [keeps_intros]: "keeps (left_alone i p a) (createCustomerAccount E post u)"
  unfolding createCustomerAccount_def Let_def by (intro keeps_intros)

lemma keeps_alone_profile:
  assumes "prof_userId c = j" and "j \<noteq> i" and "\<And>r. prof_userId (f r) = prof_userId r"
  shows "keeps (left_alone i p a) (upsertProfile E j c f)"
proof -
  have "find_row (\<lambda>p. prof_userId p = i) (update_rows (\<lambda>p. prof_userId p = j) (\<lambda>p. f p\<lparr>prof_updatedAt := t\<rparr>) T)
      = find_row (\<lambda>p. prof_userId p = i) T" for t T
    by (rule find_row_update_other) (use assms in auto)
  then show ?thesis
    unfolding upsertProfile_def findProfileByUserId_def
    by (intro keeps_intros keeps_modify) (use assms in \<open>auto simp: left_alone_def find_row_insert\<close>)
qed

lemma keeps_alone_session:
  assumes "aus_userId c = j" and "j \<noteq> i" and "\<And>r. aus_userId (f r) = aus_userId r"
  shows "keeps (left_alone i p a) (upsertAuthState E j c f)"
proof -
  have "find_row (\<lambda>a. aus_userId a = i) (update_rows (\<lambda>a. aus_userId a = j) (\<lambda>a. f a\<lparr>aus_updatedAt := t\<rparr>) T)
      = find_row (\<lambda>a. aus_userId a = i) T" for t T
    by (rule find_row_update_other) (use assms in auto)
  then show ?thesis
    unfolding upsertAuthState_def
    by (intro keeps_intros keeps_modify) (use assms in \<open>auto simp: left_alone_def find_row_insert split: option.split\<close>)
qed

lemma keeps_alone_save:
  assumes "j \<noteq> i"
  shows "keeps (left_alone i p a) (saveCustomerProfile E j d)" and "keeps (left_alone i p a) (saveAuthenticationState E j d)"
  unfolding saveCustomerProfile_def saveAuthenticationState_def CustomerProfileRepository_upsertProfile_def
    CustomerProfileRepository_upsertAuthState_def
  using assms by (intro keeps_intros keeps_alone_profile keeps_alone_session; simp)+

lemma keeps_alone_process:
  fixes E :: "'x services"
  shows "keeps (left_alone i p a) (processUser E post valid u)"
proof (cases "usr_id u = i")
  case True
  show ?thesis
  proof (rule keepsI)
    fix w :: "'x world" assume "left_alone i p a w"
    moreover from this processUser_skips [of u w E post valid] True
    have "snd (processUser E post valid u w) = w" by (auto simp: left_alone_def)
    ultimately show "left_alone i p a (snd (processUser E post valid u w))" by simp
  qed
next
  case False
  then show ?thesis
    unfolding processUser_def hasExistingCustomerProfile_def CustomerProfileRepository_findProfileByUserId_def
    by (intro keeps_intros keeps_alone_save)
qed

lemma keeps_alone_loop: "keeps (left_alone i p a) (migrate_loop E post valid us stats)"
  by (induction us arbitrary: stats) (auto intro!: keeps_intros keeps_alone_process)

text \<open>A profile is stored by a successful migration.\<close>

lemma saveCustomerProfile_stores:
  assumes "saveCustomerProfile E i d w = (Inr (), w')" and "profile_of i w = None"
  shows "\<exists>p. profile_of i w' = Some p \<and> prof_external_customer_id p = (case json_int (acr_id d) of Inr c \<Rightarrow> c)"
proof -
  obtain c e where "json_int (acr_id d) = Inr c" and "json_int (acr_ewallet_id d) = Inr e"
    using assms(1) by (auto simp: saveCustomerProfile_def elim!: bindE_InrE dest!: from_sum_Inr)
  with assms show ?thesis
    by (auto simp: saveCustomerProfile_def CustomerProfileRepository_upsertProfile_def upsertProfile_def findProfileByUserId_def
        from_sum_def bindE_ok_left now_run find_row_insert ensure_run bindE_def split: if_splits)
qed

lemma keeps_profiles_create: "keeps (\<lambda>w. profiles w = P) (createCustomerAccount E post u)"
  unfolding createCustomerAccount_def preValidateBackofficeData_def script_generateDeviceId_def Let_def
  by (intro keeps_intros keeps_now keeps_remote) auto

lemma keeps_profiles_session: "keeps (\<lambda>w. profiles w = P) (saveAuthenticationState E i d)"
  unfolding saveAuthenticationState_def CustomerProfileRepository_upsertAuthState_def upsertAuthState_def script_generateDeviceId_def
  by (intro keeps_intros keeps_now keeps_modify) auto

lemma processUser_stores:
  assumes "processUser E post valid u w = (Inr r, w')" and "mr_success r"
  shows "\<exists>p. profile_of (usr_id u) w' = Some p"
proof -
  obtain resp w1 a w2 where c: "createCustomerAccount E post u w = (Inr resp, w1)" and none: "profile_of (usr_id u) w = None"
    and s: "saveCustomerProfile E (usr_id u) a w1 = (Inr (), w2)" "saveAuthenticationState E (usr_id u) a w2 = (Inr (), w')"
    using assms by (rule processUser_success)
  have "profiles w1 = profiles w" using keepsD_run [OF keeps_profiles_create _ c] by simp
  then obtain p where "profile_of (usr_id u) w2 = Some p" using saveCustomerProfile_stores [OF s(1)] none by auto
  moreover have "profiles w' = profiles w2" using keepsD_run [OF keeps_profiles_session _ s(2)] by simp
  ultimately show ?thesis by simp
qed

text \<open>
  C0: A user is migrated at most once. Once the script has migrated a user, whatever users it
  processes afterwards and however often, the stored profile and session stay as they are, and
  processing the user again is reported as already done, with no call and no change.
\<close>

theorem migration_once:
  assumes "processUser E post valid u w = (Inr r, w1)" and "mr_success r"
  shows "case migrate_loop E post valid us stats w1 of (_, w2) \<Rightarrow>
    profile_of (usr_id u) w2 = profile_of (usr_id u) w1 \<and> session_of (usr_id u) w2 = session_of (usr_id u) w1
    \<and> processUser E post valid u w2 = (Inr (failed_result u ''already_exists''), w2)"
proof -
  obtain x w2 where run: "migrate_loop E post valid us stats w1 = (x, w2)" by (cases "migrate_loop E post valid us stats w1")
  obtain p where p: "profile_of (usr_id u) w1 = Some p" using processUser_stores [OF assms] by blast
  then have "left_alone (usr_id u) p (session_of (usr_id u) w1) w1" by (simp add: left_alone_def)
  from keepsD_run [OF keeps_alone_loop this run] have k: "left_alone (usr_id u) p (session_of (usr_id u) w1) w2" .
  have "valid u" using processUser_success [OF assms] by blast
  then have "processUser E post valid u w2 = (Inr (failed_result u ''already_exists''), w2)"
    using k by (intro processUser_exists) (simp_all add: left_alone_def)
  with run k p show ?thesis by (simp add: left_alone_def)
qed

definition eva :: user_row where
  "eva = (sample_user 66 ''eva@x.mx'')\<lparr>usr_completeName := Some ''Eva Luz Mar''\<rparr>"

definition eva_world :: "int world" where
  "eva_world = sample_world\<lparr>users := table_of [sample_user 1 ''ana@x'', eva]\<rparr>"

definition eva_account :: account_response where
  "eva_account = \<lparr>acr_id = Some (JNum (Fin 901)), acr_ewallet_id = Some (JNum (Fin 31)), acr_oauth_token = Some ''o'',
     acr_private_key = Some ''k'', acr_refresh_token = Some ''r'', acr_email = Some ''eva@x.mx'', acr_mobile = None,
     acr_property = (\<lambda>_. None)\<rparr>"

definition eva_post :: "int post_account" where
  "eva_post form x = (Inr \<lparr>car_ss = Some eva_account, car_rs = None, car_err = None\<rparr>, x)"

lemma eva_migrates:
  "case processUser sample_services eva_post (\<lambda>_. True) eva eva_world of (Inr r, _) \<Rightarrow> mr_success r | (Inl _, _) \<Rightarrow> False"
  by code_simp

definition no_stats :: migration_stats where
  "no_stats = \<lparr>ms_successCount = 0, ms_failureCount = 0, ms_skippedCount = 0, ms_results = []\<rparr>"

theorem migration_once_witness:
  "\<exists>w1. snd (processUser sample_services eva_post (\<lambda>_. True) eva eva_world) = w1
     \<and> (case migrate_loop sample_services eva_post (\<lambda>_. True) [eva, sample_user 1 ''ana@x'', eva] no_stats w1 of (_, w2) \<Rightarrow>
          processUser sample_services eva_post (\<lambda>_. True) eva w2 = (Inr (failed_result eva ''already_exists''), w2))"
proof -
  obtain r w1 where "processUser sample_services eva_post (\<lambda>_. True) eva eva_world = (Inr r, w1)" "mr_success r"
    using eva_migrates by (auto split: prod.splits sum.splits)
  from this(1) migration_once [OF this, of "[eva, sample_user 1 ''ana@x'', eva]" no_stats]
  show ?thesis by (auto split: prod.splits)
qed

section \<open>The form sent to the backoffice\<close>

lemma preValidate_data:
  assumes "preValidateBackofficeData u s = (Inr v, s')"
  shows "s' = s" and "usr_id (pre_correctedData v) = usr_id u" and "usr_email (pre_correctedData v) = usr_email u"
    and "usr_password (pre_correctedData v) = usr_password u"
    and "usr_completeName (pre_correctedData v) = usr_completeName u"
    and "usr_phone (pre_correctedData v) = Some (pv_cleanedPhone (validateMobilePhone (usr_phone u)))"
    and "pre_isValid v \<Longrightarrow> emailRegex_test (usr_email u)"
  using assms
  by (auto simp: preValidateBackofficeData_def bindE_def deref_run Let_def split: if_splits option.splits)

lemma preValidate_state: "snd (preValidateBackofficeData u s) = s"
  by (simp add: preValidateBackofficeData_def bindE_def deref_run Let_def split: option.split)

text \<open>What an account call carries, given the time the identifier of the device was made.\<close>

definition form_for :: "'x services \<Rightarrow> user_row \<Rightarrow> int \<Rightarrow> (string \<times> string) list \<Rightarrow> bool" where
  "form_for E u t form \<longleftrightarrow>
     map_of form ''device_id'' = Some (''device_'' @ string_of_int (usr_id u) @ ''_'' @ string_of_int t)
     \<and> map_of form ''email'' = Some (usr_email u) \<and> emailRegex_test (usr_email u)
     \<and> map_of form ''password'' = Some (sha256_hex E (usr_password u))
     \<and> (\<exists>m. map_of form ''mobile'' = Some m \<and> length m = 10 \<and> list_all is_digit m)
     \<and> (\<exists>s. usr_completeName u = Some s \<and> map_of form ''first_name'' = Some (pn_firstName (parseCompleteName s))
          \<and> map_of form ''last_name'' = Some (pn_lastName (parseCompleteName s)) \<and> trim (pn_lastName (parseCompleteName s)) \<noteq> [])"

lemma migration_form_for:
  assumes "preValidateBackofficeData u s = (Inr v, s')" and "pre_isValid v" and "usr_completeName u = Some n"
    and "map fst (filter (\<lambda>(_, v). blank v) (required_fields (pre_correctedData v) d (parseCompleteName n))) = []"
    and "d = ''device_'' @ string_of_int (usr_id u) @ ''_'' @ string_of_int t"
  shows "form_for E u t (migration_form E (pre_correctedData v) d (parseCompleteName n))"
  using preValidate_data [OF assms(1)] assms(2-) validateMobilePhone_ten [of "usr_phone u"]
  by (auto simp: form_for_def migration_form_def required_fields_def hashPassword_def blank_def split: if_splits)

lemma createCustomerAccount_calls:
  assumes "createCustomerAccount E post u w = (r, w')"
  shows "authStates w' = authStates w \<and>
    (trace w' = trace w \<and> (\<forall>resp. r = Inr resp \<longrightarrow> orElse (car_ss resp) (car_rs resp) = None) \<or>
    (\<exists>form b. form_for E u (fst (clock E (ext w))) form \<and> trace w' = trace w @ [(CallCreateAccount form, b)]
       \<and> ext w' = snd (post form (snd (clock E (ext w))))))"
proof (cases "fst (preValidateBackofficeData u w)")
  case (Inl e)
  then have "preValidateBackofficeData u w = (Inl e, w)" by (simp add: prod_eq_iff preValidate_state)
  with assms show ?thesis by (auto simp: createCustomerAccount_def bindE_throw)
next
  case (Inr v)
  then have pre: "preValidateBackofficeData u w = (Inr v, w)" by (simp add: prod_eq_iff preValidate_state)
  let ?t = "fst (clock E (ext w))" and ?u = "pre_correctedData v"
  define d where "d = ''device_'' @ string_of_int (usr_id u) @ ''_'' @ string_of_int ?t"
  show ?thesis
  proof (cases "pre_isValid v")
    case False
    with assms pre show ?thesis by (auto simp: createCustomerAccount_def bindE_ok refused_def orElse_def)
  next
    case True
    show ?thesis
    proof (cases "usr_completeName u")
      case None
      with assms pre True preValidate_data [OF pre] show ?thesis
        by (auto simp: createCustomerAccount_def script_generateDeviceId_def bindE_def now_run deref_run Let_def)
    next
      case (Some n)
      let ?missing = "map fst (filter (\<lambda>(_, v). blank v) (required_fields ?u d (parseCompleteName n)))"
      have run: "createCustomerAccount E post u w = (if ?missing \<noteq> [] then ok (refused (''Missing required fields: '' @ join '', '' ?missing))
        else let form = migration_form E ?u d (parseCompleteName n) in
          bindE (remote (CallCreateAccount form) (post form) backoffice_error) (\<lambda>response.
          bindE (require (orElse (car_ss response) (car_rs response))
                   (mk_error Error ''Unexpected response format from backoffice'')) (\<lambda>payload.
          ok \<lparr>car_ss = Some payload, car_rs = None, car_err = car_err response\<rparr>))) (w\<lparr>ext := snd (clock E (ext w))\<rparr>)"
        using True Some preValidate_data(2,5) [OF pre]
        by (simp add: createCustomerAccount_def pre script_generateDeviceId_def bindE_def now_run deref_run Let_def d_def)
      show ?thesis
      proof (cases "?missing = []")
        case True
        have "form_for E u ?t (migration_form E ?u d (parseCompleteName n))"
          by (rule migration_form_for [OF pre \<open>pre_isValid v\<close> Some True d_def])
        with assms run True show ?thesis
          by (auto simp: bindE_def remote_run require_run Let_def split: sum.splits option.splits)
      next
        case False
        with assms run show ?thesis by (auto simp: refused_def orElse_def)
      qed
    qed
  qed
qed

section \<open>Two identifiers for one device\<close>

lemma saveAuthenticationState_device:
  assumes "saveAuthenticationState E i d w = (Inr (), w')" and "session_of i w = None"
  shows "\<exists>a. session_of i w' = Some a
    \<and> aus_deviceId a = ''device_'' @ string_of_int i @ ''_'' @ string_of_int (fst (clock E (ext w)))"
proof -
  obtain c e k r where "json_int (acr_id d) = Inr c" "json_int (acr_ewallet_id d) = Inr e" "acr_private_key d = Some k" "acr_refresh_token d = Some r"
    using assms(1) unfolding saveAuthenticationState_def by (elim bindE_InrE) (drule from_sum_Inr require_Inr(1), simp)+
  with assms show ?thesis
    by (auto simp: saveAuthenticationState_def CustomerProfileRepository_upsertAuthState_def upsertAuthState_def script_generateDeviceId_def
        from_sum_def require_def bindE_ok_left bindE_def now_run find_row_insert ensure_run split: if_splits)
qed

lemma saveCustomerProfile_later:
  assumes "saveCustomerProfile E i d w = (Inr (), w')"
  shows "ext w' = snd (clock E (ext w)) \<and> authStates w' = authStates w \<and> trace w' = trace w"
proof -
  obtain c e where "json_int (acr_id d) = Inr c" and "json_int (acr_ewallet_id d) = Inr e"
    using assms(1) by (auto simp: saveCustomerProfile_def elim!: bindE_InrE dest!: from_sum_Inr)
  with assms show ?thesis
    by (auto simp: saveCustomerProfile_def CustomerProfileRepository_upsertProfile_def upsertProfile_def findProfileByUserId_def
        from_sum_def bindE_ok_left now_run ensure_run bindE_def split: if_splits option.splits)
qed

lemma saveAuthenticationState_trace: "keeps (\<lambda>w. trace w = T) (saveAuthenticationState E i d)"
  unfolding saveAuthenticationState_def CustomerProfileRepository_upsertAuthState_def upsertAuthState_def script_generateDeviceId_def
  by (intro keeps_intros keeps_now keeps_modify) auto

text \<open>
  C0: The migration registers one device and stores another. The account is created with an
  identifier made from the time of the call, and the session row gets a second one, made from the
  time of the write. When time passes between the two, the stored device is not the one the
  backoffice knows, and the stored device is the one every later login presents.
\<close>

theorem migration_device_differs:
  assumes "processUser E post valid u w = (Inr r, w')" and "mr_success r" and "session_of (usr_id u) w = None"
    and "\<And>x. time x \<le> fst (clock E x) \<and> fst (clock E x) < time (snd (clock E x))"
    and "\<And>form x. time x \<le> time (snd (post form x))"
  shows "\<exists>form b d a. trace w' = trace w @ [(CallCreateAccount form, b)] \<and> map_of form ''device_id'' = Some d
    \<and> session_of (usr_id u) w' = Some a \<and> aus_deviceId a \<noteq> d"
proof -
  obtain resp w1 a w2 where c: "createCustomerAccount E post u w = (Inr resp, w1)" "orElse (car_ss resp) (car_rs resp) = Some a"
    and s: "saveCustomerProfile E (usr_id u) a w1 = (Inr (), w2)" "saveAuthenticationState E (usr_id u) a w2 = (Inr (), w')"
    using assms(1,2) by (rule processUser_success)
  obtain form b where f: "form_for E u (fst (clock E (ext w))) form" "trace w1 = trace w @ [(CallCreateAccount form, b)]"
    "ext w1 = snd (post form (snd (clock E (ext w))))" and auth: "authStates w1 = authStates w"
    using createCustomerAccount_calls [OF c(1)] c(2) by auto
  note p = saveCustomerProfile_later [OF s(1)]
  obtain row where row: "session_of (usr_id u) w' = Some row"
    "aus_deviceId row = ''device_'' @ string_of_int (usr_id u) @ ''_'' @ string_of_int (fst (clock E (ext w2)))"
    using saveAuthenticationState_device [OF s(2)] p auth assms(3) by auto
  have "fst (clock E (ext w)) < time (snd (clock E (ext w)))" using assms(4) by blast
  also have "\<dots> \<le> time (ext w1)" unfolding f(3) by (rule assms(5))
  also have "\<dots> \<le> time (ext w2)" using p assms(4) [of "ext w1"] by simp
  also have "\<dots> \<le> fst (clock E (ext w2))" using assms(4) by blast
  finally have "string_of_int (fst (clock E (ext w2))) \<noteq> string_of_int (fst (clock E (ext w)))"
    using string_of_int_inj by fastforce
  moreover have "trace w' = trace w2" using keepsD_run [OF saveAuthenticationState_trace _ s(2)] by simp
  ultimately show ?thesis using f row p by (auto simp: form_for_def)
qed

theorem migration_device_differs_witness:
  "\<exists>form b d a. trace (snd (processUser sample_services eva_post (\<lambda>_. True) eva eva_world)) = trace eva_world @ [(CallCreateAccount form, b)]
     \<and> map_of form ''device_id'' = Some d
     \<and> session_of (usr_id eva) (snd (processUser sample_services eva_post (\<lambda>_. True) eva eva_world)) = Some a \<and> aus_deviceId a \<noteq> d"
proof -
  obtain r w' where run: "processUser sample_services eva_post (\<lambda>_. True) eva eva_world = (Inr r, w')" "mr_success r"
    using eva_migrates by (auto split: prod.splits sum.splits)
  have "session_of (usr_id eva) eva_world = None" by code_simp
  from migration_device_differs [OF run this, of "\<lambda>x. x"] run(1) show ?thesis
    by (simp add: sample_services_def tick_def eva_post_def)
qed

section \<open>Names of one word\<close>

text \<open>
  The schema accepts a name of one word, but such a user is never migrated: the last name is
  empty, and the account is refused before any call.
\<close>

theorem one_word_refused:
  assumes "valid u" and "profile_of (usr_id u) w = None" and "usr_completeName u = Some n" and "split_blanks (trim n) = [v]"
  shows "\<exists>r w'. processUser E post valid u w = (Inr r, w') \<and> \<not> mr_success r \<and> trace w' = trace w"
proof -
  obtain r w1 where c: "createCustomerAccount E post u w = (r, w1)" by (cases "createCustomerAccount E post u w")
  have "pn_lastName (parseCompleteName n) = []" using assms(4) by (simp add: parseCompleteName_def Let_def)
  then have "\<not> form_for E u t form" for t form using assms(3) by (simp add: form_for_def trim_def)
  with createCustomerAccount_calls [OF c] have t: "trace w1 = trace w"
    and none: "\<And>resp. r = Inr resp \<Longrightarrow> orElse (car_ss resp) (car_rs resp) = None" by auto
  show ?thesis
    using assms(1,2) c t none
    by (cases r) (auto simp: processUser_def try_catch_def hasExisting_run bindE_def require_run failed_result_def)
qed

end
