(* ===== verification/CardScripts.thy ===== *)
theory CardScripts
  imports Migration CardProofs
begin

text \<open>
  The scripts that order and activate physical cards: \<^verbatim>\<open>scripts/activate-cards.ts\<close>,
  \<^verbatim>\<open>scripts/request-bulk-cards-no-user.ts\<close> and \<^verbatim>\<open>scripts/request-cards-for-users.ts\<close>. Each talks to
  the backoffice through a call of its own, which is a parameter; the base address comes from the
  environment of the process and is an argument.
\<close>

section \<open>Activating cards\<close>

record script_activation =
  sca_pin :: string
  sca_card_identifier :: string
  sca_reference_batch :: string
  sca_customer_id :: string
  sca_balance_id :: int

record script_activated =
  scr_card_id :: json
  scr_customer_private_key :: "string option"
  scr_customer_refresh_token :: "string option"

type_synonym 'x post_activation = "script_activation \<Rightarrow> 'x \<Rightarrow> (http_failure + script_activated option) \<times> 'x"

text \<open>These calls do not go through the shared instance: a failure is the error of the client.\<close>

definition plain_post :: "('x \<Rightarrow> (http_failure + 'r) \<times> 'x) \<Rightarrow> ('x world, 'r) op" where
  "plain_post f = bindE (service f) (\<lambda>r. case r of Inl h \<Rightarrow> throw (mk_error Error (hf_message h)) | Inr a \<Rightarrow> ok a)"

definition base_url_missing :: error where
  "base_url_missing = mk_error Error
     ''BACKOFFICE API base URL is not configured. Set BACKOFFICE_BASE_URL or BACKOFFICE_API_BASE in your environment.''"

text \<open>The cards the script takes: inactive physical ones of a batch, with what it loads beside them.\<close>

definition inactive_card :: "'x world \<Rightarrow> card_row \<Rightarrow> bool" where
  "inactive_card w c \<longleftrightarrow> card_cardType c = PHYSICAL \<and> card_status c = CARD_INACTIVE
     \<and> (\<exists>b \<in> set_option (card_bulkBatchId c). exists_row (\<lambda>q. bb_id q = b) (bulkBatches w))"

record loaded_card =
  ld_card :: card_row
  ld_user :: "user_row option"
  ld_profile :: "profile_row option"
  ld_batch :: "bulk_batch_row option"

definition load_card :: "'x world \<Rightarrow> card_row \<Rightarrow> loaded_card" where
  "load_card w c =
     \<lparr>ld_card = c,
      ld_user = (case card_userId c of None \<Rightarrow> None | Some u \<Rightarrow> find_row (\<lambda>q. usr_id q = u) (users w)),
      ld_profile = (case card_userId c of None \<Rightarrow> None | Some u \<Rightarrow> find_row (\<lambda>p. prof_userId p = u) (profiles w)),
      ld_batch = (case card_bulkBatchId c of None \<Rightarrow> None | Some b \<Rightarrow> find_row (\<lambda>q. bb_id q = b) (bulkBatches w))\<rparr>"

definition nonzero_or :: "int option \<Rightarrow> int \<Rightarrow> int" where
  "nonzero_or v d = (if truthy_int v then the v else d)"

definition activation_data :: "loaded_card \<Rightarrow> user_row \<Rightarrow> profile_row \<Rightarrow> script_activation" where
  "activation_data l user p =
     \<lparr>sca_pin = or_str (first_truthy [card_encryptedPin (ld_card l), usr_pin user]) ''1234'',
      sca_card_identifier = card_cardIdentifier (ld_card l),
      sca_reference_batch = or_str (map_option bb_referenceBatch (ld_batch l)) '''',
      sca_customer_id = string_of_int (nonzero_or (prof_external_customer_id p) (usr_id user)),
      sca_balance_id = nonzero_or (prof_ewallet_id p) 1\<rparr>"

definition activate_one :: "'x services \<Rightarrow> string option \<Rightarrow> 'x post_activation \<Rightarrow> loaded_card \<Rightarrow> ('x world, unit) op" where
  "activate_one E base post l =
     bindE (deref (ld_user l)) (\<lambda>user. case ld_profile l of
         None \<Rightarrow> ok ()
       | Some p \<Rightarrow>
           bindE (ensure (truthy_str base) base_url_missing) (\<lambda>_.
           bindE (plain_post (post (activation_data l user p))) (\<lambda>payload.
           bindE (deref payload) (\<lambda>a.
           bindE (now E) (\<lambda>t.
           bindE (updateCard (card_id (ld_card l)) (\<lambda>c. c\<lparr>card_status := CARD_ACTIVE,
                    card_prosperaCardId := Some (js_string (scr_card_id a)), card_updatedAt := t\<rparr>)) (\<lambda>_.
           if truthy_str (scr_customer_private_key a) \<and> truthy_str (scr_customer_refresh_token a) then
             upsertAuthState E (usr_id user)
               \<lparr>aus_userId = usr_id user, aus_clientState = 9, aus_deviceId = ''script-activation'',
                aus_privateKey = the (scr_customer_private_key a), aus_refreshToken = the (scr_customer_refresh_token a),
                aus_extraLoginData = None, aus_lastCustomerOauthToken = Some '''', aus_oauthExpirationTimestamp = None,
                aus_refreshExpirationTimestamp = None, aus_externalCustomerId = None, aus_ewalletId = None, aus_updatedAt = 0\<rparr>
               (\<lambda>s. s\<lparr>aus_privateKey := the (scr_customer_private_key a), aus_refreshToken := the (scr_customer_refresh_token a)\<rparr>)
           else ok ()))))))"

text \<open>The body of the loop catches every error, so that one card does not stop the others.\<close>

definition activatePhysicalCards :: "'x services \<Rightarrow> string option \<Rightarrow> 'x post_activation \<Rightarrow> ('x world, unit) op" where
  "activatePhysicalCards E base post =
     bindE (gets (\<lambda>w. map (load_card w) (take 10 (find_rows (inactive_card w) (cards w))))) (\<lambda>inactiveCards.
     for_each (\<lambda>l. try_catch (activate_one E base post l) (\<lambda>_. ok ())) inactiveCards)"

section \<open>Ordering cards for nobody\<close>

record script_card =
  scc_card_identifier :: string
  scc_pin :: string
  scc_qr :: string
  scc_campaign_id :: string

record script_order =
  sco_delivery_location :: delivery_location
  sco_batch :: "script_card list"

text \<open>\<^verbatim>\<open>/^\d{4}$/\<close>, and the two options of the command line; later ones win.\<close>

definition four_digits :: "string \<Rightarrow> bool" where
  "four_digits p \<longleftrightarrow> length p = 4 \<and> list_all is_digit p"

definition parse_count :: "string \<Rightarrow> error + int" where
  "parse_count s = (case number_of_string s of
       Fin n \<Rightarrow> if n \<le> 0 then Inl (mk_error Error ''Invalid count'') else Inr \<lfloor>n\<rfloor>
     | _ \<Rightarrow> Inl (mk_error Error ''Invalid count''))"

fun parse_args :: "string list \<Rightarrow> int \<Rightarrow> string \<Rightarrow> error + int \<times> string" where
  "parse_args [] count pin = Inr (count, pin)"
| "parse_args (arg # argv) count pin =
     (if startsWith ''--count='' arg then
        (case parse_count (drop 8 arg) of Inl e \<Rightarrow> Inl e | Inr n \<Rightarrow> parse_args argv n pin)
      else if startsWith ''--pin='' arg then
        (if four_digits (drop 6 arg) then parse_args argv count (drop 6 arg) else Inl (mk_error Error ''PIN must be 4 digits''))
      else parse_args argv count pin)"

definition parseArgs :: "string list \<Rightarrow> error + int \<times> string" where
  "parseArgs argv = parse_args argv 200 ''1234''"

fun identifiers :: "'x services \<Rightarrow> int \<Rightarrow> nat \<Rightarrow> nat \<Rightarrow> ('x world, string list) op" where
  "identifiers E ts 0 seq = ok []"
| "identifiers E ts (Suc n) seq =
     bindE (randomBase32 E 6) (\<lambda>suffix.
     bindE (identifiers E ts n (Suc seq)) (\<lambda>rest.
     ok ((''PHYSICAL_'' @ string_of_int ts @ ''_'' @ string_of_int (int seq) @ ''_'' @ suffix) # rest)))"

definition buildIdentifiers :: "'x services \<Rightarrow> nat \<Rightarrow> ('x world, string list) op" where
  "buildIdentifiers E count = bindE (now E) (\<lambda>ts. identifiers E ts count 1)"

text \<open>
  \<^verbatim>\<open>db.$transaction\<close> around writes to batches and cards: when the body throws, the rows are as they
  were; values already taken from the counters are not given back.
\<close>

definition transaction :: "('x world, 'a) op \<Rightarrow> ('x world, 'a) op" where
  "transaction m w = (case m w of
       (Inr a, w') \<Rightarrow> (Inr a, w')
     | (Inl e, w') \<Rightarrow> (Inl e, w'\<lparr>cards := (cards w')\<lparr>rows := rows (cards w)\<rparr>,
                                  bulkBatches := (bulkBatches w')\<lparr>rows := rows (bulkBatches w)\<rparr>\<rparr>))"

definition bulk_location :: delivery_location where
  "bulk_location =
     \<lparr>dl_first_names = ''Mathias'', dl_last_names = ''Abasto Pati'' @ [CHR 0xF1] @ ''o'', dl_street = ''Augusto Rodin'',
      dl_exterior_number = ''421'', dl_interior_number = ''104'', dl_neighborhood = ''Mixcoac'', dl_city = ''Benito Juarez'',
      dl_state = ''Ciudad de M'' @ [CHR 0xE9] @ ''xico'', dl_postal_code = ''03910'', dl_mobile = Fin 5574063839,
      dl_additional_notes = ''Pedido de tarjeta f'' @ [CHR 0xED] @ ''sica para Mathias Abasto Pati'' @ [CHR 0xF1] @ ''o''\<rparr>"

definition script_card_row :: "int option \<Rightarrow> int \<Rightarrow> string \<Rightarrow> string \<Rightarrow> int \<Rightarrow> int \<Rightarrow> int \<Rightarrow> card_row" where
  "script_card_row userId batchId ident pin i createdAt updatedAt =
     \<lparr>card_id = i, card_userId = userId, card_bulkBatchId = Some batchId, card_prosperaCardId = None, card_cardType = PHYSICAL,
      card_cardIdentifier = ident, card_status = CARD_INACTIVE, card_encryptedPin = Some pin, card_maskedNumber = None,
      card_expiryDate = None, card_cvv = None, card_createdAt = createdAt, card_updatedAt = updatedAt\<rparr>"

definition store_card :: "'x services \<Rightarrow> int option \<Rightarrow> int \<Rightarrow> string \<Rightarrow> string \<Rightarrow> ('x world, unit) op" where
  "store_card E userId batchId ident pin = bindE (createCard E (script_card_row userId batchId ident pin)) (\<lambda>_. ok ())"

definition requestBulkCardsNoUser :: "'x services \<Rightarrow> (script_order \<Rightarrow> 'x \<Rightarrow> (http_failure + (string \<times> int) option) \<times> 'x) \<Rightarrow> nat \<Rightarrow> string \<Rightarrow> ('x world, unit) op" where
  "requestBulkCardsNoUser E post count pin =
     bindE (buildIdentifiers E count) (\<lambda>ids.
     let batch = map (\<lambda>i. \<lparr>scc_card_identifier = i, scc_pin = pin, scc_qr = ''https://slan.mx/card-activation'',
                           scc_campaign_id = ''KBZ260121860''\<rparr>) ids;
         order = \<lparr>sco_delivery_location = bulk_location, sco_batch = batch\<rparr> in
     bindE (service (post order)) (\<lambda>r.
     bindE (case r of Inl h \<Rightarrow> throw (backoffice_error h) | Inr payload \<Rightarrow> ok payload) (\<lambda>payload.
     bindE (deref payload) (\<lambda>(reference, status).
     transaction (
       bindE (now E) (\<lambda>t.
       bindE (BulkBatchRepository_create reference status 0 0 t) (\<lambda>bulkBatch.
       for_each (\<lambda>c. store_card E None (bb_id bulkBatch) (scc_card_identifier c) pin) batch)))))))"

definition bulk_main :: "'x services \<Rightarrow> (script_order \<Rightarrow> 'x \<Rightarrow> (http_failure + (string \<times> int) option) \<times> 'x) \<Rightarrow> string list \<Rightarrow> ('x world, unit) op" where
  "bulk_main E post argv =
     bindE (from_sum (parseArgs argv)) (\<lambda>(count, pin). requestBulkCardsNoUser E post (nat count) pin)"

section \<open>Ordering cards for users\<close>

definition normalizeBaseUrl :: "string option \<Rightarrow> string option" where
  "normalizeBaseUrl url =
     (if \<not> truthy_str url then None
      else let trimmed = trim (the url) in
        Some (if trimmed \<noteq> [] \<and> last trimmed = CHR ''/'' then butlast trimmed else trimmed))"

record user_order_card =
  uoc_card_identifier :: string
  uoc_front_name :: string
  uoc_qr :: string
  uoc_pin :: string

record user_order =
  uor_delivery_location :: delivery_location
  uor_batch :: "user_order_card list"

text \<open>A text column of the profile, and \<^verbatim>\<open>a || b\<close> on texts.\<close>

definition profile_text :: "profile_row \<Rightarrow> string \<Rightarrow> string option" where
  "profile_text p column = (case map_of (prof_details p) column of Some v \<Rightarrow> json_string v | None \<Rightarrow> None)"

text \<open>The one user the query names, with a profile and without a physical card.\<close>

definition users_for_cards :: "('x world, (user_row \<times> profile_row) list) op" where
  "users_for_cards = gets (\<lambda>w. take 10 (List.map_filter (\<lambda>u.
       if exists_row (\<lambda>c. card_userId c = Some (usr_id u) \<and> card_cardType c = PHYSICAL) (cards w) then None
       else map_option (\<lambda>p. (u, p)) (find_row (\<lambda>p. prof_userId p = usr_id u) (profiles w)))
     (find_rows (\<lambda>u. usr_id u = 9) (users w))))"

fun user_batch :: "'x services \<Rightarrow> nat \<Rightarrow> (user_row \<times> profile_row) list \<Rightarrow> ('x world, user_order_card list) op" where
  "user_batch E index [] = ok []"
| "user_batch E index ((u, p) # us) =
     bindE (now E) (\<lambda>t.
     bindE (user_batch E (Suc index) us) (\<lambda>rest.
     ok (\<lparr>uoc_card_identifier = string_of_int t @ padStart 3 CHR ''0'' (string_of_int (int index + 1)),
          uoc_front_name = trim (or_str (profile_text p ''first_name'') '''' @ '' '' @ or_str (profile_text p ''last_name'') ''''),
          uoc_qr = ''https://prospera.undostres.com.mx/user/'' @ string_of_int (usr_id u),
          uoc_pin = or_str (usr_pin u) ''1234''\<rparr> # rest)))"

text \<open>The name of the user is split only when the profile has none, and then it must be there.\<close>

definition name_or :: "string option \<Rightarrow> string option \<Rightarrow> (string list \<Rightarrow> string) \<Rightarrow> ('s, string) op" where
  "name_or v completeName f =
     (if truthy_str v then ok (the v) else bindE (deref completeName) (\<lambda>s. ok (f (split_on CHR '' '' s))))"

definition interior_number :: "string option \<Rightarrow> string \<Rightarrow> string" where
  "interior_number interior internal =
     (let v = or_str interior internal in if v \<noteq> [] \<and> list_all is_digit v then v else ''1'')"

definition user_location :: "user_row \<Rightarrow> profile_row \<Rightarrow> ('s, delivery_location) op" where
  "user_location u p =
     bindE (name_or (profile_text p ''first_name'') (usr_completeName u) hd) (\<lambda>firstNames.
     bindE (name_or (profile_text p ''last_name'') (usr_completeName u) (\<lambda>parts. join '' '' (tl parts))) (\<lambda>lastNames.
     ok \<lparr>dl_first_names = firstNames, dl_last_names = lastNames, dl_street = or_str (profile_text p ''street'') (usr_street u),
         dl_exterior_number = or_str (profile_text p ''exterior'') (usr_externalNumber u),
         dl_interior_number = interior_number (profile_text p ''interior'') (usr_internalNumber u),
         dl_neighborhood = or_str (profile_text p ''colony'') (usr_colony u),
         dl_city = or_str (profile_text p ''city'') (usr_municipality u), dl_state = usr_state u,
         dl_postal_code = or_str (profile_text p ''zipcode'') (or_str (usr_postalCode u) ''''),
         dl_mobile = number_of_string (or_str (first_truthy [prof_mobile p, usr_phone u]) ''5555555555''),
         dl_additional_notes = ''Physical cards requested automatically via script''\<rparr>))"

text \<open>The reference of the batch, wherever the answer has it, as text.\<close>

definition first_truthy_json :: "json option list \<Rightarrow> json option" where
  "first_truthy_json vs = (case filter truthy_json vs of [] \<Rightarrow> None | v # _ \<Rightarrow> v)"

definition batch_reference :: "json option \<Rightarrow> json option" where
  "batch_reference data =
     (let p = jprop data ''payload'' in
      first_truthy_json [jprop p ''reference_batch'', jprop p ''referenceBatch'', jprop p ''reference'',
        jprop data ''reference_batch'', jprop data ''referenceBatch'', jprop data ''reference''])"

definition batch_status :: "json option \<Rightarrow> error + int" where
  "batch_status data =
     (let s = jprop (jprop data ''payload'') ''status'' in
      if \<not> truthy_json s then Inr 1
      else case json_int s of Inl e \<Rightarrow> Inl e | Inr None \<Rightarrow> Inr 1 | Inr (Some i) \<Rightarrow> Inr i)"

definition requestPhysicalCardsForUsers :: "'x services \<Rightarrow> string option \<Rightarrow> (user_order \<Rightarrow> 'x \<Rightarrow> (http_failure + json option) \<times> 'x) \<Rightarrow> ('x world, unit) op" where
  "requestPhysicalCardsForUsers E base post =
     bindE users_for_cards (\<lambda>usersBatch. case usersBatch of
         [] \<Rightarrow> ok ()
       | (firstUser, firstProfile) # _ \<Rightarrow>
           bindE (user_batch E 0 usersBatch) (\<lambda>batch.
           bindE (user_location firstUser firstProfile) (\<lambda>location.
           bindE (ensure (truthy_str (normalizeBaseUrl base)) base_url_missing) (\<lambda>_.
           bindE (plain_post (post \<lparr>uor_delivery_location = location, uor_batch = batch\<rparr>)) (\<lambda>data.
           bindE (deref data) (\<lambda>_.
           bindE (require (batch_reference data)
                    (mk_error Error ''Backoffice response did not include a reference batch.'')) (\<lambda>reference.
           bindE (from_sum (batch_status data)) (\<lambda>status.
           bindE (now E) (\<lambda>t.
           bindE (BulkBatchRepository_create (js_string reference) status 0 0 t) (\<lambda>bulkBatch.
           for_each (\<lambda>((user, _), c). store_card E (Some (usr_id user)) (bb_id bulkBatch) (uoc_card_identifier c) (uoc_pin c))
             (zip usersBatch batch)))))))))))"

section \<open>What the scripts leave alone\<close>

lemma holds_plain_post [keeps_intros]: "keeps (holds_rows S) (plain_post f)"
  unfolding plain_post_def by (intro keeps_intros)

lemma holds_upsertAuthState [keeps_intros]: "keeps (holds_rows S) (upsertAuthState E i a f)"
  unfolding upsertAuthState_def by (intro keeps_intros keeps_modify) (simp_all add: holds_rows_cong [of "_\<lparr>authStates := _\<rparr>"])

lemma holds_activate_one:
  assumes "\<And>s. s \<in> S \<Longrightarrow> card_id s \<noteq> card_id (ld_card l)"
  shows "keeps (holds_rows S) (activate_one E base post l)"
  unfolding activate_one_def using assms by (intro keeps_intros holds_updateCard) auto

lemma holds_activation:
  assumes "cards_wf w" and "\<And>s. s \<in> S \<Longrightarrow> s \<in> set (rows (cards w)) \<and> \<not> inactive_card w s"
  shows "holds_rows S (snd (activatePhysicalCards E base post w))"
proof -
  let ?ls = "map (load_card w) (take 10 (find_rows (inactive_card w) (cards w)))"
  have t: "table_ok card_id card_clash (cards w)" using assms(1) by (simp add: cards_wf_def)
  have "card_id s \<noteq> card_id (ld_card l)" if "s \<in> S" "l \<in> set ?ls" for s l
  proof
    assume eq: "card_id s = card_id (ld_card l)"
    have "ld_card l \<in> set (rows (cards w))" "inactive_card w (ld_card l)"
      using that(2) by (auto simp: load_card_def find_rows_def dest!: in_set_takeD)
    with assms(2) [OF that(1)] card_table.key_inj [OF t, of s "ld_card l"] eq show False by auto
  qed
  then have "keeps (holds_rows S) (for_each (\<lambda>l. try_catch (activate_one E base post l) (\<lambda>_. ok ())) ?ls)"
    by (intro keeps_intros holds_activate_one) auto
  moreover have "holds_rows S w" using assms by (auto simp: holds_rows_def)
  ultimately show ?thesis by (simp add: activatePhysicalCards_def bindE_def keepsD)
qed

lemma holds_store_card [keeps_intros]: "keeps (holds_rows S) (store_card E u b ident pin)"
  unfolding store_card_def by (intro keeps_intros holds_createCard) (simp add: script_card_row_def)

lemma holds_batch_create [keeps_intros]: "keeps (holds_rows S) (BulkBatchRepository_create s a b c d)"
  unfolding BulkBatchRepository_create_def by (intro keeps_intros)

text \<open>What a rollback relies on: users stay, and the counter of the cards only grows.\<close>

definition grows :: "'x world \<Rightarrow> 'x world \<Rightarrow> bool" where
  "grows w w' \<longleftrightarrow> users w' = users w \<and> next_id (cards w) \<le> next_id (cards w')"

lemma grows_writes [keeps_intros]:
  "keeps (grows w) (now E)" "keeps (grows w) (BulkBatchRepository_create s a b c d)" "keeps (grows w) (store_card E u b' ident pin)"
  unfolding BulkBatchRepository_create_def insert_batch_def store_card_def createCard_def check_card_def
  by (intro keeps_intros keeps_now keeps_modify; simp add: grows_def insert_row_def)+

lemma holds_transaction:
  assumes "keeps (holds_rows S) m" and "keeps (grows w) m" and "holds_rows S w"
  shows "holds_rows S (snd (transaction m w))"
proof (cases "m w")
  case (Pair r w')
  have "grows w w" by (simp add: grows_def)
  with Pair assms have g: "grows w w'" "holds_rows S w'" by (auto dest: keepsD_run)
  show ?thesis
  proof (cases r)
    case (Inl e)
    let ?w = "w'\<lparr>cards := (cards w')\<lparr>rows := rows (cards w)\<rparr>, bulkBatches := (bulkBatches w')\<lparr>rows := rows (bulkBatches w)\<rparr>\<rparr>"
    have "card_refs_ok c ?w = card_refs_ok c w" for c using g(1) by (auto simp: card_refs_ok_def grows_def exists_row_def split: option.split)
    then have "holds_rows S ?w" using assms(3) g(1)
      by (auto simp: holds_rows_def cards_wf_def table_ok_def grows_def)
    then show ?thesis using Inl Pair by (simp add: transaction_def)
  next
    case (Inr a)
    then show ?thesis using Pair g by (simp add: transaction_def)
  qed
qed

lemma holds_random [keeps_intros]: "keeps (holds_rows S) (randomBase32 E n)"
  unfolding randomBase32_def by (intro keeps_intros)

lemma holds_identifiers [keeps_intros]: "keeps (holds_rows S) (identifiers E ts n k)"
  by (induction n arbitrary: k) (auto intro!: keeps_intros)

lemma keeps_holds_transaction:
  assumes "keeps (holds_rows S) m" and "\<And>w. keeps (grows w) m"
  shows "keeps (holds_rows S) (transaction m)"
  by (rule keepsI) (rule holds_transaction [OF assms])

lemma holds_bulk: "keeps (holds_rows S) (requestBulkCardsNoUser E post count pin)"
  unfolding requestBulkCardsNoUser_def buildIdentifiers_def Let_def
  by (intro keeps_intros keeps_holds_transaction)

lemma holds_user_batch [keeps_intros]: "keeps (holds_rows S) (user_batch E n us)"
  by (induction us arbitrary: n) (auto intro!: keeps_intros)

lemma holds_user_location [keeps_intros]: "keeps P (user_location u p)"
  unfolding user_location_def name_or_def by (intro keeps_intros)

lemma holds_user_cards: "keeps (holds_rows S) (requestPhysicalCardsForUsers E base post)"
  unfolding requestPhysicalCardsForUsers_def users_for_cards_def
  by (intro keeps_intros) (auto split: list.split intro!: keeps_intros)

text \<open>
  The scripts touch no card but the ones they are for. The activation changes inactive physical
  cards of a batch only; the two order scripts only add rows. All of them keep the card table
  well-formed.
\<close>

theorem card_scripts_scope:
  assumes "cards_wf w" and "r \<in> set (rows (cards w))"
  shows "\<not> inactive_card w r \<Longrightarrow> r \<in> set (rows (cards (snd (activatePhysicalCards E base post w))))"
    and "r \<in> set (rows (cards (snd (bulk_main E order argv w))))"
    and "r \<in> set (rows (cards (snd (requestPhysicalCardsForUsers E base order' w))))"
proof -
  have h: "holds_rows {r} w" using assms by (simp add: holds_rows_def)
  show "\<not> inactive_card w r \<Longrightarrow> r \<in> set (rows (cards (snd (activatePhysicalCards E base post w))))"
    using holds_activation [of w "{r}" E base post] assms by (simp add: holds_rows_def)
  have "keeps (holds_rows {r}) (bulk_main E order argv)" unfolding bulk_main_def by (intro keeps_intros holds_bulk)
  from keepsD [OF this h] show "r \<in> set (rows (cards (snd (bulk_main E order argv w))))" by (simp add: holds_rows_def)
  from keepsD [OF holds_user_cards h] show "r \<in> set (rows (cards (snd (requestPhysicalCardsForUsers E base order' w))))"
    by (simp add: holds_rows_def)
qed

section \<open>The identifiers of a batch\<close>

text \<open>The sequence number between the separators keeps the identifiers of one run apart.\<close>

lemma identifiers_shape:
  "identifiers E ts n k w = (Inr ids, w') \<Longrightarrow>
   length ids = n \<and> (\<forall>i < n. \<exists>s. ids ! i = ''PHYSICAL_'' @ string_of_int ts @ ''_'' @ string_of_int (int (k + i)) @ ''_'' @ s)"
proof (induction n arbitrary: k w w' ids)
  case (Suc n)
  then obtain s rest w1 w2 where r: "identifiers E ts n (Suc k) w1 = (Inr rest, w2)"
    and ids: "ids = (''PHYSICAL_'' @ string_of_int ts @ ''_'' @ string_of_int (int k) @ ''_'' @ s) # rest"
    by (auto simp: bindE_Inr_iff)
  from Suc.IH [OF r] have IH: "length rest = n"
    "\<And>i. i < n \<Longrightarrow> \<exists>s. rest ! i = ''PHYSICAL_'' @ string_of_int ts @ ''_'' @ string_of_int (int (Suc k + i)) @ ''_'' @ s" by blast+
  show ?case
  proof (intro conjI allI impI)
    show "length ids = Suc n" using ids IH(1) by simp
    fix i assume "i < Suc n"
    then show "\<exists>s. ids ! i = ''PHYSICAL_'' @ string_of_int ts @ ''_'' @ string_of_int (int (k + i)) @ ''_'' @ s"
      using ids IH(2) [of "i - 1"] by (cases i) auto
  qed
qed simp

theorem buildIdentifiers_distinct:
  assumes "buildIdentifiers E n w = (Inr ids, w')"
  shows "length ids = n" and "distinct ids"
proof -
  obtain ts w1 where r: "identifiers E ts n 1 w1 = (Inr ids, w')"
    using assms by (auto simp: buildIdentifiers_def bindE_Inr_iff)
  note shape = identifiers_shape [OF r]
  then show "length ids = n" by blast
  have "ids ! i \<noteq> ids ! j" if i: "i < n" and j: "j < n" and ij: "i \<noteq> j" for i j
  proof
    assume "ids ! i = ids ! j"
    moreover obtain s where "ids ! i = ''PHYSICAL_'' @ string_of_int ts @ ''_'' @ string_of_int (int (1 + i)) @ ''_'' @ s"
      using shape i by blast
    moreover obtain t where "ids ! j = ''PHYSICAL_'' @ string_of_int ts @ ''_'' @ string_of_int (int (1 + j)) @ ''_'' @ t"
      using shape j by blast
    ultimately have "string_of_int (int (1 + i)) @ CHR ''_'' # s = string_of_int (int (1 + j)) @ CHR ''_'' # t" by simp
    then have "string_of_int (int (1 + i)) = string_of_int (int (1 + j))"
      by (rule separated_eq [rotated 2]) (rule string_of_int_plain, simp)+
    then have "int (1 + i) = int (1 + j)" by (rule string_of_int_inj)
    with ij show False by simp
  qed
  with \<open>length ids = n\<close> show "distinct ids" by (simp add: distinct_conv_nth)
qed

end
