(* ===== verification/News.thy ===== *)
theory News
  imports Cards JsParse "HOL-Library.Char_ord" "HOL-Library.List_Lexorder" "HOL-Library.Multiset"
begin

text \<open>
  The announcements of the app: \<^verbatim>\<open>services/news.service.ts\<close> over the document collection of
  \<^verbatim>\<open>repositories/news.repository.ts\<close>, the upload of \<^verbatim>\<open>utils/storage.util.ts\<close>, the message of
  \<^verbatim>\<open>services/notification.service.ts\<close> and the controllers of \<^verbatim>\<open>controllers/news.controller.ts\<close>. The
  collection is the list of its documents in the order of their ids, in which a query returns them.
  The document database takes no \<^verbatim>\<open>undefined\<close>, neither in a document nor in a filter. A stored date
  is the ISO text of a time and is represented by that time in milliseconds. The upload and the
  delivery are parameters.
\<close>

section \<open>Documents\<close>

record news_dto =
  nw_id :: string
  nw_title :: string
  nw_description :: string
  nw_imageUrl :: string
  nw_redirectUrl :: string
  nw_appVersion :: string
  nw_published :: bool
  nw_publishedAt :: "int option"
  nw_createdAt :: int
  nw_updatedAt :: int

record novelty =
  nv_id :: string
  nv_title :: string
  nv_description :: string
  nv_image_url :: string
  nv_redirect_url :: string
  nv_app_version :: string
  nv_published_at :: "string option"
  nv_is_active :: bool

record create_news_body =
  cn_title :: string
  cn_description :: string
  cn_redirectUrl :: "string option"

record multer_file =
  mf_originalname :: string
  mf_mimetype :: string
  mf_buffer :: string

record topic_message =
  tm_topic :: string
  tm_title :: string
  tm_body :: string
  tm_data :: "(string \<times> string) list"

record 'x news_services =
  ns_bucketName :: string
  ns_upload :: "string \<Rightarrow> multer_file \<Rightarrow> 'x \<Rightarrow> (string + unit) \<times> 'x"
  ns_send :: "topic_message \<Rightarrow> 'x \<Rightarrow> (string + unit) \<times> 'x"

record 'x news_world =
  nws_world :: "'x world"
  nws_docs :: "news_dto list"

definition on_world :: "('x world, 'a) op \<Rightarrow> ('x news_world, 'a) op" where
  "on_world m = (\<lambda>s. case m (nws_world s) of (r, w) \<Rightarrow> (r, s\<lparr>nws_world := w\<rparr>))"

definition attempt :: "('x \<Rightarrow> (string + 'a) \<times> 'x) \<Rightarrow> ('x news_world, 'a) op" where
  "attempt f = bindE (on_world (service f)) (\<lambda>r. case r of Inl m \<Rightarrow> throw (mk_error Error m) | Inr a \<Rightarrow> ok a)"

section \<open>Repository\<close>

definition undefined_value :: error where
  "undefined_value = mk_error Error ''Cannot use undefined as a Firestore value''"

text \<open>\<^verbatim>\<open>doc(id).set(news)\<close> replaces the document with the id or adds it in its place.\<close>

definition set_doc :: "news_dto \<Rightarrow> news_dto list \<Rightarrow> news_dto list" where
  "set_doc n ds = insort_key nw_id n (filter (\<lambda>d. nw_id d \<noteq> nw_id n) ds)"

definition published_time :: "news_dto \<Rightarrow> int" where
  "published_time n = (case nw_publishedAt n of None \<Rightarrow> 0 | Some t \<Rightarrow> t)"

definition findAllByAppVersion :: "string option \<Rightarrow> ('x news_world, news_dto list) op" where
  "findAllByAppVersion appVersion =
     bindE (require appVersion undefined_value) (\<lambda>v.
     bindE (gets (\<lambda>s. filter (\<lambda>d. nw_appVersion d = v \<and> nw_published d) (nws_docs s))) (\<lambda>found.
     let items = (if v \<noteq> [] then filter (\<lambda>n. nw_appVersion n = v) found else found) in
     ok (sort_key (\<lambda>n. - published_time n) items)))"

definition nullish_text :: "string option \<Rightarrow> string" where
  "nullish_text v = (case v of None \<Rightarrow> [] | Some s \<Rightarrow> s)"

definition News_findById :: "string \<Rightarrow> ('x news_world, news_dto option) op" where
  "News_findById i = gets (\<lambda>s. List.find (\<lambda>d. nw_id d = i) (nws_docs s))"

definition News_create :: "'x services \<Rightarrow> create_news_body \<Rightarrow> string option \<Rightarrow> string option \<Rightarrow> ('x news_world, news_dto) op" where
  "News_create E body imageUrl appVersion =
     bindE (on_world (now E)) (\<lambda>t.
     bindE (on_world (service (new_ulid E))) (\<lambda>i.
     bindE (require appVersion undefined_value) (\<lambda>v.
     let news = \<lparr>nw_id = i, nw_title = cn_title body, nw_description = cn_description body, nw_imageUrl = nullish_text imageUrl,
                 nw_redirectUrl = nullish_text (cn_redirectUrl body), nw_appVersion = v, nw_published = False,
                 nw_publishedAt = None, nw_createdAt = t, nw_updatedAt = t\<rparr> in
     bindE (modify (\<lambda>s. s\<lparr>nws_docs := set_doc news (nws_docs s)\<rparr>)) (\<lambda>_. ok news))))"

definition publish :: "'x services \<Rightarrow> string \<Rightarrow> ('x news_world, news_dto) op" where
  "publish E i =
     bindE (on_world (now E)) (\<lambda>t.
     bindE (News_findById i) (\<lambda>d.
     bindE (require d (mk_error Error ''No document to update'')) (\<lambda>_.
     bindE (modify (\<lambda>s. s\<lparr>nws_docs := map (\<lambda>d. if nw_id d = i then d\<lparr>nw_published := True, nw_publishedAt := Some t,
              nw_updatedAt := t\<rparr> else d) (nws_docs s)\<rparr>)) (\<lambda>_.
     bindE (News_findById i) deref))))"

section \<open>Service\<close>

definition novelty_of :: "news_dto \<Rightarrow> novelty" where
  "novelty_of n = \<lparr>nv_id = nw_id n, nv_title = nw_title n, nv_description = nw_description n, nv_image_url = nw_imageUrl n,
     nv_redirect_url = nw_redirectUrl n, nv_app_version = nw_appVersion n, nv_published_at = map_option toISOString (nw_publishedAt n),
     nv_is_active = nw_published n\<rparr>"

definition getNews :: "string option \<Rightarrow> ('x news_world, novelty list) op" where
  "getNews appVersion =
     bindE (findAllByAppVersion appVersion) (\<lambda>rawNews. ok (map novelty_of rawNews))"

definition uploadToGCS :: "'x services \<Rightarrow> 'x news_services \<Rightarrow> multer_file \<Rightarrow> ('x news_world, string) op" where
  "uploadToGCS E N file =
     bindE (on_world (now E)) (\<lambda>t.
     let filename = ''news/'' @ string_of_int t @ ''-'' @ mf_originalname file in
     bindE (attempt (ns_upload N filename file)) (\<lambda>_.
     ok (''https://storage.googleapis.com/'' @ ns_bucketName N @ ''/'' @ filename)))"

definition createNews :: "'x services \<Rightarrow> 'x news_services \<Rightarrow> create_news_body \<Rightarrow> multer_file option \<Rightarrow> string option \<Rightarrow> ('x news_world, news_dto) op" where
  "createNews E N body file appVersion =
     bindE (case file of None \<Rightarrow> ok None | Some f \<Rightarrow> bindE (uploadToGCS E N f) (\<lambda>url. ok (Some url))) (\<lambda>imageUrl.
     News_create E body imageUrl appVersion)"

definition publishNews :: "'x services \<Rightarrow> string \<Rightarrow> ('x news_world, news_dto) op" where
  "publishNews E i =
     bindE (News_findById i) (\<lambda>news.
     bindE (require news (mk_error NotFoundError (''News with id '' @ i @ '' not found''))) (\<lambda>_.
     publish E i))"

definition sendNewNotifications :: "'x news_services \<Rightarrow> news_dto \<Rightarrow> ('x news_world, unit) op" where
  "sendNewNotifications N n =
     attempt (ns_send N
       \<lparr>tm_topic = ''announcements'', tm_title = nw_title n, tm_body = nw_description n,
        tm_data = [(''type'', ''announcements''), (''announcement_id'', nw_id n), (''title'', nw_title n),
                   (''description'', nw_description n)]
          @ (if nw_imageUrl n = [] then [] else [(''image_url'', nw_imageUrl n)])
          @ (if nw_redirectUrl n = [] then [] else [(''redirect_url'', nw_redirectUrl n)])\<rparr>)"

definition NewsController_publishNews :: "'x services \<Rightarrow> 'x news_services \<Rightarrow> string \<Rightarrow> ('x news_world, news_dto) op" where
  "NewsController_publishNews E N i =
     bindE (publishNews E i) (\<lambda>data. bindE (sendNewNotifications N data) (\<lambda>_. ok data))"

section \<open>The quote of the day\<close>

text \<open>\<^verbatim>\<open>services/inspiration.service.ts\<close>: one of three fixed quotes, chosen at random.\<close>

record inspiration =
  in_quote :: string
  in_author :: string
  in_imageUrl :: string

definition MOCK_INSPIRATIONS :: "inspiration list" where
  "MOCK_INSPIRATIONS =
     [\<lparr>in_quote = ''It does not matter how slowly you go as long as you do not stop.'', in_author = ''Confucius'',
       in_imageUrl = ''https://images.unsplash.com/photo-1506905925346-21bda4d32df4?w=800&h=600&fit=crop''\<rparr>,
      \<lparr>in_quote = ''You will face many defeats in life, but never let yourself be defeated.'', in_author = ''Maya Angelou'',
       in_imageUrl = ''https://images.unsplash.com/photo-1476514525535-07fb3b4ae5f1?w=800&h=600&fit=crop''\<rparr>,
      \<lparr>in_quote = ''Whatever the mind of man can conceive and believe, it can achieve.'', in_author = ''Napoleon Hill'',
       in_imageUrl = ''https://images.unsplash.com/photo-1764957080878-3f9866270aad?q=80&w=687&auto=format&fit=crop''\<rparr>]"

definition getDailyInspiration :: "'x services \<Rightarrow> ('x world, inspiration) op" where
  "getDailyInspiration E =
     bindE (service (random_unit E)) (\<lambda>r.
     deref (nth_opt MOCK_INSPIRATIONS (random_index r (length MOCK_INSPIRATIONS))))"

section \<open>The listing\<close>

text \<open>
  The listing of a version has exactly its published announcements, each once, newest first;
  announcements published at the same time keep the order of their ids.
\<close>

theorem getNews_listing:
  "\<exists>ns. getNews (Some v) s = (Inr (map novelty_of ns), s)
     \<and> mset ns = mset (filter (\<lambda>d. nw_appVersion d = v \<and> nw_published d) (nws_docs s))
     \<and> sorted_wrt (\<lambda>a b. published_time b \<le> published_time a) ns"
proof -
  let ?found = "filter (\<lambda>d. nw_appVersion d = v \<and> nw_published d) (nws_docs s)"
  let ?ns = "sort_key (\<lambda>n. - published_time n) ?found"
  have "filter (\<lambda>n. nw_appVersion n = v) ?found = ?found" unfolding filter_filter by (rule filter_cong) auto
  then have "findAllByAppVersion (Some v) s = (Inr ?ns, s)"
    by (simp add: findAllByAppVersion_def bindE_def require_run Let_def)
  then have "getNews (Some v) s = (Inr (map novelty_of ?ns), s)" by (simp add: getNews_def bindE_def)
  moreover have "sorted (map (\<lambda>n. - published_time n) ?ns)" by (rule sorted_sort_key)
  then have "sorted_wrt (\<lambda>a b. published_time b \<le> published_time a) ?ns"
    by (simp add: sorted_map)
  ultimately show ?thesis by (intro exI [of _ ?ns]) simp
qed

text \<open>A request that names no version fails, although the route accepts it.\<close>

theorem news_need_version:
  "getNews None s = (Inl undefined_value, s)"
  "\<exists>e s'. createNews E N body None None s = (Inl e, s') \<and> nws_docs s' = nws_docs s"
  by (simp_all add: getNews_def findAllByAppVersion_def createNews_def News_create_def bindE_def require_run on_world_def
      now_run service_run)

end
