(* ===== verification/Spec2Isabelle.thy ===== *)
theory Spec2Isabelle
  imports PaymentProps SipProps CardProps AuthProps TransferProps ChartProps ExchangeProps WalletProps ApiProps
    MigrationProps CardScripts News
begin

text \<open>
  Verification of the banking mobile backend: an Express service that keeps users, cards and
  payments in a database and moves money through other services (the Clip card processor and the
  backoffice wallet).
\<close>

end
